(* ===== verification/Prelude.thy ===== *)
theory Prelude
  imports Main "HOL-Library.Word"
begin

text \<open>
  Shared vocabulary of the development: the C integer types as words, the
  host memory of the emulator process as a byte store with little-endian
  accesses, the collections of rewrite rules the component theories fill, and
  the generic facts on words and lists they share.

  A C pointer into the emulator's heap is a 64 bit host address; dereferencing
  it at a width of \<open>n\<close> bytes is \<open>hload n\<close> or \<open>hstore n\<close>.  The interface the
  memory system relies on is the locale \<open>byte_store\<close>; the interpretation at the
  end of this theory shows that the host memory satisfies it.
\<close>

unbundle bit_operations_syntax

named_theorems frame_simps \<open>what an operation leaves unchanged\<close>
named_theorems model_defs \<open>definitions unfolded together\<close>

type_synonym u8 = "8 word"
type_synonym u16 = "16 word"
type_synonym u32 = "32 word"
type_synonym u64 = "64 word"
type_synonym hmem = "u64 \<Rightarrow> u8"

text \<open>The integer conversions of the C code: truncation, zero and sign extension.\<close>

abbreviation lo8 :: "u64 \<Rightarrow> u8" where "lo8 x \<equiv> ucast x"
abbreviation lo16 :: "u64 \<Rightarrow> u16" where "lo16 x \<equiv> ucast x"
abbreviation lo32 :: "u64 \<Rightarrow> u32" where "lo32 x \<equiv> ucast x"
abbreviation zx8 :: "u8 \<Rightarrow> u64" where "zx8 x \<equiv> ucast x"
abbreviation zx16 :: "u16 \<Rightarrow> u64" where "zx16 x \<equiv> ucast x"
abbreviation zx32 :: "u32 \<Rightarrow> u64" where "zx32 x \<equiv> ucast x"
abbreviation sx8 :: "u8 \<Rightarrow> u64" where "sx8 x \<equiv> scast x"
abbreviation sx16 :: "u16 \<Rightarrow> u64" where "sx16 x \<equiv> scast x"
abbreviation sx32 :: "u32 \<Rightarrow> u64" where "sx32 x \<equiv> scast x"

text \<open>A C truth value stored in an integer.\<close>

abbreviation cbool :: "bool \<Rightarrow> 'a::len word" where "cbool b \<equiv> of_bool b"

section \<open>Host memory\<close>

primrec hload :: "nat \<Rightarrow> hmem \<Rightarrow> u64 \<Rightarrow> u64" where
  "hload 0 m a = 0"
| "hload (Suc n) m a = zx8 (m a) OR push_bit 8 (hload n m (a + 1))"

primrec hstore :: "nat \<Rightarrow> hmem \<Rightarrow> u64 \<Rightarrow> u64 \<Rightarrow> hmem" where
  "hstore 0 m a v = m"
| "hstore (Suc n) m a v = hstore n (m(a := lo8 v)) (a + 1) (drop_bit 8 v)"

section \<open>Words\<close>

lemma unat_drop_bit_div: "unat (drop_bit n w) = unat w div 2 ^ n" for w :: "'a::len word"
  by (simp only: unat_drop_bit_eq drop_bit_eq_div[of n "unat w"])

lemma bit_mask_eqI:
  fixes x y :: "'a::len word"
  assumes "\<And>i. i < LENGTH('a) \<Longrightarrow> bit x i = bit y i"
  shows "x = y"
  using assms by (rule bit_word_eqI)

lemma sub_less_iff_between:
  fixes a p :: "'a::len word"
  assumes "unat a + n \<le> 2 ^ LENGTH('a)"
  shows "unat (p - a) < n \<longleftrightarrow> unat a \<le> unat p \<and> unat p < unat a + n"
proof (cases "a \<le> p")
  case True
  then have "unat (p - a) = unat p - unat a" by (rule unat_sub)
  with True show ?thesis by (auto simp: word_le_nat_alt)
next
  case False
  then have lt: "unat p < unat a" by (simp add: word_le_nat_alt)
  have "unat (p - a) = 2 ^ LENGTH('a) + unat p - unat a"
    using lt by (simp add: unat_sub_if_size word_size)
  with assms lt show ?thesis by auto
qed

lemma and_mask_less:
  fixes x :: "'a::len word"
  assumes "k < LENGTH('a)"
  shows "unat (x AND mask k) < 2 ^ k"
  by (simp flip: take_bit_eq_mask add: unsigned_take_bit_eq)

lemma and_low_mask:
  fixes x :: "'a::len word"
  shows "x AND 3 = take_bit 2 x" "x AND 7 = take_bit 3 x" "x AND 0x1f = take_bit 5 x"
    "x AND 0x3f = take_bit 6 x" "x AND 0x7f = take_bit 7 x" "x AND 0xff = take_bit 8 x"
    "x AND 0xfff = take_bit 12 x" "x AND 0xffff = take_bit 16 x" "x AND 0xffffffff = take_bit 32 x"
  by (simp_all add: take_bit_eq_mask mask_eq_exp_minus_1)

lemma unat_take_bit: "unat (take_bit n x) = unat x mod 2 ^ n" for x :: "'a::len word"
  unfolding unsigned_take_bit_eq by (rule take_bit_eq_mod)

lemma and_one_bit: "x AND 1 \<noteq> 0 \<longleftrightarrow> bit x 0" for x :: "'a::len word"
  by (simp add: and_one_eq bit_0 flip: even_iff_mod_2_eq_zero)

text \<open>Folds that accumulate bits.\<close>

lemma bit_foldl_or:
  "bit (foldl (\<lambda>r i. r OR f i) a is) n \<longleftrightarrow> bit a n \<or> (\<exists>i\<in>set is. bit (f i) n)"
  for a :: "'a::len word"
  by (induction "is" arbitrary: a) (auto simp: bit_or_iff)

lemma bit_foldl_xor:
  "bit (foldl (\<lambda>r i. if c i then r XOR f i else r) a is) n \<longleftrightarrow>
     bit a n \<noteq> odd (length (filter (\<lambda>i. c i \<and> bit (f i) n) is))"
  for a :: "'a::len word"
  by (induction "is" arbitrary: a) (auto simp: bit_xor_iff)

section \<open>Loads and stores\<close>

lemma bit_hload:
  "bit (hload n m a) i \<longleftrightarrow> i < 8 * n \<and> i < 64 \<and> bit (m (a + of_nat (i div 8))) (i mod 8)"
proof (induction n arbitrary: a i)
  case 0
  then show ?case by simp
next
  case (Suc n)
  show ?case
  proof (cases "i < 8")
    case True
    then show ?thesis by (auto simp: bit_simps)
  next
    case False
    then have "i div 8 = Suc ((i - 8) div 8)" "i mod 8 = (i - 8) mod 8"
      by (simp_all add: le_div_geq le_mod_geq)
    with False Suc.IH[of "a + 1" "i - 8"] show ?thesis
      by (auto simp: bit_or_iff bit_push_bit_iff bit_unsigned_iff not_less algebra_simps
          dest: bit_imp_le_length)
  qed
qed

lemma hstore_other:
  "(\<And>k. k < n \<Longrightarrow> p \<noteq> a + of_nat k) \<Longrightarrow> hstore n m a v p = m p"
proof (induction n arbitrary: m a v)
  case 0
  then show ?case by simp
next
  case (Suc n)
  have "p \<noteq> a" using Suc.prems[of 0] by simp
  moreover have "p \<noteq> (a + 1) + of_nat k" if "k < n" for k
    using Suc.prems[of "Suc k"] that by (simp add: algebra_simps)
  ultimately show ?case using Suc.IH by simp
qed

lemma hstore_at:
  "k < n \<Longrightarrow> n \<le> 2 ^ 64 \<Longrightarrow> hstore n m a v (a + of_nat k) = lo8 (drop_bit (8 * k) v)"
proof (induction n arbitrary: m a v k)
  case 0
  then show ?case by simp
next
  case (Suc n)
  show ?case
  proof (cases k)
    case 0
    have "a \<noteq> (a + 1) + of_nat j" if "j < n" for j
    proof
      assume "a = a + 1 + of_nat j"
      then have "(of_nat (Suc j) :: u64) = 0" by (simp add: algebra_simps)
      then have "2 ^ 64 dvd Suc j" by (simp only: word_of_nat_eq_0_iff) simp
      with that Suc.prems show False by (auto dest: dvd_imp_le)
    qed
    then show ?thesis using 0 by (simp add: hstore_other)
  next
    case (Suc j)
    have "hstore n (m(a := lo8 v)) (a + 1) (drop_bit 8 v) (a + 1 + of_nat j)
        = lo8 (drop_bit (8 * j) (drop_bit 8 v))"
      using Suc Suc.prems by (intro Suc.IH) simp_all
    then show ?thesis using Suc by (simp add: algebra_simps)
  qed
qed

lemma hload_cong:
  "(\<And>k. k < n \<Longrightarrow> m (a + of_nat k) = m' (a + of_nat k)) \<Longrightarrow> hload n m a = hload n m' a"
  by (rule bit_word_eqI) (auto simp: bit_hload)

lemma hload_width: "take_bit (8 * n) (hload n m a) = hload n m a"
  by (rule bit_word_eqI) (auto simp: bit_hload bit_simps)

lemma hload_hstore_same:
  assumes "n \<le> 8"
  shows "hload n (hstore n m a v) a = take_bit (8 * n) v"
proof (rule bit_word_eqI)
  fix i
  assume "i < LENGTH(64)"
  then show "bit (hload n (hstore n m a v) a) i \<longleftrightarrow> bit (take_bit (8 * n) v) i"
    using assms by (auto simp: bit_hload hstore_at bit_simps)
qed

section \<open>The interface of a byte store\<close>

definition hdisj :: "u64 \<Rightarrow> nat \<Rightarrow> u64 \<Rightarrow> nat \<Rightarrow> bool" where
  "hdisj a n b k \<longleftrightarrow> (\<forall>i<n. \<forall>j<k. a + of_nat i \<noteq> b + of_nat j)"

lemma hdisj_sym: "hdisj a n b k \<longleftrightarrow> hdisj b k a n"
  unfolding hdisj_def by metis

lemma hload_hstore_disjoint:
  assumes "hdisj a n b k"
  shows "hload n (hstore k m b v) a = hload n m a"
  using assms by (intro hload_cong hstore_other) (auto simp: hdisj_def)

text \<open>A sufficient condition that evaluates: the gaps between the blocks, both ways round.\<close>

lemma unat_of_nat_le: "unat (of_nat k :: 'a::len word) \<le> k"
  by (simp add: unat_of_nat)

lemma hdisj_gap:
  assumes "n \<le> unat (b - a)" and "k \<le> unat (a - b)"
  shows "hdisj a n b k"
  unfolding hdisj_def
proof (intro allI impI notI)
  fix i j assume ij: "i < n" "j < k" and eq: "a + of_nat i = b + of_nat j"
  show False
  proof (cases "j \<le> i")
    case True
    then have "b - a = of_nat (i - j)" using eq by (simp add: of_nat_diff algebra_simps)
    with assms(1) ij unat_of_nat_le[of "i - j", where ?'a = 64] show False by simp
  next
    case False
    then have "a - b = of_nat (j - i)" using eq by (simp add: of_nat_diff algebra_simps)
    with assms(2) ij unat_of_nat_le[of "j - i", where ?'a = 64] show False by simp
  qed
qed

lemma hload_numeral:
  "hload (numeral k) m a = zx8 (m a) OR push_bit 8 (hload (pred_numeral k) m (a + 1))"
  "hstore (numeral k) m a v = hstore (pred_numeral k) (m(a := lo8 v)) (a + 1) (drop_bit 8 v)"
  by (simp_all add: numeral_eq_Suc)

locale byte_store =
  fixes load :: "nat \<Rightarrow> 'm \<Rightarrow> u64 \<Rightarrow> u64"
    and store :: "nat \<Rightarrow> 'm \<Rightarrow> u64 \<Rightarrow> u64 \<Rightarrow> 'm"
  assumes load_store_same: "n \<le> 8 \<Longrightarrow> load n (store n m a v) a = take_bit (8 * n) v"
    and load_store_disjoint: "hdisj a n b k \<Longrightarrow> load n (store k m b v) a = load n m a"
    and load_width: "take_bit (8 * n) (load n m a) = load n m a"
begin

lemma load_store_over:
  assumes "n \<le> 8" and "hdisj a n b k"
  shows "load n (store k (store n m a v) b w) a = take_bit (8 * n) v"
  by (simp add: load_store_disjoint[OF assms(2)] load_store_same[OF assms(1)])

lemma store_reload:
  assumes "n \<le> 8"
  shows "load n (store n m a (load n m a)) a = load n m a"
  by (simp add: load_store_same[OF assms] load_width)

lemma load_store_twice:
  assumes "n \<le> 8"
  shows "load n (store n (store n m a v) a w) a = load n (store n m a w) a"
  by (simp add: load_store_same[OF assms])

end

interpretation host: byte_store hload hstore
  by unfold_locales (simp_all add: hload_hstore_same hload_hstore_disjoint hload_width)

end
