(* ===== verification/Iomem.thy ===== *)
theory Iomem
  imports Prelude
begin

text \<open>
  The physical memory map (\<open>src/include/iomem.h\<close>, \<open>src/src/iomem.cpp\<close>): a table
  of at most 32 ranges, each RAM or a device, searched from the newest entry
  backwards, with optional double-buffered dirty page bitmaps for RAM.

  A range's RAM block and its bitmaps are host addresses into the byte store;
  the addresses that \<open>mallocz\<close> returns are arguments of the registering
  operations.  A failed \<open>assert\<close> is the result \<open>None\<close>.  The callback
  \<open>flush_tlb_write_range\<close> of the map is an argument of the operations that call
  it; it acts on the machine state, of which this theory knows nothing.
\<close>

section \<open>Data\<close>

record PhysMemoryRange =
  pr_addr :: u64
  pr_org_size :: u64
  pr_size :: u64
  pr_is_ram :: bool
  pr_devram_flags :: u32
  pr_phys_mem :: u64
  pr_dirty_bits_size :: u32
  pr_dirty_bits :: u64
  pr_dirty_bits_tab :: "bool \<Rightarrow> u64"
  pr_dirty_bits_index :: bool
  pr_opaque :: nat
  pr_devio_flags :: u32

definition DEVIO_SIZE8 :: u32 where [simp]: "DEVIO_SIZE8 = 0x1"
definition DEVIO_SIZE16 :: u32 where [simp]: "DEVIO_SIZE16 = 0x2"
definition DEVIO_SIZE32 :: u32 where [simp]: "DEVIO_SIZE32 = 0x4"
definition DEVIO_DISABLED :: u32 where [simp]: "DEVIO_DISABLED = 0x10"
definition DEVRAM_FLAG_ROM :: u32 where [simp]: "DEVRAM_FLAG_ROM = 0x1"
definition DEVRAM_FLAG_DIRTY_BITS :: u32 where [simp]: "DEVRAM_FLAG_DIRTY_BITS = 0x2"
definition DEVRAM_FLAG_DISABLED :: u32 where [simp]: "DEVRAM_FLAG_DISABLED = 0x4"
definition DEVRAM_PAGE_SIZE_LOG2 :: nat where [simp]: "DEVRAM_PAGE_SIZE_LOG2 = 12"
definition DEVRAM_PAGE_SIZE :: u64 where [simp]: "DEVRAM_PAGE_SIZE = 0x1000"
definition PHYS_MEM_RANGE_MAX :: nat where [simp]: "PHYS_MEM_RANGE_MAX = 32"

text \<open>An entry of the zero-initialised table.\<close>

definition zero_range :: PhysMemoryRange where
  "zero_range = \<lparr>pr_addr = 0, pr_org_size = 0, pr_size = 0, pr_is_ram = False, pr_devram_flags = 0,
     pr_phys_mem = 0, pr_dirty_bits_size = 0, pr_dirty_bits = 0, pr_dirty_bits_tab = (\<lambda>_. 0),
     pr_dirty_bits_index = False, pr_opaque = 0, pr_devio_flags = 0\<rparr>"

section \<open>Operations\<close>

definition phys_mem_map_init :: "PhysMemoryRange list" where
  "phys_mem_map_init = []"

definition range_has :: "PhysMemoryRange \<Rightarrow> u64 \<Rightarrow> bool" where
  "range_has pr paddr \<longleftrightarrow> pr_addr pr \<le> paddr \<and> paddr < pr_addr pr + pr_size pr"

text \<open>The loop of \<open>get_phys_mem_range\<close>: \<open>i\<close> counts down from the last entry.\<close>

fun get_phys_mem_range_from :: "PhysMemoryRange list \<Rightarrow> u64 \<Rightarrow> nat \<Rightarrow> PhysMemoryRange option" where
  "get_phys_mem_range_from rs paddr 0 = None"
| "get_phys_mem_range_from rs paddr (Suc i) =
     (if range_has (rs ! i) paddr then Some (rs ! i) else get_phys_mem_range_from rs paddr i)"

definition get_phys_mem_range :: "PhysMemoryRange list \<Rightarrow> u64 \<Rightarrow> PhysMemoryRange option" where
  "get_phys_mem_range rs paddr = get_phys_mem_range_from rs paddr (length rs)"

definition register_ram_entry ::
    "PhysMemoryRange list \<Rightarrow> u64 \<Rightarrow> u64 \<Rightarrow> u32 \<Rightarrow> (PhysMemoryRange list) option" where
  "register_ram_entry rs addr sz devram_flags =
     (if \<not> length rs < PHYS_MEM_RANGE_MAX then None
      else if \<not> (sz AND (DEVRAM_PAGE_SIZE - 1) = 0 \<and> sz \<noteq> 0) then None
      else Some (rs @ [zero_range\<lparr>pr_is_ram := True,
             pr_devram_flags := devram_flags AND NOT DEVRAM_FLAG_DISABLED,
             pr_addr := addr,
             pr_org_size := sz,
             pr_size := (if devram_flags AND DEVRAM_FLAG_DISABLED \<noteq> 0 then 0 else sz),
             pr_phys_mem := 0,
             pr_dirty_bits := 0\<rparr>]))"

primrec hzero :: "nat \<Rightarrow> hmem \<Rightarrow> u64 \<Rightarrow> hmem" where
  "hzero 0 m a = m"
| "hzero (Suc n) m a = hzero n (m(a := 0)) (a + 1)"

definition default_register_ram ::
    "u64 \<Rightarrow> (bool \<Rightarrow> u64) \<Rightarrow> PhysMemoryRange list \<Rightarrow> hmem \<Rightarrow> u64 \<Rightarrow> u64 \<Rightarrow> u32
      \<Rightarrow> (PhysMemoryRange list \<times> hmem) option" where
  "default_register_ram ram tab rs m addr sz devram_flags =
     (case register_ram_entry rs addr sz devram_flags of
        None \<Rightarrow> None
      | Some rs1 \<Rightarrow>
         if ram = 0 then None else
          (let pr = (last rs1)\<lparr>pr_phys_mem := ram\<rparr>;
               m1 = hzero (unat sz) m ram
           in if devram_flags AND DEVRAM_FLAG_DIRTY_BITS \<noteq> 0 then
                (let nb_pages = drop_bit DEVRAM_PAGE_SIZE_LOG2 sz;
                     dsz = ucast ((nb_pages + 31) div 32 * 4) :: u32;
                     pr1 = pr\<lparr>pr_dirty_bits_size := dsz, pr_dirty_bits_index := False,
                              pr_dirty_bits_tab := tab, pr_dirty_bits := tab False\<rparr>
                 in Some (butlast rs1 @ [pr1],
                          hzero (unat dsz) (hzero (unat dsz) m1 (tab False)) (tab True)))
              else Some (butlast rs1 @ [pr], m1)))"

definition cpu_register_device ::
    "PhysMemoryRange list \<Rightarrow> u64 \<Rightarrow> u64 \<Rightarrow> nat \<Rightarrow> u32 \<Rightarrow> (PhysMemoryRange list) option" where
  "cpu_register_device rs addr sz opaque devio_flags =
     (if \<not> length rs < PHYS_MEM_RANGE_MAX then None
      else if \<not> sz \<le> 0xffffffff then None
      else Some (rs @ [zero_range\<lparr>pr_addr := addr, pr_org_size := sz,
             pr_size := (if devio_flags AND DEVIO_DISABLED \<noteq> 0 then 0 else sz),
             pr_is_ram := False, pr_opaque := opaque, pr_devio_flags := devio_flags\<rparr>]))"

definition default_set_addr ::
    "(u64 \<Rightarrow> u64 \<Rightarrow> 's \<Rightarrow> 's) \<Rightarrow> PhysMemoryRange \<Rightarrow> u64 \<Rightarrow> bool \<Rightarrow> 's \<Rightarrow> PhysMemoryRange \<times> 's" where
  "default_set_addr flush pr addr enabled st =
     (let flushed = (if pr_is_ram pr then flush (pr_phys_mem pr) (pr_org_size pr) st else st)
      in if enabled then
           (if pr_size pr = 0 \<or> pr_addr pr \<noteq> addr
            then (pr\<lparr>pr_addr := addr, pr_size := pr_org_size pr\<rparr>, flushed)
            else (pr, st))
         else
           (if pr_size pr \<noteq> 0
            then (pr\<lparr>pr_addr := 0, pr_size := 0\<rparr>, flushed)
            else (pr, st)))"

text \<open>\<open>set_ram_addr\<close> of the map is \<open>default_set_addr\<close>, so both branches agree.\<close>

definition phys_mem_set_addr ::
    "(u64 \<Rightarrow> u64 \<Rightarrow> 's \<Rightarrow> 's) \<Rightarrow> PhysMemoryRange list \<Rightarrow> nat \<Rightarrow> u64 \<Rightarrow> bool \<Rightarrow> 's
      \<Rightarrow> PhysMemoryRange list \<times> 's" where
  "phys_mem_set_addr flush rs i addr enabled st =
     (let (pr, st1) = default_set_addr flush (rs ! i) addr enabled st in (rs[i := pr], st1))"

section \<open>Dirty page bitmaps\<close>

definition phys_mem_set_dirty_bit :: "PhysMemoryRange \<Rightarrow> u64 \<Rightarrow> hmem \<Rightarrow> hmem" where
  "phys_mem_set_dirty_bit pr off m =
     (if pr_dirty_bits pr \<noteq> 0 then
        (let page_index = drop_bit DEVRAM_PAGE_SIZE_LOG2 off;
             msk = push_bit (unat (page_index AND 0x1f)) 1;
             ptr = pr_dirty_bits pr + 4 * drop_bit 5 page_index
         in hstore 4 m ptr (hload 4 m ptr OR msk))
      else m)"

definition phys_mem_is_dirty_bit :: "PhysMemoryRange \<Rightarrow> u64 \<Rightarrow> hmem \<Rightarrow> bool" where
  "phys_mem_is_dirty_bit pr off m =
     (if pr_dirty_bits pr = 0 then True
      else (let page_index = drop_bit DEVRAM_PAGE_SIZE_LOG2 off;
                ptr = pr_dirty_bits pr + 4 * drop_bit 5 page_index
            in drop_bit (unat (page_index AND 0x1f)) (hload 4 m ptr) AND 1 \<noteq> 0))"

fun has_dirty_words :: "hmem \<Rightarrow> u64 \<Rightarrow> nat \<Rightarrow> bool" where
  "has_dirty_words m p 0 = False"
| "has_dirty_words m p (Suc n) = (hload 4 m p \<noteq> 0 \<or> has_dirty_words m (p + 4) n)"

text \<open>
  The bitmap in use is handed to the caller and the other one, cleared, takes
  its place.  The write TLBs are flushed when any bit was set, so that the next
  store to a page goes through the slow path and marks it again.
\<close>

definition default_get_dirty_bits ::
    "(u64 \<Rightarrow> u64 \<Rightarrow> 's \<Rightarrow> 's) \<Rightarrow> PhysMemoryRange \<Rightarrow> hmem \<Rightarrow> 's
      \<Rightarrow> u64 \<times> PhysMemoryRange \<times> hmem \<times> 's" where
  "default_get_dirty_bits flush pr m st =
     (let dirty_bits = pr_dirty_bits pr;
          n = unat (pr_dirty_bits_size pr) div 4;
          st1 = (if has_dirty_words m dirty_bits n \<and> pr_size pr \<noteq> 0
                 then flush (pr_phys_mem pr) (pr_org_size pr) st else st);
          idx = (\<not> pr_dirty_bits_index pr);
          pr1 = pr\<lparr>pr_dirty_bits_index := idx, pr_dirty_bits := pr_dirty_bits_tab pr idx\<rparr>;
          m1 = hzero (unat (pr_dirty_bits_size pr)) m (pr_dirty_bits pr1)
      in (dirty_bits, pr1, m1, st1))"

section \<open>Well-formed maps\<close>

text \<open>
  A range does not wrap around the address space.  Under this condition the
  wrapped comparison of \<open>get_phys_mem_range\<close> is membership in an interval.
\<close>

definition range_wf :: "PhysMemoryRange \<Rightarrow> bool" where
  "range_wf pr \<longleftrightarrow> unat (pr_addr pr) + unat (pr_org_size pr) < 2 ^ 64
     \<and> (pr_size pr = pr_org_size pr \<or> pr_size pr = 0)"

definition map_wf :: "PhysMemoryRange list \<Rightarrow> bool" where
  "map_wf rs \<longleftrightarrow> length rs \<le> PHYS_MEM_RANGE_MAX \<and> list_all range_wf rs"

definition range_set :: "PhysMemoryRange \<Rightarrow> u64 set" where
  "range_set pr = {p. unat (pr_addr pr) \<le> unat p \<and> unat p < unat (pr_addr pr) + unat (pr_size pr)}"

section \<open>Lookup\<close>

lemma get_phys_mem_range_from_append:
  "n \<le> length rs \<Longrightarrow> get_phys_mem_range_from (rs @ xs) p n = get_phys_mem_range_from rs p n"
  by (induction n) (simp_all add: nth_append)

text \<open>
  The contract a physical address decoder offers its clients: a newly added
  range takes precedence, everything else is decoded as before.
\<close>

locale address_decoder =
  fixes find :: "'m \<Rightarrow> u64 \<Rightarrow> 'r option"
    and add :: "'m \<Rightarrow> 'r \<Rightarrow> 'm"
    and none :: "'m"
    and covers :: "'r \<Rightarrow> u64 \<Rightarrow> bool"
  assumes find_none: "find none p = None"
    and find_add: "find (add m r) p = (if covers r p then Some r else find m p)"
begin

lemma find_adds_None: "find (foldl add none rs) p = None \<longleftrightarrow> (\<forall>r\<in>set rs. \<not> covers r p)"
  by (induction rs rule: rev_induct) (auto simp: find_none find_add)

lemma find_adds_Some:
  "find (foldl add none rs) p = Some r \<longleftrightarrow>
     (\<exists>older newer. rs = older @ r # newer \<and> covers r p \<and> (\<forall>q\<in>set newer. \<not> covers q p))"
  (is "?F rs \<longleftrightarrow> ?S rs")
proof
  assume "?F rs"
  then show "?S rs"
  proof (induction rs rule: rev_induct)
    case Nil
    then show ?case by (simp add: find_none)
  next
    case (snoc x rs)
    show ?case
    proof (cases "covers x p")
      case True
      with snoc.prems have "x = r" by (simp add: find_add)
      with True have "rs @ [x] = rs @ r # [] \<and> covers r p \<and> (\<forall>q\<in>set []. \<not> covers q p)" by simp
      then show ?thesis by blast
    next
      case False
      with snoc obtain older newer where "rs = older @ r # newer" "covers r p"
        "\<forall>q\<in>set newer. \<not> covers q p" by (auto simp: find_add)
      with False have "rs @ [x] = older @ r # (newer @ [x]) \<and> covers r p
        \<and> (\<forall>q\<in>set (newer @ [x]). \<not> covers q p)" by simp
      then show ?thesis by blast
    qed
  qed
next
  assume "?S rs"
  then obtain older newer where rs: "rs = older @ r # newer" and cov: "covers r p"
    and new: "\<forall>q\<in>set newer. \<not> covers q p" by blast
  from new have "find (foldl add (add m r) newer) p = Some r" for m
    by (induction newer rule: rev_induct) (simp_all add: find_add cov)
  with rs show "?F rs" by simp
qed

lemma find_adds_covers: "find (foldl add none rs) p = Some r \<Longrightarrow> r \<in> set rs \<and> covers r p"
  by (auto simp: find_adds_Some)

end

interpretation memmap: address_decoder get_phys_mem_range "\<lambda>rs r. rs @ [r]" phys_mem_map_init range_has
  by unfold_locales
     (simp_all add: get_phys_mem_range_def phys_mem_map_init_def get_phys_mem_range_from_append)

lemma foldl_snoc: "foldl (\<lambda>rs r. rs @ [r]) xs ys = xs @ ys"
  by (induction ys arbitrary: xs) simp_all

lemma get_phys_mem_range_None: "get_phys_mem_range rs p = None \<longleftrightarrow> (\<forall>r\<in>set rs. \<not> range_has r p)"
  using memmap.find_adds_None[of rs p] by (simp add: foldl_snoc phys_mem_map_init_def)

lemma get_phys_mem_range_Some:
  "get_phys_mem_range rs p = Some r \<longleftrightarrow>
     (\<exists>older newer. rs = older @ r # newer \<and> range_has r p \<and> (\<forall>q\<in>set newer. \<not> range_has q p))"
  using memmap.find_adds_Some[of rs p r] by (simp add: foldl_snoc phys_mem_map_init_def)

lemma get_phys_mem_range_has: "get_phys_mem_range rs p = Some r \<Longrightarrow> r \<in> set rs \<and> range_has r p"
  by (auto simp: get_phys_mem_range_Some)

lemma range_has_wf:
  assumes "range_wf pr"
  shows "range_has pr p \<longleftrightarrow> p \<in> range_set pr"
proof -
  have "unat (pr_addr pr) + unat (pr_size pr) < 2 ^ 64"
    using assms by (auto simp: range_wf_def)
  then have "unat (pr_addr pr + pr_size pr) = unat (pr_addr pr) + unat (pr_size pr)"
    by (simp add: unat_word_ariths)
  then show ?thesis by (simp add: range_has_def range_set_def word_le_nat_alt word_less_nat_alt)
qed

lemma range_has_offset:
  assumes "range_wf pr" and "range_has pr p"
  shows "unat (p - pr_addr pr) < unat (pr_size pr)" and "unat (pr_size pr) \<le> unat (pr_org_size pr)"
proof -
  have "unat (pr_addr pr) \<le> unat p" "unat p < unat (pr_addr pr) + unat (pr_size pr)"
    using assms range_has_wf by (auto simp: range_set_def)
  moreover have "unat (p - pr_addr pr) = unat p - unat (pr_addr pr)"
    using calculation(1) by (simp add: unat_sub word_le_nat_alt)
  ultimately show "unat (p - pr_addr pr) < unat (pr_size pr)" by simp
  show "unat (pr_size pr) \<le> unat (pr_org_size pr)"
    using assms(1) by (auto simp: range_wf_def)
qed

section \<open>Registration\<close>

lemma register_ram_entry_wf:
  assumes "register_ram_entry rs addr sz fl = Some rs'" and "map_wf rs"
    and "unat addr + unat sz < 2 ^ 64"
  shows "map_wf rs'"
  using assms by (auto simp: register_ram_entry_def map_wf_def range_wf_def zero_range_def split: if_splits)

lemma cpu_register_device_wf:
  assumes "cpu_register_device rs addr sz d fl = Some rs'" and "map_wf rs"
    and "unat addr + unat sz < 2 ^ 64"
  shows "map_wf rs'"
  using assms by (auto simp: cpu_register_device_def map_wf_def range_wf_def zero_range_def split: if_splits)

lemma default_set_addr_wf:
  assumes "default_set_addr flush pr addr en st = (pr', st')" and "range_wf pr"
    and "unat addr + unat (pr_org_size pr) < 2 ^ 64"
  shows "range_wf pr'"
  using assms by (auto simp: default_set_addr_def range_wf_def Let_def split: if_splits)

lemma phys_mem_set_addr_wf:
  assumes "map_wf rs" and "i < length rs" and "unat addr + unat (pr_org_size (rs ! i)) < 2 ^ 64"
    and "phys_mem_set_addr flush rs i addr en st = (rs', st')"
  shows "map_wf rs'"
proof -
  obtain pr where pr: "default_set_addr flush (rs ! i) addr en st = (pr, st')" "rs' = rs[i := pr]"
    using assms(4) by (auto simp: phys_mem_set_addr_def split: prod.splits)
  have "range_wf pr"
    using default_set_addr_wf[OF pr(1)] assms by (auto simp: map_wf_def list_all_length)
  with assms(1) pr(2) show ?thesis
    by (auto simp: map_wf_def list_all_iff dest!: subsetD[OF set_update_subset_insert])
qed

section \<open>Clearing blocks and dirty bits\<close>

lemma hzero_other: "(\<And>k. k < n \<Longrightarrow> p \<noteq> a + of_nat k) \<Longrightarrow> hzero n m a p = m p"
proof (induction n arbitrary: m a)
  case 0
  then show ?case by simp
next
  case (Suc n)
  have "p \<noteq> a" using Suc.prems[of 0] by simp
  moreover have "p \<noteq> (a + 1) + of_nat k" if "k < n" for k
    using Suc.prems[of "Suc k"] that by (simp add: algebra_simps)
  ultimately show ?case using Suc.IH by simp
qed

lemma hzero_zero: "m p = 0 \<Longrightarrow> hzero n m a p = 0"
  by (induction n arbitrary: m a) simp_all

lemma hzero_at: "k < n \<Longrightarrow> hzero n m a (a + of_nat k) = 0"
proof (induction n arbitrary: m a k)
  case 0
  then show ?case by simp
next
  case (Suc n)
  show ?case
  proof (cases k)
    case 0
    then show ?thesis by (simp add: hzero_zero)
  next
    case (Suc j)
    have "hzero n (m(a := 0)) (a + 1) (a + 1 + of_nat j) = 0"
      using Suc Suc.prems by (intro Suc.IH) simp
    then show ?thesis using Suc by (simp add: algebra_simps)
  qed
qed

lemma hload_zero: "(\<And>k. k < n \<Longrightarrow> m (a + of_nat k) = 0) \<Longrightarrow> hload n m a = 0"
  by (rule bit_word_eqI) (auto simp: bit_hload)

text \<open>The bitmap word and bit of a RAM offset.\<close>

definition dirty_word :: "u64 \<Rightarrow> u64 \<Rightarrow> u64" where
  "dirty_word p off = p + 4 * drop_bit 17 off"

definition dirty_at :: "u64 \<Rightarrow> u64 \<Rightarrow> hmem \<Rightarrow> bool" where
  "dirty_at p off m \<longleftrightarrow> bit (hload 4 m (dirty_word p off)) (unat (drop_bit 12 off AND 0x1f))"

lemma dirty_bit_lt: "unat (drop_bit 12 (off :: u64) AND 0x1f) < 32"
  using and_mask_less[of 5 "drop_bit 12 off"] by (simp add: mask_eq_exp_minus_1)

lemma phys_mem_is_dirty_bit_at:
  "pr_dirty_bits pr \<noteq> 0 \<Longrightarrow> phys_mem_is_dirty_bit pr off m \<longleftrightarrow> dirty_at (pr_dirty_bits pr) off m"
  by (simp add: phys_mem_is_dirty_bit_def dirty_at_def dirty_word_def Let_def and_one_bit bit_drop_bit_eq)

lemma word_offset_unat:
  fixes w :: u64
  assumes "unat w < 2 ^ 47" "k < 4"
  shows "unat (4 * w + of_nat k) = 4 * unat w + k"
proof -
  have w: "unat (4 * w) = 4 * unat w" using assms(1) by (subst unat_mult_lem[THEN iffD1]) simp_all
  have k: "unat (of_nat k :: u64) = k" using assms(2) by (simp add: unat_of_nat)
  have "unat (4 * w) + unat (of_nat k :: u64) < 2 ^ 64" using assms w k by simp
  then show ?thesis using w k by (subst unat_add_lem[THEN iffD1]) simp_all
qed

lemma dirty_words_disjoint:
  assumes "drop_bit 17 off \<noteq> drop_bit 17 off'"
  shows "hdisj (dirty_word p off) 4 (dirty_word p off') 4"
proof -
  have small: "unat (drop_bit 17 x) < 2 ^ 47" for x :: u64
    using unsigned_less[of x, where ?'a = nat] unfolding unat_drop_bit_div by simp
  show ?thesis
    unfolding hdisj_def dirty_word_def
  proof (intro allI impI notI)
    fix i j :: nat
    assume ij: "i < 4" "j < 4"
      and eq: "p + 4 * drop_bit 17 off + of_nat i = p + 4 * drop_bit 17 off' + of_nat j"
    from eq have "4 * drop_bit 17 off + of_nat i = 4 * drop_bit 17 off' + (of_nat j :: u64)"
      by (simp only: add.assoc add_left_cancel)
    from arg_cong[OF this, of unat]
    have "4 * unat (drop_bit 17 off) + i = 4 * unat (drop_bit 17 off') + j"
      by (simp only: word_offset_unat[OF small ij(1)] word_offset_unat[OF small ij(2)])
    with ij have "unat (drop_bit 17 off) = unat (drop_bit 17 off')" by linarith
    with assms show False by (simp only: word_unat_eq_iff)
  qed
qed

lemma same_page_iff:
  fixes a b :: u64
  shows "drop_bit 12 a = drop_bit 12 b \<longleftrightarrow>
     drop_bit 17 a = drop_bit 17 b \<and> drop_bit 12 a AND 0x1f = drop_bit 12 b AND 0x1f"
proof -
  have split: "x = push_bit 5 (drop_bit 5 x) OR (x AND 0x1f)" for x :: u64
  proof -
    have "x AND 0x1f = take_bit 5 x" by (simp add: take_bit_eq_mask mask_eq_exp_minus_1)
    then show ?thesis by (simp add: bits_ident flip: disjunctive_add_eq_or) (rule bit_word_eqI, auto simp: bit_simps)
  qed
  have d: "drop_bit 17 x = drop_bit 5 (drop_bit 12 x)" for x :: u64 by simp
  show ?thesis
    by (subst (1 2) d, metis split)
qed

lemma phys_mem_set_dirty_bit_at:
  assumes "pr_dirty_bits pr \<noteq> 0"
  shows "dirty_at (pr_dirty_bits pr) off' (phys_mem_set_dirty_bit pr off m) \<longleftrightarrow>
     drop_bit 12 off' = drop_bit 12 off \<or> dirty_at (pr_dirty_bits pr) off' m"
proof -
  let ?p = "pr_dirty_bits pr" and ?k = "\<lambda>x :: u64. unat (drop_bit 12 x AND 0x1f)"
  let ?v = "hload 4 m (dirty_word ?p off) OR push_bit (?k off) 1"
  have set: "phys_mem_set_dirty_bit pr off m = hstore 4 m (dirty_word ?p off) ?v"
    using assms by (simp add: phys_mem_set_dirty_bit_def dirty_word_def Let_def)
  show ?thesis
  proof (cases "drop_bit 17 off' = drop_bit 17 off")
    case True
    then have w: "dirty_word ?p off' = dirty_word ?p off" by (simp add: dirty_word_def)
    have "dirty_at ?p off' (phys_mem_set_dirty_bit pr off m) \<longleftrightarrow> bit (take_bit 32 ?v) (?k off')"
      by (simp add: dirty_at_def set w host.load_store_same)
    also have "\<dots> \<longleftrightarrow> ?k off' = ?k off \<or> dirty_at ?p off' m"
      using dirty_bit_lt[of off'] dirty_bit_lt[of off]
      by (auto simp: dirty_at_def w bit_take_bit_iff bit_or_iff push_bit_of_1 bit_exp_iff)
    finally show ?thesis
      using True by (metis same_page_iff word_unat_eq_iff)
  next
    case False
    then have "hdisj (dirty_word ?p off') 4 (dirty_word ?p off) 4" by (rule dirty_words_disjoint)
    moreover have "drop_bit 12 off' \<noteq> drop_bit 12 off" using False same_page_iff by blast
    ultimately show ?thesis by (simp add: dirty_at_def set host.load_store_disjoint)
  qed
qed

text \<open>After the swap the handed-over bitmap is the one that was recorded, and
  the bitmap in use is clear.\<close>

lemma hload_hzero_disjoint:
  assumes "\<And>k l. k < n \<Longrightarrow> l < len \<Longrightarrow> a + of_nat k \<noteq> b + of_nat l"
  shows "hload n (hzero len m b) a = hload n m a"
  by (rule hload_cong) (rule hzero_other, use assms in blast)

lemma dirty_at_hzero:
  assumes "4 * unat (drop_bit 17 off) + 4 \<le> n"
  shows "\<not> dirty_at p off (hzero n m p)"
proof -
  have "hload 4 (hzero n m p) (dirty_word p off) = 0"
  proof (rule hload_zero)
    fix k :: nat assume "k < 4"
    with assms have "hzero n m p (p + of_nat (4 * unat (drop_bit 17 off) + k)) = 0"
      by (intro hzero_at) simp
    then show "hzero n m p (dirty_word p off + of_nat k) = 0"
      by (simp add: dirty_word_def add.assoc)
  qed
  then show ?thesis by (simp add: dirty_at_def)
qed

lemma dirty_at_hzero_other:
  assumes "hdisj p n q n" and "4 * unat (drop_bit 17 off) + 4 \<le> n"
  shows "dirty_at p off (hzero n m q) = dirty_at p off m"
proof -
  have "hload 4 (hzero n m q) (dirty_word p off) = hload 4 m (dirty_word p off)"
  proof (rule hload_hzero_disjoint)
    fix k l :: nat assume "k < 4" "l < n"
    then have "4 * unat (drop_bit 17 off) + k < n" "l < n" using assms(2) by simp_all
    then have "p + of_nat (4 * unat (drop_bit 17 off) + k) \<noteq> q + of_nat l"
      using assms(1) unfolding hdisj_def by blast
    then show "dirty_word p off + of_nat k \<noteq> q + of_nat l"
      by (simp add: dirty_word_def add.assoc)
  qed
  then show ?thesis by (simp add: dirty_at_def)
qed

section \<open>Properties\<close>

text \<open>C24: In a well-formed map \<open>get_phys_mem_range\<close> returns the range that contains
  the address and was registered last: every range registered after it does
  not contain the address.  No address outside all ranges is decoded.\<close>

theorem get_phys_mem_range_newest:
  assumes "map_wf rs"
  shows "get_phys_mem_range rs p = Some r \<longleftrightarrow>
     (\<exists>older newer. rs = older @ r # newer \<and> p \<in> range_set r \<and> (\<forall>q\<in>set newer. p \<notin> range_set q))"
proof -
  have "range_has q p \<longleftrightarrow> p \<in> range_set q" if "q \<in> set rs" for q
    using assms that range_has_wf by (auto simp: map_wf_def list_all_iff)
  then show ?thesis unfolding get_phys_mem_range_Some
    by (intro iff_exI conj_cong refl) auto
qed

text \<open>Two overlapping RAM ranges: the second one shadows the first.\<close>

theorem get_phys_mem_range_newest_witness:
  "\<exists>lo hi. get_phys_mem_range [lo, hi] 0x2000 = Some hi \<and> 0x2000 \<in> range_set lo"
proof -
  let ?r = "\<lambda>a s. zero_range\<lparr>pr_addr := a, pr_org_size := s, pr_size := s\<rparr>"
  let ?lo = "?r 0x1000 0x3000" and ?hi = "?r 0x2000 0x1000"
  have "map_wf [?lo, ?hi]" by (simp add: map_wf_def range_wf_def zero_range_def)
  note newest = get_phys_mem_range_newest[OF this, where p = "0x2000" and r = "?hi"]
  have "[?lo, ?hi] = [?lo] @ ?hi # [] \<and> 0x2000 \<in> range_set ?hi \<and> (\<forall>q\<in>set []. 0x2000 \<notin> range_set q)"
    by (simp add: range_set_def zero_range_def)
  then have "get_phys_mem_range [?lo, ?hi] 0x2000 = Some ?hi" unfolding newest by blast
  moreover have "0x2000 \<in> range_set ?lo" by (simp add: range_set_def zero_range_def)
  ultimately show ?thesis by blast
qed

text \<open>C25: \<open>default_get_dirty_bits\<close> hands the caller a bitmap that records exactly the
  pages marked dirty since the previous call, leaves every page clean in the
  bitmap now in use, and a later \<open>phys_mem_set_dirty_bit\<close> marks exactly the
  page written; the two bitmaps do not overlap.\<close>

theorem default_get_dirty_bits_hands_over:
  assumes "default_get_dirty_bits flush pr m st = (bits, pr', m', st')"
    and "pr_dirty_bits pr \<noteq> 0" and "pr_dirty_bits_tab pr (\<not> pr_dirty_bits_index pr) \<noteq> 0"
    and "hdisj (pr_dirty_bits pr) n (pr_dirty_bits_tab pr (\<not> pr_dirty_bits_index pr)) n"
    and "n = unat (pr_dirty_bits_size pr)" and "4 * unat (drop_bit 17 off) + 4 \<le> n"
  shows "dirty_at bits off m' = phys_mem_is_dirty_bit pr off m \<and>
    \<not> phys_mem_is_dirty_bit pr' off m' \<and>
    (phys_mem_is_dirty_bit pr' off (phys_mem_set_dirty_bit pr' w m') \<longleftrightarrow> drop_bit 12 off = drop_bit 12 w)"
proof (intro conjI)
  let ?q = "pr_dirty_bits_tab pr (\<not> pr_dirty_bits_index pr)"
  have eqs: "bits = pr_dirty_bits pr" "m' = hzero n m ?q" "pr_dirty_bits pr' = ?q"
    using assms(1,5) by (auto simp: default_get_dirty_bits_def Let_def)
  then have q: "pr_dirty_bits pr' \<noteq> 0" using assms(3) by simp
  have clean: "\<not> dirty_at ?q off m'" using assms(6) eqs by (simp add: dirty_at_hzero)
  show "dirty_at bits off m' = phys_mem_is_dirty_bit pr off m"
    using dirty_at_hzero_other[OF assms(4,6), of m] eqs assms(2)
    by (simp add: phys_mem_is_dirty_bit_at)
  show "\<not> phys_mem_is_dirty_bit pr' off m'"
    using clean q eqs(3) by (simp add: phys_mem_is_dirty_bit_at)
  show "phys_mem_is_dirty_bit pr' off (phys_mem_set_dirty_bit pr' w m') \<longleftrightarrow> drop_bit 12 off = drop_bit 12 w"
    using clean q phys_mem_set_dirty_bit_at[OF q, of off w m'] eqs(3)
    by (simp add: phys_mem_is_dirty_bit_at)
qed

text \<open>A range of 16 pages whose second page is dirty.\<close>

theorem default_get_dirty_bits_hands_over_witness:
  "\<exists>pr pr' m m' bits st. default_get_dirty_bits (\<lambda>_ _ _. True) pr m False = (bits, pr', m', st)
     \<and> dirty_at bits 0x1000 m' \<and> \<not> phys_mem_is_dirty_bit pr' 0x1000 m'"
proof -
  let ?pr = "zero_range\<lparr>pr_dirty_bits := 0x100, pr_dirty_bits_size := 4,
      pr_dirty_bits_tab := (\<lambda>b. if b then 0x200 else 0x100)\<rparr>"
  let ?m = "\<lambda>a :: u64. if a = 0x100 then 2 else 0 :: u8"
  obtain bits pr' m' st where res: "default_get_dirty_bits (\<lambda>_ _ _. True) ?pr ?m False = (bits, pr', m', st)"
    by (metis prod_cases4)
  have "hload 4 ?m 0x100 = 2" by (simp add: hload_numeral)
  then have "phys_mem_is_dirty_bit ?pr 0x1000 ?m"
    by (simp add: phys_mem_is_dirty_bit_def)
  moreover have "dirty_at bits 0x1000 m' = phys_mem_is_dirty_bit ?pr 0x1000 ?m \<and>
     \<not> phys_mem_is_dirty_bit pr' 0x1000 m' \<and>
     (phys_mem_is_dirty_bit pr' 0x1000 (phys_mem_set_dirty_bit pr' 0 m')
       \<longleftrightarrow> drop_bit 12 0x1000 = drop_bit 12 (0 :: u64))"
    by (rule default_get_dirty_bits_hands_over[OF res, where n = "4"]) (simp_all add: zero_range_def hdisj_gap)
  ultimately have "dirty_at bits 0x1000 m' \<and> \<not> phys_mem_is_dirty_bit pr' 0x1000 m'" by blast
  with res show ?thesis by blast
qed

end
