(* ===== verification/Riscv.thy ===== *)
theory Riscv
  imports Prelude
begin

text \<open>
  The architectural constants of \<open>src/include/riscv.h\<close>.  A C integer constant
  that the code mixes with operands of several widths is a word of any width;
  the others have the width of the fields they select.
\<close>

text \<open>Interrupt bits (\<open>mip\<close>, \<open>mie\<close>).\<close>

definition MIP_USIP :: u32 where [simp]: "MIP_USIP = 1"
definition MIP_SSIP :: u32 where [simp]: "MIP_SSIP = 2"
definition MIP_MSIP :: u32 where [simp]: "MIP_MSIP = 8"
definition MIP_UTIP :: u32 where [simp]: "MIP_UTIP = 0x10"
definition MIP_STIP :: u32 where [simp]: "MIP_STIP = 0x20"
definition MIP_MTIP :: u32 where [simp]: "MIP_MTIP = 0x80"
definition MIP_UEIP :: u32 where [simp]: "MIP_UEIP = 0x100"
definition MIP_SEIP :: u32 where [simp]: "MIP_SEIP = 0x200"
definition MIP_MEIP :: u32 where [simp]: "MIP_MEIP = 0x800"
definition MIP_MCIP :: u32 where [simp]: "MIP_MCIP = 0x40000"

text \<open>Trap causes.\<close>

definition CAUSE_MISALIGNED_FETCH :: "'a::len word" where [simp]: "CAUSE_MISALIGNED_FETCH = 0"
definition CAUSE_FAULT_FETCH :: "'a::len word" where [simp]: "CAUSE_FAULT_FETCH = 1"
definition CAUSE_ILLEGAL_INSTRUCTION :: "'a::len word" where [simp]: "CAUSE_ILLEGAL_INSTRUCTION = 2"
definition CAUSE_BREAKPOINT :: "'a::len word" where [simp]: "CAUSE_BREAKPOINT = 3"
definition CAUSE_MISALIGNED_LOAD :: "'a::len word" where [simp]: "CAUSE_MISALIGNED_LOAD = 4"
definition CAUSE_FAULT_LOAD :: "'a::len word" where [simp]: "CAUSE_FAULT_LOAD = 5"
definition CAUSE_MISALIGNED_STORE :: "'a::len word" where [simp]: "CAUSE_MISALIGNED_STORE = 6"
definition CAUSE_FAULT_STORE :: "'a::len word" where [simp]: "CAUSE_FAULT_STORE = 7"
definition CAUSE_USER_ECALL :: "'a::len word" where [simp]: "CAUSE_USER_ECALL = 8"
definition CAUSE_SUPERVISOR_ECALL :: "'a::len word" where [simp]: "CAUSE_SUPERVISOR_ECALL = 9"
definition CAUSE_HYPERVISOR_ECALL :: "'a::len word" where [simp]: "CAUSE_HYPERVISOR_ECALL = 0xa"
definition CAUSE_MACHINE_ECALL :: "'a::len word" where [simp]: "CAUSE_MACHINE_ECALL = 0xb"
definition CAUSE_FETCH_PAGE_FAULT :: "'a::len word" where [simp]: "CAUSE_FETCH_PAGE_FAULT = 0xc"
definition CAUSE_LOAD_PAGE_FAULT :: "'a::len word" where [simp]: "CAUSE_LOAD_PAGE_FAULT = 0xd"
definition CAUSE_STORE_PAGE_FAULT :: "'a::len word" where [simp]: "CAUSE_STORE_PAGE_FAULT = 0xf"
definition SCAUSE_MASK :: u64 where [simp]: "SCAUSE_MASK = 0x800000000000001f"
definition MCAUSE_MASK :: u64 where [simp]: "MCAUSE_MASK = 0x80000000000000ff"
definition CAUSE_INTERRUPT :: u64 where [simp]: "CAUSE_INTERRUPT = 0x8000000000000000"

text \<open>Privilege levels.\<close>

definition PRV_U :: "'a::len word" where [simp]: "PRV_U = 0"
definition PRV_S :: "'a::len word" where [simp]: "PRV_S = 1"
definition PRV_H :: "'a::len word" where [simp]: "PRV_H = 2"
definition PRV_M :: "'a::len word" where [simp]: "PRV_M = 3"

text \<open>\<open>misa\<close> extension bits.\<close>

definition MCPUID_SUPER :: u32 where [simp]: "MCPUID_SUPER = 0x40000"
definition MCPUID_USER :: u32 where [simp]: "MCPUID_USER = 0x100000"
definition MCPUID_I :: u32 where [simp]: "MCPUID_I = 0x100"
definition MCPUID_M :: u32 where [simp]: "MCPUID_M = 0x1000"
definition MCPUID_A :: u32 where [simp]: "MCPUID_A = 1"
definition MCPUID_F :: u32 where [simp]: "MCPUID_F = 0x20"
definition MCPUID_D :: u32 where [simp]: "MCPUID_D = 8"
definition MCPUID_C :: u32 where [simp]: "MCPUID_C = 4"
definition MCPUID_X :: u32 where [simp]: "MCPUID_X = 0x800000"
definition MCPUID_V :: u32 where [simp]: "MCPUID_V = 0x200000"

text \<open>\<open>mstatus\<close> fields.\<close>

definition MSTATUS_SPIE_SHIFT :: nat where [simp]: "MSTATUS_SPIE_SHIFT = 5"
definition MSTATUS_MPIE_SHIFT :: nat where [simp]: "MSTATUS_MPIE_SHIFT = 7"
definition MSTATUS_SPP_SHIFT :: nat where [simp]: "MSTATUS_SPP_SHIFT = 8"
definition MSTATUS_VS_SHIFT :: nat where [simp]: "MSTATUS_VS_SHIFT = 9"
definition MSTATUS_MPP_SHIFT :: nat where [simp]: "MSTATUS_MPP_SHIFT = 11"
definition MSTATUS_FS_SHIFT :: nat where [simp]: "MSTATUS_FS_SHIFT = 13"
definition MSTATUS_UXL_SHIFT :: nat where [simp]: "MSTATUS_UXL_SHIFT = 32"
definition MSTATUS_SXL_SHIFT :: nat where [simp]: "MSTATUS_SXL_SHIFT = 34"
definition MSTATUS_SIE :: u64 where [simp]: "MSTATUS_SIE = 2"
definition MSTATUS_MIE :: u64 where [simp]: "MSTATUS_MIE = 8"
definition MSTATUS_SPIE :: u64 where [simp]: "MSTATUS_SPIE = 0x20"
definition MSTATUS_MPIE :: u64 where [simp]: "MSTATUS_MPIE = 0x80"
definition MSTATUS_SPP :: u64 where [simp]: "MSTATUS_SPP = 0x100"
definition MSTATUS_VS :: u64 where [simp]: "MSTATUS_VS = 0x600"
definition MSTATUS_MPP :: u64 where [simp]: "MSTATUS_MPP = 0x1800"
definition MSTATUS_FS :: u64 where [simp]: "MSTATUS_FS = 0x6000"
definition MSTATUS_XS :: u64 where [simp]: "MSTATUS_XS = 0x18000"
definition MSTATUS_MPRV :: u64 where [simp]: "MSTATUS_MPRV = 0x20000"
definition MSTATUS_SUM :: u64 where [simp]: "MSTATUS_SUM = 0x40000"
definition MSTATUS_MXR :: u64 where [simp]: "MSTATUS_MXR = 0x80000"
definition MSTATUS_TVM :: u64 where [simp]: "MSTATUS_TVM = 0x100000"
definition MSTATUS_TW :: u64 where [simp]: "MSTATUS_TW = 0x200000"
definition MSTATUS_TSR :: u64 where [simp]: "MSTATUS_TSR = 0x400000"
definition MSTATUS_UXL_MASK :: u64 where [simp]: "MSTATUS_UXL_MASK = 0x300000000"
definition MSTATUS_SXL_MASK :: u64 where [simp]: "MSTATUS_SXL_MASK = 0xc00000000"

text \<open>Trigger match control.\<close>

definition MCONTROL_TYPE_AD_MATCH :: u64 where [simp]: "MCONTROL_TYPE_AD_MATCH = 0x2000000000000000"
definition MCONTROL_DMODE :: u64 where [simp]: "MCONTROL_DMODE = 0x800000000000000"
definition MCONTROL_MAXMASK_4 :: u64 where [simp]: "MCONTROL_MAXMASK_4 = 0x80000000000000"
definition MCONTROL_ACTION :: u64 where [simp]: "MCONTROL_ACTION = 0x3f000"
definition MCONTROL_MATCH :: u64 where [simp]: "MCONTROL_MATCH = 0x780"
definition MCONTROL_M :: u64 where [simp]: "MCONTROL_M = 0x40"
definition MCONTROL_S :: u64 where [simp]: "MCONTROL_S = 0x10"
definition MCONTROL_U :: u64 where [simp]: "MCONTROL_U = 8"
definition MCONTROL_EXECUTE :: u64 where [simp]: "MCONTROL_EXECUTE = 4"
definition MCONTROL_STORE :: u64 where [simp]: "MCONTROL_STORE = 2"
definition MCONTROL_LOAD :: u64 where [simp]: "MCONTROL_LOAD = 1"
definition MCONTROL_MATCH_EQUAL :: u64 where [simp]: "MCONTROL_MATCH_EQUAL = 0"
definition MCONTROL_MATCH_NAPOT :: u64 where [simp]: "MCONTROL_MATCH_NAPOT = 1"
definition MCONTROL_MATCH_GE :: u64 where [simp]: "MCONTROL_MATCH_GE = 2"
definition MCONTROL_MATCH_LT :: u64 where [simp]: "MCONTROL_MATCH_LT = 3"

text \<open>Physical memory protection.\<close>

definition PMP_N :: nat where [simp]: "PMP_N = 8"
definition PMPCFG_R :: "'a::len word" where [simp]: "PMPCFG_R = 1"
definition PMPCFG_W :: "'a::len word" where [simp]: "PMPCFG_W = 2"
definition PMPCFG_X :: "'a::len word" where [simp]: "PMPCFG_X = 4"
definition PMPCFG_A_MASK :: "'a::len word" where [simp]: "PMPCFG_A_MASK = 0x18"
definition PMPCFG_A_OFF :: "'a::len word" where [simp]: "PMPCFG_A_OFF = 0"
definition PMPCFG_A_TOR :: "'a::len word" where [simp]: "PMPCFG_A_TOR = 8"
definition PMPCFG_A_NA4 :: "'a::len word" where [simp]: "PMPCFG_A_NA4 = 0x10"
definition PMPCFG_A_NAPOT :: "'a::len word" where [simp]: "PMPCFG_A_NAPOT = 0x18"
definition PMPCFG_RES :: "'a::len word" where [simp]: "PMPCFG_RES = 0x60"
definition PMPCFG_L :: "'a::len word" where [simp]: "PMPCFG_L = 0x80"

definition PHYSICAL_ADDR_LEN_DEFAULT :: nat where [simp]: "PHYSICAL_ADDR_LEN_DEFAULT = 40"

text \<open>The CSR numbers of the PMP registers.\<close>

definition CSR_PMPCFG :: "nat \<Rightarrow> nat" where [simp]: "CSR_PMPCFG n = 0x3A0 + n"
definition CSR_PMPADDR :: "nat \<Rightarrow> nat" where [simp]: "CSR_PMPADDR n = 0x3B0 + n"

end
