(* ===== verification/Cpu.thy ===== *)
theory Cpu
  imports Iomem Riscv
begin

text \<open>
  The state of a hart and of the machine it runs in, and the operations on them
  that need no address translation (\<open>src/include/riscv_cpu.h\<close>,
  \<open>src/include/machine.h\<close>, \<open>src/include/riscv_machine.h\<close> and the small
  functions of \<open>src/src/riscv_cpu.cpp\<close>).

  \<open>RISCVCPUState\<close> has the fields of the C struct under their own names; an array
  is a function of its index, a C \<open>int\<close> with few values is an \<open>int\<close> or a \<open>nat\<close>.
  \<open>sys\<close> extends it with the fields of the machine that a hart reaches through
  its \<open>machine\<close> and \<open>mem_map\<close> pointers, so that an operation on a hart is a
  function on one record.  The component \<open>env\<close> of type \<open>'d\<close> is the state of
  everything outside the processor: the devices behind the memory map and the
  trace writer library.  \<open>cpu0_priv\<close> is the privilege level of hart 0 while
  another hart executes, and \<open>None\<close> while hart 0 itself does.

  The build modelled is the default one: \<open>FLEN = 64\<close>, \<open>VLEN = 128\<close>, no
  \<open>LIVECACHE\<close>, no \<open>GOLDMEM_INORDER\<close>.
\<close>

section \<open>State\<close>

record TLBEntry =
  te_vaddr :: u64
  te_mem_addend :: u64

datatype RISCVCTFInfo = ctf_zero | ctf_nop | ctf_taken_jump | ctf_taken_branch | ctf_taken_jalr
  | ctf_taken_jalr_pop | ctf_taken_jalr_push | ctf_taken_jalr_pop_push

record stf_mem_access =
  sma_vaddr :: u64
  sma_size :: u64
  sma_value :: u64

record RISCVCPUState =
  pc :: u64
  last_pc :: u64
  reg :: "nat \<Rightarrow> u64"
  reg_prior :: "nat \<Rightarrow> u64"
  most_recently_written_reg :: int
  last_data_paddr :: u64
  last_data_vaddr :: u64
  last_data_size :: u64
  last_data_type :: u64
  fp_reg :: "nat \<Rightarrow> u64"
  most_recently_written_fp_reg :: int
  fflags :: u32
  frm :: u8
  v_reg :: "nat \<Rightarrow> nat \<Rightarrow> u8"
  most_recently_written_vregs :: "nat \<Rightarrow> bool"
  vstart :: u16
  vxsat :: u8
  vxrm :: u8
  vtype :: u64
  vl :: u64
  priv :: u8
  fs :: u8
  vs :: u8
  insn_counter :: u64
  minstret :: u64
  mcycle :: u64
  debug_mode :: bool
  stop_the_counter :: bool
  power_down_flag :: bool
  terminate_simulation :: bool
  pending_exception :: int
  pending_tval :: u64
  mstatus :: u64
  mtvec :: u64
  mscratch :: u64
  mepc :: u64
  mcause :: u64
  mtval :: u64
  mvendorid :: u64
  marchid :: u64
  mimpid :: u64
  mhartid :: u64
  misa :: u32
  mie :: u32
  mip :: u32
  medeleg :: u32
  mideleg :: u32
  mcounteren :: u32
  mcountinhibit :: u32
  tselect :: u32
  unimpl_mcontext :: u64
  tdata1 :: "nat \<Rightarrow> u64"
  tdata2 :: "nat \<Rightarrow> u64"
  mhpmevent :: "nat \<Rightarrow> u64"
  csr_pmpcfg :: "nat \<Rightarrow> u64"
  csr_pmpaddr :: "nat \<Rightarrow> u64"
  pmp_n :: nat
  pmp_lo :: "nat \<Rightarrow> u64"
  pmp_hi :: "nat \<Rightarrow> u64"
  pmpcfg :: "nat \<Rightarrow> u8"
  stvec :: u64
  sscratch :: u64
  sepc :: u64
  scause :: u64
  stval :: u64
  satp :: u64
  scounteren :: u32
  dcsr :: u64
  dpc :: u64
  dscratch :: u64
  plic_enable_irq :: "nat \<Rightarrow> u32"
  load_res :: u64
  load_res_memseqno :: u64
  physical_addr_len :: nat
  tlb_read :: "nat \<Rightarrow> TLBEntry"
  tlb_write :: "nat \<Rightarrow> TLBEntry"
  tlb_code :: "nat \<Rightarrow> TLBEntry"
  tlb_read_paddr_addend :: "nat \<Rightarrow> u64"
  tlb_write_paddr_addend :: "nat \<Rightarrow> u64"
  tlb_code_paddr_addend :: "nat \<Rightarrow> u64"
  benchmark_exit_code :: u64
  info :: RISCVCTFInfo
  next_addr :: u64
  timecmp :: u64
  ignore_sbi_shutdown :: bool
  stf_read_regs :: "u64 list"
  stf_write_regs :: "u64 list"
  stf_read_fp_regs :: "u64 list"
  stf_write_fp_regs :: "u64 list"
  stf_mem_reads :: "stf_mem_access list"
  stf_mem_writes :: "stf_mem_access list"

record 'd sys = RISCVCPUState +
  memseqno :: u64
  mem_map :: "PhysMemoryRange list"
  hostmem :: hmem
  cpu0_priv :: "u8 option"
  htif_tohost_addr :: u64
  cosim :: bool
  pending_interrupt :: int
  maxinsns :: u64
  simpoint_roi :: bool
  simpoint_en_bbv :: bool
  num_executed :: u64
  stf_trace :: bool
  stf_exit_on_stop_opc :: bool
  stf_memrecord_size_in_bits :: bool
  stf_trace_register_state :: bool
  stf_disable_memory_records :: bool
  stf_highest_priv_mode :: int
  stf_force_zero_sha :: bool
  stf_insn_num_tracing :: bool
  stf_insn_start :: u64
  stf_insn_length :: u64
  stf_trace_opened :: bool
  stf_in_traceable_region :: bool
  stf_macro_tracing_active :: bool
  stf_insn_tracing_active :: bool
  stf_is_start_opc :: bool
  stf_is_stop_opc :: bool
  stf_has_exit_pending :: bool
  stf_prog_asid :: u64
  stf_num_traced :: u64
  env :: 'd

type_synonym 'a hart = "'a RISCVCPUState_scheme"

definition TLB_SIZE :: nat where [simp]: "TLB_SIZE = 256"
definition PG_SHIFT :: nat where [simp]: "PG_SHIFT = 12"
definition PG_MASK :: u64 where [simp]: "PG_MASK = 0xfff"
definition SATP_MASK :: u64 where [simp]: "SATP_MASK = 0xf0000fffffffffff"
definition MAX_TRIGGERS :: nat where [simp]: "MAX_TRIGGERS = 1"
definition HPM_EVENT_SETMASK :: u64 where [simp]: "HPM_EVENT_SETMASK = 0x7"
definition HPM_EVENT_EVENTMASK :: u64 where [simp]: "HPM_EVENT_EVENTMASK = 0xffffff00"
definition F32_HIGH :: u64 where [simp]: "F32_HIGH = 0xffffffff00000000"
definition F64_HIGH :: u64 where [simp]: "F64_HIGH = 0"
definition VLEN :: nat where [simp]: "VLEN = 128"

text \<open>Shifts and masks as the C code writes them, shift amounts being C integers.\<close>

abbreviation tlb_index :: "u64 \<Rightarrow> nat" where
  "tlb_index addr \<equiv> unat (drop_bit PG_SHIFT addr AND (of_nat TLB_SIZE - 1))"

section \<open>Register access\<close>

text \<open>The macros \<open>write_reg\<close>, \<open>read_reg\<close>, \<open>write_fp_reg\<close> and \<open>read_fp_reg\<close>; inside a
  traceable region they also record the register number.\<close>

definition write_reg :: "nat \<Rightarrow> u64 \<Rightarrow> 'd sys \<Rightarrow> 'd sys" where
  "write_reg x val s =
     (let s = (if stf_in_traceable_region s then s\<lparr>stf_write_regs := stf_write_regs s @ [of_nat x]\<rparr> else s)
      in s\<lparr>most_recently_written_reg := int x,
           reg_prior := (reg_prior s)(x := reg s x),
           reg := (reg s)(x := val)\<rparr>)"

definition read_reg :: "nat \<Rightarrow> 'd sys \<Rightarrow> u64 \<times> 'd sys" where
  "read_reg x s =
     (reg s x,
      if stf_in_traceable_region s then s\<lparr>stf_read_regs := stf_read_regs s @ [of_nat x]\<rparr> else s)"

definition write_fp_reg :: "nat \<Rightarrow> u64 \<Rightarrow> 'd sys \<Rightarrow> 'd sys" where
  "write_fp_reg x val s =
     (let s = (if stf_in_traceable_region s then s\<lparr>stf_write_fp_regs := stf_write_fp_regs s @ [of_nat x]\<rparr> else s)
      in s\<lparr>most_recently_written_fp_reg := int x,
           fp_reg := (fp_reg s)(x := val),
           fs := 3\<rparr>)"

definition read_fp_reg :: "nat \<Rightarrow> 'd sys \<Rightarrow> u64 \<times> 'd sys" where
  "read_fp_reg x s =
     (fp_reg s x,
      if stf_in_traceable_region s then s\<lparr>stf_read_fp_regs := stf_read_fp_regs s @ [of_nat x]\<rparr> else s)"

section \<open>Access tracking\<close>

definition cpu0_priv_level :: "'d sys \<Rightarrow> u8" where
  "cpu0_priv_level s = (case cpu0_priv s of None \<Rightarrow> priv s | Some p \<Rightarrow> p)"

definition track_size :: "'d sys \<Rightarrow> nat \<Rightarrow> u64" where
  "track_size s size_bits = (if stf_memrecord_size_in_bits s then of_nat size_bits else of_nat (size_bits div 8))"

definition track_write :: "u64 \<Rightarrow> u64 \<Rightarrow> u64 \<Rightarrow> nat \<Rightarrow> bool \<Rightarrow> 'd sys \<Rightarrow> 'd sys" where
  "track_write vaddr paddr data size_bits trace_en s =
     (let sz = track_size s size_bits;
          s = s\<lparr>last_data_paddr := paddr, last_data_vaddr := vaddr, last_data_size := sz, last_data_type := 1\<rparr>
      in if trace_en \<and> stf_macro_tracing_active s
         then (let priv_ok = (uint (cpu0_priv_level s) \<le> stf_highest_priv_mode s)
               in if priv_ok
                  then s\<lparr>stf_mem_writes := stf_mem_writes s @
                         [\<lparr>sma_vaddr = vaddr, sma_size = sz, sma_value = data\<rparr>]\<rparr>
                  else s)
         else s)"

definition track_dread :: "u64 \<Rightarrow> u64 \<Rightarrow> u64 \<Rightarrow> nat \<Rightarrow> bool \<Rightarrow> 'd sys \<Rightarrow> u64 \<times> 'd sys" where
  "track_dread vaddr paddr data size_bits trace_en s =
     (let sz = track_size s size_bits;
          s = s\<lparr>last_data_paddr := paddr, last_data_vaddr := vaddr, last_data_size := sz, last_data_type := 0\<rparr>
      in if trace_en \<and> stf_macro_tracing_active s
         then (let priv_ok = (uint (cpu0_priv_level s) \<le> stf_highest_priv_mode s);
                   not_tohost = (vaddr \<noteq> htif_tohost_addr s)
               in if priv_ok \<and> not_tohost
                  then (data, s\<lparr>stf_mem_reads := stf_mem_reads s @
                         [\<lparr>sma_vaddr = vaddr, sma_size = sz, sma_value = data\<rparr>]\<rparr>)
                  else (data, s))
         else (data, s))"

section \<open>Translation buffers\<close>

definition tlb_init :: "'a hart \<Rightarrow> 'a hart" where
  "tlb_init s =
     s\<lparr>tlb_read := (\<lambda>i. if i < TLB_SIZE then (tlb_read s i)\<lparr>te_vaddr := -1\<rparr> else tlb_read s i),
       tlb_write := (\<lambda>i. if i < TLB_SIZE then (tlb_write s i)\<lparr>te_vaddr := -1\<rparr> else tlb_write s i),
       tlb_code := (\<lambda>i. if i < TLB_SIZE then (tlb_code s i)\<lparr>te_vaddr := -1\<rparr> else tlb_code s i)\<rparr>"

definition tlb_flush_all :: "'a hart \<Rightarrow> 'a hart" where "tlb_flush_all s = tlb_init s"

definition tlb_flush_vaddr :: "u64 \<Rightarrow> 'a hart \<Rightarrow> 'a hart" where "tlb_flush_vaddr vaddr s = tlb_flush_all s"

definition riscv_cpu_flush_tlb_write_range_ram :: "u64 \<Rightarrow> u64 \<Rightarrow> 'a hart \<Rightarrow> 'a hart" where
  "riscv_cpu_flush_tlb_write_range_ram ram_ptr ram_size s =
     (let ram_end = ram_ptr + ram_size
      in s\<lparr>tlb_write := (\<lambda>i.
             let e = tlb_write s i;
                 ptr = te_mem_addend e + te_vaddr e
             in if i < TLB_SIZE \<and> te_vaddr e \<noteq> -1 \<and> ram_ptr \<le> ptr \<and> ptr < ram_end
                then e\<lparr>te_vaddr := -1\<rparr> else e)\<rparr>)"

section \<open>Construction and accessors\<close>

text \<open>The zeroed block that \<open>mallocz\<close> returns for a hart.\<close>

definition zero_hart :: RISCVCPUState where
  "zero_hart = \<lparr>
     pc = 0, last_pc = 0, reg = (\<lambda>_. 0), reg_prior = (\<lambda>_. 0),
     most_recently_written_reg = 0, last_data_paddr = 0, last_data_vaddr = 0, last_data_size = 0,
     last_data_type = 0, fp_reg = (\<lambda>_. 0), most_recently_written_fp_reg = 0, fflags = 0, frm = 0,
     v_reg = (\<lambda>_ _. 0), most_recently_written_vregs = (\<lambda>_. False), vstart = 0, vxsat = 0,
     vxrm = 0, vtype = 0, vl = 0, priv = 0, fs = 0, vs = 0, insn_counter = 0, minstret = 0, mcycle = 0,
     debug_mode = False, stop_the_counter = False, power_down_flag = False, terminate_simulation = False,
     pending_exception = 0, pending_tval = 0, mstatus = 0, mtvec = 0, mscratch = 0, mepc = 0, mcause = 0,
     mtval = 0, mvendorid = 0, marchid = 0, mimpid = 0, mhartid = 0, misa = 0, mie = 0, mip = 0,
     medeleg = 0, mideleg = 0, mcounteren = 0, mcountinhibit = 0, tselect = 0, unimpl_mcontext = 0,
     tdata1 = (\<lambda>_. 0), tdata2 = (\<lambda>_. 0), mhpmevent = (\<lambda>_. 0),
     csr_pmpcfg = (\<lambda>_. 0), csr_pmpaddr = (\<lambda>_. 0), pmp_n = 0, pmp_lo = (\<lambda>_. 0),
     pmp_hi = (\<lambda>_. 0), pmpcfg = (\<lambda>_. 0), stvec = 0, sscratch = 0, sepc = 0, scause = 0,
     stval = 0, satp = 0, scounteren = 0, dcsr = 0, dpc = 0, dscratch = 0,
     plic_enable_irq = (\<lambda>_. 0), load_res = 0, load_res_memseqno = 0, physical_addr_len = 0,
     tlb_read = (\<lambda>_. \<lparr>te_vaddr = 0, te_mem_addend = 0\<rparr>),
     tlb_write = (\<lambda>_. \<lparr>te_vaddr = 0, te_mem_addend = 0\<rparr>),
     tlb_code = (\<lambda>_. \<lparr>te_vaddr = 0, te_mem_addend = 0\<rparr>),
     tlb_read_paddr_addend = (\<lambda>_. 0), tlb_write_paddr_addend = (\<lambda>_. 0),
     tlb_code_paddr_addend = (\<lambda>_. 0), benchmark_exit_code = 0, info = ctf_zero, next_addr = 0,
     timecmp = 0, ignore_sbi_shutdown = False, stf_read_regs = [], stf_write_regs = [],
     stf_read_fp_regs = [], stf_write_fp_regs = [], stf_mem_reads = [], stf_mem_writes = []\<rparr>"

definition riscv_cpu_init :: "u64 \<Rightarrow> bool \<Rightarrow> bool \<Rightarrow> u64 \<Rightarrow> RISCVCPUState" where
  "riscv_cpu_init reset_vector custom_extension clear_ids hartid =
     (let s = zero_hart\<lparr>
            pc := reset_vector,
            priv := PRV_M,
            mstatus := push_bit MSTATUS_UXL_SHIFT 2 OR push_bit MSTATUS_SXL_SHIFT 2 OR push_bit MSTATUS_MPP_SHIFT 3,
            plic_enable_irq := (plic_enable_irq zero_hart)(0 := 0, 1 := 0),
            misa := misa zero_hart OR MCPUID_SUPER OR MCPUID_USER OR MCPUID_I OR MCPUID_M OR MCPUID_A,
            most_recently_written_reg := -1,
            most_recently_written_fp_reg := -1\<rparr>;
          s = s\<lparr>misa := misa s OR MCPUID_F OR MCPUID_D,
                most_recently_written_vregs := (\<lambda>i. if i < 32 then False else most_recently_written_vregs s i)\<rparr>;
          s = s\<lparr>misa := misa s OR MCPUID_V OR MCPUID_C\<rparr>;
          s = (if custom_extension then s\<lparr>misa := misa s OR MCPUID_X\<rparr> else s);
          s = (if clear_ids then s\<lparr>mvendorid := 0, marchid := 0, mimpid := 0\<rparr>
               else s\<lparr>mvendorid := 11 * 128 + 101, marchid := push_bit 63 1 OR 2, mimpid := 1\<rparr>);
          s = s\<lparr>mhartid := hartid, tselect := 0,
                tdata1 := (tdata1 s)(0 := MCONTROL_TYPE_AD_MATCH OR MCONTROL_MAXMASK_4),
                tdata2 := (tdata2 s)(0 := NOT 0),
                dcsr := push_bit 30 1 + 3\<rparr>
      in (tlb_init s)\<lparr>benchmark_exit_code := 0\<rparr>)"

definition riscv_set_pc :: "u64 \<Rightarrow> 'a hart \<Rightarrow> 'a hart" where
  "riscv_set_pc val s = s\<lparr>pc := val AND (if misa s AND MCPUID_C \<noteq> 0 then NOT 1 else NOT 3)\<rparr>"

definition riscv_get_reg :: "'a hart \<Rightarrow> nat \<Rightarrow> u64 option" where
  "riscv_get_reg s rn = (if rn < 32 then Some (reg s rn) else None)"

definition riscv_get_reg_previous :: "'a hart \<Rightarrow> nat \<Rightarrow> u64 option" where
  "riscv_get_reg_previous s rn = (if rn < 32 then Some (reg_prior s rn) else None)"

definition riscv_get_fpreg :: "'a hart \<Rightarrow> nat \<Rightarrow> u64 option" where
  "riscv_get_fpreg s rn = (if rn < 32 then Some (fp_reg s rn) else None)"

definition riscv_set_reg :: "nat \<Rightarrow> u64 \<Rightarrow> 'a hart \<Rightarrow> 'a hart option" where
  "riscv_set_reg rn val s = (if 0 < rn \<and> rn < 32 then Some (s\<lparr>reg := (reg s)(rn := val)\<rparr>) else None)"

definition riscv_repair_csr :: "nat \<Rightarrow> u64 \<Rightarrow> u64 \<Rightarrow> 'a hart \<Rightarrow> 'a hart" where
  "riscv_repair_csr reg_num csr_num csr_val s =
     (let c = csr_num AND 0xFFF in
      if c = 0xb00 \<or> c = 0xc00 then s\<lparr>mcycle := csr_val, reg := (reg s)(reg_num := csr_val)\<rparr>
      else if c = 0xb02 \<or> c = 0xc02 then s\<lparr>minstret := csr_val, reg := (reg s)(reg_num := csr_val)\<rparr>
      else s)"

definition riscv_cpu_sync_regs :: "'a hart \<Rightarrow> 'a hart" where
  "riscv_cpu_sync_regs s =
     s\<lparr>reg_prior := (\<lambda>i. if 1 \<le> i \<and> i < 32 then reg s i else reg_prior s i)\<rparr>"

definition riscv_stf_reset :: "'a hart \<Rightarrow> 'a hart" where
  "riscv_stf_reset s = s\<lparr>stf_read_regs := [], stf_write_regs := [], stf_read_fp_regs := [],
     stf_write_fp_regs := [], stf_mem_reads := [], stf_mem_writes := []\<rparr>"

definition riscv_set_debug_mode :: "bool \<Rightarrow> 'a hart \<Rightarrow> 'a hart" where
  "riscv_set_debug_mode on s = s\<lparr>debug_mode := on\<rparr>"

text \<open>\<open>pending_int\<close> and \<open>cosim\<close> are the machine's fields of that name.\<close>

definition riscv_cpu_set_mip :: "int \<Rightarrow> bool \<Rightarrow> u32 \<Rightarrow> 'a hart \<Rightarrow> 'a hart" where
  "riscv_cpu_set_mip pending_int cosim_on m s =
     (let s = s\<lparr>mip := mip s OR m\<rparr>
      in if power_down_flag s \<and> mip s AND mie s \<noteq> 0 \<and> (pending_int \<noteq> -1 \<or> \<not> cosim_on)
         then s\<lparr>power_down_flag := False\<rparr> else s)"

definition riscv_cpu_reset_mip :: "u32 \<Rightarrow> 'a hart \<Rightarrow> 'a hart" where
  "riscv_cpu_reset_mip m s = s\<lparr>mip := mip s AND NOT m\<rparr>"

section \<open>Decoding helpers\<close>

definition sext :: "u32 \<Rightarrow> nat \<Rightarrow> u32" where
  "sext val n = signed_drop_bit (32 - n) (push_bit (32 - n) val)"

definition get_field1 :: "u32 \<Rightarrow> nat \<Rightarrow> nat \<Rightarrow> nat \<Rightarrow> u32" where
  "get_field1 val src_pos dst_pos dst_pos_max =
     (let m = push_bit dst_pos (push_bit (dst_pos_max - dst_pos + 1) 1 - 1)
      in if dst_pos \<ge> src_pos then push_bit (dst_pos - src_pos) val AND m
         else drop_bit (src_pos - dst_pos) val AND m)"

text \<open>The enumeration value \<open>rd_link * 2 + rs1_link + ctf_taken_jalr\<close>.\<close>

definition ctf_compute_hint :: "nat \<Rightarrow> nat \<Rightarrow> RISCVCTFInfo" where
  "ctf_compute_hint rd rs1 =
     (let rd_link = (rd = 1 \<or> rd = 5); rs1_link = (rs1 = 1 \<or> rs1 = 5);
          k = (if rd_link then (if rs1_link then ctf_taken_jalr_pop_push else ctf_taken_jalr_push)
               else (if rs1_link then ctf_taken_jalr_pop else ctf_taken_jalr))
      in if k = ctf_taken_jalr_pop_push \<and> rs1 = rd then ctf_taken_jalr_push else k)"

definition f_qnan32 :: u64 where [simp]: "f_qnan32 = 0x7fc00000"

definition f_unbox32 :: "u64 \<Rightarrow> u64" where
  "f_unbox32 r = (if r AND F32_HIGH \<noteq> F32_HIGH then f_qnan32 else r)"

definition f_unbox64 :: "u64 \<Rightarrow> u64" where "f_unbox64 r = r"

end
