(* ===== verification/WordArith.thy ===== *)
theory WordArith
  imports Prelude
begin

text \<open>
  Arithmetic of machine words through their natural number values: powers of
  two, masks and alignment.
\<close>

lemma unat_exp: "j < LENGTH('a) \<Longrightarrow> unat (2 ^ j :: 'a::len word) = 2 ^ j"
proof -
  assume "j < LENGTH('a)"
  then have "(2::nat) ^ j < 2 ^ LENGTH('a)" by simp
  then have "unat (of_nat (2 ^ j) :: 'a word) = 2 ^ j" by (simp add: unat_of_nat del: of_nat_power)
  then show ?thesis by simp
qed

lemma bit_imp_le_unat: "bit a k \<Longrightarrow> 2 ^ k \<le> unat a" for a :: "'a::len word"
proof -
  assume "bit a k"
  then have "bit (unat a) k" by (simp add: bit_unsigned_iff)
  then have "odd (unat a div 2 ^ k)" by (simp add: bit_iff_odd)
  then show ?thesis by (metis div_less even_zero not_le)
qed

lemma unat_add_nowrap:
  "unat x + unat y < 2 ^ LENGTH('a) \<Longrightarrow> unat (x + y) = unat x + unat y" for x y :: "'a::len word"
  by (simp add: unat_word_ariths)

lemma unat_push_nowrap:
  fixes x :: "'a::len word"
  assumes "unat x * 2 ^ j < 2 ^ LENGTH('a)" and "j < LENGTH('a)"
  shows "unat (push_bit j x) = unat x * 2 ^ j"
  using assms unat_exp[OF assms(2)] by (simp add: push_bit_eq_mult unat_word_ariths)

text \<open>Clearing the low bits rounds down to a multiple of the power of two.\<close>

lemma unat_and_not_mask:
  fixes x :: "'a::len word"
  assumes "j < LENGTH('a)"
  shows "unat (x AND NOT (push_bit j 1 - 1)) = unat x div 2 ^ j * 2 ^ j"
proof -
  have "x AND NOT (push_bit j 1 - 1) = push_bit j (drop_bit j x)"
    unfolding push_bit_of_1 mask_eq_exp_minus_1[symmetric]
    by (rule bit_word_eqI) (auto simp: bit_and_iff bit_not_iff bit_mask_iff bit_push_bit_iff bit_drop_bit_eq)
  moreover have "unat x div 2 ^ j * 2 ^ j < 2 ^ LENGTH('a)"
    using unsigned_less[of x, where ?'a = nat] le_less_trans[OF div_times_less_eq_dividend] by simp
  ultimately show ?thesis
    using assms by (simp add: unat_push_nowrap unat_drop_bit_div)
qed

lemma div_eq_iff_interval: "0 < d \<Longrightarrow> n div d = q \<longleftrightarrow> q * d \<le> n \<and> n < q * d + d" for n d q :: nat
  by (metis add.commute div_mult_self1_is_m div_nat_eqI less_mult_imp_div_less mult.commute mult_Suc not_le
      times_div_less_eq_dividend nat_less_le dividend_less_times_div le_antisym add_Suc_right)

text \<open>Two intervals without wrap-around meet when they share an element.\<close>

lemma interval_meets:
  fixes lo hi p n :: nat
  assumes "lo < hi" and "0 < n"
  shows "lo \<le> p + n - 1 \<and> p < hi \<longleftrightarrow> (\<exists>k<n. lo \<le> p + k \<and> p + k < hi)"
proof
  assume a: "lo \<le> p + n - 1 \<and> p < hi"
  show "\<exists>k<n. lo \<le> p + k \<and> p + k < hi"
  proof (cases "lo \<le> p")
    case True
    then show ?thesis using a assms by (intro exI[of _ 0]) simp
  next
    case False
    then show ?thesis using a assms by (intro exI[of _ "lo - p"]) auto
  qed
next
  assume "\<exists>k<n. lo \<le> p + k \<and> p + k < hi"
  then show "lo \<le> p + n - 1 \<and> p < hi" by auto
qed

text \<open>Tests of the low byte.\<close>

lemma lo8_and: "lo8 (x AND y) = lo8 x AND lo8 y"
  by (rule bit_word_eqI) (auto simp: bit_ucast_iff bit_and_iff)

lemma eq_low_byte_iff:
  assumes "u AND 0xff = u" and "v AND 0xff = v"
  shows "u = v \<longleftrightarrow> lo8 u = lo8 v"
proof
  assume eq: "lo8 u = lo8 v"
  have low: "bit w n \<Longrightarrow> n < 8" if "w AND 0xff = w" for w :: u64 and n
    using that by (metis and_low_mask(6) bit_take_bit_iff)
  show "u = v"
  proof (rule bit_word_eqI)
    fix n assume "n < LENGTH(64)"
    show "bit u n = bit v n"
    proof (cases "n < 8")
      case True
      have "bit (lo8 u) n = bit (lo8 v) n" by (simp only: eq)
      with True show ?thesis by (simp add: bit_ucast_iff)
    next
      case False
      with low[OF assms(1)] low[OF assms(2)] show ?thesis by blast
    qed
  qed
qed simp

lemma and_low_byte_iff:
  assumes "m AND 0xff = m" and "c AND 0xff = c"
  shows "x AND m = c \<longleftrightarrow> lo8 x AND lo8 m = lo8 c"
proof -
  have "(x AND m) AND 0xff = x AND m" using assms(1) by (metis and.assoc)
  from eq_low_byte_iff[OF this assms(2)] show ?thesis by (simp only: lo8_and)
qed

end
