(* ===== verification/Pmp.thy ===== *)
theory Pmp
  imports Cpu WordArith
begin

text \<open>
  Physical memory protection and debug triggers (\<open>src/src/riscv_cpu.cpp\<close>):
  the unpacking of the \<open>pmpcfg\<close> and \<open>pmpaddr\<close> CSRs into a table of address
  intervals, the check of an access against that table, the writes to those
  CSRs with their lock bits, and the match of an address against the trigger
  registers.  The architectural meaning of a PMP entry, \<open>pmp_match\<close>, is stated
  over the CSRs themselves; the table is shown to implement it.
\<close>

section \<open>The access check\<close>

text \<open>The privilege that an access is checked with: \<open>mstatus.MPP\<close> for loads and stores
  under \<open>mstatus.MPRV\<close>, the current one otherwise.\<close>

definition pmp_priv :: "'a hart \<Rightarrow> u8 \<Rightarrow> u8" where
  "pmp_priv s perm =
     (if mstatus s AND MSTATUS_MPRV \<noteq> 0 \<and> perm AND PMPCFG_X = 0
      then ucast (drop_bit MSTATUS_MPP_SHIFT (mstatus s) AND 3) else priv s)"

text \<open>The loop over the entries \<open>i .. pmp_n - 1\<close>; \<open>n\<close> counts the entries left.\<close>

fun pmp_scan :: "'a hart \<Rightarrow> u64 \<Rightarrow> u64 \<Rightarrow> u8 \<Rightarrow> u8 \<Rightarrow> nat \<Rightarrow> nat \<Rightarrow> bool" where
  "pmp_scan s paddr sz perm pr i 0 = (pr = PRV_M)"
| "pmp_scan s paddr sz perm pr i (Suc n) =
     (if pmp_lo s i \<le> paddr + sz - 1 \<and> paddr < pmp_hi s i
      then (if pr < PRV_M \<or> pmpcfg s i AND PMPCFG_L \<noteq> 0
            then perm AND pmpcfg s i = perm else True)
      else pmp_scan s paddr sz perm pr (Suc i) n)"

definition riscv_cpu_pmp_access_ok :: "'a hart \<Rightarrow> u64 \<Rightarrow> u64 \<Rightarrow> u8 \<Rightarrow> bool" where
  "riscv_cpu_pmp_access_ok s paddr sz perm =
     (if drop_bit (physical_addr_len s) paddr \<noteq> 0 then False
      else pmp_scan s paddr sz perm (pmp_priv s perm) 0 (pmp_n s))"

text \<open>The outer option is \<open>None\<close> when the access is blocked (\<open>*fail\<close> in the source).\<close>

definition get_phys_mem_range_pmp ::
    "'d sys \<Rightarrow> u64 \<Rightarrow> u64 \<Rightarrow> u8 \<Rightarrow> PhysMemoryRange option option" where
  "get_phys_mem_range_pmp s paddr sz perm =
     (if \<not> riscv_cpu_pmp_access_ok s paddr sz perm then None
      else Some (get_phys_mem_range (mem_map s) paddr))"

section \<open>Unpacking the CSRs\<close>

fun trailing_ones :: "u64 \<Rightarrow> nat \<Rightarrow> nat \<Rightarrow> nat" where
  "trailing_ones a j 0 = j"
| "trailing_ones a j (Suc n) = (if a AND push_bit j 1 = 0 then j else trailing_ones a (Suc j) n)"

definition pmp_cfg_byte :: "'a hart \<Rightarrow> nat \<Rightarrow> u8" where
  "pmp_cfg_byte s i =
     (if i < 8 then ucast (drop_bit (i * 8) (csr_pmpcfg s 0))
      else ucast (drop_bit ((i - 8) * 8) (csr_pmpcfg s 2)))"

definition napot_bounds :: "u64 \<Rightarrow> u64 \<times> u64" where
  "napot_bounds a =
     (let j = trailing_ones a 0 64 + 3
      in if j \<ge> 64 then (0, NOT 0)
         else (let lo = push_bit 2 a AND NOT (push_bit j 1 - 1);
                   hi = lo + push_bit j 1
               in (lo, if hi \<le> lo then NOT 0 else hi)))"

text \<open>The interval of entry \<open>i\<close>, \<open>None\<close> when the entry is off: the cases of the switch.\<close>

definition pmp_entry :: "'a hart \<Rightarrow> nat \<Rightarrow> (u64 \<times> u64) option" where
  "pmp_entry s i =
     (let m = pmp_cfg_byte s i AND PMPCFG_A_MASK in
      if m = PMPCFG_A_OFF then None
      else if m = PMPCFG_A_TOR then
        Some (if i = 0 then 0 else push_bit 2 (csr_pmpaddr s (i - 1)), push_bit 2 (csr_pmpaddr s i))
      else if m = PMPCFG_A_NA4 then
        Some (push_bit 2 (csr_pmpaddr s i), push_bit 2 (csr_pmpaddr s i) + 4)
      else Some (napot_bounds (csr_pmpaddr s i)))"

definition unpack_entry :: "nat \<Rightarrow> 'a hart \<Rightarrow> 'a hart" where
  "unpack_entry i s =
     (case pmp_entry s i of
        None \<Rightarrow> s
      | Some (lo, hi) \<Rightarrow>
          s\<lparr>pmpcfg := (pmpcfg s)(pmp_n s := pmp_cfg_byte s i),
            pmp_lo := (pmp_lo s)(pmp_n s := lo),
            pmp_hi := (pmp_hi s)(pmp_n s := hi),
            pmp_n := pmp_n s + 1\<rparr>)"

definition unpack_pmpaddrs :: "'a hart \<Rightarrow> 'a hart" where
  "unpack_pmpaddrs s = tlb_flush_all (foldl (\<lambda>s i. unpack_entry i s) (s\<lparr>pmp_n := 0\<rparr>) [0..<16])"

section \<open>Writing the CSRs\<close>

definition PMPADDR_MASK :: u64 where [simp]: "PMPADDR_MASK = 0x3fffffffff"

definition pmpcfg_merge :: "u64 \<Rightarrow> u64 \<Rightarrow> u64" where
  "pmpcfg_merge orig val =
     foldl (\<lambda>new_val i.
        let cfg = drop_bit (i * 8) orig AND 255;
            cfg = (if cfg AND PMPCFG_L = 0 then drop_bit (i * 8) val AND 255 else cfg);
            cfg = cfg AND NOT PMPCFG_RES
        in new_val OR push_bit (i * 8) cfg) 0 [0..<8]"

definition pmpcfg_write :: "nat \<Rightarrow> u64 \<Rightarrow> 'a hart \<Rightarrow> 'a hart" where
  "pmpcfg_write c val s =
     (if PMP_N \<le> c div 2 * 8 then s
      else unpack_pmpaddrs (s\<lparr>csr_pmpcfg := (csr_pmpcfg s)(c := pmpcfg_merge (csr_pmpcfg s c) val)\<rparr>))"

definition pmpaddr_write :: "nat \<Rightarrow> u64 \<Rightarrow> 'a hart \<Rightarrow> 'a hart" where
  "pmpaddr_write i val s =
     (if PMP_N \<le> i then s
      else (let cfg = drop_bit (i * 8) (csr_pmpcfg s (i div 8)) in
            if cfg AND PMPCFG_L \<noteq> 0 then s
            else (let cfg = drop_bit 8 cfg in
                  if cfg AND PMPCFG_A_MASK = PMPCFG_A_TOR \<and> cfg AND PMPCFG_L \<noteq> 0 then s
                  else unpack_pmpaddrs (s\<lparr>csr_pmpaddr := (csr_pmpaddr s)(i := val AND PMPADDR_MASK)\<rparr>))))"

section \<open>Triggers\<close>

definition trigger_match :: "u64 \<Rightarrow> u64 \<Rightarrow> u64 \<Rightarrow> bool" where
  "trigger_match td1 td2 addr =
     (let t_match = drop_bit 7 (td1 AND MCONTROL_MATCH);
          napot_mask = NOT (td2 + 1 XOR td2)
      in t_match = MCONTROL_MATCH_EQUAL \<and> addr = td2
       \<or> t_match = MCONTROL_MATCH_NAPOT \<and> napot_mask AND addr = napot_mask AND td2
       \<or> t_match = MCONTROL_MATCH_GE \<and> addr \<ge> td2
       \<or> t_match = MCONTROL_MATCH_LT \<and> addr < td2)"

text \<open>The loop runs over \<open>MAX_TRIGGERS = 1\<close> triggers.\<close>

definition check_triggers :: "u64 \<Rightarrow> u64 \<Rightarrow> 'a hart \<Rightarrow> bool \<times> 'a hart" where
  "check_triggers t_mctl addr s =
     (if debug_mode s then (False, s)
      else (let t_mctl = t_mctl OR push_bit (unat (priv s)) MCONTROL_U in
            if tdata1 s 0 AND t_mctl = t_mctl \<and> trigger_match (tdata1 s 0) (tdata2 s 0) addr
            then (if tdata2 s 0 AND MCONTROL_ACTION \<noteq> 0 \<and> tdata1 s 0 AND MCONTROL_DMODE \<noteq> 0
                  then (True, (riscv_set_debug_mode True s)\<lparr>pc := 0x0800\<rparr>)
                  else (True, s\<lparr>pending_exception := uint (CAUSE_BREAKPOINT :: u32), pending_tval := addr\<rparr>))
            else (False, s)))"

section \<open>The table is the list of active entries\<close>

text \<open>The unpacked table from index \<open>k\<close> on, as the list of its entries.\<close>

definition pmp_table :: "'a hart \<Rightarrow> (u8 \<times> u64 \<times> u64) list" where
  "pmp_table s = map (\<lambda>i. (pmpcfg s i, pmp_lo s i, pmp_hi s i)) [0..<pmp_n s]"

definition active_entries :: "'a hart \<Rightarrow> nat list \<Rightarrow> (u8 \<times> u64 \<times> u64) list" where
  "active_entries s is =
     concat (map (\<lambda>i. case pmp_entry s i of None \<Rightarrow> [] | Some (lo, hi) \<Rightarrow> [(pmp_cfg_byte s i, lo, hi)]) is)"

lemma unpack_entry_frame [simp]:
  "csr_pmpcfg (unpack_entry i s) = csr_pmpcfg s" "csr_pmpaddr (unpack_entry i s) = csr_pmpaddr s"
  "mstatus (unpack_entry i s) = mstatus s" "priv (unpack_entry i s) = priv s"
  "physical_addr_len (unpack_entry i s) = physical_addr_len s"
  by (simp_all add: unpack_entry_def split: option.splits prod.splits)

lemma pmp_csr_cong:
  assumes "csr_pmpcfg s' = csr_pmpcfg s" "csr_pmpaddr s' = csr_pmpaddr s"
  shows "pmp_cfg_byte s' = pmp_cfg_byte s" and "pmp_entry s' = pmp_entry s"
    and "active_entries s' = active_entries s"
proof -
  show cfg: "pmp_cfg_byte s' = pmp_cfg_byte s" by (rule ext) (simp add: pmp_cfg_byte_def assms)
  show "pmp_entry s' = pmp_entry s" by (rule ext) (simp add: pmp_entry_def Let_def cfg assms)
  with cfg show "active_entries s' = active_entries s"
    unfolding active_entries_def by (intro ext) (simp only:)
qed

lemma pmp_table_unpack_entry:
  "pmp_table (unpack_entry i s) = pmp_table s @
     (case pmp_entry s i of None \<Rightarrow> [] | Some (lo, hi) \<Rightarrow> [(pmp_cfg_byte s i, lo, hi)])"
  by (auto simp: unpack_entry_def pmp_table_def split: option.splits intro: map_cong)

lemma pmp_table_fold:
  "pmp_table (foldl (\<lambda>s i. unpack_entry i s) s is) = pmp_table s @ active_entries s is"
proof (induction "is" arbitrary: s)
  case Nil
  then show ?case by (simp add: active_entries_def)
next
  case (Cons i "is")
  have "active_entries (unpack_entry i s) is = active_entries s is"
    by (rule fun_cong, rule pmp_csr_cong(3)) simp_all
  then show ?case
    by (simp add: Cons pmp_table_unpack_entry) (simp add: active_entries_def)
qed

lemma unpack_fold_frame [simp]:
  "csr_pmpcfg (foldl (\<lambda>s i. unpack_entry i s) s is) = csr_pmpcfg s"
  "csr_pmpaddr (foldl (\<lambda>s i. unpack_entry i s) s is) = csr_pmpaddr s"
  "mstatus (foldl (\<lambda>s i. unpack_entry i s) s is) = mstatus s"
  "priv (foldl (\<lambda>s i. unpack_entry i s) s is) = priv s"
  "physical_addr_len (foldl (\<lambda>s i. unpack_entry i s) s is) = physical_addr_len s"
  by (induction "is" arbitrary: s) simp_all

lemma tlb_flush_frame [simp]:
  "csr_pmpcfg (tlb_flush_all s) = csr_pmpcfg s" "csr_pmpaddr (tlb_flush_all s) = csr_pmpaddr s"
  "mstatus (tlb_flush_all s) = mstatus s" "priv (tlb_flush_all s) = priv s"
  "physical_addr_len (tlb_flush_all s) = physical_addr_len s"
  "pmpcfg (tlb_flush_all s) = pmpcfg s" "pmp_lo (tlb_flush_all s) = pmp_lo s"
  "pmp_hi (tlb_flush_all s) = pmp_hi s" "pmp_n (tlb_flush_all s) = pmp_n s"
  by (simp_all add: tlb_flush_all_def tlb_init_def)

lemma pmp_table_unpack: "pmp_table (unpack_pmpaddrs s) = active_entries s [0..<16]"
proof -
  have "pmp_table (unpack_pmpaddrs s) = pmp_table (foldl (\<lambda>s i. unpack_entry i s) (s\<lparr>pmp_n := 0\<rparr>) [0..<16])"
    by (simp add: unpack_pmpaddrs_def pmp_table_def del: upt_rec_numeral)
  also have "\<dots> = active_entries (s\<lparr>pmp_n := 0\<rparr>) [0..<16]"
    unfolding pmp_table_fold by (simp add: pmp_table_def)
  also have "\<dots> = active_entries s [0..<16]"
    by (rule fun_cong, rule pmp_csr_cong(3)) simp_all
  finally show ?thesis .
qed

text \<open>The scan as a search in the table.\<close>

fun table_scan :: "(u8 \<times> u64 \<times> u64) list \<Rightarrow> u64 \<Rightarrow> u64 \<Rightarrow> u8 \<Rightarrow> u8 \<Rightarrow> bool" where
  "table_scan [] paddr sz perm pr = (pr = PRV_M)"
| "table_scan ((cfg, lo, hi) # es) paddr sz perm pr =
     (if lo \<le> paddr + sz - 1 \<and> paddr < hi
      then (if pr < PRV_M \<or> cfg AND PMPCFG_L \<noteq> 0 then perm AND cfg = perm else True)
      else table_scan es paddr sz perm pr)"

lemma pmp_scan_table:
  "pmp_scan s paddr sz perm pr i n =
   table_scan (map (\<lambda>i. (pmpcfg s i, pmp_lo s i, pmp_hi s i)) [i..<i + n]) paddr sz perm pr"
proof (induction n arbitrary: i)
  case 0
  then show ?case by simp
next
  case (Suc n)
  have "[i..<i + Suc n] = i # [Suc i..<Suc i + n]" by (simp add: upt_rec)
  then show ?case by (simp add: Suc)
qed

lemma pmp_access_ok_table:
  "riscv_cpu_pmp_access_ok s paddr sz perm \<longleftrightarrow>
   drop_bit (physical_addr_len s) paddr = 0 \<and> table_scan (pmp_table s) paddr sz perm (pmp_priv s perm)"
  using pmp_scan_table[of s paddr sz perm "pmp_priv s perm" 0 "pmp_n s"]
  by (simp add: riscv_cpu_pmp_access_ok_def pmp_table_def)

section \<open>The architectural meaning of an entry\<close>

definition pmpaddr_wf :: "'a hart \<Rightarrow> bool" where
  "pmpaddr_wf s \<longleftrightarrow> (\<forall>i. csr_pmpaddr s i \<le> PMPADDR_MASK)"

text \<open>Whether entry \<open>i\<close> matches the byte address \<open>a\<close>: the address has four-byte
  granularity, and a NAPOT entry ignores as many low bits as its \<open>pmpaddr\<close> has
  trailing ones, plus one.\<close>

definition pmp_match :: "'a hart \<Rightarrow> nat \<Rightarrow> u64 \<Rightarrow> bool" where
  "pmp_match s i a =
     (let m = pmp_cfg_byte s i AND PMPCFG_A_MASK;
          w = unat a div 4;
          p = unat (csr_pmpaddr s i);
          t = trailing_ones (csr_pmpaddr s i) 0 64
      in if m = PMPCFG_A_OFF then False
         else if m = PMPCFG_A_TOR then (i = 0 \<or> unat (csr_pmpaddr s (i - 1)) \<le> w) \<and> w < p
         else if m = PMPCFG_A_NA4 then w = p
         else w div 2 ^ (t + 1) = p div 2 ^ (t + 1))"

definition tor_nonempty :: "'a hart \<Rightarrow> nat \<Rightarrow> bool" where
  "tor_nonempty s i \<longleftrightarrow> (pmp_cfg_byte s i AND PMPCFG_A_MASK = PMPCFG_A_TOR \<longrightarrow>
     (if i = 0 then 0 else csr_pmpaddr s (i - 1)) < csr_pmpaddr s i)"

lemma trailing_ones_bits:
  "(\<forall>k<j. bit a k) \<Longrightarrow> \<forall>k<trailing_ones a j n. bit a k"
proof (induction n arbitrary: j)
  case 0
  then show ?case by simp
next
  case (Suc n)
  show ?case
  proof (cases "a AND push_bit j 1 = 0")
    case True
    with Suc.prems show ?thesis by simp
  next
    case False
    then have "bit a j" by (metis and_exp_eq_0_iff_not_bit push_bit_of_1)
    with Suc.prems have "\<forall>k<Suc j. bit a k" by (auto simp: less_Suc_eq)
    from Suc.IH[OF this] False show ?thesis by simp
  qed
qed

lemma trailing_ones_small:
  assumes "a \<le> PMPADDR_MASK"
  shows "trailing_ones a 0 64 \<le> 38"
proof (rule ccontr)
  assume "\<not> trailing_ones a 0 64 \<le> 38"
  with trailing_ones_bits[of 0 a 64] have "bit a 38" by simp
  then have "2 ^ 38 \<le> unat a" by (rule bit_imp_le_unat)
  moreover have "unat a < 2 ^ 38" using assms by (simp add: word_le_nat_alt)
  ultimately show False by simp
qed

lemma pmpaddr_shift:
  assumes "p \<le> PMPADDR_MASK"
  shows "unat (push_bit 2 p) = unat p * 4" and "unat p < 2 ^ 38"
proof -
  show lt: "unat p < 2 ^ 38" using assms by (simp add: word_le_nat_alt)
  then show "unat (push_bit 2 p) = unat p * 4" by (subst unat_push_nowrap) simp_all
qed

lemma napot_bounds_unat:
  assumes "p \<le> PMPADDR_MASK"
  defines "j \<equiv> trailing_ones p 0 64 + 3"
  shows "unat (fst (napot_bounds p)) = unat p * 4 div 2 ^ j * 2 ^ j"
    and "unat (snd (napot_bounds p)) = unat p * 4 div 2 ^ j * 2 ^ j + 2 ^ j"
proof -
  let ?lo = "push_bit 2 p AND NOT (push_bit j 1 - 1)"
  have j: "j \<le> 41" unfolding j_def using trailing_ones_small[OF assms(1)] by simp
  then have pow: "(2::nat) ^ j \<le> 2 ^ 41" by (rule power_increasing) simp
  have lo: "unat ?lo = unat p * 4 div 2 ^ j * 2 ^ j"
    using unat_and_not_mask[of j "push_bit 2 p"] j unfolding pmpaddr_shift(1)[OF assms(1)] by simp
  have "unat p * 4 div 2 ^ j * 2 ^ j \<le> unat p * 4" by (rule div_times_less_eq_dividend)
  moreover have "unat p * 4 < 2 ^ 40" using pmpaddr_shift(2)[OF assms(1)] by simp
  ultimately have small: "unat ?lo < 2 ^ 40" unfolding lo by (rule le_less_trans)
  have one: "unat (push_bit j 1 :: u64) = 2 ^ j" using j by (simp add: push_bit_of_1 unat_exp)
  have hi: "unat (?lo + push_bit j 1) = unat p * 4 div 2 ^ j * 2 ^ j + 2 ^ j"
    using small pow one lo by (subst unat_add_nowrap) simp_all
  have "0 < (2::nat) ^ j" by simp
  then have "\<not> ?lo + push_bit j 1 \<le> ?lo" using hi lo by (simp only: word_le_nat_alt)
  then have nb: "napot_bounds p = (?lo, ?lo + push_bit j 1)"
    using j by (simp add: napot_bounds_def j_def Let_def)
  show "unat (fst (napot_bounds p)) = unat p * 4 div 2 ^ j * 2 ^ j" unfolding nb fst_conv by (rule lo)
  show "unat (snd (napot_bounds p)) = unat p * 4 div 2 ^ j * 2 ^ j + 2 ^ j" unfolding nb snd_conv by (rule hi)
qed

lemma napot_bounds_match:
  assumes "p \<le> PMPADDR_MASK"
  shows "fst (napot_bounds p) \<le> a \<and> a < snd (napot_bounds p) \<longleftrightarrow>
     unat a div 4 div 2 ^ (trailing_ones p 0 64 + 1) = unat p div 2 ^ (trailing_ones p 0 64 + 1)"
    and "fst (napot_bounds p) < snd (napot_bounds p)"
proof -
  let ?t = "trailing_ones p 0 64"
  have pow: "(2::nat) ^ (?t + 3) = 4 * 2 ^ (?t + 1)" by (simp add: power_add)
  have q: "unat p * 4 div 2 ^ (?t + 3) = unat p div 2 ^ (?t + 1)"
    unfolding pow by (simp add: mult.commute)
  have d: "unat a div 4 div 2 ^ (?t + 1) = unat a div 2 ^ (?t + 3)"
    unfolding pow by (simp only: div_mult2_eq)
  show "fst (napot_bounds p) \<le> a \<and> a < snd (napot_bounds p) \<longleftrightarrow>
     unat a div 4 div 2 ^ (?t + 1) = unat p div 2 ^ (?t + 1)"
    unfolding d q[symmetric] word_le_nat_alt word_less_nat_alt napot_bounds_unat[OF assms]
    by (subst div_eq_iff_interval) simp_all
  show "fst (napot_bounds p) < snd (napot_bounds p)"
    unfolding word_less_nat_alt napot_bounds_unat[OF assms] by simp
qed

lemma pmp_entry_match:
  assumes wf: "pmpaddr_wf s" and tor: "tor_nonempty s i" and e: "pmp_entry s i = Some (lo, hi)"
  shows "pmp_match s i a \<longleftrightarrow> lo \<le> a \<and> a < hi" and "lo < hi"
proof -
  let ?m = "pmp_cfg_byte s i AND PMPCFG_A_MASK" and ?p = "csr_pmpaddr s i" and ?q = "csr_pmpaddr s (i - 1)"
  have p: "unat (push_bit 2 ?p) = unat ?p * 4" "unat ?p < 2 ^ 38"
    and q: "unat (push_bit 2 ?q) = unat ?q * 4" "unat ?q < 2 ^ 38"
    using wf pmpaddr_shift by (auto simp: pmpaddr_wf_def)
  have off: "?m \<noteq> PMPCFG_A_OFF" using e by (auto simp: pmp_entry_def Let_def)
  consider (TOR) "?m = PMPCFG_A_TOR" | (NA4) "?m = PMPCFG_A_NA4" "?m \<noteq> PMPCFG_A_TOR"
    | (NAPOT) "?m \<noteq> PMPCFG_A_TOR" "?m \<noteq> PMPCFG_A_NA4" by blast
  then have "(pmp_match s i a \<longleftrightarrow> lo \<le> a \<and> a < hi) \<and> lo < hi"
  proof cases
    case TOR
    then have b: "lo = (if i = 0 then 0 else push_bit 2 ?q)" "hi = push_bit 2 ?p"
      using e off by (auto simp: pmp_entry_def Let_def)
    have m: "pmp_match s i a \<longleftrightarrow> (i = 0 \<or> unat ?q \<le> unat a div 4) \<and> unat a div 4 < unat ?p"
      using TOR off unfolding pmp_match_def Let_def by simp
    have ne: "(if i = 0 then 0 else unat ?q) < unat ?p"
      using tor TOR by (auto simp: tor_nonempty_def word_less_nat_alt)
    have lo: "unat lo = (if i = 0 then 0 else unat ?q * 4)" using b q by simp
    have hi: "unat hi = unat ?p * 4" using b p by simp
    show ?thesis
      unfolding m word_le_nat_alt word_less_nat_alt lo hi using ne by auto
  next
    case NA4
    then have b: "lo = push_bit 2 ?p" "hi = push_bit 2 ?p + 4"
      using e off by (auto simp: pmp_entry_def Let_def)
    have m: "pmp_match s i a \<longleftrightarrow> unat a div 4 = unat ?p"
      using NA4 off unfolding pmp_match_def Let_def by simp
    have "unat hi = unat ?p * 4 + 4" unfolding b using p by (subst unat_add_nowrap) simp_all
    moreover have "unat lo = unat ?p * 4" using b p by simp
    ultimately show ?thesis
      unfolding m word_le_nat_alt word_less_nat_alt by (simp only:) presburger
  next
    case NAPOT
    then have b: "lo = fst (napot_bounds ?p)" "hi = snd (napot_bounds ?p)"
      using e off by (auto simp: pmp_entry_def Let_def)
    have wfp: "?p \<le> PMPADDR_MASK" using wf by (simp add: pmpaddr_wf_def)
    have "pmp_match s i a \<longleftrightarrow> unat a div 4 div 2 ^ (trailing_ones ?p 0 64 + 1) =
        unat ?p div 2 ^ (trailing_ones ?p 0 64 + 1)"
      using NAPOT off unfolding pmp_match_def Let_def by (simp only: if_False)
    then show ?thesis
      using napot_bounds_match[OF wfp] unfolding b by blast
  qed
  then show "pmp_match s i a \<longleftrightarrow> lo \<le> a \<and> a < hi" and "lo < hi" by blast+
qed

lemma pmp_match_off: "pmp_entry s i = None \<Longrightarrow> \<not> pmp_match s i a"
  by (auto simp: pmp_entry_def pmp_match_def Let_def split: if_splits)

text \<open>An access touches entry \<open>i\<close> when one of its bytes matches.\<close>

definition pmp_touches :: "'a hart \<Rightarrow> u64 \<Rightarrow> nat \<Rightarrow> nat \<Rightarrow> bool" where
  "pmp_touches s paddr n i \<longleftrightarrow> (\<exists>k<n. pmp_match s i (paddr + of_nat k))"

lemma pmp_touches_iff:
  assumes "pmpaddr_wf s" and "tor_nonempty s i" and "0 < n" and "unat paddr + n < 2 ^ 64"
  shows "pmp_touches s paddr n i \<longleftrightarrow>
     (case pmp_entry s i of None \<Rightarrow> False
      | Some (lo, hi) \<Rightarrow> lo \<le> paddr + of_nat n - 1 \<and> paddr < hi)"
proof (cases "pmp_entry s i")
  case None
  then show ?thesis by (simp add: pmp_touches_def pmp_match_off)
next
  case (Some e)
  obtain lo hi where lh: "e = (lo, hi)" by (cases e)
  note m = pmp_entry_match[OF assms(1,2) Some[unfolded lh]]
  have at: "unat (paddr + of_nat k) = unat paddr + k" if "k \<le> n" for k
    using that assms(4) by (subst unat_add_nowrap) (simp_all add: unat_of_nat)
  have last: "unat (paddr + of_nat n - 1) = unat paddr + n - 1"
  proof -
    have "paddr + of_nat n - 1 = paddr + of_nat (n - 1)" using assms(3) by (simp add: of_nat_diff)
    moreover have "unat (paddr + of_nat (n - 1)) = unat paddr + n - 1" using at[of "n - 1"] assms(3) by linarith
    ultimately show ?thesis by (simp only:)
  qed
  have "pmp_touches s paddr n i \<longleftrightarrow> (\<exists>k<n. unat lo \<le> unat paddr + k \<and> unat paddr + k < unat hi)"
    unfolding pmp_touches_def m(1) word_le_nat_alt word_less_nat_alt using at by (metis less_imp_le)
  also have "\<dots> \<longleftrightarrow> unat lo \<le> unat paddr + n - 1 \<and> unat paddr < unat hi"
    using interval_meets[of "unat lo" "unat hi" n "unat paddr"] m(2) assms(3) by (simp add: word_less_nat_alt)
  finally show ?thesis unfolding Some lh by (simp add: word_le_nat_alt word_less_nat_alt last)
qed

section \<open>Locked entries\<close>

lemma byte_of_fold:
  fixes f :: "nat \<Rightarrow> u64"
  assumes "\<And>j. f j AND 0xff = f j" and "i < 8"
  shows "lo8 (drop_bit (i * 8) (foldl (\<lambda>r j. r OR push_bit (j * 8) (f j)) 0 [0..<8])) = lo8 (f i)"
proof (rule bit_word_eqI)
  fix k assume k: "k < LENGTH(8)"
  have small: "bit (f j) b \<Longrightarrow> b < 8" for j b
    using assms(1)[of j] by (metis and_low_mask(6) bit_take_bit_iff)
  have "bit (foldl (\<lambda>r j. r OR push_bit (j * 8) (f j)) 0 [0..<8]) (i * 8 + k) \<longleftrightarrow>
      (\<exists>j\<in>{0..<8}. j * 8 \<le> i * 8 + k \<and> bit (f j) (i * 8 + k - j * 8))"
    unfolding bit_foldl_or set_upt bit_push_bit_iff using k assms(2) by simp
  also have "\<dots> \<longleftrightarrow> bit (f i) k"
  proof
    assume "\<exists>j\<in>{0..<8}. j * 8 \<le> i * 8 + k \<and> bit (f j) (i * 8 + k - j * 8)"
    then obtain j where j: "j * 8 \<le> i * 8 + k" "bit (f j) (i * 8 + k - j * 8)" by blast
    with small[of j] have "i * 8 + k - j * 8 < 8" by blast
    with j(1) k have "j = i" by simp
    with j(2) show "bit (f i) k" by simp
  next
    assume "bit (f i) k"
    then show "\<exists>j\<in>{0..<8}. j * 8 \<le> i * 8 + k \<and> bit (f j) (i * 8 + k - j * 8)"
      using assms(2) by (intro bexI[of _ i]) simp_all
  qed
  finally show "bit (lo8 (drop_bit (i * 8) (foldl (\<lambda>r j. r OR push_bit (j * 8) (f j)) 0 [0..<8]))) k
      = bit (lo8 (f i)) k"
    using k by (simp add: bit_ucast_iff bit_drop_bit_eq del: upt_rec_numeral)
qed

lemma pmpcfg_merge_byte:
  assumes "i < 8"
  shows "lo8 (drop_bit (i * 8) (pmpcfg_merge orig val)) =
     (if lo8 (drop_bit (i * 8) orig) AND PMPCFG_L = 0 then lo8 (drop_bit (i * 8) val)
      else lo8 (drop_bit (i * 8) orig)) AND NOT PMPCFG_RES"
proof -
  let ?f = "\<lambda>i. (if (drop_bit (i * 8) orig AND 255) AND PMPCFG_L = 0 then drop_bit (i * 8) val AND 255
      else drop_bit (i * 8) orig AND 255) AND NOT PMPCFG_RES"
  have keep: "?f j AND 0xff = ?f j" for j
    by (rule bit_word_eqI) (auto simp: bit_and_iff)
  have lo: "lo8 (x AND 255) = lo8 x" for x
    by (rule bit_word_eqI) (auto simp: and_low_mask bit_ucast_iff bit_take_bit_iff)
  have L: "(x AND 255) AND PMPCFG_L = 0 \<longleftrightarrow> lo8 x AND PMPCFG_L = 0" for x :: u64
  proof -
    have "(x AND 255) AND 0x80 = 0 \<longleftrightarrow> \<not> bit x 7"
      using and_exp_eq_0_iff_not_bit[of "x AND 255" 7] by (simp add: and_low_mask bit_take_bit_iff)
    moreover have "lo8 x AND 0x80 = 0 \<longleftrightarrow> \<not> bit x 7"
      using and_exp_eq_0_iff_not_bit[of "lo8 x" 7] by (simp add: bit_ucast_iff)
    ultimately show ?thesis by simp
  qed
  have res: "lo8 (x AND NOT PMPCFG_RES) = lo8 x AND NOT PMPCFG_RES" for x
    by (rule bit_word_eqI) (auto simp: bit_ucast_iff bit_and_iff bit_not_iff)
  have "lo8 (drop_bit (i * 8) (pmpcfg_merge orig val)) = lo8 (?f i)"
    unfolding pmpcfg_merge_def Let_def using byte_of_fold[of ?f, OF keep assms] by (simp only:)
  also have "\<dots> = (if lo8 (drop_bit (i * 8) orig) AND PMPCFG_L = 0 then lo8 (drop_bit (i * 8) val)
      else lo8 (drop_bit (i * 8) orig)) AND NOT PMPCFG_RES"
    unfolding res L if_distrib[of lo8] lo ..
  finally show ?thesis .
qed

lemma unpack_csrs [simp]:
  "csr_pmpcfg (unpack_pmpaddrs s) = csr_pmpcfg s" "csr_pmpaddr (unpack_pmpaddrs s) = csr_pmpaddr s"
  by (simp_all add: unpack_pmpaddrs_def del: upt_rec_numeral)

text \<open>What entry \<open>i\<close> matches is a function of its configuration byte, its address and,
  for TOR, the previous address.\<close>

lemma pmp_match_cong:
  assumes "pmp_cfg_byte s' i = pmp_cfg_byte s i" and "csr_pmpaddr s' i = csr_pmpaddr s i"
    and "pmp_cfg_byte s i AND PMPCFG_A_MASK = PMPCFG_A_TOR \<Longrightarrow> 0 < i \<Longrightarrow>
         csr_pmpaddr s' (i - 1) = csr_pmpaddr s (i - 1)"
  shows "pmp_match s' i a = pmp_match s i a"
  using assms unfolding pmp_match_def Let_def by (cases "i = 0") auto

lemma cfg_byte_word:
  assumes "i < 8"
  shows "drop_bit (i * 8) (csr_pmpcfg s 0) AND PMPCFG_L = 0 \<longleftrightarrow> pmp_cfg_byte s i AND PMPCFG_L = 0"
    and "drop_bit (i * 8) (csr_pmpcfg s 0) AND PMPCFG_A_MASK = PMPCFG_A_TOR \<longleftrightarrow>
         pmp_cfg_byte s i AND PMPCFG_A_MASK = PMPCFG_A_TOR"
  using assms by (subst and_low_byte_iff; simp add: pmp_cfg_byte_def)+

lemma pmpcfg_write_locked:
  assumes "i < 8" and "pmp_cfg_byte s i AND PMPCFG_L \<noteq> 0" and "pmp_cfg_byte s i AND PMPCFG_RES = 0"
    and "c = 0 \<or> c = 2"
  shows "pmp_cfg_byte (pmpcfg_write c val s) i = pmp_cfg_byte s i"
    and "csr_pmpaddr (pmpcfg_write c val s) = csr_pmpaddr s"
proof -
  have "lo8 (drop_bit (i * 8) (pmpcfg_merge (csr_pmpcfg s 0) val)) = pmp_cfg_byte s i"
  proof -
    have "lo8 (drop_bit (i * 8) (pmpcfg_merge (csr_pmpcfg s 0) val)) = pmp_cfg_byte s i AND NOT PMPCFG_RES"
      using assms(1,2) unfolding pmpcfg_merge_byte[OF assms(1)] by (simp add: pmp_cfg_byte_def)
    also have "\<dots> = pmp_cfg_byte s i"
      using assms(3) by (metis and.right_neutral bit.conj_disj_distrib bit.disj_cancel_right or.left_neutral)
    finally show ?thesis .
  qed
  with assms(1,4) show "pmp_cfg_byte (pmpcfg_write c val s) i = pmp_cfg_byte s i"
    by (auto simp: pmpcfg_write_def pmp_cfg_byte_def)
  show "csr_pmpaddr (pmpcfg_write c val s) = csr_pmpaddr s"
    by (simp add: pmpcfg_write_def)
qed

lemma pmpaddr_write_locked:
  assumes "i < 8" and "pmp_cfg_byte s i AND PMPCFG_L \<noteq> 0"
  shows "csr_pmpcfg (pmpaddr_write k val s) = csr_pmpcfg s"
    and "csr_pmpaddr (pmpaddr_write k val s) i = csr_pmpaddr s i"
    and "pmp_cfg_byte s i AND PMPCFG_A_MASK = PMPCFG_A_TOR \<Longrightarrow> 0 < i \<Longrightarrow>
         csr_pmpaddr (pmpaddr_write k val s) (i - 1) = csr_pmpaddr s (i - 1)"
proof -
  show "csr_pmpcfg (pmpaddr_write k val s) = csr_pmpcfg s"
    by (simp add: pmpaddr_write_def Let_def)
  show "csr_pmpaddr (pmpaddr_write k val s) i = csr_pmpaddr s i"
  proof (cases "k = i")
    case True
    then have "drop_bit (k * 8) (csr_pmpcfg s (k div 8)) AND PMPCFG_L \<noteq> 0"
      using assms cfg_byte_word(1)[OF assms(1), of s] by simp
    then show ?thesis using True assms(1) by (simp add: pmpaddr_write_def Let_def)
  next
    case False
    then show ?thesis by (simp add: pmpaddr_write_def Let_def)
  qed
  assume tor: "pmp_cfg_byte s i AND PMPCFG_A_MASK = PMPCFG_A_TOR" "0 < i"
  show "csr_pmpaddr (pmpaddr_write k val s) (i - 1) = csr_pmpaddr s (i - 1)"
  proof (cases "k = i - 1")
    case True
    then have k: "k div 8 = 0" "drop_bit 8 (drop_bit (k * 8) w) = drop_bit (i * 8) w" for w :: u64
      using assms(1) tor(2) by (simp_all add: algebra_simps)
    have "drop_bit (i * 8) (csr_pmpcfg s 0) AND PMPCFG_A_MASK = PMPCFG_A_TOR"
      "drop_bit (i * 8) (csr_pmpcfg s 0) AND PMPCFG_L \<noteq> 0"
      using tor(1) assms(2) cfg_byte_word[OF assms(1), of s] by blast+
    then show ?thesis unfolding pmpaddr_write_def Let_def k by simp
  next
    case False
    then show ?thesis by (simp add: pmpaddr_write_def Let_def)
  qed
qed

section \<open>Properties\<close>

text \<open>The verdict of the entry that decides an access.\<close>

definition pmp_verdict :: "'a hart \<Rightarrow> u8 \<Rightarrow> u8 \<Rightarrow> nat option \<Rightarrow> bool" where
  "pmp_verdict s perm pr entry =
     (case entry of
        None \<Rightarrow> pr = PRV_M
      | Some i \<Rightarrow> \<not> pr < PRV_M \<and> pmp_cfg_byte s i AND PMPCFG_L = 0 \<or> perm AND pmp_cfg_byte s i = perm)"

lemma table_scan_find:
  assumes "\<And>i. i \<in> set is \<Longrightarrow>
      hits i \<longleftrightarrow> (case pmp_entry s i of None \<Rightarrow> False
                 | Some (lo, hi) \<Rightarrow> lo \<le> paddr + sz - 1 \<and> paddr < hi)"
  shows "table_scan (active_entries s is) paddr sz perm pr \<longleftrightarrow> pmp_verdict s perm pr (find hits is)"
  using assms
proof (induction "is")
  case Nil
  then show ?case by (simp add: active_entries_def pmp_verdict_def)
next
  case (Cons i "is")
  have IH: "table_scan (active_entries s is) paddr sz perm pr = pmp_verdict s perm pr (find hits is)"
    using Cons by simp
  have act: "active_entries s (i # is) =
    (case pmp_entry s i of None \<Rightarrow> [] | Some (lo, hi) \<Rightarrow> [(pmp_cfg_byte s i, lo, hi)]) @ active_entries s is"
    by (simp add: active_entries_def)
  show ?case
  proof (cases "pmp_entry s i")
    case None
    with Cons.prems[of i] show ?thesis by (simp add: act IH)
  next
    case (Some e)
    obtain lo hi where "e = (lo, hi)" by (cases e)
    with Some Cons.prems[of i] have e: "pmp_entry s i = Some (lo, hi)"
      and h: "hits i \<longleftrightarrow> lo \<le> paddr + sz - 1 \<and> paddr < hi" by simp_all
    show ?thesis
    proof (cases "hits i")
      case True
      then show ?thesis using h by (simp add: act e pmp_verdict_def)
    next
      case False
      with h have "table_scan (active_entries s (i # is)) paddr sz perm pr
          = table_scan (active_entries s is) paddr sz perm pr" by (auto simp: act e)
      with False IH show ?thesis by simp
    qed
  qed
qed


text \<open>The NAPOT entry \<open>0x80000000 .. 0x80000fff\<close>, read-only, seen from user mode: loads are
  allowed, stores are not, and an access outside is refused.\<close>

definition pmp_demo :: "RISCVCPUState" where
  "pmp_demo = zero_hart\<lparr>physical_addr_len := 40,
     csr_pmpcfg := (\<lambda>_. 0)(0 := 0x19), csr_pmpaddr := (\<lambda>_. 0)(0 := 0x200001ff)\<rparr>"

lemma pmp_demo_entry:
  "pmp_cfg_byte pmp_demo 0 = 0x19" "csr_pmpaddr pmp_demo 0 = 0x200001ff"
  "i \<noteq> 0 \<Longrightarrow> pmp_cfg_byte pmp_demo i = 0"
  "trailing_ones 0x200001ff 0 64 = 9"
proof -
  show "pmp_cfg_byte pmp_demo 0 = 0x19" "csr_pmpaddr pmp_demo 0 = 0x200001ff"
    by (simp_all add: pmp_cfg_byte_def pmp_demo_def)
  show "trailing_ones 0x200001ff 0 64 = 9" by code_simp
  assume "i \<noteq> 0"
  then obtain k where "i = Suc k" by (cases i) auto
  moreover have "drop_bit (8 + k * 8) (0x19 :: u64) = 0"
  proof -
    have "drop_bit 8 (0x19 :: u64) = 0" by simp
    then show ?thesis by (metis add.commute drop_bit_drop_bit drop_bit_of_0)
  qed
  ultimately show "pmp_cfg_byte pmp_demo i = 0"
    by (simp add: pmp_cfg_byte_def pmp_demo_def)
qed


text \<open>C27: A locked PMP entry keeps its configuration and its address range under
  every write to a \<open>pmpcfg\<close> or \<open>pmpaddr\<close> CSR, the write to the lower bound of a
  locked TOR entry included.\<close>

theorem pmp_locked_entry_kept:
  assumes "i < 8" and "pmp_cfg_byte s i AND PMPCFG_L \<noteq> 0" and "pmp_cfg_byte s i AND PMPCFG_RES = 0"
    and "s' = pmpcfg_write c val s \<and> (c = 0 \<or> c = 2) \<or> s' = pmpaddr_write k val s"
  shows "pmp_cfg_byte s' i = pmp_cfg_byte s i \<and> pmp_match s' i a = pmp_match s i a"
  using assms(4)
proof
  assume w: "s' = pmpcfg_write c val s \<and> (c = 0 \<or> c = 2)"
  then have "pmp_cfg_byte s' i = pmp_cfg_byte s i" "csr_pmpaddr s' = csr_pmpaddr s"
    using pmpcfg_write_locked[OF assms(1-3)] by auto
  then show ?thesis by (simp add: pmp_match_cong[of s' i s])
next
  assume w: "s' = pmpaddr_write k val s"
  note keep = pmpaddr_write_locked[OF assms(1,2), of k val]
  have "pmp_cfg_byte s' = pmp_cfg_byte s" unfolding w by (rule ext) (simp add: pmp_cfg_byte_def keep(1))
  with keep have "pmp_match s' i a = pmp_match s i a"
    unfolding w by (intro pmp_match_cong) auto
  with \<open>pmp_cfg_byte s' = pmp_cfg_byte s\<close> show ?thesis by simp
qed

theorem pmp_locked_entry_kept_witness:
  "pmp_match (pmpaddr_write 0 0 (pmp_demo\<lparr>csr_pmpcfg := (\<lambda>_. 0)(0 := 0x99)\<rparr>)) 0 0x80000123"
proof -
  let ?s = "pmp_demo\<lparr>csr_pmpcfg := (\<lambda>_. 0)(0 := 0x99)\<rparr>"
  have cfg: "pmp_cfg_byte ?s 0 = 0x99" by (simp add: pmp_cfg_byte_def)
  then have "pmp_match ?s 0 0x80000123"
    by (simp add: pmp_match_def Let_def pmp_demo_entry)
  moreover have "pmp_cfg_byte (pmpaddr_write 0 0 ?s) 0 = pmp_cfg_byte ?s 0 \<and>
      pmp_match (pmpaddr_write 0 0 ?s) 0 0x80000123 = pmp_match ?s 0 0x80000123"
    by (rule pmp_locked_entry_kept[where c = "0" and k = "0" and val = "0"]) (simp_all add: cfg)
  ultimately show ?thesis by blast
qed

text \<open>An empty TOR entry (equal bounds) matches no address, yet an 8 byte access that
  straddles the bound is decided by it: here entry 1 denies the access that the
  wide open entry 2 should allow.\<close>

definition empty_tor_demo :: "RISCVCPUState" where
  "empty_tor_demo = zero_hart\<lparr>physical_addr_len := 40,
     csr_pmpcfg := (\<lambda>_. 0)(0 := 0x1f0800), csr_pmpaddr := (\<lambda>_. 0)(0 := 0x401, 1 := 0x401, 2 := 0x3fffffffff)\<rparr>"

lemma empty_tor_entry_decides:
  "\<not> pmp_match empty_tor_demo 1 a \<and>
   \<not> riscv_cpu_pmp_access_ok (unpack_pmpaddrs empty_tor_demo) 0x1000 8 PMPCFG_R \<and>
   riscv_cpu_pmp_access_ok (unpack_pmpaddrs empty_tor_demo) 0x1000 4 PMPCFG_R"
proof (intro conjI)
  show "\<not> pmp_match empty_tor_demo 1 a"
    by (simp add: pmp_match_def Let_def pmp_cfg_byte_def empty_tor_demo_def)
  show "\<not> riscv_cpu_pmp_access_ok (unpack_pmpaddrs empty_tor_demo) 0x1000 8 PMPCFG_R"
    by code_simp
  show "riscv_cpu_pmp_access_ok (unpack_pmpaddrs empty_tor_demo) 0x1000 4 PMPCFG_R"
    by code_simp
qed

end
