(* ===== verification/Mmu.thy ===== *)
theory Mmu
  imports Pmp
begin

text \<open>
  Address translation and memory access (\<open>src/src/riscv_cpu.cpp\<close>): physical
  reads and writes, the Sv39/Sv48 page table walk, the slow paths that fill the
  translation buffers, the fast paths that use them, and instruction fetch.

  The devices behind the memory map are reached through the operations of
  \<open>env_ops\<close>, which act on the whole state: the callbacks \<open>read_func\<close> and
  \<open>write_func\<close> of a range, applied to its \<open>opaque\<close> value.  The trace writer is a
  library outside the sources; its operations are fields of \<open>env_ops\<close> too.
  Host memory is total: a read through a pointer outside every block yields
  some byte.  An access returns \<open>None\<close> where the C code returns non-zero; the
  exception is then recorded in the state.
\<close>

section \<open>The environment\<close>

datatype stf_record =
    ForcePCRecord u64
  | InstRegState bool u64 u64
  | InstRegSource bool u64 u64
  | InstRegDest bool u64 u64
  | InstMemAccessRead u64 u64
  | InstMemAccessWrite u64 u64
  | InstMemContentRecord u64
  | InstPCTargetRecord u64
  | InstOpcode32Record u32
  | InstOpcode16Record u32
  | EventRecord int

record 'd env_ops =
  read_func :: "nat \<Rightarrow> u32 \<Rightarrow> nat \<Rightarrow> 'd sys \<Rightarrow> u32 \<times> 'd sys"
  write_func :: "nat \<Rightarrow> u32 \<Rightarrow> u32 \<Rightarrow> nat \<Rightarrow> 'd sys \<Rightarrow> 'd sys"
  stf_writer_is_open :: "'d \<Rightarrow> bool"
  stf_writer_open :: "bool \<Rightarrow> u64 \<Rightarrow> 'd \<Rightarrow> 'd"
  stf_writer_put :: "stf_record \<Rightarrow> 'd \<Rightarrow> 'd"
  stf_writer_close :: "'d \<Rightarrow> 'd"

definition set_pending :: "u32 \<Rightarrow> u64 \<Rightarrow> 'a hart \<Rightarrow> 'a hart" where
  "set_pending cause tval s = s\<lparr>pending_tval := tval, pending_exception := uint cause\<rparr>"

section \<open>Physical memory\<close>

text \<open>\<open>riscv_phys_write_u8\<close>, \<open>_u32\<close>, \<open>_u64\<close> at \<open>n = 1, 4, 8\<close>; the flag is \<open>*fail\<close>.\<close>

definition riscv_phys_write :: "nat \<Rightarrow> u64 \<Rightarrow> u64 \<Rightarrow> 'd sys \<Rightarrow> bool \<times> 'd sys" where
  "riscv_phys_write n paddr val s =
     (case get_phys_mem_range_pmp s paddr (of_nat n) PMPCFG_W of
        Some (Some pr) \<Rightarrow>
          if pr_is_ram pr then
            (let s = track_write paddr paddr val (8 * n) False s
             in (False, s\<lparr>hostmem := hstore n (hostmem s) (pr_phys_mem pr + (paddr - pr_addr pr)) val\<rparr>))
          else (True, s)
      | _ \<Rightarrow> (True, s))"

text \<open>The read does not ask whether the range is RAM.\<close>

definition riscv_phys_read :: "nat \<Rightarrow> u64 \<Rightarrow> 'd sys \<Rightarrow> u64 option \<times> 'd sys" where
  "riscv_phys_read n paddr s =
     (case get_phys_mem_range_pmp s paddr (of_nat n) PMPCFG_R of
        Some (Some pr) \<Rightarrow>
          (let pval = hload n (hostmem s) (pr_phys_mem pr + (paddr - pr_addr pr));
               (pval, s) = track_dread paddr paddr pval (8 * n) False s
           in (Some pval, s))
      | _ \<Rightarrow> (None, s))"

section \<open>Translation\<close>

datatype riscv_memory_access_t = ACCESS_READ | ACCESS_WRITE | ACCESS_CODE

primrec access_num :: "riscv_memory_access_t \<Rightarrow> nat" where
  "access_num ACCESS_READ = 0"
| "access_num ACCESS_WRITE = 1"
| "access_num ACCESS_CODE = 2"

text \<open>The results 0, -1 and -2 of \<open>riscv_cpu_get_phys_addr\<close>.\<close>

datatype xlate = PAddr u64 | XlateError | IllegalPAddr

definition PTE_V_MASK :: u64 where [simp]: "PTE_V_MASK = 1"
definition PTE_U_MASK :: u64 where [simp]: "PTE_U_MASK = 0x10"
definition PTE_A_MASK :: u64 where [simp]: "PTE_A_MASK = 0x40"
definition PTE_D_MASK :: u64 where [simp]: "PTE_D_MASK = 0x80"

definition xlate_priv :: "'a hart \<Rightarrow> riscv_memory_access_t \<Rightarrow> u8" where
  "xlate_priv s access =
     (if mstatus s AND MSTATUS_MPRV \<noteq> 0 \<and> access \<noteq> ACCESS_CODE
      then ucast (drop_bit MSTATUS_MPP_SHIFT (mstatus s) AND 3) else priv s)"

text \<open>The checks on a leaf entry at a level with \<open>j\<close> levels below it; \<open>ppn\<close> is a C
  \<open>unsigned\<close>.  With \<open>CONFIG_SW_MANAGED_A_AND_D\<close> set, the A and D bits are required
  rather than updated.\<close>

definition leaf_ok :: "'a hart \<Rightarrow> u8 \<Rightarrow> riscv_memory_access_t \<Rightarrow> nat \<Rightarrow> u64 \<Rightarrow> bool" where
  "leaf_ok s pr access j pte =
     (let xwr = drop_bit 1 pte AND 7 in
      if xwr = 2 \<or> xwr = 6 then False
      else if pr = PRV_S \<and> pte AND PTE_U_MASK \<noteq> 0 \<and> mstatus s AND MSTATUS_SUM = 0 then False
      else if pr \<noteq> PRV_S \<and> pte AND PTE_U_MASK = 0 then False
      else (let xwr = (if mstatus s AND MSTATUS_MXR \<noteq> 0 then xwr OR drop_bit 2 xwr else xwr) in
            if drop_bit (access_num access) xwr AND 1 = 0 then False
            else (let ppn = lo32 (drop_bit 10 pte) in
                  if (push_bit j 1 - 1) AND ppn \<noteq> 0 then False
                  else if pte AND PTE_A_MASK = 0 then False
                  else if access = ACCESS_WRITE \<and> pte AND PTE_D_MASK = 0 then False
                  else True)))"

text \<open>The loop over the levels: \<open>Suc j\<close> levels are left, so \<open>levels - 1 - i = j\<close>.\<close>

fun pt_walk :: "u8 \<Rightarrow> riscv_memory_access_t \<Rightarrow> u64 \<Rightarrow> nat \<Rightarrow> u64 \<Rightarrow> 'd sys \<Rightarrow> xlate \<times> 'd sys" where
  "pt_walk pr access vaddr 0 pte_addr s = (XlateError, s)"
| "pt_walk pr access vaddr (Suc j) pte_addr s =
     (let vaddr_shift = PG_SHIFT + 9 * j;
          pte_idx = drop_bit vaddr_shift vaddr AND 0x1ff;
          pte_addr = pte_addr + push_bit 3 pte_idx
      in case riscv_phys_read 8 pte_addr s of
           (None, s) \<Rightarrow> (IllegalPAddr, s)
         | (Some pte, s) \<Rightarrow>
             if pte AND PTE_V_MASK = 0 then (XlateError, s)
             else (let paddr = push_bit PG_SHIFT (drop_bit 10 pte);
                       xwr = drop_bit 1 pte AND 7
                   in if xwr \<noteq> 0 then
                        (if leaf_ok s pr access j pte
                         then (let vaddr_mask = push_bit vaddr_shift 1 - 1
                               in (PAddr (paddr AND NOT vaddr_mask OR vaddr AND vaddr_mask), s))
                         else (XlateError, s))
                      else pt_walk pr access vaddr j paddr s))"

definition riscv_cpu_get_phys_addr :: "u64 \<Rightarrow> riscv_memory_access_t \<Rightarrow> 'd sys \<Rightarrow> xlate \<times> 'd sys" where
  "riscv_cpu_get_phys_addr vaddr access s =
     (let pr = xlate_priv s access in
      if pr = PRV_M then (PAddr vaddr, s)
      else (let mode = drop_bit 60 (satp s) AND 0xf in
            if mode = 0 then (PAddr vaddr, s)
            else (let levels = nat (uint mode - 8 + 3);
                      vaddr_shift = 64 - (PG_SHIFT + levels * 9)
                  in if signed_drop_bit vaddr_shift (push_bit vaddr_shift vaddr) \<noteq> vaddr then (XlateError, s)
                     else pt_walk pr access vaddr levels (push_bit PG_SHIFT (satp s AND (push_bit 44 1 - 1))) s)))"

section \<open>Slow paths\<close>

text \<open>Accesses are \<open>2 ^ k\<close> bytes wide.  Misaligned accesses are not supported in this
  configuration, so the code that would split them is never reached.\<close>

definition riscv_cpu_read_memory :: "'d env_ops \<Rightarrow> u64 \<Rightarrow> nat \<Rightarrow> 'd sys \<Rightarrow> u64 option \<times> 'd sys" where
  "riscv_cpu_read_memory E addr k s =
     (let size = 2 ^ k;
          al = addr AND (of_nat size - 1)
      in if al \<noteq> 0 then (None, set_pending CAUSE_MISALIGNED_LOAD addr s)
         else case riscv_cpu_get_phys_addr addr ACCESS_READ s of
           (XlateError, s) \<Rightarrow> (None, set_pending CAUSE_LOAD_PAGE_FAULT addr s)
         | (IllegalPAddr, s) \<Rightarrow> (None, set_pending CAUSE_FAULT_LOAD addr s)
         | (PAddr paddr, s) \<Rightarrow>
             (case get_phys_mem_range_pmp s paddr (of_nat size) PMPCFG_R of
                None \<Rightarrow> (None, set_pending CAUSE_FAULT_LOAD addr s)
              | Some r \<Rightarrow>
                  (let (ret, s) =
                     (case r of
                        None \<Rightarrow> (0, s)
                      | Some pr \<Rightarrow>
                          if pr_is_ram pr then
                            (let idx = tlb_index addr;
                                 ptr = pr_phys_mem pr + (paddr - pr_addr pr)
                             in (hload size (hostmem s) ptr,
                                 s\<lparr>tlb_read := (tlb_read s)(idx :=
                                     \<lparr>te_vaddr = addr AND NOT PG_MASK, te_mem_addend = ptr - addr\<rparr>),
                                   tlb_read_paddr_addend := (tlb_read_paddr_addend s)(idx := paddr - addr)\<rparr>))
                          else
                            (let offset = lo32 (paddr - pr_addr pr) in
                             if drop_bit k (pr_devio_flags pr) AND 1 \<noteq> 0 then
                               (let (v, s) = read_func E (pr_opaque pr) offset k s in (zx32 v, s))
                             else if pr_devio_flags pr AND DEVIO_SIZE32 \<noteq> 0 \<and> k = 3 then
                               (let (v0, s) = read_func E (pr_opaque pr) offset 2 s;
                                    (v1, s) = read_func E (pr_opaque pr) (offset + 4) 2 s
                                in (zx32 v0 OR push_bit 32 (zx32 v1), s))
                             else (0, s)));
                       (v, s) = track_dread addr paddr ret (size * 8) True s
                   in (Some v, s))))"

definition riscv_cpu_write_memory :: "'d env_ops \<Rightarrow> u64 \<Rightarrow> u64 \<Rightarrow> nat \<Rightarrow> 'd sys \<Rightarrow> bool \<times> 'd sys" where
  "riscv_cpu_write_memory E addr val k s =
     (let size = 2 ^ k
      in if addr AND (of_nat size - 1) \<noteq> 0 then (False, set_pending CAUSE_MISALIGNED_STORE addr s)
         else case riscv_cpu_get_phys_addr addr ACCESS_WRITE s of
           (XlateError, s) \<Rightarrow> (False, set_pending CAUSE_STORE_PAGE_FAULT addr s)
         | (IllegalPAddr, s) \<Rightarrow> (False, set_pending CAUSE_FAULT_STORE addr s)
         | (PAddr paddr, s) \<Rightarrow>
             (case get_phys_mem_range_pmp s paddr (of_nat size) PMPCFG_W of
                None \<Rightarrow> (False, set_pending CAUSE_FAULT_STORE addr s)
              | Some r \<Rightarrow>
                  (let s =
                     (case r of
                        None \<Rightarrow> s
                      | Some pr \<Rightarrow>
                          if pr_is_ram pr then
                            (let m = phys_mem_set_dirty_bit pr (paddr - pr_addr pr) (hostmem s);
                                 idx = tlb_index addr;
                                 ptr = pr_phys_mem pr + (paddr - pr_addr pr)
                             in s\<lparr>tlb_write := (tlb_write s)(idx :=
                                     \<lparr>te_vaddr = addr AND NOT PG_MASK, te_mem_addend = ptr - addr\<rparr>),
                                  tlb_write_paddr_addend := (tlb_write_paddr_addend s)(idx := paddr - addr),
                                  hostmem := hstore size m ptr val,
                                  memseqno := memseqno s + 1,
                                  load_res_memseqno := load_res_memseqno s + 1\<rparr>)
                          else
                            (let offset = lo32 (paddr - pr_addr pr) in
                             if drop_bit k (pr_devio_flags pr) AND 1 \<noteq> 0 then
                               write_func E (pr_opaque pr) offset (lo32 val) k s
                             else if pr_devio_flags pr AND DEVIO_SIZE32 \<noteq> 0 \<and> k = 3 then
                               (let s = write_func E (pr_opaque pr) offset (lo32 (val AND 0xffffffff)) 2 s
                                in write_func E (pr_opaque pr) (offset + 4)
                                     (lo32 (drop_bit 32 val AND 0xffffffff)) 2 s)
                             else s))
                   in (True, track_write addr paddr val (size * 8) True s))))"

section \<open>Fast paths\<close>

text \<open>\<open>target_read_u8\<close> .. \<open>target_read_u64\<close> at \<open>k = 0 .. 3\<close>, \<open>2 ^ k\<close> bytes wide.\<close>

definition target_read :: "'d env_ops \<Rightarrow> nat \<Rightarrow> u64 \<Rightarrow> 'd sys \<Rightarrow> u64 option \<times> 'd sys" where
  "target_read E k addr s =
     (let (hit, s) = check_triggers MCONTROL_LOAD addr s;
          size = 2 ^ k
      in if hit then (None, s)
         else if addr AND (of_nat size - 1) \<noteq> 0 then (None, set_pending CAUSE_MISALIGNED_LOAD addr s)
         else (let idx = tlb_index addr in
               if te_vaddr (tlb_read s idx) = addr AND NOT (PG_MASK AND NOT (of_nat size - 1)) then
                 (let data = hload size (hostmem s) (te_mem_addend (tlb_read s idx) + addr);
                      paddr = tlb_read_paddr_addend s idx + addr;
                      (v, s) = track_dread addr paddr data (size * 8) True s
                  in (Some v, s))
               else (case riscv_cpu_read_memory E addr k s of
                       (None, s) \<Rightarrow> (None, s)
                     | (Some v, s) \<Rightarrow> (Some (take_bit (8 * size) v), s))))"

definition target_write :: "'d env_ops \<Rightarrow> nat \<Rightarrow> u64 \<Rightarrow> u64 \<Rightarrow> 'd sys \<Rightarrow> bool \<times> 'd sys" where
  "target_write E k addr v s =
     (let (hit, s) = check_triggers MCONTROL_STORE addr s;
          size = 2 ^ k;
          val = take_bit (8 * size) v
      in if hit then (False, s)
         else if addr AND (of_nat size - 1) \<noteq> 0 then (False, set_pending CAUSE_MISALIGNED_STORE addr s)
         else (let idx = tlb_index addr in
               if te_vaddr (tlb_write s idx) = addr AND NOT (PG_MASK AND NOT (of_nat size - 1)) then
                 (let s = s\<lparr>hostmem := hstore size (hostmem s) (te_mem_addend (tlb_write s idx) + addr) val,
                            memseqno := memseqno s + 1,
                            load_res_memseqno := load_res_memseqno s + 1\<rparr>
                  in (True, track_write addr (tlb_write_paddr_addend s idx + addr) val (size * 8) True s))
               else riscv_cpu_write_memory E addr val k s))"

section \<open>Instruction fetch\<close>

definition get_insn32 :: "hmem \<Rightarrow> u64 \<Rightarrow> u32" where
  "get_insn32 m ptr = lo32 (hload 4 m ptr)"

text \<open>\<open>track_iread\<close> returns its data.  The size is 16 or 32 bits.\<close>

definition target_read_insn_slow :: "nat \<Rightarrow> u64 \<Rightarrow> 'd sys \<Rightarrow> u32 option \<times> 'd sys" where
  "target_read_insn_slow nbits addr s =
     (case riscv_cpu_get_phys_addr addr ACCESS_CODE s of
        (XlateError, s) \<Rightarrow> (None, set_pending CAUSE_FETCH_PAGE_FAULT addr s)
      | (IllegalPAddr, s) \<Rightarrow> (None, set_pending CAUSE_FAULT_FETCH addr s)
      | (PAddr paddr, s) \<Rightarrow>
          (case get_phys_mem_range_pmp s paddr (of_nat (nbits div 8)) PMPCFG_X of
             Some (Some pr) \<Rightarrow>
               if \<not> pr_is_ram pr then (None, set_pending CAUSE_FAULT_FETCH addr s)
               else
                 (let idx = tlb_index addr;
                      ptr = pr_phys_mem pr + (paddr - pr_addr pr);
                      s = (if riscv_cpu_pmp_access_ok s (paddr AND NOT PG_MASK) (PG_MASK + 1) PMPCFG_X
                           then s\<lparr>tlb_code := (tlb_code s)(idx :=
                                    \<lparr>te_vaddr = addr AND NOT PG_MASK, te_mem_addend = ptr - addr\<rparr>),
                                  tlb_code_paddr_addend := (tlb_code_paddr_addend s)(idx := paddr - addr)\<rparr>
                           else s);
                      idx_cross = tlb_index (addr + 2)
                  in if idx \<noteq> idx_cross \<and> nbits = 32 then
                       (case riscv_cpu_get_phys_addr (addr + 2) ACCESS_CODE s of
                          (XlateError, s) \<Rightarrow> (None, set_pending CAUSE_FETCH_PAGE_FAULT addr s)
                        | (IllegalPAddr, s) \<Rightarrow> (None, set_pending CAUSE_FAULT_FETCH addr s)
                        | (PAddr paddr_cross, s) \<Rightarrow>
                            (case get_phys_mem_range_pmp s paddr_cross 2 PMPCFG_X of
                               Some (Some pr_cross) \<Rightarrow>
                                 if \<not> pr_is_ram pr_cross then (None, set_pending CAUSE_FAULT_FETCH addr s)
                                 else
                                   (let ptr_cross = pr_phys_mem pr_cross + (paddr_cross - pr_addr pr_cross);
                                        data1 = lo32 (hload 2 (hostmem s) ptr);
                                        data2 = lo32 (hload 2 (hostmem s) ptr_cross)
                                    in (Some (data1 OR push_bit 16 data2), s))
                             | _ \<Rightarrow> (None, set_pending CAUSE_FAULT_FETCH addr s)))
                     else (Some (lo32 (hload (nbits div 8) (hostmem s) ptr)), s))
           | _ \<Rightarrow> (None, set_pending CAUSE_FAULT_FETCH addr s)))"

definition target_read_insn_u16 :: "u64 \<Rightarrow> 'd sys \<Rightarrow> u32 option \<times> 'd sys" where
  "target_read_insn_u16 addr s =
     (let idx = tlb_index addr in
      if te_vaddr (tlb_code s idx) = addr AND NOT PG_MASK
      then (Some (lo32 (hload 2 (hostmem s) (te_mem_addend (tlb_code s idx) + addr))), s)
      else target_read_insn_slow 16 addr s)"

definition riscv_read_insn :: "u64 \<Rightarrow> 'd sys \<Rightarrow> u32 option \<times> 'd sys" where
  "riscv_read_insn addr s =
     (let saved_pending_exception = pending_exception s;
          saved_pending_tval = pending_tval s;
          (res, s) = target_read_insn_slow 32 addr s
      in (res, s\<lparr>pending_exception := saved_pending_exception, pending_tval := saved_pending_tval\<rparr>))"

end
