(* ===== verification/Csr.thy ===== *)
theory Csr
  imports Mmu
begin

text \<open>
  Control and status registers (\<open>src/src/riscv_cpu.cpp\<close>): \<open>get_mstatus\<close> and
  \<open>set_mstatus\<close>, \<open>csr_read\<close> and \<open>csr_write\<close>.  The machine's CSR hooks are null
  pointers in every configuration of the sources and are left out; console
  messages are left out.  \<open>None\<close> is the result -1 of \<open>csr_read\<close>.
\<close>

section \<open>mstatus\<close>

definition SSTATUS_MASK :: u64 where
  "SSTATUS_MASK = MSTATUS_SIE OR MSTATUS_SPIE OR MSTATUS_SPP OR MSTATUS_VS OR MSTATUS_FS OR MSTATUS_SUM
     OR MSTATUS_MXR OR MSTATUS_UXL_MASK"

definition MSTATUS_MASK :: u64 where
  "MSTATUS_MASK = MSTATUS_SIE OR MSTATUS_MIE OR MSTATUS_SPIE OR MSTATUS_MPIE OR MSTATUS_SPP OR MSTATUS_MPP
     OR MSTATUS_VS OR MSTATUS_FS OR MSTATUS_MPRV OR MSTATUS_SUM OR MSTATUS_MXR OR MSTATUS_TVM OR MSTATUS_TW
     OR MSTATUS_TSR OR MSTATUS_UXL_MASK OR MSTATUS_SXL_MASK"

definition get_mstatus :: "'a hart \<Rightarrow> u64 \<Rightarrow> u64" where
  "get_mstatus s m =
     (let val = (mstatus s OR push_bit MSTATUS_FS_SHIFT (zx8 (fs s)) OR push_bit MSTATUS_VS_SHIFT (zx8 (vs s))) AND m;
          sd = (val AND MSTATUS_VS = MSTATUS_VS \<or> val AND MSTATUS_FS = MSTATUS_FS \<or> val AND MSTATUS_XS = MSTATUS_XS)
      in if sd then val OR push_bit 63 1 else val)"

definition set_mstatus :: "u64 \<Rightarrow> 'a hart \<Rightarrow> 'a hart" where
  "set_mstatus val s =
     (let modified = mstatus s XOR val;
          s = (if modified AND (MSTATUS_MPRV OR MSTATUS_SUM OR MSTATUS_MXR) \<noteq> 0
                \<or> mstatus s AND MSTATUS_MPRV \<noteq> 0 \<and> modified AND MSTATUS_MPP \<noteq> 0
               then tlb_flush_all s else s);
          s = s\<lparr>fs := lo8 (drop_bit MSTATUS_FS_SHIFT val AND 3), vs := lo8 (drop_bit MSTATUS_VS_SHIFT val AND 3)\<rparr>;
          m = MSTATUS_MASK AND NOT (MSTATUS_FS OR MSTATUS_VS OR MSTATUS_UXL_MASK OR MSTATUS_SXL_MASK)
      in s\<lparr>mstatus := mstatus s AND NOT m OR val AND m\<rparr>)"

definition riscv_cpu_get_mstatus :: "'a hart \<Rightarrow> u64" where
  "riscv_cpu_get_mstatus s = get_mstatus s MSTATUS_MASK"

definition counter_access_ok :: "'a hart \<Rightarrow> u32 \<Rightarrow> bool" where
  "counter_access_ok s csr =
     (let counteren = (if priv s = PRV_U then scounteren s
                       else if priv s = PRV_S then mcounteren s
                       else if priv s = PRV_M then NOT 0 else 0)
      in drop_bit (unat (csr AND 31)) counteren AND 1 \<noteq> 0)"

text \<open>Reads are sign extended from bit 48 because writes keep the register canonical.\<close>

definition CANONICAL_S49 :: "u64 \<Rightarrow> u64" where
  "CANONICAL_S49 v = signed_drop_bit (63 - 48) (push_bit (63 - 48) v)"

definition pc_align_mask :: "'a hart \<Rightarrow> u64" where
  "pc_align_mask s = (if misa s AND MCPUID_C \<noteq> 0 then NOT 1 else NOT 3)"

section \<open>Reading\<close>

definition csr_value :: "u32 \<Rightarrow> 'a hart \<Rightarrow> u64 option" where
  "csr_value csr s =
    (if csr = 0x001 then (if fs s = 0 then None else Some (zx32 (fflags s)))
     else if csr = 0x002 then (if fs s = 0 then None else Some (zx8 (frm s)))
     else if csr = 0x003 then (if fs s = 0 then None else Some (zx32 (fflags s) OR push_bit 5 (zx8 (frm s))))
     else if csr = 0x008 then (if vs s = 0 then None else Some (zx16 (vstart s)))
     else if csr = 0x009 then (if vs s = 0 then None else Some (zx8 (vxsat s)))
     else if csr = 0x00A then (if vs s = 0 then None else Some (zx8 (vxrm s)))
     else if csr = 0x00F then (if vs s = 0 then None else Some (zx8 (vxsat s) OR push_bit 1 (zx8 (vxrm s))))
     else if csr = 0x100 then Some (get_mstatus s SSTATUS_MASK)
     else if csr = 0x104 then Some (zx32 (mie s AND mideleg s))
     else if csr = 0x105 then Some (stvec s)
     else if csr = 0x106 then Some (zx32 (scounteren s))
     else if csr = 0x140 then Some (sscratch s)
     else if csr = 0x141 then Some (sepc s)
     else if csr = 0x142 then Some (scause s)
     else if csr = 0x143 then Some (stval s)
     else if csr = 0x144 then Some (zx32 (mip s AND mideleg s))
     else if csr = 0x180 then
       (if priv s = PRV_S \<and> mstatus s AND MSTATUS_TVM \<noteq> 0 then None else Some (satp s))
     else if csr = 0x300 then Some (get_mstatus s (-1))
     else if csr = 0x301 then Some (zx32 (misa s) OR push_bit 62 2)
     else if csr = 0x302 then Some (zx32 (medeleg s))
     else if csr = 0x303 then Some (zx32 (mideleg s))
     else if csr = 0x304 then Some (zx32 (mie s))
     else if csr = 0x305 then Some (mtvec s)
     else if csr = 0x306 then Some (zx32 (mcounteren s))
     else if csr = 0x320 then Some (zx32 (mcountinhibit s))
     else if csr = 0x340 then Some (mscratch s)
     else if csr = 0x341 then Some (mepc s)
     else if csr = 0x342 then Some (mcause s)
     else if csr = 0x343 then Some (mtval s)
     else if csr = 0x344 then Some (zx32 (mip s))
     else if csr = 0x744 then Some (unimpl_mcontext s)
     else if csr = 0x7a0 then Some (zx32 (tselect s))
     else if csr = 0x7a1 then Some (tdata1 s (unat (tselect s)))
     else if csr = 0x7a2 then Some (tdata2 s (unat (tselect s)))
     else if csr = 0x7b0 then (if debug_mode s then Some (dcsr s) else None)
     else if csr = 0x7b1 then (if debug_mode s then Some (dpc s) else None)
     else if csr = 0x7b2 then (if debug_mode s then Some (dscratch s) else None)
     else if csr = 0xb00 \<or> csr = 0xc00 then (if counter_access_ok s csr then Some (mcycle s) else None)
     else if csr = 0xb02 \<or> csr = 0xc02 then (if counter_access_ok s csr then Some (minstret s) else None)
     else if 0xb03 \<le> csr \<and> csr \<le> 0xb1f \<or> 0xc03 \<le> csr \<and> csr \<le> 0xc1f then
       (if counter_access_ok s csr then Some 0 else None)
     else if csr = 0xc20 then (if vs s = 0 then None else Some (vl s))
     else if csr = 0xc21 then (if vs s = 0 then None else Some (vtype s))
     else if csr = 0xc22 then (if vs s = 0 then None else Some (of_nat (VLEN div 8)))
     else if csr = 0xf14 then Some (mhartid s)
     else if csr = 0xf13 then Some (mimpid s)
     else if csr = 0xf12 then Some (marchid s)
     else if csr = 0xf11 then Some (mvendorid s)
     else if 0x323 \<le> csr \<and> csr \<le> 0x33f then Some (mhpmevent s (unat (csr AND 0x1F)))
     else if csr = 0x3A0 \<or> csr = 0x3A2 then Some (csr_pmpcfg s (unat (csr - 0x3A0)))
     else if 0x3B0 \<le> csr \<and> csr \<le> 0x3BF then Some (csr_pmpaddr s (unat (csr - 0x3B0)))
     else if csr = 0x8C2 then Some 0
     else None)"

definition csr_read :: "u32 \<Rightarrow> bool \<Rightarrow> 'a hart \<Rightarrow> u64 option" where
  "csr_read csr will_write s =
     (if csr AND 0xc00 = 0xc00 \<and> will_write then None
      else if uint (priv s) < uint (drop_bit 8 csr AND 3) then None
      else csr_value csr s)"

definition set_frm :: "u64 \<Rightarrow> 'a hart \<Rightarrow> 'a hart" where
  "set_frm val s = s\<lparr>frm := lo8 val\<rparr>"

text \<open>\<open>None\<close> is an invalid rounding mode.\<close>

definition get_insn_rm :: "'a hart \<Rightarrow> u32 \<Rightarrow> nat option" where
  "get_insn_rm s rm =
     (let rm = (if rm = 7 then unat (frm s) else unat rm)
      in if rm \<ge> 5 then None else Some rm)"

section \<open>Writing\<close>

datatype csr_result = CsrInvalid | CsrOk | CsrFlushed

definition VSTART_MASK :: u64 where [simp]: "VSTART_MASK = 127"
definition VXSAT_MASK :: u64 where [simp]: "VXSAT_MASK = 1"
definition VXRM_MASK :: u64 where [simp]: "VXRM_MASK = 3"
definition VCSR_VXSAT :: u64 where [simp]: "VCSR_VXSAT = 1"
definition VCSR_VXRM :: u64 where [simp]: "VCSR_VXRM = 6"
definition VCSR_MASK :: u64 where [simp]: "VCSR_MASK = 7"

text \<open>\<open>x & ~mask | val & mask\<close> on a 32 bit register with a 64 bit mask and value.\<close>

definition merge32 :: "u32 \<Rightarrow> u64 \<Rightarrow> u64 \<Rightarrow> u32" where
  "merge32 x m val = lo32 (zx32 x AND NOT m OR val AND m)"

text \<open>A vectored trap base is aligned; \<open>~255 + 1\<close> is -255.\<close>

definition tvec_legal :: "u64 \<Rightarrow> u64" where
  "tvec_legal val = (if val AND 1 \<noteq> 0 then val AND (NOT 255 + 1) else val)"

definition tdata1_write :: "u64 \<Rightarrow> 'a hart \<Rightarrow> 'a hart" where
  "tdata1_write val s =
     (let i = unat (tselect s) in
      if tdata1 s i AND MCONTROL_DMODE = 0 \<or> debug_mode s then
        (let m = 0x20800000000011df;
             val = val OR 0x2080000000000000;
             m = (if debug_mode s then m + 0x800000000000000 else m)
         in s\<lparr>tdata1 := (tdata1 s)(i := tdata1 s i AND NOT m OR val AND m)\<rparr>)
      else s)"

definition tdata2_write :: "u64 \<Rightarrow> 'a hart \<Rightarrow> 'a hart" where
  "tdata2_write val s =
     (let i = unat (tselect s) in
      if tdata1 s i AND MCONTROL_DMODE = 0 \<or> debug_mode s
      then s\<lparr>tdata2 := (tdata2 s)(i := val)\<rparr> else s)"

definition satp_write :: "u64 \<Rightarrow> 'a hart \<Rightarrow> 'a hart" where
  "satp_write val s =
     (let mode = drop_bit 60 val AND 15
      in tlb_flush_all (if mode = 0 \<or> mode = 8 \<or> mode = 9 then s\<lparr>satp := val AND SATP_MASK\<rparr> else s))"

text \<open>The condition \<open>s->dcsr & 0x600 != 0\<close> is \<open>s->dcsr & (0x600 != 0)\<close>.\<close>

definition dcsr_write :: "u64 \<Rightarrow> 'a hart \<Rightarrow> 'a hart" where
  "dcsr_write val s =
     (let d = dcsr s AND NOT 0x603 OR val AND 0x603
      in s\<lparr>dcsr := d, stop_the_counter := (d AND cbool ((0x600 :: u64) \<noteq> 0) \<noteq> 0)\<rparr>)"

definition simpoint_write :: "u64 \<Rightarrow> 'd sys \<Rightarrow> 'd sys" where
  "simpoint_write val s =
     (if val AND 3 = 3 then s\<lparr>maxinsns := drop_bit 2 val\<rparr>
      else if val AND 3 = 2 then s\<lparr>benchmark_exit_code := drop_bit 2 val, terminate_simulation := True\<rparr>
      else if val AND 1 \<noteq> 0 \<and> simpoint_roi s then s
      else if val AND 1 = 0 \<and> simpoint_roi s then s\<lparr>simpoint_roi := False\<rparr>
      else if val AND 1 = 0 \<and> \<not> simpoint_roi s then s
      else if simpoint_en_bbv s then s\<lparr>simpoint_roi := True\<rparr> else s)"

definition csr_write :: "u32 \<Rightarrow> u64 \<Rightarrow> 'd sys \<Rightarrow> csr_result \<times> 'd sys" where
  "csr_write csr val s =
    (if csr = 0x001 then (CsrOk, s\<lparr>fflags := lo32 (val AND 0x1f), fs := 3\<rparr>)
     else if csr = 0x002 then (CsrOk, (set_frm (val AND 7) s)\<lparr>fs := 3\<rparr>)
     else if csr = 0x003 then
       (CsrOk, (set_frm (drop_bit 5 val AND 7) s)\<lparr>fflags := lo32 (val AND 0x1f), fs := 3\<rparr>)
     else if csr = 0x008 then
       (if vs s = 0 then (CsrInvalid, s) else (CsrOk, s\<lparr>vstart := lo16 (val AND VSTART_MASK), vs := 3\<rparr>))
     else if csr = 0x009 then
       (if vs s = 0 then (CsrInvalid, s) else (CsrOk, s\<lparr>vxsat := lo8 (val AND VXSAT_MASK), vs := 3\<rparr>))
     else if csr = 0x00A then
       (if vs s = 0 then (CsrInvalid, s) else (CsrOk, s\<lparr>vxrm := lo8 (val AND VXRM_MASK), vs := 3\<rparr>))
     else if csr = 0x00F then
       (if vs s = 0 then (CsrInvalid, s)
        else (let val = val AND VCSR_MASK in
              (CsrOk, s\<lparr>vxsat := lo8 (val AND VCSR_VXSAT), vxrm := lo8 (drop_bit 1 (val AND VCSR_VXRM)), vs := 3\<rparr>)))
     else if csr = 0x100 then
       (CsrOk, set_mstatus (mstatus s AND NOT SSTATUS_MASK OR val AND SSTATUS_MASK) s)
     else if csr = 0x104 then (CsrOk, s\<lparr>mie := merge32 (mie s) (zx32 (mideleg s)) val\<rparr>)
     else if csr = 0x105 then (CsrOk, s\<lparr>stvec := tvec_legal val AND NOT 2\<rparr>)
     else if csr = 0x106 then (CsrOk, s\<lparr>scounteren := lo32 val\<rparr>)
     else if csr = 0x140 then (CsrOk, s\<lparr>sscratch := val\<rparr>)
     else if csr = 0x141 then (CsrOk, s\<lparr>sepc := CANONICAL_S49 (val AND pc_align_mask s)\<rparr>)
     else if csr = 0x142 then (CsrOk, s\<lparr>scause := val AND SCAUSE_MASK\<rparr>)
     else if csr = 0x143 then (CsrOk, s\<lparr>stval := CANONICAL_S49 val\<rparr>)
     else if csr = 0x144 then (CsrOk, s\<lparr>mip := merge32 (mip s) (zx32 (mideleg s)) val\<rparr>)
     else if csr = 0x180 then
       (if priv s = PRV_S \<and> mstatus s AND MSTATUS_TVM \<noteq> 0 then (CsrInvalid, s)
        else (CsrFlushed, satp_write val s))
     else if csr = 0x300 then (CsrOk, set_mstatus val s)
     else if csr = 0x301 then (CsrOk, s)
     else if csr = 0x302 then (CsrOk, s\<lparr>medeleg := merge32 (medeleg s) 0xB109 val\<rparr>)
     else if csr = 0x303 then
       (CsrOk, s\<lparr>mideleg := merge32 (mideleg s) (zx32 (MIP_SSIP OR MIP_STIP OR MIP_SEIP)) val\<rparr>)
     else if csr = 0x304 then
       (CsrOk, s\<lparr>mie := merge32 (mie s)
          (zx32 (MIP_MCIP OR MIP_MEIP OR MIP_SEIP OR MIP_MTIP OR MIP_STIP OR MIP_MSIP OR MIP_SSIP)) val\<rparr>)
     else if csr = 0x305 then
       (CsrOk, s\<lparr>mtvec := tvec_legal val AND (push_bit (physical_addr_len s) 1 - 3)\<rparr>)
     else if csr = 0x306 then (CsrOk, s\<lparr>mcounteren := lo32 val\<rparr>)
     else if csr = 0x320 then (CsrOk, s\<lparr>mcountinhibit := lo32 (val AND NOT 2)\<rparr>)
     else if csr = 0x340 then (CsrOk, s\<lparr>mscratch := val\<rparr>)
     else if csr = 0x341 then (CsrOk, s\<lparr>mepc := CANONICAL_S49 (val AND pc_align_mask s)\<rparr>)
     else if csr = 0x342 then (CsrOk, s\<lparr>mcause := val AND MCAUSE_MASK\<rparr>)
     else if csr = 0x343 then (CsrOk, s\<lparr>mtval := CANONICAL_S49 val\<rparr>)
     else if csr = 0x344 then
       (CsrOk, s\<lparr>mip := merge32 (mip s) (zx32 (MIP_SEIP OR MIP_STIP OR MIP_SSIP)) val\<rparr>)
     else if csr = 0x744 then (CsrOk, s)
     else if csr = 0x7a0 then (CsrOk, s\<lparr>tselect := lo32 (val mod of_nat MAX_TRIGGERS)\<rparr>)
     else if csr = 0x7a1 then (CsrOk, tdata1_write val s)
     else if csr = 0x7a2 then (CsrOk, tdata2_write val s)
     else if csr = 0x7b0 then (if debug_mode s then (CsrOk, dcsr_write val s) else (CsrInvalid, s))
     else if csr = 0x7b1 then
       (if debug_mode s then (CsrOk, s\<lparr>dpc := val AND pc_align_mask s\<rparr>) else (CsrInvalid, s))
     else if csr = 0x7b2 then (if debug_mode s then (CsrOk, s\<lparr>dscratch := val\<rparr>) else (CsrInvalid, s))
     else if 0x323 \<le> csr \<and> csr \<le> 0x33f then
       (CsrOk, s\<lparr>mhpmevent := (mhpmevent s)(unat (csr AND 0x1F) :=
          val AND (HPM_EVENT_SETMASK OR HPM_EVENT_EVENTMASK))\<rparr>)
     else if csr = 0x3A0 \<or> csr = 0x3A2 then (CsrOk, pmpcfg_write (unat (csr - 0x3A0)) val s)
     else if 0x3B0 \<le> csr \<and> csr \<le> 0x3BF then (CsrOk, pmpaddr_write (unat (csr - 0x3B0)) val s)
     else if csr = 0xb00 then (CsrOk, s\<lparr>mcycle := val\<rparr>)
     else if csr = 0xb02 then (CsrOk, s\<lparr>minstret := val\<rparr>)
     else if 0xb03 \<le> csr \<and> csr \<le> 0xb1f then (CsrOk, s)
     else if csr = 0x8C2 then (CsrOk, simpoint_write val s)
     else (CsrInvalid, s))"

end
