(* ===== verification/Trap.thy ===== *)
theory Trap
  imports Csr
begin

text \<open>
  Traps (\<open>src/src/riscv_cpu.cpp\<close>): entry, return, and the choice of the pending
  interrupt.
\<close>

section \<open>Entry and return\<close>

definition set_priv :: "u8 \<Rightarrow> 'a hart \<Rightarrow> 'a hart" where
  "set_priv p s = (if priv s \<noteq> p then (tlb_flush_all s)\<lparr>priv := p\<rparr> else s)"

definition trap_delegated :: "u64 \<Rightarrow> 'a hart \<Rightarrow> bool" where
  "trap_delegated cause s =
     (if priv s \<le> PRV_S then
        (if cause AND CAUSE_INTERRUPT \<noteq> 0
         then drop_bit (unat (cause AND 63)) (mideleg s) AND 1 \<noteq> 0
         else drop_bit (unat cause) (medeleg s) AND 1 \<noteq> 0)
      else False)"

definition raise_exception2 :: "u64 \<Rightarrow> u64 \<Rightarrow> 'a hart \<Rightarrow> 'a hart" where
  "raise_exception2 cause tval s =
     (let (s, effective_tvec) =
        (if trap_delegated cause s then
           (let s = s\<lparr>scause := cause, sepc := CANONICAL_S49 (pc s), stval := CANONICAL_S49 tval\<rparr>;
                s = s\<lparr>mstatus := mstatus s AND NOT MSTATUS_SPIE
                       OR push_bit MSTATUS_SPIE_SHIFT (cbool (mstatus s AND MSTATUS_SIE \<noteq> 0))\<rparr>;
                s = s\<lparr>mstatus := mstatus s AND NOT MSTATUS_SPP OR push_bit MSTATUS_SPP_SHIFT (zx8 (priv s))\<rparr>;
                s = s\<lparr>mstatus := mstatus s AND NOT MSTATUS_SIE\<rparr>;
                s = set_priv PRV_S s
            in (s, stvec s))
         else
           (let s = s\<lparr>mcause := cause, mepc := CANONICAL_S49 (pc s), mtval := CANONICAL_S49 tval\<rparr>;
                s = s\<lparr>mstatus := mstatus s AND NOT MSTATUS_MPIE
                       OR push_bit MSTATUS_MPIE_SHIFT (cbool (mstatus s AND MSTATUS_MIE \<noteq> 0))\<rparr>;
                s = s\<lparr>mstatus := mstatus s AND NOT MSTATUS_MPP OR push_bit MSTATUS_MPP_SHIFT (zx8 (priv s))\<rparr>;
                s = s\<lparr>mstatus := mstatus s AND NOT MSTATUS_MIE\<rparr>;
                s = set_priv PRV_M s
            in (s, mtvec s)));
          mode = effective_tvec AND 3;
          base = effective_tvec AND NOT 3
      in s\<lparr>pc := (if mode = 1 \<and> cause AND CAUSE_INTERRUPT \<noteq> 0
                  then base + 4 * (cause AND NOT CAUSE_INTERRUPT) else base)\<rparr>)"

definition raise_exception :: "u64 \<Rightarrow> 'a hart \<Rightarrow> 'a hart" where
  "raise_exception cause s = raise_exception2 cause 0 s"

definition handle_sret :: "'a hart \<Rightarrow> 'a hart" where
  "handle_sret s =
     (let s = s\<lparr>mstatus := mstatus s AND NOT MSTATUS_SIE\<rparr>;
          s = s\<lparr>mstatus := mstatus s OR drop_bit 4 (mstatus s) AND MSTATUS_SIE\<rparr>;
          s = s\<lparr>mstatus := mstatus s OR MSTATUS_SPIE\<rparr>;
          spp = drop_bit MSTATUS_SPP_SHIFT (mstatus s AND MSTATUS_SPP);
          s = s\<lparr>mstatus := mstatus s AND NOT MSTATUS_SPP\<rparr>;
          s = set_priv (lo8 spp) s
      in s\<lparr>pc := sepc s\<rparr>)"

definition handle_mret :: "'a hart \<Rightarrow> 'a hart" where
  "handle_mret s =
     (let s = s\<lparr>mstatus := mstatus s AND NOT MSTATUS_MIE\<rparr>;
          s = s\<lparr>mstatus := mstatus s OR drop_bit 4 (mstatus s) AND MSTATUS_MIE\<rparr>;
          s = s\<lparr>mstatus := mstatus s OR MSTATUS_MPIE\<rparr>;
          mpp = drop_bit MSTATUS_MPP_SHIFT (mstatus s AND MSTATUS_MPP);
          s = s\<lparr>mstatus := mstatus s AND NOT MSTATUS_MPP\<rparr>;
          s = set_priv (lo8 mpp) s
      in s\<lparr>pc := mepc s\<rparr>)"

definition handle_dret :: "'a hart \<Rightarrow> 'a hart" where
  "handle_dret s =
     (let s = s\<lparr>stop_the_counter := False, debug_mode := False\<rparr>;
          s = set_priv (lo8 (dcsr s AND 3)) s
      in s\<lparr>pc := dpc s\<rparr>)"

section \<open>Interrupts\<close>

definition get_pending_irq_mask :: "'a hart \<Rightarrow> u32" where
  "get_pending_irq_mask s =
     (let pending_ints = mip s AND mie s in
      if pending_ints = 0 then 0
      else (let enabled_ints =
              (if priv s = PRV_M then (if mstatus s AND MSTATUS_MIE \<noteq> 0 then NOT (mideleg s) else 0)
               else if priv s = PRV_S then
                 (if mstatus s AND MSTATUS_SIE \<noteq> 0 then NOT (mideleg s) OR mideleg s else NOT (mideleg s))
               else -1)
            in pending_ints AND enabled_ints))"

text \<open>The loop from bit 31 down to bit 1; \<open>None\<close> is -1.\<close>

fun irq_msb_from :: "u32 \<Rightarrow> nat \<Rightarrow> nat option" where
  "irq_msb_from m 0 = None"
| "irq_msb_from m (Suc i) = (if drop_bit (Suc i) m AND 1 \<noteq> 0 then Some (Suc i) else irq_msb_from m i)"

definition get_irq_platspecific :: "u32 \<Rightarrow> nat option" where
  "get_irq_platspecific m = irq_msb_from (m AND push_bit 12 0xFFFFFFFF) 31"

definition irq_priorities :: "nat list" where
  "irq_priorities = [11, 3, 7, 10, 2, 6, 9, 1, 5, 8, 0, 4]"

definition get_irq_num :: "u32 \<Rightarrow> nat option" where
  "get_irq_num m =
     (if m \<ge> push_bit 12 1 then get_irq_platspecific m
      else find (\<lambda>p. drop_bit p m AND 1 \<noteq> 0) irq_priorities)"

text \<open>The flag is the C result being non-zero; the code -1 for no interrupt is or-ed
  into the cause as it is.\<close>

definition raise_interrupt :: "'a hart \<Rightarrow> bool \<times> 'a hart" where
  "raise_interrupt s =
     (let m = get_pending_irq_mask s in
      if m = 0 then (False, s)
      else (let irq_num = (case get_irq_num m of None \<Rightarrow> -1 | Some i \<Rightarrow> of_nat i)
            in (True, raise_exception (irq_num OR CAUSE_INTERRUPT) s)))"

end
