(* ===== verification/Stf.thy ===== *)
theory Stf
  imports Mmu
begin

text \<open>
  Trace generation (\<open>src/src/majordomo_stf.cpp\<close>): the state machine that opens
  and closes a trace on the start and stop opcodes or on instruction counts,
  and the records emitted for an instruction.  The writer object of the trace
  library is part of \<open>env\<close>, reached through \<open>env_ops\<close>; messages on the console
  are left out.
\<close>

definition START_TRACE_OPC :: u32 where [simp]: "START_TRACE_OPC = 0x00004033"
definition STOP_TRACE_OPC :: u32 where [simp]: "STOP_TRACE_OPC = 0x0010c033"

section \<open>The writer\<close>

definition stf_put :: "'d env_ops \<Rightarrow> stf_record \<Rightarrow> 'd sys \<Rightarrow> 'd sys" where
  "stf_put E r s = s\<lparr>env := stf_writer_put E r (env s)\<rparr>"

definition stf_puts :: "'d env_ops \<Rightarrow> stf_record list \<Rightarrow> 'd sys \<Rightarrow> 'd sys" where
  "stf_puts E rs s = foldl (\<lambda>s r. stf_put E r s) s rs"

definition stf_record_state :: "'d env_ops \<Rightarrow> u64 \<Rightarrow> 'd sys \<Rightarrow> 'd sys" where
  "stf_record_state E lpc s =
     (let s = stf_put E (ForcePCRecord lpc) s
      in if stf_trace_register_state s
         then stf_puts E (map (\<lambda>rn. InstRegState False (of_nat rn) (reg s rn)) [0..<32]
                          @ map (\<lambda>rn. InstRegState True (of_nat rn) (fp_reg s rn)) [0..<32]) s
         else s)"

definition stf_asid :: "'a hart \<Rightarrow> u64" where
  "stf_asid s = drop_bit 4 (satp s) AND 0xFFFF"

definition stf_trace_open :: "'d env_ops \<Rightarrow> u64 \<Rightarrow> 'd sys \<Rightarrow> 'd sys" where
  "stf_trace_open E PC s =
     (let s = s\<lparr>stf_trace_opened := True, stf_prog_asid := stf_asid s\<rparr>;
          s = (if \<not> stf_writer_is_open E (env s)
               then s\<lparr>env := stf_writer_open E (stf_force_zero_sha s) PC (env s)\<rparr> else s)
      in stf_record_state E PC s)"

definition stf_trace_close :: "'d env_ops \<Rightarrow> u64 \<Rightarrow> 'd sys \<Rightarrow> 'd sys" where
  "stf_trace_close E PC s =
     (if stf_writer_is_open E (env s)
      then s\<lparr>stf_trace_opened := False, stf_macro_tracing_active := False, stf_insn_tracing_active := False,
             env := stf_writer_close E (env s)\<rparr>
      else s)"

section \<open>Triggers\<close>

definition stf_trace_trigger :: "'d env_ops \<Rightarrow> u64 \<Rightarrow> u32 \<Rightarrow> 'd sys \<Rightarrow> bool \<times> 'd sys" where
  "stf_trace_trigger E PC insn s =
     (if \<not> stf_trace s \<or> stf_insn_num_tracing s then (False, s)
      else
        (let s = s\<lparr>stf_is_start_opc := (insn = START_TRACE_OPC), stf_is_stop_opc := (insn = STOP_TRACE_OPC)\<rparr>;
             start = (\<not> stf_macro_tracing_active s \<and> stf_is_start_opc s);
             stop = (stf_macro_tracing_active s \<and> stf_is_stop_opc s);
             s = (if start then stf_trace_open E PC (s\<lparr>stf_macro_tracing_active := True\<rparr>)
                  else if stop then
                    (let s = stf_trace_close E PC (s\<lparr>stf_macro_tracing_active := False\<rparr>)
                     in if stf_exit_on_stop_opc s
                        then s\<lparr>terminate_simulation := True, stf_has_exit_pending := True\<rparr> else s)
                  else s)
         in (stf_macro_tracing_active s, s)))"

definition stf_trace_trigger_insn :: "'d env_ops \<Rightarrow> u64 \<Rightarrow> 'd sys \<Rightarrow> bool \<times> 'd sys" where
  "stf_trace_trigger_insn E PC s =
     (if \<not> stf_trace s \<or> \<not> stf_insn_num_tracing s then (False, s)
      else
        (let start = (\<not> stf_insn_tracing_active s \<and> num_executed s = stf_insn_start s);
             stop = (stf_insn_tracing_active s \<and> stf_num_traced s = stf_insn_length s);
             s = (if start then stf_trace_open E PC (s\<lparr>stf_insn_tracing_active := True\<rparr>)
                  else if stop then
                    (let s = stf_trace_close E PC (s\<lparr>stf_insn_tracing_active := False\<rparr>)
                     in if stf_exit_on_stop_opc s
                        then s\<lparr>terminate_simulation := True, stf_has_exit_pending := True\<rparr> else s)
                  else s)
         in (stf_insn_tracing_active s, s)))"

section \<open>Records of an instruction\<close>

definition stf_emit_memory_records :: "'d env_ops \<Rightarrow> 'd sys \<Rightarrow> 'd sys" where
  "stf_emit_memory_records E s =
     (let s = stf_puts E (concat (map (\<lambda>a. [InstMemAccessRead (sma_vaddr a) (sma_size a),
                                            InstMemContentRecord (sma_value a)]) (stf_mem_reads s))) s;
          s = s\<lparr>stf_mem_reads := []\<rparr>;
          s = stf_puts E (concat (map (\<lambda>a. [InstMemAccessWrite (sma_vaddr a) (sma_size a),
                                            InstMemContentRecord (sma_value a)]) (stf_mem_writes s))) s
      in s\<lparr>stf_mem_writes := []\<rparr>)"

text \<open>The value recorded for a floating point source is that of the integer register.\<close>

definition stf_emit_register_records :: "'d env_ops \<Rightarrow> 'd sys \<Rightarrow> 'd sys" where
  "stf_emit_register_records E s =
     (let s = stf_puts E (map (\<lambda>r. InstRegSource False r (reg s (unat r))) (stf_read_regs s)) s;
          s = s\<lparr>stf_read_regs := []\<rparr>;
          s = stf_puts E (map (\<lambda>r. InstRegSource True r (reg s (unat r))) (stf_read_fp_regs s)) s;
          s = s\<lparr>stf_read_fp_regs := []\<rparr>;
          s = stf_puts E (map (\<lambda>r. InstRegDest False r (reg s (unat r))) (stf_write_regs s)) s;
          s = s\<lparr>stf_write_regs := []\<rparr>;
          s = stf_puts E (map (\<lambda>r. InstRegDest True r (fp_reg s (unat r))) (stf_write_fp_regs s)) s
      in s\<lparr>stf_write_fp_regs := []\<rparr>)"

text \<open>\<open>pc0\<close> is the program counter of hart 0, whatever hart is traced.\<close>

definition stf_trace_element :: "'d env_ops \<Rightarrow> u64 \<Rightarrow> u8 \<Rightarrow> u64 \<Rightarrow> u32 \<Rightarrow> 'd sys \<Rightarrow> 'd sys" where
  "stf_trace_element E pc0 pr lpc insn_raw s =
     (let s =
        (if uint pr \<le> stf_highest_priv_mode s \<and> pending_exception s = -1 \<and> stf_prog_asid s = stf_asid s then
           (let s = s\<lparr>stf_num_traced := stf_num_traced s + 1\<rparr>;
                inst_width = (if insn_raw AND 0x3 = 0x3 then 4 else 2 :: u64);
                skip_record = (info s = ctf_nop \<and> pc s \<noteq> lpc + inst_width);
                s = (if info s \<noteq> ctf_nop then stf_put E (InstPCTargetRecord pc0) s else s);
                s = (if \<not> skip_record then
                       (let s = (if \<not> stf_disable_memory_records s then stf_emit_memory_records E s else s);
                            s = (if stf_trace_register_state s then stf_emit_register_records E s else s)
                        in stf_put E (if inst_width = 4 then InstOpcode32Record insn_raw
                                      else InstOpcode16Record (insn_raw AND 0xFFFF)) s)
                     else s)
            in if pending_exception s \<noteq> -1 then stf_put E (EventRecord (pending_exception s)) s else s)
         else s)
      in s\<lparr>stf_mem_reads := [], stf_mem_writes := []\<rparr>)"

end
