(* ===== verification/Alu.thy ===== *)
theory Alu
  imports Prelude "HOL-Library.Signed_Division"
begin

text \<open>
  The arithmetic helpers of \<open>src/include/majordomo_template.h\<close> at \<open>XLEN = 64\<close>:
  bit manipulation (Zbb), carry-less multiplication (Zbc), division and the
  high halves of products.

  A loop over bit or byte positions is a fold over the positions in the order
  of the source.  The compiler builtins \<open>__builtin_popcount\<close>, \<open>__builtin_ctz\<close> and
  \<open>std::countl_zero\<close> are given by their documented meaning; \<open>__builtin_ctz\<close> of 0,
  which C leaves undefined, is the operand width, the result of the \<open>tzcnt\<close>
  instruction.  A shift by the operand width, undefined in C, is 0.
\<close>

section \<open>Bit manipulation\<close>

definition shift_mask :: u64 where [simp]: "shift_mask = 0x3f"

definition orc_b64 :: "u64 \<Rightarrow> u64" where
  "orc_b64 rs = foldl (\<lambda>rd i. rd OR push_bit (8 * i) (if drop_bit (8 * i) rs AND 0xff = 0 then 0 else 0xff))
     0 [0..<8]"

definition rev8_64 :: "u64 \<Rightarrow> u64" where
  "rev8_64 rs = foldl (\<lambda>rd i. rd OR push_bit ((8 - 1 - i) * 8) (drop_bit (i * 8) rs AND 0xff)) 0 [0..<8]"

definition rol64 :: "u64 \<Rightarrow> u64 \<Rightarrow> u64" where
  "rol64 rs1 rs2 = (let shift = unat (rs2 mod 64) in push_bit shift rs1 OR drop_bit (64 - shift) rs1)"

definition rolw64 :: "u64 \<Rightarrow> u64 \<Rightarrow> u64" where
  "rolw64 rs1 rs2 =
     (let shamt = lo32 rs2 AND 31;
          v1 = lo32 rs1;
          res32 = push_bit (unat shamt) v1 OR drop_bit (unat ((32 - shamt) AND 31)) v1
      in sx32 res32)"

definition ror64 :: "u64 \<Rightarrow> u64 \<Rightarrow> u64" where
  "ror64 rs1 rs2 =
     (let shamt = rs2 AND shift_mask
      in drop_bit (unat shamt) rs1 OR push_bit (unat ((64 - shamt) AND shift_mask)) rs1)"

definition rori64 :: "u64 \<Rightarrow> u64 \<Rightarrow> u64 \<Rightarrow> u64" where
  "rori64 rd rs1 shamt =
     (if shamt > 63 then rd
      else drop_bit (unat shamt) rs1 OR push_bit (unat ((64 - shamt) AND shift_mask)) rs1)"

text \<open>The operand is not narrowed to 32 bits before the shifts.\<close>

definition roriw64 :: "u64 \<Rightarrow> u64 \<Rightarrow> u64" where
  "roriw64 rs1 shamt5 =
     (let r = lo32 (drop_bit (unat shamt5) rs1 OR push_bit (unat ((32 - shamt5) AND 31)) rs1)
      in sx32 r)"

definition rorw64 :: "u64 \<Rightarrow> u64 \<Rightarrow> u64" where
  "rorw64 rs1 rs2 =
     (let shamt = lo32 rs2 AND 31;
          v1 = lo32 rs1;
          res32 = drop_bit (unat shamt) v1 OR push_bit (unat ((32 - shamt) AND 31)) v1
      in sx32 res32)"

definition builtin_popcount :: "'a::len word \<Rightarrow> nat" where
  "builtin_popcount v = length (filter (bit v) [0..<LENGTH('a)])"

fun ctz_from :: "'a::len word \<Rightarrow> nat \<Rightarrow> nat \<Rightarrow> nat" where
  "ctz_from v i 0 = i"
| "ctz_from v i (Suc n) = (if bit v i then i else ctz_from v (Suc i) n)"

definition builtin_ctz :: "'a::len word \<Rightarrow> nat" where
  "builtin_ctz v = ctz_from v 0 LENGTH('a)"

fun clz_from :: "'a::len word \<Rightarrow> nat \<Rightarrow> nat" where
  "clz_from v 0 = 0"
| "clz_from v (Suc n) = (if bit v n then 0 else Suc (clz_from v n))"

definition countl_zero :: "'a::len word \<Rightarrow> nat" where
  "countl_zero v = clz_from v LENGTH('a)"

definition cpop64 :: "u64 \<Rightarrow> u64" where "cpop64 val = of_nat (builtin_popcount val)"
definition cpopw64 :: "u64 \<Rightarrow> u64" where "cpopw64 val = of_nat (builtin_popcount (lo32 val))"
definition ctz_64 :: "u64 \<Rightarrow> u64" where "ctz_64 val = (if val = 0 then 64 else of_nat (builtin_ctz val))"
definition ctzw64 :: "u64 \<Rightarrow> u64" where
  "ctzw64 val = (if val = 0 then 32 else of_nat (builtin_ctz (lo32 val)))"
definition clz64 :: "u64 \<Rightarrow> u64" where "clz64 val = of_nat (countl_zero val)"
definition clzw64 :: "u64 \<Rightarrow> u64" where "clzw64 val = of_nat (countl_zero (lo32 val))"

definition sext_h64 :: "u64 \<Rightarrow> u64" where "sext_h64 val = signed_drop_bit (64 - 16) (push_bit (64 - 16) val)"
definition sext_b64 :: "u64 \<Rightarrow> u64" where "sext_b64 val = signed_drop_bit (64 - 8) (push_bit (64 - 8) val)"

definition get_mask :: "nat \<Rightarrow> u64" where
  "get_mask len = (if len = 64 then NOT 0 else push_bit len 1 - 1)"
definition clear_bits :: "u64 \<Rightarrow> nat \<Rightarrow> nat \<Rightarrow> u64" where
  "clear_bits v start stop = v AND NOT (get_mask (start + 1) AND NOT (get_mask stop))"
definition repeat_bit :: "u64 \<Rightarrow> nat \<Rightarrow> u64" where
  "repeat_bit v bit_pos = (if drop_bit bit_pos v AND 1 \<noteq> 0 then NOT 0 else 0)"

section \<open>Division\<close>

text \<open>C division truncates towards zero.\<close>

definition sdiv_word :: "'a::len word \<Rightarrow> 'a word \<Rightarrow> 'a word" where
  "sdiv_word a b = word_of_int (sint a sdiv sint b)"

definition smod_word :: "'a::len word \<Rightarrow> 'a word \<Rightarrow> 'a word" where
  "smod_word a b = word_of_int (sint a smod sint b)"

definition div32 :: "u32 \<Rightarrow> u32 \<Rightarrow> u32" where
  "div32 a b = (if b = 0 then -1 else if a = 0x80000000 \<and> b = -1 then a else sdiv_word a b)"
definition div64 :: "u64 \<Rightarrow> u64 \<Rightarrow> u64" where
  "div64 a b = (if b = 0 then -1 else if a = 0x8000000000000000 \<and> b = -1 then a else sdiv_word a b)"
definition divu32 :: "u32 \<Rightarrow> u32 \<Rightarrow> u32" where
  "divu32 a b = (if b = 0 then -1 else a div b)"
definition divu64 :: "u64 \<Rightarrow> u64 \<Rightarrow> u64" where
  "divu64 a b = (if b = 0 then -1 else a div b)"
definition rem32 :: "u32 \<Rightarrow> u32 \<Rightarrow> u32" where
  "rem32 a b = (if b = 0 then a else if a = 0x80000000 \<and> b = -1 then 0 else smod_word a b)"
definition rem64 :: "u64 \<Rightarrow> u64 \<Rightarrow> u64" where
  "rem64 a b = (if b = 0 then a else if a = 0x8000000000000000 \<and> b = -1 then 0 else smod_word a b)"
definition remu32 :: "u32 \<Rightarrow> u32 \<Rightarrow> u32" where
  "remu32 a b = (if b = 0 then a else a mod b)"
definition remu64 :: "u64 \<Rightarrow> u64 \<Rightarrow> u64" where
  "remu64 a b = (if b = 0 then a else a mod b)"

section \<open>Products\<close>

definition clmul64 :: "u64 \<Rightarrow> u64 \<Rightarrow> u64" where
  "clmul64 v1 v2 = foldl (\<lambda>val i. if drop_bit i v2 AND 1 \<noteq> 0 then val XOR push_bit i v1 else val) 0 [0..<64]"

definition clmulh64 :: "u64 \<Rightarrow> u64 \<Rightarrow> u64" where
  "clmulh64 v1 v2 = foldl (\<lambda>val i. if drop_bit i v2 AND 1 \<noteq> 0 then val XOR drop_bit (64 - i) v1 else val) 0 [1..<64]"

definition clmulr64 :: "u64 \<Rightarrow> u64 \<Rightarrow> u64" where
  "clmulr64 v1 v2 = foldl (\<lambda>val i. if drop_bit i v2 AND 1 \<noteq> 0 then val XOR drop_bit (64 - i - 1) v1 else val) 0 [0..<64]"

text \<open>The variants with 128 bit integers; the product of two \<open>int128_t\<close> wraps.\<close>

type_synonym u128 = "128 word"

definition mulh64 :: "u64 \<Rightarrow> u64 \<Rightarrow> u64" where
  "mulh64 a b = ucast (signed_drop_bit 64 ((scast a :: u128) * scast b))"
definition mulhsu64 :: "u64 \<Rightarrow> u64 \<Rightarrow> u64" where
  "mulhsu64 a b = ucast (signed_drop_bit 64 ((scast a :: u128) * ucast b))"
definition mulhu64 :: "u64 \<Rightarrow> u64 \<Rightarrow> u64" where
  "mulhu64 a b = ucast (signed_drop_bit 64 ((ucast a :: u128) * ucast b))"

text \<open>The variants for compilers without 128 bit integers.\<close>

definition mulhu64_halves :: "u64 \<Rightarrow> u64 \<Rightarrow> u64" where
  "mulhu64_halves a b =
     (let a0 = zx32 (lo32 a); a1 = zx32 (lo32 (drop_bit 32 a));
          b0 = zx32 (lo32 b); b1 = zx32 (lo32 (drop_bit 32 b));
          r00 = a0 * b0; r01 = a0 * b1; r10 = a1 * b0; r11 = a1 * b1;
          c = drop_bit 32 r00 + zx32 (lo32 r01) + zx32 (lo32 r10);
          c = drop_bit 32 c + drop_bit 32 r01 + drop_bit 32 r10 + zx32 (lo32 r11);
          r2 = lo32 c;
          r3 = lo32 (drop_bit 32 c + drop_bit 32 r11)
      in push_bit 32 (zx32 r3) OR zx32 r2)"

definition mulh64_halves :: "u64 \<Rightarrow> u64 \<Rightarrow> u64" where
  "mulh64_halves a b =
     (let r1 = mulhu64_halves a b;
          r1 = (if sint a < 0 then r1 - a else r1)
      in if sint b < 0 then r1 - b else r1)"

definition mulhsu64_halves :: "u64 \<Rightarrow> u64 \<Rightarrow> u64" where
  "mulhsu64_halves a b =
     (let r1 = mulhu64_halves a b in if sint a < 0 then r1 - a else r1)"

section \<open>Rotations and byte permutations\<close>

lemma unat_lo32: "unat (lo32 x) = unat x mod 2 ^ 32"
  by (simp add: unsigned_ucast_eq take_bit_eq_mod)

lemma sub_and_mask64:
  fixes s :: u64
  assumes "unat s < 64"
  shows "unat ((64 - s) AND 0x3f) = (64 - unat s) mod 64"
proof -
  have "s \<le> 64" using assms by (simp add: word_le_nat_alt)
  then have "unat (64 - s) = 64 - unat s" by (simp add: unat_sub)
  then show ?thesis by (simp add: and_low_mask unat_take_bit)
qed

lemma sub_and_mask32:
  fixes s :: u32
  assumes "unat s < 32"
  shows "unat ((32 - s) AND 0x1f) = (32 - unat s) mod 32"
proof -
  have "s \<le> 32" using assms by (simp add: word_le_nat_alt)
  then have "unat (32 - s) = 32 - unat s" by (simp add: unat_sub)
  then show ?thesis by (simp add: and_low_mask unat_take_bit)
qed

lemma or_shifts_rotr:
  fixes w :: "'a::len word"
  assumes "k < LENGTH('a)"
  shows "drop_bit k w OR push_bit ((LENGTH('a) - k) mod LENGTH('a)) w = word_rotr k w"
proof (rule bit_word_eqI)
  fix n assume n: "n < LENGTH('a)"
  show "bit (drop_bit k w OR push_bit ((LENGTH('a) - k) mod LENGTH('a)) w) n = bit (word_rotr k w) n"
  proof (cases "k = 0")
    case True
    with n show ?thesis by (simp add: bit_or_iff bit_word_rotr_iff bit_drop_bit_eq)
  next
    case False
    then have "(LENGTH('a) - k) mod LENGTH('a) = LENGTH('a) - k" using assms by simp
    moreover have "(n + k) mod LENGTH('a) = (if n + k < LENGTH('a) then n + k else n + k - LENGTH('a))"
      using n assms by (simp add: mod_if)
    moreover have "bit w (n + k) \<longrightarrow> n + k < LENGTH('a)" by (simp add: bit_imp_le_length)
    ultimately show ?thesis using n assms
      by (auto simp: bit_or_iff bit_word_rotr_iff bit_drop_bit_eq bit_push_bit_iff algebra_simps)
  qed
qed

lemma or_shifts_rotl:
  fixes w :: "'a::len word"
  assumes "k < LENGTH('a)"
  shows "push_bit k w OR drop_bit ((LENGTH('a) - k) mod LENGTH('a)) w = word_rotl k w"
proof (rule bit_word_eqI)
  fix n assume n: "n < LENGTH('a)"
  show "bit (push_bit k w OR drop_bit ((LENGTH('a) - k) mod LENGTH('a)) w) n = bit (word_rotl k w) n"
  proof (cases "k = 0")
    case True
    with n show ?thesis by (simp add: bit_or_iff bit_word_rotl_iff bit_drop_bit_eq)
  next
    case False
    then have "(LENGTH('a) - k) mod LENGTH('a) = LENGTH('a) - k" "k mod LENGTH('a) = k" using assms by simp_all
    moreover have "(n + (LENGTH('a) - k)) mod LENGTH('a) = (if n < k then n + LENGTH('a) - k else n - k)"
      using n assms by (simp add: mod_if)
    moreover have "bit w (n + (LENGTH('a) - k)) \<longrightarrow> n < k" using assms bit_imp_le_length by fastforce
    ultimately show ?thesis using n assms
      by (auto simp: bit_or_iff bit_word_rotl_iff bit_drop_bit_eq bit_push_bit_iff algebra_simps)
  qed
qed

lemma in_byte_iff: "8 * k \<le> n \<and> n - 8 * k < 8 \<longleftrightarrow> n div 8 = k" for k n :: nat
proof
  assume "8 * k \<le> n \<and> n - 8 * k < 8"
  then show "n div 8 = k" by (intro div_nat_eqI) auto
next
  assume "n div 8 = k"
  then show "8 * k \<le> n \<and> n - 8 * k < 8" by (auto simp: minus_mult_div_eq_mod)
qed

lemma bit_rev8: "bit (rev8_64 x) n \<longleftrightarrow> n < 64 \<and> bit x (8 * (7 - n div 8) + n mod 8)"
proof -
  have byte: "bit (push_bit ((8 - 1 - i) * 8) (drop_bit (i * 8) x AND 0xff)) n \<longleftrightarrow>
      n < 64 \<and> n div 8 = 7 - i \<and> bit x (8 * i + n mod 8)" for i
  proof -
    have "bit (push_bit ((8 - 1 - i) * 8) (drop_bit (i * 8) x AND 0xff)) n \<longleftrightarrow>
      n < 64 \<and> (8 * (7 - i) \<le> n \<and> n - 8 * (7 - i) < 8) \<and> bit x (8 * i + (n - 8 * (7 - i)))"
      by (auto simp: bit_push_bit_iff and_low_mask bit_take_bit_iff bit_drop_bit_eq mult.commute)
    also have "\<dots> \<longleftrightarrow> n < 64 \<and> n div 8 = 7 - i \<and> bit x (8 * i + n mod 8)"
      unfolding in_byte_iff by (metis minus_mult_div_eq_mod)
    finally show ?thesis .
  qed
  have "bit (rev8_64 x) n \<longleftrightarrow> (\<exists>i<8. n < 64 \<and> n div 8 = 7 - i \<and> bit x (8 * i + n mod 8))"
    unfolding rev8_64_def bit_foldl_or byte by auto
  also have "\<dots> \<longleftrightarrow> n < 64 \<and> bit x (8 * (7 - n div 8) + n mod 8)"
  proof
    assume "\<exists>i<8. n < 64 \<and> n div 8 = 7 - i \<and> bit x (8 * i + n mod 8)"
    then obtain i where i: "i < 8" "n < 64" "n div 8 = 7 - i" "bit x (8 * i + n mod 8)" by blast
    then have "7 - n div 8 = i" by simp
    with i show "n < 64 \<and> bit x (8 * (7 - n div 8) + n mod 8)" by metis
  next
    assume "n < 64 \<and> bit x (8 * (7 - n div 8) + n mod 8)"
    then show "\<exists>i<8. n < 64 \<and> n div 8 = 7 - i \<and> bit x (8 * i + n mod 8)"
      by (intro exI[of _ "7 - n div 8"]) auto
  qed
  finally show ?thesis .
qed

lemma rev8_involution: "rev8_64 (rev8_64 x) = x"
proof (rule bit_word_eqI)
  fix n assume "n < LENGTH(64)"
  then have "n div 8 \<le> 7" "8 * (n div 8) + n mod 8 = n" by simp_all
  then show "bit (rev8_64 (rev8_64 x)) n = bit x n"
    using \<open>n < LENGTH(64)\<close> unfolding bit_rev8 by auto
qed

lemma ror64_rotr: "ror64 a b = word_rotr (unat b mod 64) a"
proof -
  have k: "unat (b AND 0x3f) = unat b mod 64" by (simp add: and_low_mask unat_take_bit)
  then have "unat (b AND 0x3f) < 64" by simp
  from sub_and_mask64[OF this] show ?thesis
    using or_shifts_rotr[of "unat b mod 64" a] by (simp add: ror64_def k)
qed

lemma rorw64_rotr: "rorw64 a b = sx32 (word_rotr (unat b mod 32) (lo32 a))"
proof -
  have k: "unat (lo32 b AND 0x1f) = unat b mod 32"
    by (simp add: and_low_mask unat_take_bit unat_lo32 mod_mod_cancel)
  then have "unat (lo32 b AND 0x1f) < 32" by simp
  from sub_and_mask32[OF this] show ?thesis
    using or_shifts_rotr[of "unat b mod 32" "lo32 a"] by (simp add: rorw64_def k)
qed

lemma rol64_rotl: "rol64 a b = word_rotl (unat b mod 64) a"
proof (cases "unat b mod 64 = 0")
  case True
  then have "unat (b mod 64) = 0" by (simp add: unat_mod)
  moreover have "word_rotl 0 a = a" using or_shifts_rotl[of 0 a] by simp
  ultimately show ?thesis using True by (simp add: rol64_def)
next
  case False
  then have "(64 - unat b mod 64) mod 64 = 64 - unat b mod 64" by simp
  then show ?thesis using or_shifts_rotl[of "unat b mod 64" a] by (simp add: rol64_def unat_mod)
qed

lemma rolw64_rotl: "rolw64 a b = sx32 (word_rotl (unat b mod 32) (lo32 a))"
proof -
  have k: "unat (lo32 b AND 0x1f) = unat b mod 32"
    by (simp add: and_low_mask unat_take_bit unat_lo32 mod_mod_cancel)
  then have "unat (lo32 b AND 0x1f) < 32" by simp
  from sub_and_mask32[OF this] show ?thesis
    using or_shifts_rotl[of "unat b mod 32" "lo32 a"] by (simp add: rolw64_def k)
qed

section \<open>Carry-less products\<close>

text \<open>Bit \<open>n\<close> of the 127 bit product of two polynomials over GF(2).\<close>

definition clprod_bit :: "u64 \<Rightarrow> u64 \<Rightarrow> nat \<Rightarrow> bool" where
  "clprod_bit v1 v2 n = odd (length (filter (\<lambda>i. i \<le> n \<and> bit v2 i \<and> bit v1 (n - i)) [0..<64]))"

lemma drop_bit_and_1: "drop_bit i v AND 1 \<noteq> 0 \<longleftrightarrow> bit v i" for v :: "'a::len word"
  by (simp add: and_one_bit bit_drop_bit_eq)

lemma bit_clmul64: "bit (clmul64 v1 v2) n \<longleftrightarrow> n < 64 \<and> clprod_bit v1 v2 n"
proof (cases "n < 64")
  case True
  then have "filter (\<lambda>i. bit v2 i \<and> i \<le> n \<and> bit v1 (n - i)) [0..<64] =
        filter (\<lambda>i. i \<le> n \<and> bit v2 i \<and> bit v1 (n - i)) [0..<64]"
    by (intro filter_cong) (auto simp del: upt_rec_numeral)
  with True show ?thesis
    by (simp add: clmul64_def clprod_bit_def bit_foldl_xor drop_bit_and_1 bit_push_bit_iff
        del: upt_rec_numeral)
next
  case False
  then show ?thesis by (auto dest: bit_imp_le_length)
qed

lemma bit_clmulh64: "bit (clmulh64 v1 v2) n \<longleftrightarrow> clprod_bit v1 v2 (n + 64)"
proof -
  have zero: "\<not> bit v1 (n + 64)" by (auto dest: bit_imp_le_length)
  have "filter (\<lambda>i. bit v2 i \<and> bit v1 (64 - i + n)) [1..<64] =
        filter (\<lambda>i. i \<le> n + 64 \<and> bit v2 i \<and> bit v1 (n + 64 - i)) [1..<64]"
    by (rule filter_cong) (auto simp: algebra_simps simp del: upt_rec_numeral)
  also have "\<dots> = filter (\<lambda>i. i \<le> n + 64 \<and> bit v2 i \<and> bit v1 (n + 64 - i)) (0 # [1..<64])"
    by (simp only: filter.simps zero diff_zero simp_thms if_False)
  also have "0 # [1..<64] = [0..<64]" using upt_conv_Cons[of 0 64] by (simp only: zero_less_numeral One_nat_def)
  finally show ?thesis
    by (simp add: clmulh64_def clprod_bit_def bit_foldl_xor drop_bit_and_1 bit_drop_bit_eq
        del: upt_rec_numeral)
qed

lemma bit_clmulr64: "bit (clmulr64 v1 v2) n \<longleftrightarrow> clprod_bit v1 v2 (n + 63)"
proof -
  have "filter (\<lambda>i. bit v2 i \<and> bit v1 (64 - i - 1 + n)) [0..<64] =
        filter (\<lambda>i. i \<le> n + 63 \<and> bit v2 i \<and> bit v1 (n + 63 - i)) [0..<64]"
    by (rule filter_cong) (auto simp: algebra_simps simp del: upt_rec_numeral)
  then show ?thesis
    by (simp add: clmulr64_def clprod_bit_def bit_foldl_xor drop_bit_and_1 bit_drop_bit_eq
        del: upt_rec_numeral)
qed

section \<open>High halves of products\<close>

lemma ucast_signed_drop_high:
  fixes w :: u128
  shows "(ucast (signed_drop_bit 64 w) :: u64) = ucast (drop_bit 64 w)"
  by (rule bit_word_eqI) (auto simp: bit_ucast_iff bit_signed_drop_bit_iff bit_drop_bit_eq)

lemma unat_mulhu64: "unat (mulhu64 a b) = unat a * unat b div 2 ^ 64"
proof -
  have lt: "unat a * unat b < 2 ^ 128"
    using mult_strict_mono'[OF unsigned_less[of a, where ?'a = nat] unsigned_less[of b, where ?'a = nat]] by simp
  have ab: "unat (ucast a :: u128) = unat a" "unat (ucast b :: u128) = unat b"
    using unsigned_less[of a, where ?'a = nat] unsigned_less[of b, where ?'a = nat]
    by (simp_all add: unsigned_ucast_eq take_bit_nat_eq_self)
  have "unat ((ucast a :: u128) * ucast b) = unat a * unat b"
    using lt by (simp add: unat_word_ariths ab)
  then have "unat (drop_bit 64 ((ucast a :: u128) * ucast b)) = unat a * unat b div 2 ^ 64"
    by (simp add: unat_drop_bit_div)
  moreover have "unat a * unat b div 2 ^ 64 < 2 ^ 64"
    using lt by (simp add: less_mult_imp_div_less)
  ultimately show ?thesis
    unfolding mulhu64_def ucast_signed_drop_high by (simp add: unsigned_ucast_eq take_bit_nat_eq_self)
qed

text \<open>School multiplication in base \<open>2 ^ 32\<close> computes the same high half.\<close>

lemma high_half_base:
  fixes r00 r01 r10 r11 B :: nat
  assumes "0 < B"
  defines "c1 \<equiv> r00 div B + r01 mod B + r10 mod B"
  defines "c2 \<equiv> c1 div B + r01 div B + r10 div B + r11 mod B"
  shows "(r00 + (r01 + r10) * B + r11 * (B * B)) div (B * B) = (c2 div B + r11 div B) * B + c2 mod B"
proof -
  have "r00 + (r01 + r10) * B + r11 * (B * B)
      = r00 mod B + B * (c1 mod B) + (c1 div B + r01 div B + r10 div B + r11) * (B * B)"
  proof -
    have "r00 + (r01 + r10) * B = r00 mod B + B * c1 + (r01 div B + r10 div B) * (B * B)"
      using mult_div_mod_eq[of B r00] mult_div_mod_eq[of B r01] mult_div_mod_eq[of B r10]
      unfolding c1_def by (metis (no_types, lifting) add.assoc add.commute add.left_commute distrib_left distrib_right
          mult.assoc mult.commute)
    also have "B * c1 = B * (c1 mod B) + c1 div B * (B * B)"
      using mult_div_mod_eq[of B c1] by (metis add.commute distrib_left mult.assoc mult.commute)
    finally show ?thesis by (simp add: algebra_simps)
  qed
  moreover have "r00 mod B + B * (c1 mod B) < B * B"
  proof -
    have "r00 mod B < B" "c1 mod B + 1 \<le> B" using assms(1) by (simp_all add: Suc_leI)
    then have "r00 mod B + B * (c1 mod B) < B * (c1 mod B + 1)" by simp
    also have "\<dots> \<le> B * B" using \<open>c1 mod B + 1 \<le> B\<close> by (rule mult_le_mono2)
    finally show ?thesis .
  qed
  ultimately have "(r00 + (r01 + r10) * B + r11 * (B * B)) div (B * B)
      = c1 div B + r01 div B + r10 div B + r11"
    using assms(1) by simp
  also have "\<dots> = c2 + r11 div B * B"
    unfolding c2_def using div_mult_mod_eq[of r11 B] by linarith
  also have "\<dots> = (c2 div B + r11 div B) * B + c2 mod B"
    using div_mult_mod_eq[of c2 B] by (simp add: distrib_right)
  finally show ?thesis .
qed

lemma unat_low32: "unat (zx32 (lo32 x)) = unat x mod 2 ^ 32"
proof -
  have "zx32 (lo32 x) = take_bit 32 x" by (rule bit_word_eqI) (auto simp: bit_ucast_iff bit_take_bit_iff)
  then show ?thesis by (simp add: unat_take_bit)
qed

lemma unat_or_high32:
  fixes x y :: u32
  shows "unat (push_bit 32 (zx32 x) OR zx32 y) = unat x * 2 ^ 32 + unat y"
proof -
  have "push_bit 32 (zx32 x) OR zx32 y = push_bit 32 (zx32 x) + zx32 y"
    by (rule disjunctive_add_eq_or [symmetric], rule bit_word_eqI)
       (auto simp: bit_and_iff bit_push_bit_iff bit_ucast_iff dest: bit_imp_le_length)
  also have "unat \<dots> = unat x * 2 ^ 32 + unat y"
    using unsigned_less[of x, where ?'a = nat] unsigned_less[of y, where ?'a = nat]
    by (simp add: push_bit_eq_mult unat_word_ariths unsigned_ucast_eq take_bit_nat_eq_self mult.commute)
  finally show ?thesis .
qed

lemma mult32_lt:
  fixes x y :: u64
  assumes "unat x < 2 ^ 32" "unat y < 2 ^ 32"
  shows "unat (x * y) = unat x * unat y" and "unat x * unat y \<le> (2 ^ 32 - 1) * (2 ^ 32 - 1)"
proof -
  show le: "unat x * unat y \<le> (2 ^ 32 - 1) * (2 ^ 32 - 1)"
    using assms by (intro mult_le_mono) simp_all
  have "(2 ^ 32 - 1) * (2 ^ 32 - 1) < (2 ^ 64 :: nat)" by simp
  with le show "unat (x * y) = unat x * unat y" by (simp add: unat_word_ariths)
qed

lemma unat_plus_small: "unat x + unat y < 2 ^ LENGTH('a) \<Longrightarrow> unat (x + y) = unat x + unat y"
  for x y :: "'a::len word"
  by (simp add: unat_word_ariths)

lemma mulhu64_halves_unat: "unat (mulhu64_halves a b) = unat a * unat b div 2 ^ 64"
proof -
  let ?B = "2 ^ 32 :: nat"
  define a0 where "a0 = zx32 (lo32 a)"
  define a1 where "a1 = zx32 (lo32 (drop_bit 32 a))"
  define b0 where "b0 = zx32 (lo32 b)"
  define b1 where "b1 = zx32 (lo32 (drop_bit 32 b))"
  define c1 where "c1 = drop_bit 32 (a0 * b0) + zx32 (lo32 (a0 * b1)) + zx32 (lo32 (a1 * b0))"
  define c2 where "c2 = drop_bit 32 c1 + drop_bit 32 (a0 * b1) + drop_bit 32 (a1 * b0) + zx32 (lo32 (a1 * b1))"
  have hi: "unat (drop_bit 32 x) < ?B" for x :: u64
    using unsigned_less[of x, where ?'a = nat] by (simp add: unat_drop_bit_div less_mult_imp_div_less)
  have lo: "unat (zx32 (lo32 x)) < ?B" for x by (simp add: unat_low32)
  have small: "unat a0 < ?B" "unat a1 < ?B" "unat b0 < ?B" "unat b1 < ?B"
    unfolding a0_def a1_def b0_def b1_def by (rule lo)+
  have ab: "unat a = unat a1 * ?B + unat a0" "unat b = unat b1 * ?B + unat b0"
    using hi[of a] hi[of b] div_mult_mod_eq[of "unat a" ?B] div_mult_mod_eq[of "unat b" ?B]
    by (simp_all add: a0_def a1_def b0_def b1_def unat_low32 unat_drop_bit_div)
  note m = mult32_lt(1)[OF small(1,3)] mult32_lt(1)[OF small(1,4)] mult32_lt(1)[OF small(2,3)] mult32_lt(1)[OF small(2,4)]
  have c1: "unat c1 = unat (a0 * b0) div ?B + unat (a0 * b1) mod ?B + unat (a1 * b0) mod ?B"
    unfolding c1_def using hi[of "a0 * b0"] lo[of "a0 * b1"] lo[of "a1 * b0"]
    by (simp add: unat_plus_small unat_low32 unat_drop_bit_div)
  have c2: "unat c2 = unat c1 div ?B + unat (a0 * b1) div ?B + unat (a1 * b0) div ?B + unat (a1 * b1) mod ?B"
    unfolding c2_def using hi[of c1] hi[of "a0 * b1"] hi[of "a1 * b0"] lo[of "a1 * b1"]
    by (simp add: unat_plus_small unat_low32 unat_drop_bit_div)
  have r: "mulhu64_halves a b = push_bit 32 (zx32 (lo32 (drop_bit 32 c2 + drop_bit 32 (a1 * b1)))) OR zx32 (lo32 c2)"
    by (simp only: mulhu64_halves_def Let_def a0_def a1_def b0_def b1_def c1_def c2_def)
  let ?s = "unat c2 div ?B + unat (a1 * b1) div ?B"
  have prod: "?s * ?B + unat c2 mod ?B = unat a * unat b div (?B * ?B)"
  proof -
    have "unat a * unat b = unat (a0 * b0) + (unat (a0 * b1) + unat (a1 * b0)) * ?B + unat (a1 * b1) * (?B * ?B)"
      unfolding m ab by (simp add: algebra_simps)
    then show ?thesis unfolding c2 c1 using high_half_base[of ?B] by simp
  qed
  have "unat a * unat b div (?B * ?B) < ?B * ?B"
    using mult_strict_mono'[OF unsigned_less[of a, where ?'a = nat] unsigned_less[of b, where ?'a = nat]]
    by (simp add: less_mult_imp_div_less)
  then have "?s * ?B < ?B * ?B" using prod by linarith
  then have s: "?s < ?B" by simp
  have "unat (drop_bit 32 c2 + drop_bit 32 (a1 * b1)) = ?s"
    using hi[of c2] hi[of "a1 * b1"] by (simp add: unat_plus_small unat_drop_bit_div)
  then have "unat (mulhu64_halves a b) = ?s mod ?B * ?B + unat c2 mod ?B"
    unfolding r unat_or_high32 unat_lo32 by (simp only:)
  then have "unat (mulhu64_halves a b) = unat a * unat b div (?B * ?B)"
    unfolding mod_less[OF s] prod .
  then show ?thesis by simp
qed

text \<open>Division and remainder recompose the dividend.\<close>

lemma int_sdiv_smod: "(x sdiv y) * y + x smod y = x" for x y :: int
proof -
  have "(x sdiv y) * y + x smod y = sgn x * (\<bar>x\<bar> div \<bar>y\<bar> * \<bar>y\<bar> + \<bar>x\<bar> mod \<bar>y\<bar>)"
    by (simp add: signed_modulo_int_def signed_divide_int_def abs_sgn[of y] algebra_simps)
  also have "\<dots> = x" by (simp add: div_mult_mod_eq mult_sgn_abs)
  finally show ?thesis .
qed

lemma word_sdiv_smod: "sdiv_word a b * b + smod_word a b = a" for a b :: "'a::len word"
proof -
  have "sdiv_word a b * b + smod_word a b
      = word_of_int ((sint a sdiv sint b) * sint b + sint a smod sint b)"
    unfolding sdiv_word_def smod_word_def
    by simp
  also have "(sint a sdiv sint b) * sint b + sint a smod sint b = sint a"
    by (rule int_sdiv_smod)
  finally show ?thesis by simp
qed

lemmas rem_div_defs = div64_def rem64_def div32_def rem32_def divu64_def remu64_def divu32_def remu32_def

lemma div_rem_mult:
  "div64 a b * b + rem64 a b = a" "divu64 a b * b + remu64 a b = a"
  "div32 c d * d + rem32 c d = c" "divu32 c d * d + remu32 c d = c"
  by (simp_all add: rem_div_defs word_sdiv_smod div_mult_mod_eq)


section \<open>Properties\<close>

text \<open>C28: The multiplication of 32 bit halves that replaces the 128 bit product on
  compilers without 128 bit integers computes the same high half: both are the
  upper 64 bits of the exact product.\<close>

theorem mulhu64_halves_correct:
  "mulhu64_halves a b = mulhu64 a b \<and> unat (mulhu64 a b) = unat a * unat b div 2 ^ 64"
  by (simp add: word_unat_eq_iff mulhu64_halves_unat unat_mulhu64)

text \<open>C29: The carry-less multiplications agree on one polynomial product: \<open>clmul\<close>
  returns its low 64 bits, \<open>clmulh\<close> the bits from 64 up and \<open>clmulr\<close> the 64 bits
  from bit 63 up.\<close>

theorem clmul_parts:
  "bit (clmul64 a b) n = (n < 64 \<and> clprod_bit a b n) \<and>
   bit (clmulh64 a b) n = clprod_bit a b (n + 64) \<and>
   bit (clmulr64 a b) n = clprod_bit a b (n + 63)"
  by (simp add: bit_clmul64 bit_clmulh64 bit_clmulr64)




end
