(* ===== verification/InterpBase.thy ===== *)
theory InterpBase
  imports Trap Stf Alu
begin

text \<open>
  What the instruction handlers of \<open>riscv_cpu_interp\<close>
  (\<open>src/include/majordomo_template.h\<close>) share.  A handler is a case of the switch on
  the opcode.  It takes the instruction word, the value of \<open>GET_PC()\<close> where it
  uses it, and the state, and tells how the case is left: by \<open>NEXT_INSN\<close>,
  \<open>C_NEXT_INSN\<close> or \<open>JUMP_INSN\<close>, by a \<open>goto\<close> to one of the labels behind the
  loop, or by a failed assertion or a call through a null pointer.  Operands are
  read from left to right.
\<close>

datatype ctl = NextInsn | CNextInsn | JumpInsn | IllegalInsn | MmuException | ExceptionExit | DoneInterp | Aborted

section \<open>Fields of an instruction\<close>

definition insn_rd :: "u32 \<Rightarrow> nat" where "insn_rd insn = unat (drop_bit 7 insn AND 0x1f)"
definition insn_rs1 :: "u32 \<Rightarrow> nat" where "insn_rs1 insn = unat (drop_bit 15 insn AND 0x1f)"
definition insn_rs2 :: "u32 \<Rightarrow> nat" where "insn_rs2 insn = unat (drop_bit 20 insn AND 0x1f)"
definition insn_funct3 :: "u32 \<Rightarrow> u32" where "insn_funct3 insn = drop_bit 12 insn AND 7"
definition insn_funct7 :: "u32 \<Rightarrow> u32" where "insn_funct7 insn = drop_bit 25 insn AND 0x7f"
definition insn_funct12 :: "u32 \<Rightarrow> u32" where "insn_funct12 insn = drop_bit 20 insn AND 0xfff"

text \<open>\<open>(int32_t)insn >> 20\<close>, converted to 64 bits.\<close>

definition i_imm :: "u32 \<Rightarrow> u64" where "i_imm insn = sx32 (signed_drop_bit 20 insn)"

definition s_imm :: "u32 \<Rightarrow> u64" where
  "s_imm insn =
     (let imm = drop_bit 7 insn AND 0x1f OR drop_bit (25 - 5) insn AND 0xfe0
      in sx32 (signed_drop_bit 20 (push_bit 20 imm)))"

text \<open>The compressed register fields \<open>((insn >> n) & 7) | 8\<close>.\<close>

definition c_reg :: "nat \<Rightarrow> u32 \<Rightarrow> nat" where
  "c_reg n insn = unat (drop_bit n insn AND 7 OR 8)"

section \<open>Ways to leave a handler\<close>

definition jump_insn :: "RISCVCTFInfo \<Rightarrow> 'd sys \<Rightarrow> ctl \<times> 'd sys" where
  "jump_insn kind s = (JumpInsn, s\<lparr>info := kind, next_addr := pc s\<rparr>)"

definition raise_pending :: "u32 \<Rightarrow> 'd sys \<Rightarrow> ctl \<times> 'd sys" where
  "raise_pending cause s = (ExceptionExit, set_pending cause 0 s)"

definition write_reg_nz :: "nat \<Rightarrow> u64 \<Rightarrow> 'd sys \<Rightarrow> 'd sys" where
  "write_reg_nz rd val s = (if rd \<noteq> 0 then write_reg rd val s else s)"

definition load_then ::
    "'d env_ops \<Rightarrow> nat \<Rightarrow> u64 \<Rightarrow> ctl \<Rightarrow> (u64 \<Rightarrow> 'd sys \<Rightarrow> 'd sys) \<Rightarrow> 'd sys \<Rightarrow> ctl \<times> 'd sys" where
  "load_then E k addr nxt wr s =
     (case target_read E k addr s of
        (None, s) \<Rightarrow> (MmuException, s)
      | (Some v, s) \<Rightarrow> (nxt, wr v s))"

definition store_then :: "'d env_ops \<Rightarrow> nat \<Rightarrow> u64 \<Rightarrow> u64 \<Rightarrow> ctl \<Rightarrow> 'd sys \<Rightarrow> ctl \<times> 'd sys" where
  "store_then E k addr v nxt s =
     (case target_write E k addr v s of
        (False, s) \<Rightarrow> (MmuException, s)
      | (True, s) \<Rightarrow> (nxt, s))"

text \<open>Reading two registers, and writing a result computed from them.\<close>

definition read_reg2 :: "nat \<Rightarrow> nat \<Rightarrow> 'd sys \<Rightarrow> (u64 \<times> u64) \<times> 'd sys" where
  "read_reg2 r1 r2 s = (let (a, s) = read_reg r1 s; (b, s) = read_reg r2 s in ((a, b), s))"

definition finish_val :: "nat \<Rightarrow> u64 option \<Rightarrow> 'd sys \<Rightarrow> ctl \<times> 'd sys" where
  "finish_val rd r s =
     (case r of None \<Rightarrow> (IllegalInsn, s) | Some v \<Rightarrow> (NextInsn, write_reg_nz rd v s))"

end
