(* ===== verification/InterpC.thy ===== *)
theory InterpC
  imports InterpBase
begin

text \<open>
  The compressed instructions: the three quadrants of the switch of
  \<open>riscv_cpu_interp\<close> (\<open>src/include/majordomo_template.h\<close>) for \<open>XLEN = 64\<close> and
  \<open>FLEN = 64\<close>.
\<close>

definition c_imm_lw :: "u32 \<Rightarrow> u64" where
  "c_imm_lw insn = sx32 (get_field1 insn 10 3 5 OR get_field1 insn 6 2 2 OR get_field1 insn 5 6 6)"

definition c_imm_ld :: "u32 \<Rightarrow> u64" where
  "c_imm_ld insn = sx32 (get_field1 insn 10 3 5 OR get_field1 insn 5 6 7)"

definition c_imm6 :: "u32 \<Rightarrow> u64" where
  "c_imm6 insn = sx32 (sext (get_field1 insn 12 5 5 OR get_field1 insn 2 0 4) 6)"

definition c_imm_j :: "u32 \<Rightarrow> u64" where
  "c_imm_j insn =
     sx32 (sext (get_field1 insn 12 11 11 OR get_field1 insn 11 4 4 OR get_field1 insn 9 8 9
       OR get_field1 insn 8 10 10 OR get_field1 insn 7 6 6 OR get_field1 insn 6 7 7
       OR get_field1 insn 3 1 3 OR get_field1 insn 2 5 5) 12)"

definition c_imm_b :: "u32 \<Rightarrow> u64" where
  "c_imm_b insn =
     sx32 (sext (get_field1 insn 12 8 8 OR get_field1 insn 10 3 4 OR get_field1 insn 5 6 7
       OR get_field1 insn 3 1 2 OR get_field1 insn 2 5 5) 9)"

definition c_imm_addi4spn :: "u32 \<Rightarrow> u32" where
  "c_imm_addi4spn insn =
     get_field1 insn 11 4 5 OR get_field1 insn 7 6 9 OR get_field1 insn 6 2 2 OR get_field1 insn 5 3 3"

definition c_imm_addi16sp :: "u32 \<Rightarrow> u32" where
  "c_imm_addi16sp insn =
     sext (get_field1 insn 12 9 9 OR get_field1 insn 6 4 4 OR get_field1 insn 5 6 6
       OR get_field1 insn 3 7 8 OR get_field1 insn 2 5 5) 10"

definition c_imm_lui :: "u32 \<Rightarrow> u32" where
  "c_imm_lui insn = sext (get_field1 insn 12 17 17 OR get_field1 insn 2 12 16) 18"

definition c_imm_ldsp :: "u32 \<Rightarrow> u64" where
  "c_imm_ldsp insn = sx32 (get_field1 insn 12 5 5 OR drop_bit 2 insn AND 0x1f AND push_bit 3 3 OR get_field1 insn 2 6 8)"

definition c_imm_lwsp :: "u32 \<Rightarrow> u64" where
  "c_imm_lwsp insn = sx32 (get_field1 insn 12 5 5 OR drop_bit 2 insn AND 0x1f AND push_bit 2 7 OR get_field1 insn 2 6 7)"

definition c_imm_sdsp :: "u32 \<Rightarrow> u64" where
  "c_imm_sdsp insn = sx32 (get_field1 insn 10 3 5 OR get_field1 insn 7 6 8)"

definition c_imm_swsp :: "u32 \<Rightarrow> u64" where
  "c_imm_swsp insn = sx32 (get_field1 insn 9 2 5 OR get_field1 insn 7 6 7)"

section \<open>Quadrant 0\<close>

definition exec_c0 :: "'d env_ops \<Rightarrow> u32 \<Rightarrow> 'd sys \<Rightarrow> ctl \<times> 'd sys" where
  "exec_c0 E insn s =
     (let funct3 = drop_bit 13 insn AND 7; rd = c_reg 2 insn; rs1 = c_reg 7 insn in
      if funct3 = 0 then
        (let imm = c_imm_addi4spn insn in
         if imm = 0 then (IllegalInsn, s)
         else (let (v, s) = read_reg 2 s in (CNextInsn, write_reg rd (v + sx32 imm) s)))
      else if funct3 = 1 then
        (if fs s = 0 then (IllegalInsn, s)
         else (let (v, s) = read_reg rs1 s
               in load_then E 3 (v + c_imm_ld insn) CNextInsn (\<lambda>r. write_fp_reg rd (r OR F64_HIGH)) s))
      else if funct3 = 2 then
        (let (v, s) = read_reg rs1 s
         in load_then E 2 (v + c_imm_lw insn) CNextInsn (\<lambda>r. write_reg rd (sx32 (lo32 r))) s)
      else if funct3 = 3 then
        (let (v, s) = read_reg rs1 s
         in load_then E 3 (v + c_imm_ld insn) CNextInsn (\<lambda>r. write_reg rd r) s)
      else if funct3 = 5 then
        (if fs s = 0 then (IllegalInsn, s)
         else (let (v, s) = read_reg rs1 s; (f, s) = read_fp_reg rd s
               in store_then E 3 (v + c_imm_ld insn) f CNextInsn s))
      else if funct3 = 6 then
        (let ((v, x), s) = read_reg2 rs1 rd s in store_then E 2 (v + c_imm_lw insn) x CNextInsn s)
      else if funct3 = 7 then
        (let ((v, x), s) = read_reg2 rs1 rd s in store_then E 3 (v + c_imm_ld insn) x CNextInsn s)
      else (IllegalInsn, s))"

section \<open>Quadrant 1\<close>

definition c_arith :: "u32 \<Rightarrow> u64 \<Rightarrow> u64 \<Rightarrow> u64 option" where
  "c_arith funct3 a b =
     (if funct3 = 0 then Some (a - b)
      else if funct3 = 1 then Some (a XOR b)
      else if funct3 = 2 then Some (a OR b)
      else if funct3 = 3 then Some (a AND b)
      else if funct3 = 4 then Some (sx32 (lo32 (a - b)))
      else if funct3 = 5 then Some (sx32 (lo32 (a + b)))
      else None)"

definition exec_c1_alu :: "u32 \<Rightarrow> 'd sys \<Rightarrow> ctl \<times> 'd sys" where
  "exec_c1_alu insn s =
     (let funct2 = drop_bit 10 insn AND 3; rd = c_reg 7 insn in
      if funct2 = 0 \<or> funct2 = 1 then
        (let imm = unat (get_field1 insn 12 5 5 OR get_field1 insn 2 0 4);
             (v, s) = read_reg rd s
         in (CNextInsn, write_reg rd (if funct2 = 0 then drop_bit imm v else signed_drop_bit imm v) s))
      else if funct2 = 2 then
        (let (v, s) = read_reg rd s in (CNextInsn, write_reg rd (v AND c_imm6 insn) s))
      else
        (let rs2 = c_reg 2 insn;
             f = drop_bit 5 insn AND 3 OR drop_bit (12 - 2) insn AND 4
         in if f = 6 \<or> f = 7 then (IllegalInsn, s)
            else (let ((a, b), s) = read_reg2 rd rs2 s
                  in case c_arith f a b of
                       None \<Rightarrow> (IllegalInsn, s)
                     | Some v \<Rightarrow> (CNextInsn, write_reg rd v s))))"

definition exec_c1 :: "u64 \<Rightarrow> u32 \<Rightarrow> 'd sys \<Rightarrow> ctl \<times> 'd sys" where
  "exec_c1 gpc insn s =
     (let funct3 = drop_bit 13 insn AND 7; rd = insn_rd insn in
      if funct3 = 0 then
        (if rd \<noteq> 0 then (let (v, s) = read_reg rd s in (CNextInsn, write_reg rd (v + c_imm6 insn) s))
         else (CNextInsn, s))
      else if funct3 = 1 then
        (if rd = 0 then (IllegalInsn, s)
         else (let (v, s) = read_reg rd s in (CNextInsn, write_reg rd (sx32 (lo32 (v + c_imm6 insn))) s)))
      else if funct3 = 2 then (CNextInsn, write_reg_nz rd (c_imm6 insn) s)
      else if funct3 = 3 then
        (if rd = 2 then
           (let imm = c_imm_addi16sp insn in
            if imm = 0 then (IllegalInsn, s)
            else (let (v, s) = read_reg 2 s in (CNextInsn, write_reg 2 (v + sx32 imm) s)))
         else if rd \<noteq> 0 then
           (let imm = c_imm_lui insn in
            if imm = 0 then (IllegalInsn, s) else (CNextInsn, write_reg rd (sx32 imm) s))
         else if c_imm_lui insn = 0 then (IllegalInsn, s)
         else (CNextInsn, s))
      else if funct3 = 4 then exec_c1_alu insn s
      else if funct3 = 5 then jump_insn ctf_taken_jump (s\<lparr>pc := gpc + c_imm_j insn\<rparr>)
      else if funct3 = 6 then
        (let (v, s) = read_reg (c_reg 7 insn) s in
         if v = 0 then jump_insn ctf_taken_branch (s\<lparr>pc := gpc + c_imm_b insn\<rparr>) else (CNextInsn, s))
      else
        (let (v, s) = read_reg (c_reg 7 insn) s in
         if v \<noteq> 0 then jump_insn ctf_taken_branch (s\<lparr>pc := gpc + c_imm_b insn\<rparr>) else (CNextInsn, s)))"

section \<open>Quadrant 2\<close>

definition exec_c2_jump_mv_add :: "u64 \<Rightarrow> u32 \<Rightarrow> 'd sys \<Rightarrow> ctl \<times> 'd sys" where
  "exec_c2_jump_mv_add gpc insn s =
     (let rd = insn_rd insn; rs2 = unat (drop_bit 2 insn AND 0x1f) in
      if drop_bit 12 insn AND 1 = 0 then
        (if rs2 = 0 then
           (if rd = 0 then (IllegalInsn, s)
            else (let (v, s) = read_reg rd s
                  in jump_insn (ctf_compute_hint 0 rd) (s\<lparr>pc := v AND NOT 1\<rparr>)))
         else if rd \<noteq> 0 then (let (v, s) = read_reg rs2 s in (CNextInsn, write_reg rd v s))
         else (CNextInsn, s))
      else
        (if rs2 = 0 then
           (if rd = 0 then raise_pending CAUSE_BREAKPOINT s
            else (let val = gpc + 2;
                      (v, s) = read_reg rd s;
                      s = s\<lparr>pc := v AND NOT 1\<rparr>;
                      s = write_reg 1 val s
                  in jump_insn (ctf_compute_hint 1 rd) s))
         else if rd \<noteq> 0 then
           (let ((a, b), s) = read_reg2 rd rs2 s in (CNextInsn, write_reg rd (a + b) s))
         else (CNextInsn, s)))"

definition exec_c2 :: "'d env_ops \<Rightarrow> u64 \<Rightarrow> u32 \<Rightarrow> 'd sys \<Rightarrow> ctl \<times> 'd sys" where
  "exec_c2 E gpc insn s =
     (let funct3 = drop_bit 13 insn AND 7; rd = insn_rd insn; rs2 = unat (drop_bit 2 insn AND 0x1f) in
      if funct3 = 0 then
        (let imm = unat (get_field1 insn 12 5 5 OR drop_bit 2 insn AND 0x1f) in
         if rd \<noteq> 0 then (let (v, s) = read_reg rd s in (CNextInsn, write_reg rd (push_bit imm v) s))
         else (CNextInsn, s))
      else if funct3 = 1 then
        (if fs s = 0 then (IllegalInsn, s)
         else (let (v, s) = read_reg 2 s
               in load_then E 3 (v + c_imm_ldsp insn) CNextInsn (\<lambda>r. write_fp_reg rd (r OR F64_HIGH)) s))
      else if funct3 = 2 then
        (if rd = 0 then (IllegalInsn, s)
         else (let (v, s) = read_reg 2 s
               in load_then E 2 (v + c_imm_lwsp insn) CNextInsn (\<lambda>r. write_reg rd (sx32 (lo32 r))) s))
      else if funct3 = 3 then
        (if rd = 0 then (IllegalInsn, s)
         else (let (v, s) = read_reg 2 s
               in load_then E 3 (v + c_imm_ldsp insn) CNextInsn (\<lambda>r. write_reg rd r) s))
      else if funct3 = 4 then exec_c2_jump_mv_add gpc insn s
      else if funct3 = 5 then
        (if fs s = 0 then (IllegalInsn, s)
         else (let (v, s) = read_reg 2 s; (f, s) = read_fp_reg rs2 s
               in store_then E 3 (v + c_imm_sdsp insn) f CNextInsn s))
      else if funct3 = 6 then
        (let ((v, x), s) = read_reg2 2 rs2 s in store_then E 2 (v + c_imm_swsp insn) x CNextInsn s)
      else
        (let ((v, x), s) = read_reg2 2 rs2 s in store_then E 3 (v + c_imm_sdsp insn) x CNextInsn s))"

end
