(* ===== verification/InterpI.thy ===== *)
theory InterpI
  imports InterpBase
begin

text \<open>
  The integer instructions of \<open>riscv_cpu_interp\<close> (\<open>src/include/majordomo_template.h\<close>)
  for \<open>XLEN = 64\<close>: upper immediates, jumps, branches, loads, stores, and the four
  arithmetic opcodes with the M, Zba, Zbb, Zbc, Zbs and Zicond extensions, all of
  which are enabled in the sources.  The value of an arithmetic instruction is a
  function of the instruction and its operands, \<open>None\<close> standing for an illegal
  instruction.
\<close>

section \<open>Upper immediates, jumps and branches\<close>

definition exec_lui :: "u32 \<Rightarrow> 'd sys \<Rightarrow> ctl \<times> 'd sys" where
  "exec_lui insn s = (NextInsn, write_reg_nz (insn_rd insn) (sx32 (insn AND 0xfffff000)) s)"

definition exec_auipc :: "u64 \<Rightarrow> u32 \<Rightarrow> 'd sys \<Rightarrow> ctl \<times> 'd sys" where
  "exec_auipc gpc insn s = (NextInsn, write_reg_nz (insn_rd insn) (gpc + sx32 (insn AND 0xfffff000)) s)"

definition j_imm :: "u32 \<Rightarrow> u64" where
  "j_imm insn =
     (let imm = drop_bit (31 - 20) insn AND push_bit 20 1 OR drop_bit (21 - 1) insn AND 0x7fe
                OR drop_bit (20 - 11) insn AND push_bit 11 1 OR insn AND 0xff000
      in sx32 (signed_drop_bit 11 (push_bit 11 imm)))"

definition b_imm :: "u32 \<Rightarrow> u64" where
  "b_imm insn =
     (let imm = drop_bit (31 - 12) insn AND push_bit 12 1 OR drop_bit (25 - 5) insn AND 0x7e0
                OR drop_bit (8 - 1) insn AND 0x1e OR push_bit (11 - 7) insn AND push_bit 11 1
      in sx32 (signed_drop_bit 19 (push_bit 19 imm)))"

text \<open>A jump target must be a multiple of 4 without the C extension.\<close>

definition misaligned_target :: "u64 \<Rightarrow> 'd sys \<Rightarrow> bool" where
  "misaligned_target new_pc s = (misa s AND MCPUID_C = 0 \<and> new_pc AND 3 \<noteq> 0)"

definition exec_jal :: "u64 \<Rightarrow> u32 \<Rightarrow> 'd sys \<Rightarrow> ctl \<times> 'd sys" where
  "exec_jal gpc insn s =
     (let new_pc = gpc + j_imm insn in
      if misaligned_target new_pc s then raise_pending CAUSE_MISALIGNED_FETCH s
      else (let s = write_reg_nz (insn_rd insn) (gpc + 4) s
            in jump_insn ctf_taken_jump (s\<lparr>pc := gpc + j_imm insn\<rparr>)))"

definition exec_jalr :: "u64 \<Rightarrow> u32 \<Rightarrow> 'd sys \<Rightarrow> ctl \<times> 'd sys" where
  "exec_jalr gpc insn s =
     (if insn_funct3 insn \<noteq> 0 then (IllegalInsn, s)
      else
        (let val = gpc + 4;
             (v, s) = read_reg (insn_rs1 insn) s
         in if misaligned_target ((v + i_imm insn) AND NOT 1) s then raise_pending CAUSE_MISALIGNED_FETCH s
            else (let (v, s) = read_reg (insn_rs1 insn) s;
                      s = s\<lparr>pc := (v + i_imm insn) AND NOT 1\<rparr>;
                      s = write_reg_nz (insn_rd insn) val s
                  in jump_insn (ctf_compute_hint (insn_rd insn) (insn_rs1 insn)) s)))"

definition branch_cond :: "u32 \<Rightarrow> u64 \<Rightarrow> u64 \<Rightarrow> bool option" where
  "branch_cond funct3 a b =
     (let k = drop_bit 1 funct3;
          c = (if k = 0 then Some (a = b) else if k = 2 then Some (sint a < sint b)
               else if k = 3 then Some (a < b) else None)
      in map_option (\<lambda>c. c \<noteq> (funct3 AND 1 \<noteq> 0)) c)"

definition exec_branch :: "u64 \<Rightarrow> u32 \<Rightarrow> 'd sys \<Rightarrow> ctl \<times> 'd sys" where
  "exec_branch gpc insn s =
     (if drop_bit 1 (insn_funct3 insn) = 1 then (IllegalInsn, s)
      else
        (let ((a, b), s) = read_reg2 (insn_rs1 insn) (insn_rs2 insn) s
         in case branch_cond (insn_funct3 insn) a b of
              None \<Rightarrow> (IllegalInsn, s)
            | Some cond \<Rightarrow>
                if cond then
                  (let new_pc = gpc + b_imm insn in
                   if misaligned_target new_pc s then raise_pending CAUSE_MISALIGNED_FETCH s
                   else jump_insn ctf_taken_branch (s\<lparr>pc := gpc + b_imm insn\<rparr>))
                else (NextInsn, s)))"

section \<open>Loads and stores\<close>

text \<open>The width (as a power of two) and the conversion of the loaded value.\<close>

definition load_kind :: "u32 \<Rightarrow> (nat \<times> (u64 \<Rightarrow> u64)) option" where
  "load_kind funct3 =
     (if funct3 = 0 then Some (0, \<lambda>r. sx8 (lo8 r))
      else if funct3 = 1 then Some (1, \<lambda>r. sx16 (lo16 r))
      else if funct3 = 2 then Some (2, \<lambda>r. sx32 (lo32 r))
      else if funct3 = 4 then Some (0, \<lambda>r. zx8 (lo8 r))
      else if funct3 = 5 then Some (1, \<lambda>r. zx16 (lo16 r))
      else if funct3 = 3 then Some (3, \<lambda>r. r)
      else if funct3 = 6 then Some (2, \<lambda>r. zx32 (lo32 r))
      else None)"

definition exec_load :: "'d env_ops \<Rightarrow> u32 \<Rightarrow> 'd sys \<Rightarrow> ctl \<times> 'd sys" where
  "exec_load E insn s =
     (let (v, s) = read_reg (insn_rs1 insn) s; addr = v + i_imm insn
      in case load_kind (insn_funct3 insn) of
           None \<Rightarrow> (IllegalInsn, s)
         | Some (k, cv) \<Rightarrow> load_then E k addr NextInsn (\<lambda>r. write_reg_nz (insn_rd insn) (cv r)) s)"

definition exec_store :: "'d env_ops \<Rightarrow> u32 \<Rightarrow> 'd sys \<Rightarrow> ctl \<times> 'd sys" where
  "exec_store E insn s =
     (let ((v, val), s) = read_reg2 (insn_rs1 insn) (insn_rs2 insn) s; addr = v + s_imm insn
      in if insn_funct3 insn \<le> 3
         then store_then E (unat (insn_funct3 insn)) addr val NextInsn s
         else (IllegalInsn, s))"

section \<open>OP-IMM\<close>

definition op_imm_1 :: "u32 \<Rightarrow> u64 \<Rightarrow> u64 option" where
  "op_imm_1 insn val1 =
     (let f12 = insn_funct12 insn; f6 = drop_bit 26 insn AND 0x3f;
          shamt = unat (drop_bit 20 insn AND 0x3f); imm = i_imm insn in
      if f12 = 0x601 then Some (ctz_64 val1)
      else if f12 = 0x600 then Some (clz64 val1)
      else if f12 = 0x602 then Some (cpop64 val1)
      else if f12 = 0x605 then Some (sext_h64 val1)
      else if f12 = 0x604 then Some (sext_b64 val1)
      else if f6 = 0x0a then Some (val1 OR push_bit shamt 1)
      else if f6 = 0x12 then Some (val1 AND NOT (push_bit shamt 1))
      else if f6 = 0x1a then Some (val1 XOR push_bit shamt 1)
      else if imm AND NOT 63 \<noteq> 0 then None
      else Some (push_bit (unat (imm AND 63)) val1))"

definition op_imm_5 :: "u32 \<Rightarrow> u64 \<Rightarrow> u64 \<Rightarrow> u64 option" where
  "op_imm_5 insn vald val1 =
     (let f12 = insn_funct12 insn; f6 = drop_bit 26 insn AND 0x3f;
          shamt = drop_bit 20 insn AND 0x3f; imm = i_imm insn in
      if f12 = 0x287 then Some (orc_b64 val1)
      else if f12 = 0x6b8 then Some (rev8_64 val1)
      else if f6 = 0x12 then Some (drop_bit (unat shamt) val1 AND 1)
      else if f6 = 0x18 then Some (rori64 vald val1 (zx32 shamt))
      else if imm AND NOT (63 OR 0x400) \<noteq> 0 then None
      else if imm AND 0x400 \<noteq> 0 then Some (signed_drop_bit (unat (imm AND 63)) val1)
      else Some (drop_bit (unat (imm AND 63)) val1))"

definition op_imm_val :: "u32 \<Rightarrow> u64 \<Rightarrow> u64 \<Rightarrow> u64 option" where
  "op_imm_val insn vald val1 =
     (let funct3 = insn_funct3 insn; imm = i_imm insn in
      if funct3 = 0 then Some (val1 + imm)
      else if funct3 = 1 then op_imm_1 insn val1
      else if funct3 = 2 then Some (cbool (sint val1 < sint imm))
      else if funct3 = 3 then Some (cbool (val1 < imm))
      else if funct3 = 4 then Some (val1 XOR imm)
      else if funct3 = 5 then op_imm_5 insn vald val1
      else if funct3 = 6 then Some (val1 OR imm)
      else Some (val1 AND imm))"

definition exec_op_imm :: "u32 \<Rightarrow> 'd sys \<Rightarrow> ctl \<times> 'd sys" where
  "exec_op_imm insn s =
     (let (vald, s) = read_reg (insn_rd insn) s;
          ((val1, val2), s) = read_reg2 (insn_rs1 insn) (insn_rs2 insn) s
      in finish_val (insn_rd insn) (op_imm_val insn vald val1) s)"

section \<open>OP-IMM-32\<close>

definition op_imm32_val :: "u32 \<Rightarrow> u64 \<Rightarrow> u64 option" where
  "op_imm32_val insn val1 =
     (let funct3 = insn_funct3 insn; imm = i_imm insn; f12 = insn_funct12 insn in
      if funct3 = 0 then Some (sx32 (lo32 (val1 + imm)))
      else if funct3 = 1 then
        (if drop_bit 26 insn AND 0x3f = 0x2 then Some (push_bit (unat (drop_bit 20 insn AND 0x3f)) (zx32 (lo32 val1)))
         else if f12 = 0x601 then Some (ctzw64 val1)
         else if f12 = 0x602 then Some (cpopw64 val1)
         else if f12 = 0x600 then Some (clzw64 val1)
         else if imm AND NOT 31 \<noteq> 0 then None
         else Some (sx32 (lo32 (push_bit (unat (imm AND 31)) val1))))
      else if funct3 = 5 then
        (if insn_funct7 insn = 0x30 then Some (roriw64 val1 (zx32 (drop_bit 20 insn AND 0x1f)))
         else if imm AND NOT (31 OR 0x400) \<noteq> 0 then None
         else if imm AND 0x400 \<noteq> 0 then Some (sx32 (signed_drop_bit (unat (imm AND 31)) (lo32 val1)))
         else Some (sx32 (drop_bit (unat (imm AND 31)) (lo32 val1))))
      else None)"

definition exec_op_imm32 :: "u32 \<Rightarrow> 'd sys \<Rightarrow> ctl \<times> 'd sys" where
  "exec_op_imm32 insn s =
     (let (val1, s) = read_reg (insn_rs1 insn) s
      in finish_val (insn_rd insn) (op_imm32_val insn val1) s)"

section \<open>OP\<close>

definition smin :: "u64 \<Rightarrow> u64 \<Rightarrow> u64" where "smin a b = (if sint a < sint b then a else b)"
definition smax :: "u64 \<Rightarrow> u64 \<Rightarrow> u64" where "smax a b = (if sint a < sint b then b else a)"

definition op_mul_val :: "u32 \<Rightarrow> u64 \<Rightarrow> u64 \<Rightarrow> u64 option" where
  "op_mul_val funct3 val1 val2 =
     (if funct3 = 0 then Some (val1 * val2)
      else if funct3 = 1 then Some (mulh64 val1 val2)
      else if funct3 = 2 then Some (mulhsu64 val1 val2)
      else if funct3 = 3 then Some (mulhu64 val1 val2)
      else if funct3 = 4 then Some (div64 val1 val2)
      else if funct3 = 5 then Some (divu64 val1 val2)
      else if funct3 = 6 then Some (rem64 val1 val2)
      else if funct3 = 7 then Some (remu64 val1 val2)
      else None)"

text \<open>The base instructions; \<open>f\<close> is \<open>funct3\<close> with bit 30 of the instruction as bit 3.\<close>

definition op_base_val :: "u32 \<Rightarrow> u64 \<Rightarrow> u64 \<Rightarrow> u64 option" where
  "op_base_val f val1 val2 =
     (let sh = unat (val2 AND 63) in
      if f = 0 then Some (val1 + val2)
      else if f = 8 then Some (val1 - val2)
      else if f = 1 then Some (push_bit sh val1)
      else if f = 2 then Some (cbool (sint val1 < sint val2))
      else if f = 3 then Some (cbool (val1 < val2))
      else if f = 4 then Some (val1 XOR val2)
      else if f = 5 then Some (drop_bit sh val1)
      else if f = 5 OR 8 then Some (signed_drop_bit sh val1)
      else if f = 6 then Some (val1 OR val2)
      else if f = 7 then Some (val1 AND val2)
      else None)"

definition op_val :: "u32 \<Rightarrow> u64 \<Rightarrow> u64 \<Rightarrow> u64 option" where
  "op_val insn val1 val2 =
     (let f7 = insn_funct7 insn; f3 = insn_funct3 insn; imm = drop_bit 25 insn; sh = unat (val2 AND 63) in
      if f7 = 0x10 then
        (if f3 = 2 then Some (push_bit 1 val1 + val2)
         else if f3 = 4 then Some (push_bit 2 val1 + val2)
         else if f3 = 6 then Some (push_bit 3 val1 + val2)
         else None)
      else if f7 = 0x05 \<and> f3 = 4 then Some (smin val1 val2)
      else if f7 = 0x05 \<and> f3 = 5 then Some (if val1 < val2 then val1 else val2)
      else if f7 = 0x05 \<and> f3 = 6 then Some (smax val1 val2)
      else if f7 = 0x05 \<and> f3 = 7 then Some (if val1 < val2 then val2 else val1)
      else if f7 = 0x20 \<and> f3 = 4 then Some (NOT (val1 XOR val2))
      else if f7 = 0x20 \<and> f3 = 6 then Some (val1 OR NOT val2)
      else if f7 = 0x20 \<and> f3 = 7 then Some (val1 AND NOT val2)
      else if f7 = 0x30 \<and> f3 = 1 then Some (rol64 val1 val2)
      else if f7 = 0x30 \<and> f3 = 5 then Some (ror64 val1 val2)
      else if f7 = 0x05 \<and> f3 = 1 then Some (clmul64 val1 val2)
      else if f7 = 0x05 \<and> f3 = 2 then Some (clmulr64 val1 val2)
      else if f7 = 0x05 \<and> f3 = 3 then Some (clmulh64 val1 val2)
      else if f7 = 0x14 \<and> f3 = 1 then Some (val1 OR push_bit sh 1)
      else if f7 = 0x24 \<and> f3 = 1 then Some (val1 AND NOT (push_bit sh 1))
      else if f7 = 0x24 \<and> f3 = 5 then Some (drop_bit sh val1 AND 1)
      else if f7 = 0x34 \<and> f3 = 1 then Some (val1 XOR push_bit sh 1)
      else if f7 = 0x07 \<and> f3 = 5 then Some (if val2 = 0 then 0 else val1)
      else if f7 = 0x07 \<and> f3 = 7 then Some (if val2 \<noteq> 0 then 0 else val1)
      else if imm = 1 then op_mul_val f3 val1 val2
      else if imm AND NOT 0x20 \<noteq> 0 then None
      else op_base_val (f3 OR drop_bit (30 - 3) insn AND push_bit 3 1) val1 val2)"

definition exec_op :: "u32 \<Rightarrow> 'd sys \<Rightarrow> ctl \<times> 'd sys" where
  "exec_op insn s =
     (let ((val1, val2), s) = read_reg2 (insn_rs1 insn) (insn_rs2 insn) s
      in finish_val (insn_rd insn) (op_val insn val1 val2) s)"

section \<open>OP-32\<close>

definition op32_mul_val :: "u32 \<Rightarrow> u64 \<Rightarrow> u64 \<Rightarrow> u64 option" where
  "op32_mul_val funct3 val1 val2 =
     (if funct3 = 0 then Some (sx32 (lo32 val1 * lo32 val2))
      else if funct3 = 4 then Some (sx32 (div32 (lo32 val1) (lo32 val2)))
      else if funct3 = 5 then Some (sx32 (divu32 (lo32 val1) (lo32 val2)))
      else if funct3 = 6 then Some (sx32 (rem32 (lo32 val1) (lo32 val2)))
      else if funct3 = 7 then Some (sx32 (remu32 (lo32 val1) (lo32 val2)))
      else None)"

definition op32_base_val :: "u32 \<Rightarrow> u64 \<Rightarrow> u64 \<Rightarrow> u64 option" where
  "op32_base_val f val1 val2 =
     (let sh = unat (val2 AND 31) in
      if f = 0 then Some (sx32 (lo32 (val1 + val2)))
      else if f = 8 then Some (sx32 (lo32 (val1 - val2)))
      else if f = 1 then Some (sx32 (push_bit sh (lo32 val1)))
      else if f = 5 then Some (sx32 (drop_bit sh (lo32 val1)))
      else if f = 5 OR 8 then Some (sx32 (signed_drop_bit sh (lo32 val1)))
      else None)"

definition op32_val :: "u32 \<Rightarrow> u64 \<Rightarrow> u64 \<Rightarrow> u64 option" where
  "op32_val insn val1 val2 =
     (let f7 = insn_funct7 insn; f3 = insn_funct3 insn; imm = drop_bit 25 insn; u = zx32 (lo32 val1) in
      if f7 = 0x10 \<and> f3 = 2 then Some (push_bit 1 u + val2)
      else if f7 = 0x10 \<and> f3 = 4 then Some (push_bit 2 u + val2)
      else if f7 = 0x10 \<and> f3 = 6 then Some (push_bit 3 u + val2)
      else if f7 = 0x04 \<and> f3 = 0 then Some (u + val2)
      else if insn_funct12 insn = 0x080 \<and> f3 = 4 then Some (val1 AND 0xffff)
      else if f7 = 0x30 \<and> f3 = 1 then Some (rolw64 val1 val2)
      else if f7 = 0x30 \<and> f3 = 5 then Some (rorw64 val1 val2)
      else if imm = 1 then op32_mul_val f3 val1 val2
      else if imm AND NOT 0x20 \<noteq> 0 then None
      else op32_base_val (f3 OR drop_bit (30 - 3) insn AND push_bit 3 1) val1 val2)"

definition exec_op32 :: "u32 \<Rightarrow> 'd sys \<Rightarrow> ctl \<times> 'd sys" where
  "exec_op32 insn s =
     (let (val, s) = read_reg (insn_rs1 insn) s;
          ((val1, val2), s) = read_reg2 (insn_rs1 insn) (insn_rs2 insn) s
      in finish_val (insn_rd insn) (op32_val insn val1 val2) s)"

section \<open>Custom opcodes and fences\<close>

text \<open>Opcode 0x2b is accepted without effect except for \<open>funct3 = 7\<close>; 0x5b reads a
  register and is illegal; both fences have no effect.\<close>

definition exec_custom_2b :: "u32 \<Rightarrow> 'd sys \<Rightarrow> ctl \<times> 'd sys" where
  "exec_custom_2b insn s = (if insn_funct3 insn = 7 then IllegalInsn else NextInsn, s)"

definition exec_custom_5b :: "u32 \<Rightarrow> 'd sys \<Rightarrow> ctl \<times> 'd sys" where
  "exec_custom_5b insn s = (let (v, s) = read_reg (insn_rs2 insn) s in (IllegalInsn, s))"

definition exec_misc_mem :: "u32 \<Rightarrow> 'd sys \<Rightarrow> ctl \<times> 'd sys" where
  "exec_misc_mem insn s = (if insn_funct3 insn = 0 \<or> insn_funct3 insn = 1 then NextInsn else IllegalInsn, s)"

end
