(* ===== verification/InterpSys.thy ===== *)
theory InterpSys
  imports InterpBase
begin

text \<open>
  The atomic and the system instructions of \<open>riscv_cpu_interp\<close>
  (\<open>src/include/majordomo_template.h\<close>).
\<close>

section \<open>Counters\<close>

text \<open>\<open>delta\<close> is a C \<open>int\<close>; \<open>None\<close> is the failed assertion \<open>delta >= 0\<close>.\<close>

definition account_insns :: "u64 \<Rightarrow> u64 \<Rightarrow> 'd sys \<Rightarrow> 'd sys option" where
  "account_insns icount insn_counter_start s =
     (let s = s\<lparr>insn_counter := icount\<rparr> in
      if stop_the_counter s then Some s
      else (let delta = lo32 (insn_counter s - insn_counter_start) in
            if sint delta < 0 then None
            else Some (s\<lparr>mcycle := mcycle s + sx32 delta, minstret := minstret s + sx32 delta\<rparr>)))"

section \<open>Atomic instructions\<close>

text \<open>The macro \<open>OP_A\<close> at sizes 32 and 64, that is \<open>k = 2\<close> and \<open>k = 3\<close>.\<close>

definition amo_ext :: "nat \<Rightarrow> u64 \<Rightarrow> u64" where
  "amo_ext k v = (if k = 2 then sx32 (lo32 v) else v)"

definition amo_trunc :: "nat \<Rightarrow> u64 \<Rightarrow> u64" where
  "amo_trunc k v = (if k = 2 then zx32 (lo32 v) else v)"

definition amo_val :: "nat \<Rightarrow> u32 \<Rightarrow> u64 \<Rightarrow> u64 \<Rightarrow> u64" where
  "amo_val k funct5 val val2 =
     (if funct5 = 1 then val2
      else if funct5 = 0 then amo_ext k (val + val2)
      else if funct5 = 4 then amo_ext k (val XOR val2)
      else if funct5 = 0xc then amo_ext k (val AND val2)
      else if funct5 = 0x8 then amo_ext k (val OR val2)
      else if funct5 = 0x10 then (if sint (amo_ext k val) < sint (amo_ext k val2) then amo_ext k val else val2)
      else if funct5 = 0x14 then (if sint (amo_ext k val) > sint (amo_ext k val2) then amo_ext k val else val2)
      else if funct5 = 0x18 then (if amo_trunc k val < amo_trunc k val2 then amo_ext k val else val2)
      else (if amo_trunc k val > amo_trunc k val2 then amo_ext k val else val2))"

definition amo_funct5s :: "u32 list" where
  "amo_funct5s = [1, 0, 4, 0xc, 0x8, 0x10, 0x14, 0x18, 0x1c]"

definition exec_lr :: "'d env_ops \<Rightarrow> nat \<Rightarrow> nat \<Rightarrow> u64 \<Rightarrow> 'd sys \<Rightarrow> ctl \<times> 'd sys" where
  "exec_lr E k rd addr s =
     load_then E k addr NextInsn
       (\<lambda>rval s. write_reg_nz rd (amo_ext k rval) (s\<lparr>load_res := addr, load_res_memseqno := memseqno s\<rparr>)) s"

definition exec_sc :: "'d env_ops \<Rightarrow> nat \<Rightarrow> nat \<Rightarrow> nat \<Rightarrow> u64 \<Rightarrow> 'd sys \<Rightarrow> ctl \<times> 'd sys" where
  "exec_sc E k rd rs2 addr s =
     (if addr AND (2 ^ k - 1) \<noteq> 0 then (MmuException, set_pending CAUSE_MISALIGNED_STORE addr s)
      else if load_res s = addr \<and> load_res_memseqno s = memseqno s then
        (let (v, s) = read_reg rs2 s
         in case target_write E k addr v s of
              (False, s) \<Rightarrow> (MmuException, s)
            | (True, s) \<Rightarrow> (NextInsn, write_reg_nz rd 0 (s\<lparr>load_res := -1, load_res_memseqno := 0\<rparr>)))
      else (NextInsn, write_reg_nz rd 1 s))"

definition exec_amo :: "'d env_ops \<Rightarrow> nat \<Rightarrow> u32 \<Rightarrow> nat \<Rightarrow> nat \<Rightarrow> u64 \<Rightarrow> 'd sys \<Rightarrow> ctl \<times> 'd sys" where
  "exec_amo E k funct5 rd rs2 addr s =
     (case target_read E k addr s of
        (None, s) \<Rightarrow>
          (MmuException,
           if pending_exception s \<noteq> uint (CAUSE_BREAKPOINT :: u32) then s\<lparr>pending_exception := pending_exception s + 2\<rparr> else s)
      | (Some rval, s) \<Rightarrow>
          (let val = amo_ext k rval;
               (val2, s) = read_reg rs2 s
           in case target_write E k addr (amo_val k funct5 val val2) s of
                (False, s) \<Rightarrow> (MmuException, s)
              | (True, s) \<Rightarrow> (NextInsn, write_reg_nz rd val s)))"

definition op_a :: "'d env_ops \<Rightarrow> nat \<Rightarrow> u32 \<Rightarrow> 'd sys \<Rightarrow> ctl \<times> 'd sys" where
  "op_a E k insn s =
     (let (addr, s) = read_reg (insn_rs1 insn) s;
          funct5 = drop_bit 27 insn; rd = insn_rd insn; rs2 = insn_rs2 insn
      in if funct5 = 2 then (if rs2 \<noteq> 0 then (IllegalInsn, s) else exec_lr E k rd addr s)
         else if funct5 = 3 then exec_sc E k rd rs2 addr s
         else if List.member amo_funct5s funct5 then exec_amo E k funct5 rd rs2 addr s
         else (IllegalInsn, s))"

definition exec_atomic :: "'d env_ops \<Rightarrow> u32 \<Rightarrow> 'd sys \<Rightarrow> ctl \<times> 'd sys" where
  "exec_atomic E insn s =
     (if insn_funct3 insn = 2 then op_a E 2 insn s
      else if insn_funct3 insn = 3 then op_a E 3 insn s
      else (IllegalInsn, s))"

section \<open>CSR instructions\<close>

text \<open>What follows a successful read: the write, the destination register and the exit.
  \<open>insn_counter_addend\<close> is assigned the value it has.\<close>

definition csr_finish :: "u64 \<Rightarrow> nat \<Rightarrow> u64 \<Rightarrow> csr_result \<Rightarrow> 'd sys \<Rightarrow> ctl \<times> 'd sys" where
  "csr_finish gpc rd val2 err s =
     (if err = CsrInvalid then (IllegalInsn, s)
      else (let s = write_reg_nz rd val2 s in
            if err = CsrFlushed then jump_insn ctf_nop (s\<lparr>pc := gpc + 4\<rparr>) else (NextInsn, s)))"

definition exec_csrrw ::
    "u64 \<Rightarrow> u64 \<Rightarrow> u64 \<Rightarrow> u32 \<Rightarrow> u64 \<Rightarrow> 'd sys \<Rightarrow> ctl \<times> 'd sys" where
  "exec_csrrw gpc icount start insn val s =
     (case account_insns icount start s of
        None \<Rightarrow> (Aborted, s)
      | Some s \<Rightarrow>
          (let imm = drop_bit 20 insn in
           case csr_read imm True s of
             None \<Rightarrow> (IllegalInsn, s)
           | Some val2 \<Rightarrow>
               (let (err, s) = csr_write imm val s in csr_finish gpc (insn_rd insn) val2 err s)))"

definition exec_csrrs ::
    "u64 \<Rightarrow> u64 \<Rightarrow> u64 \<Rightarrow> u32 \<Rightarrow> u32 \<Rightarrow> u64 \<Rightarrow> 'd sys \<Rightarrow> ctl \<times> 'd sys" where
  "exec_csrrs gpc icount start funct2 insn val s =
     (case account_insns icount start s of
        None \<Rightarrow> (Aborted, s)
      | Some s \<Rightarrow>
          (let imm = drop_bit 20 insn; rs1 = insn_rs1 insn in
           case csr_read imm (rs1 \<noteq> 0) s of
             None \<Rightarrow> (IllegalInsn, s)
           | Some val2 \<Rightarrow>
               (let (err, s) =
                  (if rs1 \<noteq> 0
                   then csr_write imm (if funct2 = 2 then val2 OR val else val2 AND NOT val) s
                   else (CsrOk, s))
                in csr_finish gpc (insn_rd insn) val2 err s)))"

section \<open>Privileged instructions\<close>

definition SBI_SHUTDOWN :: u64 where [simp]: "SBI_SHUTDOWN = 8"

text \<open>The register compared with \<open>SBI_SHUTDOWN\<close> is number 0x17.\<close>

definition exec_ecall :: "u32 \<Rightarrow> 'd sys \<Rightarrow> ctl \<times> 'd sys" where
  "exec_ecall insn s =
     (if insn AND 0x000fff80 \<noteq> 0 then (IllegalInsn, s)
      else
        (let s = s\<lparr>pending_exception := uint (CAUSE_USER_ECALL :: u32) + uint (priv s), pending_tval := 0\<rparr>;
             s = (if \<not> ignore_sbi_shutdown s \<and> priv s = PRV_M then
                    (let (v, s) = read_reg 0x17 s
                     in if v = SBI_SHUTDOWN then s\<lparr>terminate_simulation := True\<rparr> else s)
                  else s)
         in (ExceptionExit, s)))"

definition exec_ebreak :: "u32 \<Rightarrow> 'd sys \<Rightarrow> ctl \<times> 'd sys" where
  "exec_ebreak insn s =
     (if insn AND 0x000fff80 \<noteq> 0 then (IllegalInsn, s) else raise_pending CAUSE_BREAKPOINT s)"

definition exec_sret :: "u64 \<Rightarrow> u32 \<Rightarrow> 'd sys \<Rightarrow> ctl \<times> 'd sys" where
  "exec_sret gpc insn s =
     (if insn AND 0x000fff80 \<noteq> 0 then (IllegalInsn, s)
      else if priv s < PRV_S then (IllegalInsn, s)
      else if priv s = PRV_S \<and> mstatus s AND MSTATUS_TSR \<noteq> 0 then (IllegalInsn, s)
      else (DoneInterp, handle_sret (s\<lparr>pc := gpc\<rparr>)))"

definition exec_mret :: "u64 \<Rightarrow> u32 \<Rightarrow> 'd sys \<Rightarrow> ctl \<times> 'd sys" where
  "exec_mret gpc insn s =
     (if insn AND 0x000fff80 \<noteq> 0 then (IllegalInsn, s)
      else if priv s < PRV_M then (IllegalInsn, s)
      else (DoneInterp, handle_mret (s\<lparr>pc := gpc\<rparr>)))"

definition exec_dret :: "u64 \<Rightarrow> u32 \<Rightarrow> 'd sys \<Rightarrow> ctl \<times> 'd sys" where
  "exec_dret gpc insn s =
     (if \<not> debug_mode s then (IllegalInsn, s)
      else if insn AND 0x000fff80 \<noteq> 0 then (IllegalInsn, s)
      else if priv s < PRV_M then (IllegalInsn, s)
      else (DoneInterp, handle_dret (s\<lparr>pc := gpc\<rparr>)))"

definition exec_wfi :: "u64 \<Rightarrow> u32 \<Rightarrow> 'd sys \<Rightarrow> ctl \<times> 'd sys" where
  "exec_wfi gpc insn s =
     (if insn AND 0x00007f80 \<noteq> 0 then (IllegalInsn, s)
      else if priv s = PRV_U then (IllegalInsn, s)
      else if priv s = PRV_S \<and> mstatus s AND MSTATUS_TW \<noteq> 0 then (IllegalInsn, s)
      else if mip s AND mie s = 0 \<and> pending_interrupt s = -1 \<or> \<not> cosim s
      then (DoneInterp, s\<lparr>power_down_flag := True, pc := gpc + 4\<rparr>)
      else (NextInsn, s))"

definition exec_sfence_vma :: "u64 \<Rightarrow> u32 \<Rightarrow> 'd sys \<Rightarrow> ctl \<times> 'd sys" where
  "exec_sfence_vma gpc insn s =
     (if insn AND 0x00007f80 \<noteq> 0 then (IllegalInsn, s)
      else if priv s = PRV_U then (IllegalInsn, s)
      else if priv s = PRV_S \<and> mstatus s AND MSTATUS_TVM \<noteq> 0 then (IllegalInsn, s)
      else
        (let s = (if insn_rs1 insn = 0 then tlb_flush_all s
                  else (let (v, s) = read_reg (insn_rs1 insn) s in tlb_flush_vaddr v s))
         in jump_insn ctf_nop (s\<lparr>pc := gpc + 4\<rparr>)))"

definition exec_priv :: "u64 \<Rightarrow> u32 \<Rightarrow> 'd sys \<Rightarrow> ctl \<times> 'd sys" where
  "exec_priv gpc insn s =
     (let imm = drop_bit 20 insn in
      if imm = 0x000 then exec_ecall insn s
      else if imm = 0x001 then exec_ebreak insn s
      else if imm = 0x102 then exec_sret gpc insn s
      else if imm = 0x302 then exec_mret gpc insn s
      else if imm = 0x7b2 then exec_dret gpc insn s
      else if imm = 0x105 then exec_wfi gpc insn s
      else if drop_bit 5 imm = 0x09 then exec_sfence_vma gpc insn s
      else (IllegalInsn, s))"

definition exec_system :: "u64 \<Rightarrow> u64 \<Rightarrow> u64 \<Rightarrow> u32 \<Rightarrow> 'd sys \<Rightarrow> ctl \<times> 'd sys" where
  "exec_system gpc icount start insn s =
     (let funct3 = insn_funct3 insn;
          (val, s) = (if funct3 AND 4 \<noteq> 0 then (of_nat (insn_rs1 insn), s) else read_reg (insn_rs1 insn) s);
          funct2 = funct3 AND 3
      in if funct2 = 1 then exec_csrrw gpc icount start insn val s
         else if funct2 = 2 \<or> funct2 = 3 then exec_csrrs gpc icount start funct2 insn val s
         else exec_priv gpc insn s)"

end
