(* ===== verification/Softfp.thy ===== *)
theory Softfp
  imports Alu
begin

text \<open>
  Software floating point (\<open>src/include/softfp_template.h\<close> and
  \<open>src/include/softfp_template_icvt.h\<close>).  The template is included for
  \<open>F_SIZE\<close> 32, 64 and 128; here its functions are polymorphic in the word type,
  \<open>F_SIZE\<close> being the length of the type.  The accrued exception flags are passed
  in and returned.  Signs are booleans, exponents are C integers far from
  overflow and are modelled by \<open>int\<close>.  \<open>None\<close> is the failed assertion
  \<open>shift >= 0\<close> of the normalisation.  The double words \<open>F_ULONG\<close> are
  numbers below \<open>2 ^ (2 * F_SIZE)\<close>.
\<close>

section \<open>Formats\<close>

datatype RoundingModeEnum = RM_RNE | RM_RTZ | RM_RDN | RM_RUP | RM_RMM

definition RoundingModeEnum_of :: "nat \<Rightarrow> RoundingModeEnum" where
  "RoundingModeEnum_of n =
     (if n = 0 then RM_RNE else if n = 1 then RM_RTZ else if n = 2 then RM_RDN
      else if n = 3 then RM_RUP else RM_RMM)"

definition FFLAG_INVALID_OP :: u32 where [simp]: "FFLAG_INVALID_OP = 16"
definition FFLAG_DIVIDE_ZERO :: u32 where [simp]: "FFLAG_DIVIDE_ZERO = 8"
definition FFLAG_OVERFLOW :: u32 where [simp]: "FFLAG_OVERFLOW = 4"
definition FFLAG_UNDERFLOW :: u32 where [simp]: "FFLAG_UNDERFLOW = 2"
definition FFLAG_INEXACT :: u32 where [simp]: "FFLAG_INEXACT = 1"

definition FCLASS_NINF :: u32 where [simp]: "FCLASS_NINF = 1"
definition FCLASS_NNORMAL :: u32 where [simp]: "FCLASS_NNORMAL = 2"
definition FCLASS_NSUBNORMAL :: u32 where [simp]: "FCLASS_NSUBNORMAL = 4"
definition FCLASS_NZERO :: u32 where [simp]: "FCLASS_NZERO = 8"
definition FCLASS_PZERO :: u32 where [simp]: "FCLASS_PZERO = 16"
definition FCLASS_PSUBNORMAL :: u32 where [simp]: "FCLASS_PSUBNORMAL = 32"
definition FCLASS_PNORMAL :: u32 where [simp]: "FCLASS_PNORMAL = 64"
definition FCLASS_PINF :: u32 where [simp]: "FCLASS_PINF = 128"
definition FCLASS_SNAN :: u32 where [simp]: "FCLASS_SNAN = 256"
definition FCLASS_QNAN :: u32 where [simp]: "FCLASS_QNAN = 512"

text \<open>The sizes, as functions of \<open>F_SIZE\<close>.\<close>

definition MANT_SIZE :: "nat \<Rightarrow> nat" where
  "MANT_SIZE n = (if n = 32 then 23 else if n = 64 then 52 else 112)"

definition EXP_SIZE :: "nat \<Rightarrow> nat" where
  "EXP_SIZE n = (if n = 32 then 8 else if n = 64 then 11 else 15)"

definition IMANT_SIZE :: "nat \<Rightarrow> nat" where "IMANT_SIZE n = n - 2"

definition RND_SIZE :: "nat \<Rightarrow> nat" where "RND_SIZE n = IMANT_SIZE n - MANT_SIZE n"

definition EXP_MASK :: "nat \<Rightarrow> int" where "EXP_MASK n = 2 ^ EXP_SIZE n - 1"

abbreviation one_at :: "nat \<Rightarrow> 'a::len word" where "one_at k \<equiv> push_bit k 1"

definition MANT_MASK :: "'a::len word" where "MANT_MASK = one_at (MANT_SIZE LENGTH('a)) - 1"
definition SIGN_MASK :: "'a::len word" where "SIGN_MASK = one_at (LENGTH('a) - 1)"
definition QNAN_MASK :: "'a::len word" where "QNAN_MASK = one_at (MANT_SIZE LENGTH('a) - 1)"

definition F_QNAN :: "'a::len word" where
  "F_QNAN = push_bit (MANT_SIZE LENGTH('a)) (word_of_int (EXP_MASK LENGTH('a))) OR one_at (MANT_SIZE LENGTH('a) - 1)"

definition pack_sf :: "bool \<Rightarrow> int \<Rightarrow> 'a::len word \<Rightarrow> 'a word" where
  "pack_sf a_sign a_exp a_mant =
     push_bit (LENGTH('a) - 1) (cbool a_sign) OR push_bit (MANT_SIZE LENGTH('a)) (word_of_int a_exp)
       OR a_mant AND MANT_MASK"

text \<open>The fields, as every function of the template extracts them.\<close>

definition sf_sign :: "'a::len word \<Rightarrow> bool" where
  "sf_sign a = (drop_bit (LENGTH('a) - 1) a \<noteq> 0)"

definition sf_exp :: "'a::len word \<Rightarrow> int" where
  "sf_exp a = uint (drop_bit (MANT_SIZE LENGTH('a)) a AND word_of_int (EXP_MASK LENGTH('a)))"

definition sf_mant :: "'a::len word \<Rightarrow> 'a word" where
  "sf_mant a = a AND MANT_MASK"

definition unpack_sf :: "'a::len word \<Rightarrow> bool \<times> int \<times> 'a word" where
  "unpack_sf a = (sf_sign a, sf_exp a, sf_mant a)"

definition rshift_rnd :: "'a::len word \<Rightarrow> nat \<Rightarrow> 'a word" where
  "rshift_rnd a d =
     (if d \<noteq> 0 then
        (if d \<ge> LENGTH('a) then cbool (a \<noteq> 0)
         else (let m = one_at d - 1 in drop_bit d a OR cbool (a AND m \<noteq> 0)))
      else a)"

section \<open>Rounding\<close>

text \<open>\<open>a_sign ^ (rm & 1)\<close> decides the directed modes.\<close>

definition rnd_addend :: "bool \<Rightarrow> RoundingModeEnum \<Rightarrow> 'a::len word" where
  "rnd_addend a_sign rm =
     (case rm of
        RM_RNE \<Rightarrow> one_at (RND_SIZE LENGTH('a) - 1)
      | RM_RMM \<Rightarrow> one_at (RND_SIZE LENGTH('a) - 1)
      | RM_RTZ \<Rightarrow> 0
      | RM_RDN \<Rightarrow> if a_sign then one_at (RND_SIZE LENGTH('a)) - 1 else 0
      | RM_RUP \<Rightarrow> if \<not> a_sign then one_at (RND_SIZE LENGTH('a)) - 1 else 0)"

definition round_pack_sf ::
    "bool \<Rightarrow> int \<Rightarrow> 'a::len word \<Rightarrow> RoundingModeEnum \<Rightarrow> u32 \<Rightarrow> 'a word \<times> u32" where
  "round_pack_sf a_sign a_exp a_mant rm flags =
     (let addend = rnd_addend a_sign rm;
          rmask = one_at (RND_SIZE LENGTH('a)) - 1;
          (a_exp, a_mant, rnd_bits, flags) =
            (if a_exp \<le> 0 then
               (let is_subnormal = (a_exp < 0 \<or> a_mant + addend < one_at (LENGTH('a) - 1));
                    diff = nat (1 - a_exp);
                    a_mant = rshift_rnd a_mant diff;
                    rnd_bits = a_mant AND rmask
                in (1, a_mant, rnd_bits,
                    if is_subnormal \<and> rnd_bits \<noteq> 0 then flags OR FFLAG_UNDERFLOW else flags))
             else (a_exp, a_mant, a_mant AND rmask, flags));
          flags = (if rnd_bits \<noteq> 0 then flags OR FFLAG_INEXACT else flags);
          a_mant = drop_bit (RND_SIZE LENGTH('a)) (a_mant + addend);
          a_mant = (if rm = RM_RNE \<and> rnd_bits = one_at (RND_SIZE LENGTH('a) - 1) then a_mant AND NOT 1 else a_mant);
          a_exp = a_exp + uint (drop_bit (MANT_SIZE LENGTH('a) + 1) a_mant)
      in if a_mant \<le> MANT_MASK then (pack_sf a_sign 0 a_mant, flags)
         else if a_exp \<ge> EXP_MASK LENGTH('a) then
           (if addend = 0 then pack_sf a_sign (EXP_MASK LENGTH('a) - 1) MANT_MASK
            else pack_sf a_sign (EXP_MASK LENGTH('a)) 0,
            flags OR FFLAG_OVERFLOW OR FFLAG_INEXACT)
         else (pack_sf a_sign a_exp a_mant, flags))"

definition normalize_sf ::
    "bool \<Rightarrow> int \<Rightarrow> 'a::len word \<Rightarrow> RoundingModeEnum \<Rightarrow> u32 \<Rightarrow> ('a word \<times> u32) option" where
  "normalize_sf a_sign a_exp a_mant rm flags =
     (let shift = int (countl_zero a_mant) - int (LENGTH('a) - 1 - IMANT_SIZE LENGTH('a))
      in if shift < 0 then None
         else Some (round_pack_sf a_sign (a_exp - shift) (push_bit (nat shift) a_mant) rm flags))"

definition normalize2_sf ::
    "bool \<Rightarrow> int \<Rightarrow> 'a::len word \<Rightarrow> 'a word \<Rightarrow> RoundingModeEnum \<Rightarrow> u32 \<Rightarrow> ('a word \<times> u32) option" where
  "normalize2_sf a_sign a_exp a_mant1 a_mant0 rm flags =
     (let l = (if a_mant1 = 0 then LENGTH('a) + countl_zero a_mant0 else countl_zero a_mant1);
          shift = int l - int (LENGTH('a) - 1 - IMANT_SIZE LENGTH('a))
      in if shift < 0 then None
         else
           (let n = nat shift;
                a_mant1 =
                  (if n = 0 then a_mant1 OR cbool (a_mant0 \<noteq> 0)
                   else if n < LENGTH('a) then
                     (let m1 = push_bit n a_mant1 OR drop_bit (LENGTH('a) - n) a_mant0;
                          m0 = push_bit n a_mant0
                      in m1 OR cbool (m0 \<noteq> 0))
                   else push_bit (n - LENGTH('a)) a_mant0)
            in Some (round_pack_sf a_sign (a_exp - shift) a_mant1 rm flags)))"

definition issignan_sf :: "'a::len word \<Rightarrow> bool" where
  "issignan_sf a =
     (let a_exp1 = uint (drop_bit (MANT_SIZE LENGTH('a) - 1) a AND (one_at (EXP_SIZE LENGTH('a) + 1) - 1))
      in a_exp1 = 2 * EXP_MASK LENGTH('a) \<and> sf_mant a \<noteq> 0)"

definition isnan_sf :: "'a::len word \<Rightarrow> bool" where
  "isnan_sf a = (sf_exp a = EXP_MASK LENGTH('a) \<and> sf_mant a \<noteq> 0)"

definition invalid_if :: "bool \<Rightarrow> u32 \<Rightarrow> u32" where
  "invalid_if b flags = (if b then flags OR FFLAG_INVALID_OP else flags)"

section \<open>Addition\<close>

definition add_sf :: "'a::len word \<Rightarrow> 'a word \<Rightarrow> RoundingModeEnum \<Rightarrow> u32 \<Rightarrow> ('a word \<times> u32) option" where
  "add_sf a b rm flags =
     (let (a, b) = (if a AND NOT SIGN_MASK < b AND NOT SIGN_MASK then (b, a) else (a, b));
          a_sign = sf_sign a; b_sign = sf_sign b;
          a_exp = sf_exp a; b_exp = sf_exp b;
          a_mant = push_bit 3 (sf_mant a); b_mant = push_bit 3 (sf_mant b)
      in if a_exp = EXP_MASK LENGTH('a) then
           (if a_mant \<noteq> 0 then
              Some (F_QNAN, invalid_if (a_mant AND push_bit 3 QNAN_MASK = 0 \<or> issignan_sf b) flags)
            else if b_exp = EXP_MASK LENGTH('a) \<and> a_sign \<noteq> b_sign then Some (F_QNAN, flags OR FFLAG_INVALID_OP)
            else Some (a, flags))
         else
           (let (a_exp, a_mant) = (if a_exp = 0 then (1, a_mant)
                                   else (a_exp, a_mant OR one_at (MANT_SIZE LENGTH('a) + 3)));
                (b_exp, b_mant) = (if b_exp = 0 then (1, b_mant)
                                   else (b_exp, b_mant OR one_at (MANT_SIZE LENGTH('a) + 3)));
                b_mant = rshift_rnd b_mant (nat (a_exp - b_exp));
                (a_sign, a_mant) =
                  (if a_sign = b_sign then (a_sign, a_mant + b_mant)
                   else (let a_mant = a_mant - b_mant
                         in (if a_mant = 0 then (rm = RM_RDN) else a_sign, a_mant)));
                a_exp = a_exp + int (RND_SIZE LENGTH('a)) - 3
            in normalize_sf a_sign a_exp a_mant rm flags))"

definition sub_sf :: "'a::len word \<Rightarrow> 'a word \<Rightarrow> RoundingModeEnum \<Rightarrow> u32 \<Rightarrow> ('a word \<times> u32) option" where
  "sub_sf a b rm flags = add_sf a (b XOR SIGN_MASK) rm flags"

section \<open>Multiplication\<close>

definition normalize_subnormal_sf :: "'a::len word \<Rightarrow> int \<times> 'a word" where
  "normalize_subnormal_sf a_mant =
     (let shift = int (MANT_SIZE LENGTH('a)) - (int LENGTH('a) - 1 - int (countl_zero a_mant))
      in (1 - shift, push_bit (nat shift) a_mant))"

text \<open>The high and the low word of the product.\<close>

definition mul_u :: "'a::len word \<Rightarrow> 'a word \<Rightarrow> 'a word \<times> 'a word" where
  "mul_u a b = (let r = uint a * uint b in (word_of_int (r div 2 ^ LENGTH('a)), word_of_int r))"

text \<open>The exponent and the mantissa with its implicit bit.\<close>

definition sf_significand :: "'a::len word \<Rightarrow> int \<times> 'a word" where
  "sf_significand a =
     (if sf_exp a = 0 then normalize_subnormal_sf (sf_mant a)
      else (sf_exp a, sf_mant a OR one_at (MANT_SIZE LENGTH('a))))"

abbreviation sf_is_zero :: "'a::len word \<Rightarrow> bool" where
  "sf_is_zero a \<equiv> sf_exp a = 0 \<and> sf_mant a = 0"

definition mul_sf :: "'a::len word \<Rightarrow> 'a word \<Rightarrow> RoundingModeEnum \<Rightarrow> u32 \<Rightarrow> ('a word \<times> u32) option" where
  "mul_sf a b rm flags =
     (let r_sign = (sf_sign a \<noteq> sf_sign b);
          emax = EXP_MASK LENGTH('a)
      in if sf_exp a = emax \<or> sf_exp b = emax then
           (if isnan_sf a \<or> isnan_sf b then Some (F_QNAN, invalid_if (issignan_sf a \<or> issignan_sf b) flags)
            else if sf_exp a = emax \<and> sf_is_zero b \<or> sf_exp b = emax \<and> sf_is_zero a
            then Some (F_QNAN, flags OR FFLAG_INVALID_OP)
            else Some (pack_sf r_sign emax 0, flags))
         else if sf_is_zero a then Some (pack_sf r_sign 0 0, flags)
         else if sf_is_zero b then Some (pack_sf r_sign 0 0, flags)
         else
           (let (a_exp, a_mant) = sf_significand a;
                (b_exp, b_mant) = sf_significand b;
                r_exp = a_exp + b_exp - 2 ^ (EXP_SIZE LENGTH('a) - 1) + 2;
                (r_mant, r_mant_low) = mul_u (push_bit (RND_SIZE LENGTH('a)) a_mant)
                                             (push_bit (RND_SIZE LENGTH('a) + 1) b_mant);
                r_mant = r_mant OR cbool (r_mant_low \<noteq> 0)
            in normalize_sf r_sign r_exp r_mant rm flags))"

text \<open>The addend of a fused multiplication shifted right by the difference of the
  exponents, with a sticky bit.\<close>

definition fma_shift :: "int \<Rightarrow> 'a::len word \<Rightarrow> 'a word \<Rightarrow> 'a word \<times> 'a word" where
  "fma_shift shift c_mant1 c_mant0 =
     (if shift \<ge> 2 * int LENGTH('a) then (0, cbool (c_mant0 OR c_mant1 \<noteq> 0))
      else if shift \<ge> int LENGTH('a) + 1 then (0, rshift_rnd c_mant1 (nat (shift - int LENGTH('a))))
      else if shift = int LENGTH('a) then (0, c_mant1 OR cbool (c_mant0 \<noteq> 0))
      else if shift \<noteq> 0 then
        (let n = nat shift; m = one_at n - 1
         in (drop_bit n c_mant1,
             push_bit (LENGTH('a) - n) c_mant1 OR drop_bit n c_mant0 OR cbool (c_mant0 AND m \<noteq> 0)))
      else (c_mant1, c_mant0))"

definition fma_add ::
    "bool \<Rightarrow> int \<Rightarrow> 'a::len word \<Rightarrow> 'a word \<Rightarrow> bool \<Rightarrow> int \<Rightarrow> 'a word \<Rightarrow> 'a word \<Rightarrow>
     RoundingModeEnum \<Rightarrow> u32 \<Rightarrow> ('a word \<times> u32) option" where
  "fma_add r_sign r_exp r_mant1 r_mant0 c_sign c_exp c_mant1 c_mant0 rm flags =
     (let (r_sign, r_exp, r_mant1, r_mant0, c_sign, c_exp, c_mant1, c_mant0) =
            (if \<not> (r_exp > c_exp \<or> r_exp = c_exp \<and> r_mant1 \<ge> c_mant1)
             then (c_sign, c_exp, c_mant1, c_mant0, r_sign, r_exp, r_mant1, r_mant0)
             else (r_sign, r_exp, r_mant1, r_mant0, c_sign, c_exp, c_mant1, c_mant0));
          (c_mant1, c_mant0) = fma_shift (r_exp - c_exp) c_mant1 c_mant0;
          (r_sign, r_mant1, r_mant0) =
            (if r_sign = c_sign then
               (let m0 = r_mant0 + c_mant0 in (r_sign, r_mant1 + c_mant1 + cbool (m0 < c_mant0), m0))
             else
               (let m0 = r_mant0 - c_mant0; m1 = r_mant1 - c_mant1 - cbool (m0 > r_mant0)
                in (if m0 OR m1 = 0 then (rm = RM_RDN) else r_sign, m1, m0)))
      in normalize2_sf r_sign r_exp r_mant1 r_mant0 rm flags)"

definition fma_sf ::
    "'a::len word \<Rightarrow> 'a word \<Rightarrow> 'a word \<Rightarrow> RoundingModeEnum \<Rightarrow> u32 \<Rightarrow> ('a word \<times> u32) option" where
  "fma_sf a b c rm flags =
     (let c_sign = sf_sign c;
          r_sign = (sf_sign a \<noteq> sf_sign b);
          emax = EXP_MASK LENGTH('a)
      in if sf_exp a = emax \<or> sf_exp b = emax \<or> sf_exp c = emax then
           (if sf_is_zero a \<and> sf_exp b = emax \<and> sf_mant b = 0 \<or> sf_is_zero b \<and> sf_exp a = emax \<and> sf_mant a = 0
            then Some (F_QNAN, flags OR FFLAG_INVALID_OP)
            else if isnan_sf a \<or> isnan_sf b \<or> isnan_sf c
            then Some (F_QNAN, invalid_if (issignan_sf a \<or> issignan_sf b \<or> issignan_sf c) flags)
            else if sf_exp a = emax \<and> sf_is_zero b \<or> sf_exp b = emax \<and> sf_is_zero a
                  \<or> (sf_exp a = emax \<or> sf_exp b = emax) \<and> sf_exp c = emax \<and> r_sign \<noteq> c_sign
            then Some (F_QNAN, flags OR FFLAG_INVALID_OP)
            else if sf_exp c = emax then Some (pack_sf c_sign emax 0, flags)
            else Some (pack_sf r_sign emax 0, flags))
         else if sf_is_zero a \<or> sf_is_zero b then
           (if sf_is_zero c
            then Some (pack_sf (if c_sign \<noteq> r_sign then (rm = RM_RDN) else r_sign) 0 0, flags)
            else Some (c, flags))
         else
           (let (a_exp, a_mant) = sf_significand a;
                (b_exp, b_mant) = sf_significand b;
                r_exp = a_exp + b_exp - 2 ^ (EXP_SIZE LENGTH('a) - 1) + 3;
                (r_mant1, r_mant0) = mul_u (push_bit (RND_SIZE LENGTH('a)) a_mant)
                                           (push_bit (RND_SIZE LENGTH('a)) b_mant);
                (r_exp, r_mant1, r_mant0) =
                  (if r_mant1 < one_at (LENGTH('a) - 3)
                   then (r_exp - 1, push_bit 1 r_mant1 OR drop_bit (LENGTH('a) - 1) r_mant0, push_bit 1 r_mant0)
                   else (r_exp, r_mant1, r_mant0))
            in if sf_is_zero c
               then normalize_sf r_sign r_exp (r_mant1 OR cbool (r_mant0 \<noteq> 0)) rm flags
               else
                 (let (c_exp, c_mant) = sf_significand c
                  in fma_add r_sign r_exp r_mant1 r_mant0
                       c_sign (c_exp + 1) (push_bit (RND_SIZE LENGTH('a) - 1) c_mant) 0 rm flags)))"

section \<open>Division and square root\<close>

text \<open>The quotient of the double word \<open>ah * 2 ^ F_SIZE + al\<close>, truncated to a word, and
  the remainder.\<close>

definition divrem_u :: "'a::len word \<Rightarrow> 'a word \<Rightarrow> 'a word \<Rightarrow> 'a word \<times> 'a word" where
  "divrem_u ah al b =
     (let a = uint ah * 2 ^ LENGTH('a) + uint al in (word_of_int (a div uint b), word_of_int (a mod uint b)))"

definition div_sf :: "'a::len word \<Rightarrow> 'a word \<Rightarrow> RoundingModeEnum \<Rightarrow> u32 \<Rightarrow> ('a word \<times> u32) option" where
  "div_sf a b rm flags =
     (let r_sign = (sf_sign a \<noteq> sf_sign b);
          emax = EXP_MASK LENGTH('a)
      in if sf_exp a = emax then
           (if sf_mant a \<noteq> 0 \<or> isnan_sf b then Some (F_QNAN, invalid_if (issignan_sf a \<or> issignan_sf b) flags)
            else if sf_exp b = emax then Some (F_QNAN, flags OR FFLAG_INVALID_OP)
            else Some (pack_sf r_sign emax 0, flags))
         else if sf_exp b = emax then
           (if sf_mant b \<noteq> 0 then Some (F_QNAN, invalid_if (issignan_sf a \<or> issignan_sf b) flags)
            else Some (pack_sf r_sign 0 0, flags))
         else if sf_is_zero b then
           (if sf_is_zero a then Some (F_QNAN, flags OR FFLAG_INVALID_OP)
            else Some (pack_sf r_sign emax 0, flags OR FFLAG_DIVIDE_ZERO))
         else if sf_is_zero a then Some (pack_sf r_sign 0 0, flags)
         else
           (let (b_exp, b_mant) = sf_significand b;
                (a_exp, a_mant) = sf_significand a;
                r_exp = a_exp - b_exp + 2 ^ (EXP_SIZE LENGTH('a) - 1) - 1;
                (r_mant, r) = divrem_u a_mant 0 (push_bit 2 b_mant);
                r_mant = (if r \<noteq> 0 then r_mant OR 1 else r_mant)
            in normalize_sf r_sign r_exp r_mant rm flags))"

text \<open>The Newton iteration: it stops at the first \<open>u >= s\<close> and yields \<open>s\<close>.\<close>

function newton_sqrt :: "nat \<Rightarrow> nat \<Rightarrow> nat" where
  "newton_sqrt a u = (let s = u; u = (a div s + s) div 2 in if u \<ge> s then s else newton_sqrt a u)"
  by pat_completeness auto
termination by (relation "measure snd") (auto simp: Let_def)

definition sqrtrem_u :: "'a::len word \<Rightarrow> 'a word \<Rightarrow> 'a word \<times> bool" where
  "sqrtrem_u ah al =
     (if ah = 0 \<and> al = 0 then (0, False)
      else
        (let l = (if ah \<noteq> 0 then 2 * LENGTH('a) - countl_zero (ah - 1) else LENGTH('a) - countl_zero (al - 1));
             a = unat ah * 2 ^ LENGTH('a) + unat al;
             s = newton_sqrt a (2 ^ ((l + 1) div 2))
         in (of_nat s, a \<noteq> s * s)))"

definition sqrt_sf :: "'a::len word \<Rightarrow> RoundingModeEnum \<Rightarrow> u32 \<Rightarrow> ('a word \<times> u32) option" where
  "sqrt_sf a rm flags =
     (let emax = EXP_MASK LENGTH('a)
      in if sf_exp a = emax \<and> sf_mant a \<noteq> 0 then Some (F_QNAN, invalid_if (issignan_sf a) flags)
         else if sf_exp a = emax \<and> \<not> sf_sign a then Some (a, flags)
         else if sf_sign a \<and> sf_is_zero a then Some (a, flags)
         else if sf_sign a then Some (F_QNAN, flags OR FFLAG_INVALID_OP)
         else if sf_is_zero a then Some (pack_sf False 0 0, flags)
         else
           (let (a_exp, a_mant) = sf_significand a;
                a_exp = a_exp - emax div 2;
                (a_exp, a_mant) = (if odd a_exp then (a_exp - 1, push_bit 1 a_mant) else (a_exp, a_mant));
                a_exp = a_exp div 2 + emax div 2;
                a_mant = push_bit (LENGTH('a) - 4 - MANT_SIZE LENGTH('a)) a_mant;
                (a_mant, inexact) = sqrtrem_u a_mant 0
            in normalize_sf False a_exp (if inexact then a_mant OR 1 else a_mant) rm flags))"

section \<open>Comparisons\<close>

definition min_sf :: "'a::len word \<Rightarrow> 'a word \<Rightarrow> u32 \<Rightarrow> 'a word \<times> u32" where
  "min_sf a b flags =
     (if isnan_sf a \<or> isnan_sf b then
        (if isnan_sf a then (if isnan_sf b then F_QNAN else b) else a,
         invalid_if (issignan_sf a \<or> issignan_sf b) flags)
      else if sf_sign a \<noteq> sf_sign b then (if sf_sign a then a else b, flags)
      else (if (a < b) \<noteq> sf_sign a then a else b, flags))"

definition max_sf :: "'a::len word \<Rightarrow> 'a word \<Rightarrow> u32 \<Rightarrow> 'a word \<times> u32" where
  "max_sf a b flags =
     (if isnan_sf a \<or> isnan_sf b then
        (if isnan_sf a then (if isnan_sf b then F_QNAN else b) else a,
         invalid_if (issignan_sf a \<or> issignan_sf b) flags)
      else if sf_sign a \<noteq> sf_sign b then (if sf_sign a then b else a, flags)
      else (if (a < b) \<noteq> sf_sign a then b else a, flags))"

definition eq_quiet_sf :: "'a::len word \<Rightarrow> 'a word \<Rightarrow> u32 \<Rightarrow> bool \<times> u32" where
  "eq_quiet_sf a b flags =
     (if isnan_sf a \<or> isnan_sf b then (False, invalid_if (issignan_sf a \<or> issignan_sf b) flags)
      else if push_bit 1 (a OR b) = 0 then (True, flags)
      else (a = b, flags))"

definition le_sf :: "'a::len word \<Rightarrow> 'a word \<Rightarrow> u32 \<Rightarrow> bool \<times> u32" where
  "le_sf a b flags =
     (if isnan_sf a \<or> isnan_sf b then (False, flags OR FFLAG_INVALID_OP)
      else if sf_sign a \<noteq> sf_sign b then (sf_sign a \<or> push_bit 1 (a OR b) = 0, flags)
      else (if sf_sign a then a \<ge> b else a \<le> b, flags))"

definition lt_sf :: "'a::len word \<Rightarrow> 'a word \<Rightarrow> u32 \<Rightarrow> bool \<times> u32" where
  "lt_sf a b flags =
     (if isnan_sf a \<or> isnan_sf b then (False, flags OR FFLAG_INVALID_OP)
      else if sf_sign a \<noteq> sf_sign b then (sf_sign a \<and> push_bit 1 (a OR b) \<noteq> 0, flags)
      else (if sf_sign a then a > b else a < b, flags))"

definition fclass_sf :: "'a::len word \<Rightarrow> u32" where
  "fclass_sf a =
     (if sf_exp a = EXP_MASK LENGTH('a) then
        (if sf_mant a \<noteq> 0 then (if sf_mant a AND QNAN_MASK \<noteq> 0 then FCLASS_QNAN else FCLASS_SNAN)
         else if sf_sign a then FCLASS_NINF else FCLASS_PINF)
      else if sf_exp a = 0 then
        (if sf_mant a = 0 then (if sf_sign a then FCLASS_NZERO else FCLASS_PZERO)
         else if sf_sign a then FCLASS_NSUBNORMAL else FCLASS_PSUBNORMAL)
      else if sf_sign a then FCLASS_NNORMAL else FCLASS_PNORMAL)"

section \<open>Conversions between formats\<close>

definition cvt_sf32_sf64 :: "u32 \<Rightarrow> u32 \<Rightarrow> u64 \<times> u32" where
  "cvt_sf32_sf64 a flags =
     (let (a_sign, a_exp, a_mant) = unpack_sf a
      in if a_exp = 0xff then
           (if a_mant \<noteq> 0 then (F_QNAN, invalid_if (issignan_sf a) flags)
            else (pack_sf a_sign (EXP_MASK 64) 0, flags))
         else if a_exp = 0 \<and> a_mant = 0 then (pack_sf a_sign 0 0, flags)
         else
           (let (a_exp, a_mant) = (if a_exp = 0 then normalize_subnormal_sf a_mant else (a_exp, a_mant));
                a_exp = a_exp - 0x7f + EXP_MASK 64 div 2;
                a_mant = push_bit (MANT_SIZE 64 - 23) (zx32 a_mant)
            in (pack_sf a_sign a_exp a_mant, flags)))"

text \<open>The mantissa that \<open>normalize_subnormal_sf\<close> returns is dropped.\<close>

definition cvt_sf64_sf32 :: "u64 \<Rightarrow> RoundingModeEnum \<Rightarrow> u32 \<Rightarrow> (u32 \<times> u32) option" where
  "cvt_sf64_sf32 a rm flags =
     (let (a_sign, a_exp, a_mant) = unpack_sf a
      in if a_exp = EXP_MASK 64 then
           (if a_mant \<noteq> 0 then Some (F_QNAN, invalid_if (issignan_sf a) flags)
            else Some (pack_sf a_sign 0xff 0, flags))
         else if a_exp = 0 \<and> a_mant = 0 then Some (pack_sf a_sign 0 0, flags)
         else
           (let (a_exp, a_mant) = (if a_exp = 0 then (fst (normalize_subnormal_sf a_mant), a_mant)
                                   else (a_exp, a_mant OR one_at (MANT_SIZE 64)));
                a_exp = a_exp - EXP_MASK 64 div 2 + 0x7f;
                a_mant = rshift_rnd a_mant (MANT_SIZE 64 - (32 - 2))
            in normalize_sf a_sign a_exp (lo32 a_mant) rm flags))"

section \<open>Conversions to and from integers\<close>

text \<open>\<open>'i\<close> is the word type of \<open>ICVT_SIZE\<close> bits.\<close>

definition internal_cvt_sf_i :: "'a::len word \<Rightarrow> RoundingModeEnum \<Rightarrow> bool \<Rightarrow> u32 \<Rightarrow> 'i::len word \<times> u32" where
  "internal_cvt_sf_i a rm is_unsigned flags =
     (let emax = EXP_MASK LENGTH('a);
          a_sign = (if sf_exp a = emax \<and> sf_mant a \<noteq> 0 then False else sf_sign a);
          (a_exp, a_mant) = (if sf_exp a = 0 then (1, sf_mant a)
                             else (sf_exp a, sf_mant a OR one_at (MANT_SIZE LENGTH('a))));
          a_mant = push_bit (RND_SIZE LENGTH('a)) a_mant;
          a_exp = a_exp - emax div 2 - int (MANT_SIZE LENGTH('a));
          r_max = (if is_unsigned then cbool a_sign - 1 else one_at (LENGTH('i) - 1) - cbool (\<not> a_sign))
      in if a_exp \<ge> 0 then
           (let r = push_bit (nat a_exp) (ucast (drop_bit (RND_SIZE LENGTH('a)) a_mant)) :: 'i word
            in if a_exp \<le> int (LENGTH('i)) - 1 - int (MANT_SIZE LENGTH('a)) \<and> r \<le> r_max
               then (if a_sign then - r else r, flags)
               else (r_max, flags OR FFLAG_INVALID_OP))
         else
           (let a_mant = rshift_rnd a_mant (nat (- a_exp));
                addend = rnd_addend a_sign rm;
                rnd_bits = a_mant AND (one_at (RND_SIZE LENGTH('a)) - 1);
                a_mant = drop_bit (RND_SIZE LENGTH('a)) (a_mant + addend);
                a_mant = (if rm = RM_RNE \<and> rnd_bits = one_at (RND_SIZE LENGTH('a) - 1) then a_mant AND NOT 1 else a_mant)
            in if uint a_mant > uint r_max then (r_max, flags OR FFLAG_INVALID_OP)
               else (if a_sign then - ucast a_mant else ucast a_mant,
                     if rnd_bits \<noteq> 0 then flags OR FFLAG_INEXACT else flags)))"

text \<open>\<open>cvt_sf*_i*\<close> and \<open>cvt_sf*_u*\<close>.\<close>

definition cvt_sf_i :: "'a::len word \<Rightarrow> RoundingModeEnum \<Rightarrow> u32 \<Rightarrow> 'i::len word \<times> u32" where
  "cvt_sf_i a rm flags = internal_cvt_sf_i a rm False flags"

definition cvt_sf_u :: "'a::len word \<Rightarrow> RoundingModeEnum \<Rightarrow> u32 \<Rightarrow> 'i::len word \<times> u32" where
  "cvt_sf_u a rm flags = internal_cvt_sf_i a rm True flags"

text \<open>The mask is already \<open>r & ((1 << l) - 1)\<close> when \<open>r\<close> is tested against it.\<close>

definition internal_cvt_i_sf ::
    "'i::len word \<Rightarrow> RoundingModeEnum \<Rightarrow> bool \<Rightarrow> u32 \<Rightarrow> ('a::len word \<times> u32) option" where
  "internal_cvt_i_sf a rm is_unsigned flags =
     (let (a_sign, r) = (if \<not> is_unsigned \<and> sint a < 0 then (True, - a) else (False, a));
          a_exp = EXP_MASK LENGTH('a) div 2 + int LENGTH('a) - 2;
          l = int LENGTH('i) - int (countl_zero r) - (int LENGTH('a) - 1);
          (r, a_exp) =
            (if l > 0 then
               (let m = r AND (one_at (nat l) - 1)
                in (drop_bit (nat l) r OR cbool (r AND m \<noteq> 0), a_exp + l))
             else (r, a_exp))
      in normalize_sf a_sign a_exp (ucast r) rm flags)"

definition cvt_i_sf :: "'i::len word \<Rightarrow> RoundingModeEnum \<Rightarrow> u32 \<Rightarrow> ('a::len word \<times> u32) option" where
  "cvt_i_sf a rm flags = internal_cvt_i_sf a rm False flags"

definition cvt_u_sf :: "'i::len word \<Rightarrow> RoundingModeEnum \<Rightarrow> u32 \<Rightarrow> ('a::len word \<times> u32) option" where
  "cvt_u_sf a rm flags = internal_cvt_i_sf a rm True flags"

end
