(* ===== verification/Vector.thy ===== *)
theory Vector
  imports InterpBase
begin

text \<open>
  The vector unit (\<open>src/include/vector_template.h\<close>, the vector functions of
  \<open>src/src/riscv_cpu.cpp\<close> and opcode 0x57 of \<open>src/include/majordomo_template.h\<close>)
  for \<open>VLEN = 128\<close> and without \<open>MASK_AGNOSTIC_FILL\<close>.

  The register file is the C array \<open>v_reg[32][16]\<close>; an element pointer is its byte
  offset in the array, so that accesses may run over the end of a register as they
  do in C.  Offsets beyond the 512 bytes of the array are undefined in C; here
  they address further rows of the function.  C \<open>int\<close> values are \<open>int\<close> or \<open>nat\<close>;
  the shift by -1 in \<open>get_lmul\<close> for the reserved encoding 4 is undefined and
  taken as 0.
\<close>

section \<open>Configuration\<close>

definition VILL :: u64 where [simp]: "VILL = 0x8000000000000000"

definition clear_most_recently_written_vregs :: "'a hart \<Rightarrow> 'a hart" where
  "clear_most_recently_written_vregs s =
     s\<lparr>most_recently_written_vregs := (\<lambda>i. if i < 32 then False else most_recently_written_vregs s i)\<rparr>"

text \<open>LMUL scaled by 8.\<close>

definition get_lmul :: "'a hart \<Rightarrow> nat" where
  "get_lmul s =
     (let lmul = unat (vtype s AND 7) in
      if lmul = 4 then 0 else if lmul > 4 then 2 ^ (lmul - 4 - 1) else 2 ^ (lmul + 3))"

definition get_sew :: "'a hart \<Rightarrow> nat" where
  "get_sew s = 2 ^ (unat (drop_bit 3 (vtype s) AND 7) + 3)"

definition get_vlmax :: "'a hart \<Rightarrow> nat" where
  "get_vlmax s =
     (let vlmul = unat (vtype s AND 7) in
      if vlmul \<ge> 4 then VLEN div get_sew s div (16 div 2 ^ (vlmul - 4))
      else 2 ^ vlmul * VLEN div get_sew s)"

definition v0_mask :: "'a hart \<Rightarrow> bool" where
  "v0_mask s =
     (let n = unat (vstart s) in drop_bit (n mod 8) (v_reg s (n div 8 div 16) (n div 8 mod 16)) AND 1 \<noteq> 0)"

section \<open>Elements\<close>

definition vbyte :: "'a hart \<Rightarrow> nat \<Rightarrow> u8" where
  "vbyte s off = v_reg s (off div 16) (off mod 16)"

primrec velem_load :: "nat \<Rightarrow> nat \<Rightarrow> 'a hart \<Rightarrow> u64" where
  "velem_load 0 off s = 0"
| "velem_load (Suc n) off s = zx8 (vbyte s off) OR push_bit 8 (velem_load n (off + 1) s)"

definition vbyte_store :: "nat \<Rightarrow> u8 \<Rightarrow> 'a hart \<Rightarrow> 'a hart" where
  "vbyte_store off b s = s\<lparr>v_reg := (v_reg s)(off div 16 := (v_reg s (off div 16))(off mod 16 := b))\<rparr>"

primrec velem_store :: "nat \<Rightarrow> nat \<Rightarrow> u64 \<Rightarrow> 'a hart \<Rightarrow> 'a hart" where
  "velem_store 0 off v s = s"
| "velem_store (Suc n) off v s = velem_store n (off + 1) (drop_bit 8 v) (vbyte_store off (lo8 v) s)"

section \<open>Integer operations\<close>

datatype width_config = SINGLE_WIDTH | WIDEN_VD_VS2 | WIDEN_VD | WIDEN_VS2

datatype v_op = V_ADD | VW_ADDU | VW_ADDUW | VW_ADD | VW_ADDW

text \<open>Whether \<open>OP_config\<close> finds an operation for an element width.\<close>

definition v_op_config :: "v_op \<Rightarrow> nat \<Rightarrow> bool" where
  "v_op_config op eew =
     (if op = V_ADD then eew = 8 \<or> eew = 16 \<or> eew = 32 \<or> eew = 64 else eew = 8 \<or> eew = 16 \<or> eew = 32)"

definition sx_elem :: "nat \<Rightarrow> u64 \<Rightarrow> u64" where
  "sx_elem width v = signed_drop_bit (64 - width) (push_bit (64 - width) v)"

text \<open>The element operation at width \<open>width\<close>; \<open>val\<close> is the second operand.  The sum of
  two 32 bit operands is computed in 32 bits before it is widened.\<close>

definition v_op_apply :: "v_op \<Rightarrow> nat \<Rightarrow> nat \<Rightarrow> nat \<Rightarrow> u64 \<Rightarrow> 'a hart \<Rightarrow> 'a hart" where
  "v_op_apply op width vd vs2 val s =
     (let n = width div 8; b = take_bit width val in
      case op of
        V_ADD \<Rightarrow> velem_store n vd (velem_load n vs2 s + b) s
      | VW_ADDU \<Rightarrow>
          (let sum = velem_load n vs2 s + b
           in velem_store (2 * n) vd (if width = 32 then zx32 (lo32 sum) else sum) s)
      | VW_ADDUW \<Rightarrow> velem_store (2 * n) vd (velem_load (2 * n) vs2 s + b) s
      | VW_ADD \<Rightarrow>
          (let sum = sx_elem width (velem_load n vs2 s) + sx_elem width b
           in velem_store (2 * n) vd (if width = 32 then sx32 (lo32 sum) else sum) s)
      | VW_ADDW \<Rightarrow> velem_store (2 * n) vd (sx_elem (2 * width) (velem_load (2 * n) vs2 s) + sx_elem width b) s)"

section \<open>Arithmetic loop\<close>

text \<open>The register and byte offsets of the narrow operands of a widening operation.\<close>

definition narrow_row :: "nat \<Rightarrow> nat" where "narrow_row i = i - (i div 2 + i mod 2)"

definition narrow_col :: "nat \<Rightarrow> nat \<Rightarrow> nat" where
  "narrow_col i j = (if i mod 2 \<noteq> 0 then j + VLEN div 8 div 2 - j div 2 else j - j div 2)"

definition vs1_off :: "width_config \<Rightarrow> nat \<Rightarrow> nat \<Rightarrow> nat \<Rightarrow> nat" where
  "vs1_off w vs1 i j =
     (if w = WIDEN_VD_VS2 \<or> w = WIDEN_VD then 16 * (vs1 + narrow_row i) + narrow_col i j
      else 16 * (vs1 + i) + j)"

definition vs2_off :: "width_config \<Rightarrow> nat \<Rightarrow> nat \<Rightarrow> nat \<Rightarrow> nat" where
  "vs2_off w vs2 i j =
     (if w = WIDEN_VD then 16 * (vs2 + narrow_row i) + narrow_col i j
      else if w = WIDEN_VS2 then 16 * (vs2 + i + 2 * j div (VLEN div 8)) + (j + j)
      else 16 * (vs2 + i) + j)"

definition varith_elem ::
    "v_op \<Rightarrow> nat \<Rightarrow> nat \<Rightarrow> nat \<Rightarrow> u64 \<Rightarrow> width_config \<Rightarrow> bool \<Rightarrow> bool \<Rightarrow> nat \<Rightarrow> nat \<Rightarrow> 'a hart \<Rightarrow> 'a hart" where
  "varith_elem op width vs2 vd vs1 w vv vm i j s =
     (let val = (if vv then velem_load (width div 8) (vs1_off w (unat vs1) i j) s else vs1);
          s = (if vm \<or> v0_mask s
               then v_op_apply op width (16 * (vd + i) + j) (vs2_off w vs2 i j) val s else s)
      in s\<lparr>vstart := vstart s + 1\<rparr>)"

definition varith_row ::
    "v_op \<Rightarrow> nat \<Rightarrow> nat \<Rightarrow> nat \<Rightarrow> nat \<Rightarrow> u64 \<Rightarrow> width_config \<Rightarrow> bool \<Rightarrow> bool \<Rightarrow> nat \<Rightarrow> 'a hart \<Rightarrow> 'a hart" where
  "varith_row op width sew vs2 vd vs1 w vv vm i s =
     (let byte_advance = sew div 8;
          vec_size = VLEN div sew;
          elm_start = int (unat (vstart s)) - int (vec_size * i)
      in if elm_start < int vec_size then
           (let s = s\<lparr>most_recently_written_vregs := (most_recently_written_vregs s)(vd + i := True)\<rparr>
            in fold (varith_elem op width vs2 vd vs1 w vv vm i)
                 (map (\<lambda>e. e * byte_advance) [nat elm_start..<VLEN div 8 div byte_advance]) s)
         else s)"

text \<open>The flag is the C result: an illegal instruction.  Neither \<open>vl\<close> nor, for a
  fractional LMUL, the widening of the destination is taken into account.\<close>

definition vectorize_arithmetic ::
    "nat \<Rightarrow> nat \<Rightarrow> u64 \<Rightarrow> width_config \<Rightarrow> bool \<Rightarrow> bool \<Rightarrow> v_op \<Rightarrow> 'a hart \<Rightarrow> bool \<times> 'a hart" where
  "vectorize_arithmetic vs2 vd vs1 w vv vm op s =
     (if vtype s = VILL then (True, s)
      else
        (let width = get_sew s; lmul_scaled = get_lmul s div 8 in
         if \<not> v_op_config op width then (True, s)
         else
           (let misaligned =
                  (lmul_scaled \<noteq> 0 \<and>
                     (vv \<and> unat vs1 mod lmul_scaled \<noteq> 0
                      \<or> w = SINGLE_WIDTH \<and> (vd mod lmul_scaled \<noteq> 0 \<or> vs2 mod lmul_scaled \<noteq> 0)
                      \<or> (w = WIDEN_VS2 \<or> w = WIDEN_VD_VS2) \<and> vs2 mod (lmul_scaled * 2) \<noteq> 0
                      \<or> (w = WIDEN_VD_VS2 \<or> w = WIDEN_VD) \<and> vd mod (lmul_scaled * 2) \<noteq> 0));
                widen = (lmul_scaled \<noteq> 0 \<and> (w = WIDEN_VD_VS2 \<or> w = WIDEN_VD));
                sew = (if widen then width * 2 else width);
                rows = (if lmul_scaled = 0 then 1 else if widen then lmul_scaled * 2 else lmul_scaled)
            in if misaligned then (True, s)
               else (False, (fold (varith_row op width sew vs2 vd vs1 w vv vm) [0..<rows] s)\<lparr>vstart := 0\<rparr>))))"

section \<open>Memory operations\<close>

text \<open>The results 0, 1 and 2 of \<open>vmem_op\<close>; \<open>VCrash\<close> is the call of the null pointer that
  the width configuration returns for an element width above 64.\<close>

datatype vmem_result = VOk | VIllegal | VFault | VCrash

text \<open>The local variables of \<open>vmem_op\<close> that its loops only read.\<close>

record vmem_cfg =
  vc_ld :: bool
  vc_indexed :: bool
  vc_fault_first :: bool
  vc_vm :: bool
  vc_rd :: nat
  vc_rs1 :: nat
  vc_nf :: nat
  vc_scaled_emul :: nat
  vc_byte_advance :: nat
  vc_vec_size :: nat
  vc_mem_advance :: u32
  vc_width :: nat
  vc_eew :: nat

definition elem_log :: "nat \<Rightarrow> nat option" where
  "elem_log width =
     (if width = 8 then Some 0 else if width = 16 then Some 1 else if width = 32 then Some 2
      else if width = 64 then Some 3 else None)"

text \<open>\<open>v_load\<close> and \<open>v_store\<close>: \<open>Some True\<close> is a fault, \<open>None\<close> the null pointer.\<close>

definition v_mem_op :: "'d env_ops \<Rightarrow> bool \<Rightarrow> nat \<Rightarrow> u64 \<Rightarrow> nat \<Rightarrow> 'd sys \<Rightarrow> bool option \<times> 'd sys" where
  "v_mem_op E ld width addr off s =
     (case elem_log width of
        None \<Rightarrow> (None, s)
      | Some k \<Rightarrow>
          if ld then
            (case target_read E k addr s of
               (None, s) \<Rightarrow> (Some True, s)
             | (Some v, s) \<Rightarrow> (Some False, velem_store (2 ^ k) off v s))
          else
            (case target_write E k addr (velem_load (2 ^ k) off s) s of
               (ok, s) \<Rightarrow> (Some (\<not> ok), s)))"

text \<open>The members of one segment.  The result is \<open>None\<close> when the loop goes on.\<close>

fun vmem_segment ::
    "'d env_ops \<Rightarrow> vmem_cfg \<Rightarrow> nat \<Rightarrow> nat \<Rightarrow> nat \<Rightarrow> nat list \<Rightarrow> u64 \<Rightarrow> 'd sys \<Rightarrow> vmem_result option \<times> u64 \<times> 'd sys" where
  "vmem_segment E c i j index_vstart [] addr s = (None, addr, s)"
| "vmem_segment E c i j index_vstart (k # ks) addr s =
     (if vc_indexed c then
        (let index_vec_size = VLEN div vc_eew c;
             off = 16 * (index_vstart div index_vec_size) + (index_vstart mod index_vec_size) * (vc_eew c div 8);
             a = addr + velem_load (vc_eew c div 8) off s + of_nat (k * vc_byte_advance c);
             dst = 16 * (vc_rd c + i + k * vc_scaled_emul c) + j
         in if vc_vm c \<or> v0_mask s then
              (case v_mem_op E (vc_ld c) (vc_width c) a dst s of
                 (None, s) \<Rightarrow> (Some VCrash, addr, s)
               | (Some True, s) \<Rightarrow> (Some VFault, addr, s)
               | (Some False, s) \<Rightarrow> vmem_segment E c i j index_vstart ks addr s)
            else vmem_segment E c i j index_vstart ks addr s)
      else
        (let dst = 16 * (vc_rd c + i + k * (vc_nf c - 1)) + j in
         if vc_vm c \<or> v0_mask s then
           (case v_mem_op E (vc_ld c) (vc_width c) addr dst s of
              (None, s) \<Rightarrow> (Some VCrash, addr, s)
            | (Some True, s) \<Rightarrow>
                if \<not> vc_fault_first c then (Some VFault, addr, s)
                else (Some VOk, addr,
                      s\<lparr>vl := zx16 (vstart s), pending_tval := 0, pending_exception := -1, vstart := 0\<rparr>)
            | (Some False, s) \<Rightarrow> vmem_segment E c i j index_vstart ks (addr + sx32 (vc_mem_advance c)) s)
         else vmem_segment E c i j index_vstart ks (addr + sx32 (vc_mem_advance c)) s))"

fun vmem_elems ::
    "'d env_ops \<Rightarrow> vmem_cfg \<Rightarrow> nat \<Rightarrow> nat list \<Rightarrow> nat \<Rightarrow> u64 \<Rightarrow> 'd sys \<Rightarrow> vmem_result option \<times> nat \<times> 'd sys" where
  "vmem_elems E c i [] index_vstart addr s = (None, index_vstart, s)"
| "vmem_elems E c i (j # js) index_vstart addr s =
     (case vmem_segment E c i j index_vstart [0..<vc_nf c] addr s of
        (Some r, addr, s) \<Rightarrow> (Some r, index_vstart, s)
      | (None, addr, s) \<Rightarrow> vmem_elems E c i js (index_vstart + 1) addr (s\<lparr>vstart := vstart s + 1\<rparr>))"

fun vmem_rows ::
    "'d env_ops \<Rightarrow> vmem_cfg \<Rightarrow> nat list \<Rightarrow> nat \<Rightarrow> 'd sys \<Rightarrow> vmem_result \<times> 'd sys" where
  "vmem_rows E c [] index_vstart s = (VOk, s\<lparr>vstart := 0\<rparr>)"
| "vmem_rows E c (i # is) index_vstart s =
     (let elm_start = int (unat (vstart s)) - int (vc_vec_size c * i) in
      if elm_start < int (vc_vec_size c) then
        (let (addr, s) = read_reg (vc_rs1 c) s;
             addr = (if vc_indexed c then addr
                     else addr + sx32 (word_of_int elm_start * vc_mem_advance c + of_nat (vc_nf c * i * VLEN div 8)))
         in case vmem_elems E c i (map (\<lambda>e. e * vc_byte_advance c) [nat elm_start..<vc_vec_size c]) index_vstart addr s of
              (Some r, index_vstart, s) \<Rightarrow> (r, s)
            | (None, index_vstart, s) \<Rightarrow> vmem_rows E c is index_vstart s)
      else vmem_rows E c is index_vstart s)"

definition is_po2 :: "nat \<Rightarrow> bool" where "is_po2 n = (n = 1 \<or> n = 2 \<or> n = 4 \<or> n = 8)"

text \<open>The registers that a load is about to write.\<close>

definition mark_vregs :: "nat \<Rightarrow> nat \<Rightarrow> nat \<Rightarrow> 'a hart \<Rightarrow> 'a hart" where
  "mark_vregs rd scaled_emul nf s =
     s\<lparr>most_recently_written_vregs := (\<lambda>r.
         if \<exists>i\<in>set [0..<scaled_emul]. \<exists>j\<in>set [1..<nf + 1]. r = rd + i + scaled_emul * (j - 1)
         then True else most_recently_written_vregs s r)\<rparr>"

text \<open>The dummy load ahead of a fault-only-first load.\<close>

definition vmem_probe :: "'d env_ops \<Rightarrow> vmem_cfg \<Rightarrow> 'd sys \<Rightarrow> vmem_result option \<times> 'd sys" where
  "vmem_probe E c s =
     (if vc_fault_first c \<and> vstart s = 0 then
        (let (addr, s) = read_reg (vc_rs1 c) s in
         case elem_log (vc_width c) of
           None \<Rightarrow> (Some VCrash, s)
         | Some k \<Rightarrow> (case target_read E k addr s of
                        (None, s) \<Rightarrow> (Some VFault, s) | (Some v, s) \<Rightarrow> (None, s)))
      else (None, s))"

definition vmem_run :: "'d env_ops \<Rightarrow> vmem_cfg \<Rightarrow> int \<Rightarrow> nat \<Rightarrow> nat \<Rightarrow> 'd sys \<Rightarrow> vmem_result \<times> 'd sys" where
  "vmem_run E c vlen emul index_vstart s =
     (let rd = vc_rd c; nf = vc_nf c in
      if emul = 0 \<or> emul > 64 \<or> emul * nf > 64 \<or> rd + nf * emul div 8 > 32 \<or> rd + nf > 32
         \<or> emul \<ge> 8 \<and> rd * 8 mod emul \<noteq> 0
      then (VIllegal, s)
      else
        (case vmem_probe E c s of
           (Some r, s) \<Rightarrow> (r, s)
         | (None, s) \<Rightarrow>
             (let scaled_emul = (if emul < 8 then 1 else emul div 8);
                  s = (if vc_ld c then mark_vregs rd scaled_emul nf s else s);
                  vsz = (if int (vc_vec_size c) > vlen then nat vlen else vc_vec_size c)
              in vmem_rows E (c\<lparr>vc_scaled_emul := scaled_emul, vc_vec_size := vsz\<rparr>) [0..<scaled_emul] index_vstart s)))"

text \<open>The overlap test of indexed segment loads, and the other checks of the index
  registers; \<open>vs2_emul\<close> is the EMUL of the index vector, scaled by 8.\<close>

definition index_regs_ok :: "bool \<Rightarrow> nat \<Rightarrow> nat \<Rightarrow> nat \<Rightarrow> nat \<Rightarrow> nat \<Rightarrow> bool" where
  "index_regs_ok ld nf rd rs2 vs2_emul lmul =
     (let e2 = (if vs2_emul < 8 then 1 else vs2_emul div 8); e = (if lmul < 8 then 1 else lmul div 8)
      in \<not> (vs2_emul = 0 \<or> vs2_emul > 64 \<or> vs2_emul * nf > 64 \<or> rs2 + nf * vs2_emul div 8 > 32 \<or> rs2 + nf > 32
            \<or> vs2_emul \<ge> 8 \<and> rs2 * 8 mod vs2_emul \<noteq> 0)
         \<and> \<not> (ld \<and> nf > 1 \<and> (rs2 \<le> rd \<and> rd \<le> rs2 + (nf - 1) * e2
               \<or> rs2 \<le> rd + (nf - 1) * e \<and> rd + (nf - 1) * e \<le> rs2 + (nf - 1) * e2)))"

definition vmem_eew :: "u32 \<Rightarrow> nat option" where
  "vmem_eew width =
     (if width = 7 then Some 64 else if width = 6 then Some 32 else if width = 5 then Some 16
      else if width = 0 then Some 8 else None)"

definition vmem_op :: "'d env_ops \<Rightarrow> u32 \<Rightarrow> bool \<Rightarrow> 'd sys \<Rightarrow> vmem_result \<times> 'd sys" where
  "vmem_op E insn ld s =
     (case vmem_eew (insn_funct3 insn) of
        None \<Rightarrow> (VIllegal, s)
      | Some eew \<Rightarrow>
          (let emul = 8 * get_vlmax s * eew div VLEN;
               rd = insn_rd insn; rs1 = insn_rs1 insn; rs2 = insn_rs2 insn;
               vm = (drop_bit 25 insn AND 1 \<noteq> 0);
               mop = drop_bit 26 insn AND 3;
               nf = unat (drop_bit 29 insn AND 7) + 1;
               vlen = sint (lo32 (vl s));
               c = \<lparr>vc_ld = ld, vc_indexed = False, vc_fault_first = False, vc_vm = vm, vc_rd = rd, vc_rs1 = rs1,
                    vc_nf = nf, vc_scaled_emul = 1, vc_byte_advance = eew div 8, vc_vec_size = VLEN div eew,
                    vc_mem_advance = of_nat (eew div 8), vc_width = eew, vc_eew = eew\<rparr>
           in if (mop \<noteq> 0 \<or> rs2 \<noteq> 8) \<and> vtype s = VILL then (VIllegal, s)
              else if mop = 0 then
                (if rs2 = 0 then vmem_run E c vlen emul 0 s
                 else if rs2 = 8 then
                   (if \<not> ld \<and> insn_funct3 insn \<noteq> 0 \<or> \<not> vm \<or> \<not> is_po2 nf then (VIllegal, s)
                    else vmem_run E (c\<lparr>vc_nf := 1\<rparr>) vlen (nf * 8) 0 s)
                 else if rs2 = 11 then
                   vmem_run E (c\<lparr>vc_width := 8, vc_eew := 8\<rparr>) (if vlen < 8 then 1 else vlen div 8) 8 0 s
                 else if rs2 = 16 then
                   (if \<not> ld then (VIllegal, s) else vmem_run E (c\<lparr>vc_fault_first := True\<rparr>) vlen emul 0 s)
                 else (VIllegal, s))
              else if mop = 2 then
                (let (v, s) = read_reg rs2 s in vmem_run E (c\<lparr>vc_mem_advance := lo32 v\<rparr>) vlen emul 0 s)
              else if \<not> index_regs_ok ld nf rd rs2 emul (get_lmul s) then (VIllegal, s)
              else
                vmem_run E (c\<lparr>vc_indexed := True, vc_byte_advance := get_sew s div 8, vc_vec_size := VLEN div get_sew s,
                              vc_width := get_sew s, vc_mem_advance := 0\<rparr>)
                  vlen (get_lmul s) (rs2 * VLEN div eew + unat (vstart s)) s))"

section \<open>Opcode 0x57\<close>

definition vset_rest :: "u64 \<Rightarrow> nat \<Rightarrow> 'd sys \<Rightarrow> 'd sys" where
  "vset_rest avl rd s =
     (let s = (if get_sew s \<ge> VLEN * get_lmul s div 8 then s\<lparr>vtype := VILL, vl := 0\<rparr>
               else if avl \<le> of_nat (get_vlmax s) then s\<lparr>vl := avl\<rparr>
               else s\<lparr>vl := of_nat (get_vlmax s)\<rparr>)
      in if rd \<noteq> 0 then write_reg rd (vl s) s else s)"

text \<open>\<open>vsetvli\<close>, \<open>vsetvl\<close> and \<open>vsetivli\<close>; \<open>vsetvli\<close> falls through with \<open>rs2 = 0\<close>.\<close>

definition exec_vset :: "u32 \<Rightarrow> 'd sys \<Rightarrow> 'd sys" where
  "exec_vset insn s =
     (let vset = drop_bit 30 insn AND 3; rd = insn_rd insn; rs1 = insn_rs1 insn; vl0 = vl s in
      if vset = 3 then
        vset_rest (zx32 (drop_bit 15 insn AND 0x1f)) rd (s\<lparr>vtype := zx32 (drop_bit 20 insn AND 0x3ff)\<rparr>)
      else
        (let rs2 = (if vset = 2 then insn_rs2 insn else 0);
             s = (if vset = 2 then s else s\<lparr>vtype := zx32 (drop_bit 20 insn AND 0x7ff)\<rparr>);
             (reserved, s) =
               (if rs2 \<noteq> 0 then
                  (let (vt, s) = read_reg rs2 s in
                   if vt > 0xff \<or> vt AND 0x20 \<noteq> 0 \<or> vt AND 4 = 4 then (True, s\<lparr>vtype := VILL\<rparr>)
                   else (False, s\<lparr>vtype := vt\<rparr>))
                else (False, s))
         in if reserved then vset_rest 0 rd s
            else if rs1 \<noteq> 0 then (let (avl, s) = read_reg rs1 s in vset_rest avl rd s)
            else if rd \<noteq> 0 then vset_rest (NOT 0) rd s
            else vset_rest vl0 rd s))"

text \<open>The operation and the widths of the \<open>OPMVV\<close> and \<open>OPMVX\<close> instructions.\<close>

definition opmv_kind :: "u32 \<Rightarrow> (width_config \<times> v_op) option" where
  "opmv_kind funct6 =
     (if funct6 = 0x30 then Some (WIDEN_VD, VW_ADDU)
      else if funct6 = 0x31 then Some (WIDEN_VD, VW_ADD)
      else if funct6 = 0x34 then Some (WIDEN_VD_VS2, VW_ADDUW)
      else if funct6 = 0x35 then Some (WIDEN_VD_VS2, VW_ADDW)
      else None)"

definition varith_insn ::
    "u32 \<Rightarrow> u64 \<Rightarrow> bool \<Rightarrow> (width_config \<times> v_op) option \<Rightarrow> 'd sys \<Rightarrow> ctl \<times> 'd sys" where
  "varith_insn insn vs1 vv kind s =
     (case kind of
        None \<Rightarrow> (IllegalInsn, s)
      | Some (w, op) \<Rightarrow>
          (case vectorize_arithmetic (insn_rs2 insn) (insn_rd insn) vs1 w vv (drop_bit 25 insn AND 1 \<noteq> 0) op s of
             (True, s) \<Rightarrow> (IllegalInsn, s)
           | (False, s) \<Rightarrow> (NextInsn, s)))"

definition exec_vector :: "u32 \<Rightarrow> 'd sys \<Rightarrow> ctl \<times> 'd sys" where
  "exec_vector insn s =
     (if vs s = 0 then (IllegalInsn, s)
      else
        (let s = s\<lparr>vs := 3\<rparr>;
             funct3 = insn_funct3 insn; funct6 = drop_bit 26 insn AND 0x3f; rs1 = insn_rs1 insn;
             add = (if funct6 = 0 then Some (SINGLE_WIDTH, V_ADD) else None)
         in if funct3 = 0 then varith_insn insn (of_nat rs1) True add s
            else if funct3 = 2 then varith_insn insn (of_nat rs1) True (opmv_kind funct6) s
            else if funct3 = 3 then
              varith_insn insn (sx32 (signed_drop_bit 27 (push_bit 27 (of_nat rs1)))) False add s
            else if funct3 = 4 then
              (if funct6 = 0 then (let (v, s) = read_reg rs1 s in varith_insn insn v False add s)
               else (IllegalInsn, s))
            else if funct3 = 6 then
              (if opmv_kind funct6 \<noteq> None
               then (let (v, s) = read_reg rs1 s in varith_insn insn v False (opmv_kind funct6) s)
               else (IllegalInsn, s))
            else if funct3 = 7 then (NextInsn, exec_vset insn s)
            else (NextInsn, s)))"

end
