(* ===== verification/InterpF.thy ===== *)
theory InterpF
  imports Softfp Vector
begin

text \<open>
  The floating point instructions of \<open>riscv_cpu_interp\<close>
  (\<open>src/include/majordomo_template.h\<close> and \<open>src/include/majordomo_fp_template.h\<close>) for
  \<open>FLEN = 64\<close>, and the opcodes 0x07 and 0x27, which they share with the vector
  loads and stores.  The template is included for \<open>F_SIZE\<close> 32 and 64; \<open>ub\<close> and
  \<open>bx\<close> are its \<open>unbox\<close> and the or with \<open>F_HIGH\<close>.
\<close>

section \<open>Boxing\<close>

definition unbox32 :: "u64 \<Rightarrow> u32" where "unbox32 r = lo32 (f_unbox32 r)"
definition box32 :: "u32 \<Rightarrow> u64" where "box32 v = zx32 v OR F32_HIGH"
definition unbox64 :: "u64 \<Rightarrow> u64" where "unbox64 r = f_unbox64 r"
definition box64 :: "u64 \<Rightarrow> u64" where "box64 v = v OR F64_HIGH"

text \<open>The unboxing of the fused multiplications; the value for an operand that is not
  boxed is \<open>-1U << 22\<close>.\<close>

definition chkfp32 :: "u64 \<Rightarrow> u32" where
  "chkfp32 a = (if a AND 0xFFFFFFFF00000000 \<noteq> 0xFFFFFFFF00000000 then push_bit 22 (-1) else lo32 a)"

definition read_fp_reg2 :: "nat \<Rightarrow> nat \<Rightarrow> 'd sys \<Rightarrow> (u64 \<times> u64) \<times> 'd sys" where
  "read_fp_reg2 r1 r2 s = (let (a, s) = read_fp_reg r1 s; (b, s) = read_fp_reg r2 s in ((a, b), s))"

text \<open>Storing the flags and the result of an operation that may fail its assertion.\<close>

definition fp_result :: "nat \<Rightarrow> ('a::len word \<Rightarrow> u64) \<Rightarrow> ('a word \<times> u32) option \<Rightarrow> 'd sys \<Rightarrow> ctl \<times> 'd sys" where
  "fp_result rd bx r s =
     (case r of
        None \<Rightarrow> (Aborted, s)
      | Some (v, fl) \<Rightarrow> (NextInsn, (write_fp_reg rd (bx v) (s\<lparr>fflags := fl\<rparr>))\<lparr>fs := 3\<rparr>))"

section \<open>The template\<close>

definition fp_arith ::
    "(u64 \<Rightarrow> 'a::len word) \<Rightarrow> ('a word \<Rightarrow> u64) \<Rightarrow>
     ('a word \<Rightarrow> 'a word \<Rightarrow> RoundingModeEnum \<Rightarrow> u32 \<Rightarrow> ('a word \<times> u32) option) \<Rightarrow> u32 \<Rightarrow> 'd sys \<Rightarrow> ctl \<times> 'd sys" where
  "fp_arith ub bx f insn s =
     (case get_insn_rm s (insn_funct3 insn) of
        None \<Rightarrow> (IllegalInsn, s)
      | Some rm \<Rightarrow>
          (let ((a, b), s) = read_fp_reg2 (insn_rs1 insn) (insn_rs2 insn) s
           in fp_result (insn_rd insn) bx (f (ub a) (ub b) (RoundingModeEnum_of rm) (fflags s)) s))"

definition fp_sqrt :: "(u64 \<Rightarrow> 'a::len word) \<Rightarrow> ('a word \<Rightarrow> u64) \<Rightarrow> u32 \<Rightarrow> 'd sys \<Rightarrow> ctl \<times> 'd sys" where
  "fp_sqrt ub bx insn s =
     (case get_insn_rm s (insn_funct3 insn) of
        None \<Rightarrow> (IllegalInsn, s)
      | Some rm \<Rightarrow>
          if insn_rs2 insn \<noteq> 0 then (IllegalInsn, s)
          else (let (a, s) = read_fp_reg (insn_rs1 insn) s
                in fp_result (insn_rd insn) bx (sqrt_sf (ub a) (RoundingModeEnum_of rm) (fflags s)) s))"

definition fp_sgnj :: "(u64 \<Rightarrow> 'a::len word) \<Rightarrow> ('a word \<Rightarrow> u64) \<Rightarrow> u32 \<Rightarrow> 'd sys \<Rightarrow> ctl \<times> 'd sys" where
  "fp_sgnj ub bx insn s =
     (let rm = insn_funct3 insn in
      if rm = 0 \<or> rm = 1 \<or> rm = 2 then
        (let ((x, y), s) = read_fp_reg2 (insn_rs1 insn) (insn_rs2 insn) s;
             a = ub x; b = ub y;
             v = (if rm = 0 then a AND NOT SIGN_MASK OR b AND SIGN_MASK
                  else if rm = 1 then a AND NOT SIGN_MASK OR (b AND SIGN_MASK) XOR SIGN_MASK
                  else a XOR (b AND SIGN_MASK))
         in fp_result (insn_rd insn) bx (Some (v, fflags s)) s)
      else (IllegalInsn, s))"

definition fp_minmax :: "(u64 \<Rightarrow> 'a::len word) \<Rightarrow> ('a word \<Rightarrow> u64) \<Rightarrow> u32 \<Rightarrow> 'd sys \<Rightarrow> ctl \<times> 'd sys" where
  "fp_minmax ub bx insn s =
     (let rm = insn_funct3 insn in
      if rm = 0 \<or> rm = 1 then
        (let ((x, y), s) = read_fp_reg2 (insn_rs1 insn) (insn_rs2 insn) s
         in fp_result (insn_rd insn) bx
              (Some (if rm = 0 then min_sf (ub x) (ub y) (fflags s) else max_sf (ub x) (ub y) (fflags s))) s)
      else (IllegalInsn, s))"

definition fp_to_int :: "(u64 \<Rightarrow> 'a::len word) \<Rightarrow> u32 \<Rightarrow> 'd sys \<Rightarrow> ctl \<times> 'd sys" where
  "fp_to_int ub insn s =
     (case get_insn_rm s (insn_funct3 insn) of
        None \<Rightarrow> (IllegalInsn, s)
      | Some rm \<Rightarrow>
          (let k = insn_rs2 insn; m = RoundingModeEnum_of rm in
           if k > 3 then (IllegalInsn, s)
           else
             (let (x, s) = read_fp_reg (insn_rs1 insn) s; a = ub x; fl = fflags s;
                  (val, fl) =
                    (if k = 0 then map_prod sx32 id (cvt_sf_i a m fl)
                     else if k = 1 then map_prod sx32 id (cvt_sf_u a m fl)
                     else if k = 2 then cvt_sf_i a m fl
                     else cvt_sf_u a m fl)
              in (NextInsn, (write_reg_nz (insn_rd insn) val (s\<lparr>fflags := fl\<rparr>))\<lparr>fs := 3\<rparr>))))"

definition fp_compare :: "(u64 \<Rightarrow> 'a::len word) \<Rightarrow> u32 \<Rightarrow> 'd sys \<Rightarrow> ctl \<times> 'd sys" where
  "fp_compare ub insn s =
     (let rm = insn_funct3 insn in
      if rm = 0 \<or> rm = 1 \<or> rm = 2 then
        (let ((x, y), s) = read_fp_reg2 (insn_rs1 insn) (insn_rs2 insn) s;
             (c, fl) = (if rm = 0 then le_sf (ub x) (ub y) (fflags s)
                        else if rm = 1 then lt_sf (ub x) (ub y) (fflags s)
                        else eq_quiet_sf (ub x) (ub y) (fflags s))
         in (NextInsn, (write_reg_nz (insn_rd insn) (cbool c) (s\<lparr>fflags := fl\<rparr>))\<lparr>fs := 3\<rparr>))
      else (IllegalInsn, s))"

definition fp_of_int :: "('a::len word \<Rightarrow> u64) \<Rightarrow> u32 \<Rightarrow> 'd sys \<Rightarrow> ctl \<times> 'd sys" where
  "fp_of_int bx insn s =
     (case get_insn_rm s (insn_funct3 insn) of
        None \<Rightarrow> (IllegalInsn, s)
      | Some rm \<Rightarrow>
          (let k = insn_rs2 insn; m = RoundingModeEnum_of rm in
           if k > 3 then (IllegalInsn, s)
           else
             (let (x, s) = read_reg (insn_rs1 insn) s; fl = fflags s
              in fp_result (insn_rd insn) bx
                   (if k = 0 then cvt_i_sf (lo32 x) m fl
                    else if k = 1 then cvt_u_sf (lo32 x) m fl
                    else if k = 2 then cvt_i_sf x m fl
                    else cvt_u_sf x m fl) s)))"

text \<open>\<open>cvt.s.d\<close> and \<open>cvt.d.s\<close>.\<close>

definition fp_cvt_s_d :: "u32 \<Rightarrow> 'd sys \<Rightarrow> ctl \<times> 'd sys" where
  "fp_cvt_s_d insn s =
     (case get_insn_rm s (insn_funct3 insn) of
        None \<Rightarrow> (IllegalInsn, s)
      | Some rm \<Rightarrow>
          if insn_rs2 insn \<noteq> 1 then (IllegalInsn, s)
          else (let (x, s) = read_fp_reg (insn_rs1 insn) s
                in fp_result (insn_rd insn) box32 (cvt_sf64_sf32 x (RoundingModeEnum_of rm) (fflags s)) s))"

definition fp_cvt_d_s :: "u32 \<Rightarrow> 'd sys \<Rightarrow> ctl \<times> 'd sys" where
  "fp_cvt_d_s insn s =
     (case get_insn_rm s (insn_funct3 insn) of
        None \<Rightarrow> (IllegalInsn, s)
      | Some rm \<Rightarrow>
          if insn_rs2 insn \<noteq> 0 then (IllegalInsn, s)
          else (let (v, s) = read_fp_reg (insn_rs1 insn) s;
                    v = (if v AND F32_HIGH \<noteq> F32_HIGH then f_qnan32 else v)
                in fp_result (insn_rd insn) box64 (Some (cvt_sf32_sf64 (lo32 v) (fflags s))) s))"

definition fp_mv_x_class ::
    "(u64 \<Rightarrow> 'a::len word) \<Rightarrow> ('a word \<Rightarrow> u64) \<Rightarrow> u32 \<Rightarrow> 'd sys \<Rightarrow> ctl \<times> 'd sys" where
  "fp_mv_x_class ub sx insn s =
     (let rm = insn_funct3 insn in
      if insn_rs2 insn \<noteq> 0 then (IllegalInsn, s)
      else if rm = 0 then
        (let (x, s) = read_fp_reg (insn_rs1 insn) s
         in (NextInsn, write_reg_nz (insn_rd insn) (sx (ucast x)) s))
      else if rm = 1 then
        (let (x, s) = read_fp_reg (insn_rs1 insn) s
         in (NextInsn, write_reg_nz (insn_rd insn) (zx32 (fclass_sf (ub x))) s))
      else (IllegalInsn, s))"

definition fp_mv_f :: "('a::len word \<Rightarrow> u64) \<Rightarrow> u32 \<Rightarrow> 'd sys \<Rightarrow> ctl \<times> 'd sys" where
  "fp_mv_f bx insn s =
     (if insn_rs2 insn \<noteq> 0 \<or> insn_funct3 insn \<noteq> 0 then (IllegalInsn, s)
      else (let (x, s) = read_reg (insn_rs1 insn) s
            in fp_result (insn_rd insn) bx (Some (ucast x, fflags s)) s))"

definition exec_fp_size ::
    "(u64 \<Rightarrow> 'a::len word) \<Rightarrow> ('a word \<Rightarrow> u64) \<Rightarrow> ('a word \<Rightarrow> u64) \<Rightarrow> (u32 \<Rightarrow> 'd sys \<Rightarrow> ctl \<times> 'd sys) \<Rightarrow>
     u32 \<Rightarrow> u32 \<Rightarrow> 'd sys \<Rightarrow> ctl \<times> 'd sys" where
  "exec_fp_size ub bx sx cvt funct5 insn s =
     (if funct5 = 0x00 then fp_arith ub bx add_sf insn s
      else if funct5 = 0x01 then fp_arith ub bx sub_sf insn s
      else if funct5 = 0x02 then fp_arith ub bx mul_sf insn s
      else if funct5 = 0x03 then fp_arith ub bx div_sf insn s
      else if funct5 = 0x0b then fp_sqrt ub bx insn s
      else if funct5 = 0x04 then fp_sgnj ub bx insn s
      else if funct5 = 0x05 then fp_minmax ub bx insn s
      else if funct5 = 0x18 then fp_to_int ub insn s
      else if funct5 = 0x14 then fp_compare ub insn s
      else if funct5 = 0x1a then fp_of_int bx insn s
      else if funct5 = 0x08 then cvt insn s
      else if funct5 = 0x1c then fp_mv_x_class ub sx insn s
      else if funct5 = 0x1e then fp_mv_f bx insn s
      else (IllegalInsn, s))"

section \<open>Opcode 0x53\<close>

text \<open>The Zfa instructions are decoded ahead of the template.  Those of half, single and
  double precision have no effect; \<open>fli\<close> computes a value that is not stored.\<close>

definition zfa_illegal :: "u32 \<Rightarrow> bool" where
  "zfa_illegal insn =
     (let f7 = insn_funct7 insn; f3 = insn_funct3 insn; f12 = insn_funct12 insn
      in f7 = 0x59 \<and> f3 = 0 \<or> f7 = 0x5b \<and> f3 = 0 \<or> f7 = 0x53 \<and> (f3 = 4 \<or> f3 = 5) \<or> f7 = 0x17 \<and> (f3 = 3 \<or> f3 = 2)
         \<or> f12 = 0x464 \<or> f12 = 0x465 \<or> f12 = 0xf61 \<and> f3 = 0)"

definition zfa_nop :: "u32 \<Rightarrow> bool" where
  "zfa_nop insn =
     (let f7 = insn_funct7 insn; f3 = insn_funct3 insn; f12 = insn_funct12 insn
      in (f7 = 0x52 \<or> f7 = 0x50 \<or> f7 = 0x51) \<and> (f3 = 4 \<or> f3 = 5)
         \<or> (f7 = 0x16 \<or> f7 = 0x14 \<or> f7 = 0x15) \<and> (f3 = 3 \<or> f3 = 2)
         \<or> f12 = 0x444 \<or> f12 = 0x404 \<or> f12 = 0x424 \<or> f12 = 0x445 \<or> f12 = 0x405 \<or> f12 = 0x425
         \<or> (f12 = 0xf41 \<or> f12 = 0xf01 \<or> f12 = 0xf21) \<and> f3 = 0 \<or> f12 = 0xc28 \<and> f3 = 1)"

definition exec_fp :: "u32 \<Rightarrow> 'd sys \<Rightarrow> ctl \<times> 'd sys" where
  "exec_fp insn s =
     (if fs s = 0 then (IllegalInsn, s)
      else if zfa_illegal insn then (IllegalInsn, s)
      else if zfa_nop insn then (NextInsn, s)
      else
        (let funct5 = drop_bit 2 (insn_funct7 insn); fmt = insn_funct7 insn AND 3 in
         if fmt = 0 then exec_fp_size unbox32 box32 (\<lambda>v. sx32 v) fp_cvt_s_d funct5 insn s
         else if fmt = 1 then exec_fp_size unbox64 box64 (\<lambda>v. v) fp_cvt_d_s funct5 insn s
         else (IllegalInsn, s)))"

section \<open>Fused multiplications\<close>

text \<open>\<open>fmadd\<close>, \<open>fmsub\<close>, \<open>fnmsub\<close> and \<open>fnmadd\<close>: \<open>na\<close> and \<open>nc\<close> tell which of the first and
  the third operand changes its sign.\<close>

definition fma_insn ::
    "(u64 \<Rightarrow> 'a::len word) \<Rightarrow> ('a word \<Rightarrow> u64) \<Rightarrow> bool \<Rightarrow> bool \<Rightarrow> nat \<Rightarrow> u32 \<Rightarrow> 'd sys \<Rightarrow> ctl \<times> 'd sys" where
  "fma_insn ub bx na nc rm insn s =
     (let ((x, y), s) = read_fp_reg2 (insn_rs1 insn) (insn_rs2 insn) s;
          (z, s) = read_fp_reg (unat (drop_bit 27 insn)) s;
          a = (if na then ub x XOR SIGN_MASK else ub x);
          c = (if nc then ub z XOR SIGN_MASK else ub z)
      in case fma_sf a (ub y) c (RoundingModeEnum_of rm) (fflags s) of
           None \<Rightarrow> (Aborted, s)
         | Some (v, fl) \<Rightarrow> (NextInsn, write_fp_reg (insn_rd insn) (bx v) (s\<lparr>fflags := fl\<rparr>)))"

definition exec_fma :: "bool \<Rightarrow> bool \<Rightarrow> u32 \<Rightarrow> 'd sys \<Rightarrow> ctl \<times> 'd sys" where
  "exec_fma na nc insn s =
     (if fs s = 0 then (IllegalInsn, s)
      else
        (case get_insn_rm s (insn_funct3 insn) of
           None \<Rightarrow> (IllegalInsn, s)
         | Some rm \<Rightarrow>
             (let fmt = drop_bit 25 insn AND 3 in
              if fmt = 0 then fma_insn chkfp32 box32 na nc rm insn s
              else if fmt = 1 then fma_insn (\<lambda>r. r) box64 na nc rm insn s
              else (IllegalInsn, s))))"

section \<open>Opcodes 0x07 and 0x27\<close>

definition vmem_finish :: "vmem_result \<times> 'd sys \<Rightarrow> ctl \<times> 'd sys" where
  "vmem_finish r =
     (case r of
        (VOk, s) \<Rightarrow> (NextInsn, s)
      | (VIllegal, s) \<Rightarrow> (IllegalInsn, s\<lparr>vtype := VILL\<rparr>)
      | (VFault, s) \<Rightarrow> (MmuException, s)
      | (VCrash, s) \<Rightarrow> (Aborted, s))"

definition exec_fp_load :: "'d env_ops \<Rightarrow> u32 \<Rightarrow> 'd sys \<Rightarrow> ctl \<times> 'd sys" where
  "exec_fp_load E insn s =
     (let funct3 = insn_funct3 insn;
          (v, s) = read_reg (insn_rs1 insn) s; addr = v + i_imm insn; rd = insn_rd insn
      in if funct3 = 2 then
           (if fs s = 0 then (IllegalInsn, s)
            else load_then E 2 addr NextInsn (\<lambda>r. write_fp_reg rd (r OR F32_HIGH)) s)
         else if funct3 = 3 then
           (if fs s = 0 then (IllegalInsn, s)
            else load_then E 3 addr NextInsn (\<lambda>r. write_fp_reg rd (r OR F64_HIGH)) s)
         else if funct3 = 0 \<or> funct3 = 5 \<or> funct3 = 6 \<or> funct3 = 7 then
           (if vs s = 0 then (IllegalInsn, s) else vmem_finish (vmem_op E insn True s))
         else (IllegalInsn, s))"

definition exec_fp_store :: "'d env_ops \<Rightarrow> u32 \<Rightarrow> 'd sys \<Rightarrow> ctl \<times> 'd sys" where
  "exec_fp_store E insn s =
     (let funct3 = insn_funct3 insn;
          (v, s) = read_reg (insn_rs1 insn) s; addr = v + s_imm insn
      in if funct3 = 2 \<or> funct3 = 3 then
           (if fs s = 0 then (IllegalInsn, s)
            else (let (f, s) = read_fp_reg (insn_rs2 insn) s
                  in store_then E (if funct3 = 2 then 2 else 3) addr f NextInsn s))
         else if funct3 = 0 \<or> funct3 = 5 \<or> funct3 = 6 \<or> funct3 = 7 then
           (if vs s = 0 then (IllegalInsn, s) else vmem_finish (vmem_op E insn False s))
         else (IllegalInsn, s))"

end
