(* ===== verification/Interp.thy ===== *)
theory Interp
  imports InterpC InterpI InterpSys InterpF
begin

text \<open>
  The interpreter loop \<open>riscv_cpu_interp\<close> (\<open>src/include/majordomo_template.h\<close>): fetch,
  dispatch on the opcode, the labels behind the loop and the accounting of
  instructions.  The local variables that survive an iteration are the record
  \<open>interp_locals\<close>; \<open>n_cycles\<close> is the recursion argument, so the loop ends.  Callers
  pass a non-negative number of cycles.  \<open>None\<close> is a failed assertion or a call
  through a null pointer.
\<close>

record interp_locals =
  il_addend :: u64
  il_start :: u64
  il_code_ptr :: u64
  il_code_end :: u64
  il_to_pc :: u64
  il_executed :: int

text \<open>The macro \<open>GET_PC\<close>.\<close>

definition get_pc :: "interp_locals \<Rightarrow> u64" where
  "get_pc l = il_code_ptr l + il_to_pc l"

section \<open>Dispatch\<close>

definition exec_insn :: "'d env_ops \<Rightarrow> u64 \<Rightarrow> u64 \<Rightarrow> u64 \<Rightarrow> u32 \<Rightarrow> 'd sys \<Rightarrow> ctl \<times> 'd sys" where
  "exec_insn E gpc icount start insn s =
     (let opcode = insn AND 0x7f in
      if opcode AND 3 = 0 then exec_c0 E insn s
      else if opcode AND 3 = 1 then exec_c1 gpc insn s
      else if opcode AND 3 = 2 then exec_c2 E gpc insn s
      else if opcode = 0x0b then (IllegalInsn, s)
      else if opcode = 0x2b then exec_custom_2b insn s
      else if opcode = 0x37 then exec_lui insn s
      else if opcode = 0x17 then exec_auipc gpc insn s
      else if opcode = 0x6f then exec_jal gpc insn s
      else if opcode = 0x67 then exec_jalr gpc insn s
      else if opcode = 0x63 then exec_branch gpc insn s
      else if opcode = 0x03 then exec_load E insn s
      else if opcode = 0x23 then exec_store E insn s
      else if opcode = 0x13 then exec_op_imm insn s
      else if opcode = 0x1b then exec_op_imm32 insn s
      else if opcode = 0x5b then exec_custom_5b insn s
      else if opcode = 0x33 then exec_op insn s
      else if opcode = 0x3b then exec_op32 insn s
      else if opcode = 0x73 then exec_system gpc icount start insn s
      else if opcode = 0x0f then exec_misc_mem insn s
      else if opcode = 0x2f then exec_atomic E insn s
      else if opcode = 0x07 then exec_fp_load E insn s
      else if opcode = 0x27 then exec_fp_store E insn s
      else if opcode = 0x43 then exec_fma False False insn s
      else if opcode = 0x47 then exec_fma False True insn s
      else if opcode = 0x4b then exec_fma True False insn s
      else if opcode = 0x4f then exec_fma True True insn s
      else if opcode = 0x53 then exec_fp insn s
      else if opcode = 0x57 then exec_vector insn s
      else (IllegalInsn, s))"

section \<open>Fetch\<close>

definition interrupts_open :: "'d sys \<Rightarrow> bool" where
  "interrupts_open s = (mip s AND mie s \<noteq> 0 \<and> (pending_interrupt s \<noteq> -1 \<or> \<not> cosim s))"

text \<open>\<open>None\<close> is the jump to \<open>mmu_exception\<close>.\<close>

definition interp_fetch :: "interp_locals \<Rightarrow> 'd sys \<Rightarrow> u32 option \<times> interp_locals \<times> 'd sys" where
  "interp_fetch l s =
     (if il_code_ptr l \<ge> il_code_end l then
        (let addr = pc s; tlb_idx = tlb_index addr in
         if te_vaddr (tlb_code s tlb_idx) = addr AND NOT PG_MASK then
           (let mem_addend = te_mem_addend (tlb_code s tlb_idx);
                code_ptr = mem_addend + addr;
                l = l\<lparr>il_code_ptr := code_ptr,
                      il_code_end := mem_addend + ((addr AND NOT PG_MASK) + PG_MASK - 1),
                      il_to_pc := addr - code_ptr\<rparr>
            in if il_code_ptr l \<ge> il_code_end l then
                 (let insn = lo32 (hload 2 (hostmem s) code_ptr) in
                  if insn AND 3 = 3 then
                    (case target_read_insn_u16 (addr + 2) s of
                       (None, s) \<Rightarrow> (None, l, s)
                     | (Some insn_high, s) \<Rightarrow> (Some (insn OR push_bit 16 insn_high), l, s))
                  else (Some insn, l, s))
               else (Some (get_insn32 (hostmem s) code_ptr), l, s))
         else
           (case target_read_insn_slow 32 addr s of
              (r, s) \<Rightarrow> (r, l, s)))
      else (Some (get_insn32 (hostmem s) (il_code_ptr l)), l, s))"

section \<open>The labels behind the loop\<close>

definition the_end :: "nat \<Rightarrow> interp_locals \<Rightarrow> 'd sys \<Rightarrow> (int \<times> 'd sys) option" where
  "the_end n_cycles l s =
     map_option (\<lambda>s. (il_executed l, s)) (account_insns (il_addend l - of_nat n_cycles) (il_start l) s)"

definition done_interp :: "nat \<Rightarrow> interp_locals \<Rightarrow> 'd sys \<Rightarrow> (int \<times> 'd sys) option" where
  "done_interp n_cycles l s = the_end (n_cycles - 1) l s"

definition interp_exception :: "nat \<Rightarrow> interp_locals \<Rightarrow> 'd sys \<Rightarrow> (int \<times> 'd sys) option" where
  "interp_exception n_cycles l s =
     (let s = s\<lparr>pc := get_pc l\<rparr>;
          ecall = uint (CAUSE_USER_ECALL :: u32);
          (l, s) =
            (if pending_exception s \<ge> 0 then
               (if pending_exception s < ecall \<or> pending_exception s > ecall + 3
                then l\<lparr>il_addend := il_addend l - 1, il_executed := il_executed l - 1\<rparr> else l,
                raise_exception2 (word_of_int (pending_exception s)) (pending_tval s) s)
             else (l, s))
      in done_interp n_cycles l s)"

definition interp_illegal :: "nat \<Rightarrow> interp_locals \<Rightarrow> 'd sys \<Rightarrow> (int \<times> 'd sys) option" where
  "interp_illegal n_cycles l s = interp_exception n_cycles l (set_pending CAUSE_ILLEGAL_INSTRUCTION 0 s)"

section \<open>The loop\<close>

text \<open>How an iteration ends: with the result of the call, or with the locals and the
  state of the next one.\<close>

datatype 'd iteration = Return "(int \<times> 'd sys) option" | Continue interp_locals "'d sys"

definition interp_advance :: "'d env_ops \<Rightarrow> nat \<Rightarrow> u32 \<Rightarrow> interp_locals \<Rightarrow> 'd sys \<Rightarrow> 'd iteration" where
  "interp_advance E n_cycles insn l s =
     (if stf_trace s \<and> \<not> stf_insn_num_tracing s then
        (let (active, s) = stf_trace_trigger E (get_pc l) insn s in
         if active then
           (let s = s\<lparr>pc := get_pc l\<rparr> in
            if stf_has_exit_pending s then Return (the_end n_cycles l s)
            else Return (Some (il_executed l, s)))
         else Continue l s)
      else Continue l s)"

definition interp_dispatch :: "'d env_ops \<Rightarrow> nat \<Rightarrow> u32 \<Rightarrow> interp_locals \<Rightarrow> 'd sys \<Rightarrow> 'd iteration" where
  "interp_dispatch E n_cycles insn l s =
     (case exec_insn E (get_pc l) (il_addend l - of_nat n_cycles) (il_start l) insn s of
        (NextInsn, s) \<Rightarrow> interp_advance E n_cycles insn (l\<lparr>il_code_ptr := il_code_ptr l + 4\<rparr>) s
      | (CNextInsn, s) \<Rightarrow> interp_advance E n_cycles insn (l\<lparr>il_code_ptr := il_code_ptr l + 2\<rparr>) s
      | (JumpInsn, s) \<Rightarrow>
          interp_advance E n_cycles insn (l\<lparr>il_code_ptr := 0, il_code_end := 0, il_to_pc := pc s\<rparr>) s
      | (IllegalInsn, s) \<Rightarrow> Return (interp_illegal n_cycles l s)
      | (MmuException, s) \<Rightarrow> Return (interp_exception n_cycles l s)
      | (ExceptionExit, s) \<Rightarrow> Return (interp_exception n_cycles l s)
      | (DoneInterp, s) \<Rightarrow> Return (done_interp n_cycles l s)
      | (Aborted, s) \<Rightarrow> Return None)"

definition interp_iteration :: "'d env_ops \<Rightarrow> nat \<Rightarrow> interp_locals \<Rightarrow> 'd sys \<Rightarrow> 'd iteration" where
  "interp_iteration E n_cycles l s =
     (let l = l\<lparr>il_executed := il_executed l + 1\<rparr>;
          (hit, s) = check_triggers MCONTROL_EXECUTE (pc s) s
      in if hit then Return (interp_exception n_cycles l s)
         else
           (let (taken, s) = (if il_code_ptr l \<ge> il_code_end l \<and> interrupts_open s then raise_interrupt s
                              else (False, s))
            in if taken then Return (the_end n_cycles l s)
               else (case interp_fetch l s of
                       (None, l, s) \<Rightarrow> Return (interp_exception n_cycles l s)
                     | (Some insn, l, s) \<Rightarrow> interp_dispatch E n_cycles insn l s)))"

text \<open>The head of the loop; its argument is \<open>n_cycles\<close> before the decrement.\<close>

primrec interp_loop :: "'d env_ops \<Rightarrow> nat \<Rightarrow> interp_locals \<Rightarrow> 'd sys \<Rightarrow> (int \<times> 'd sys) option" where
  "interp_loop E 0 l s = None"
| "interp_loop E (Suc n) l s =
     (let s = s\<lparr>last_pc := pc s\<rparr>;
          s = s\<lparr>pc := get_pc l\<rparr>
      in if n = 0 then the_end n l s
         else (case interp_iteration E n l s of
                 Return r \<Rightarrow> r
               | Continue l s \<Rightarrow> interp_loop E n l s))"

definition riscv_cpu_interp :: "'d env_ops \<Rightarrow> nat \<Rightarrow> 'd sys \<Rightarrow> (int \<times> 'd sys) option" where
  "riscv_cpu_interp E n_cycles s =
     (let insn_counter_start = insn_counter s;
          s = clear_most_recently_written_vregs s;
          s = s\<lparr>most_recently_written_reg := -1, most_recently_written_fp_reg := -1, info := ctf_nop\<rparr>
      in if n_cycles = 0 then Some (0, s)
         else
           (let l = \<lparr>il_addend = insn_counter s + of_nat n_cycles, il_start = insn_counter_start,
                     il_code_ptr = 0, il_code_end = 0, il_to_pc = pc s, il_executed = 0\<rparr>;
                (taken, s) = (if interrupts_open s then raise_interrupt s else (False, s))
            in if taken then done_interp n_cycles (l\<lparr>il_addend := il_addend l - 1\<rparr>) s
               else interp_loop E (n_cycles + 1)
                      (l\<lparr>il_to_pc := pc s\<rparr>) (s\<lparr>pending_exception := -1, last_data_vaddr := -1\<rparr>)))"

end
