(* ===== verification/Views.thy ===== *)
theory Views
  imports Interp
begin

text \<open>
  What the instructions leave alone.  \<open>m_config\<close> collects the configuration that
  belongs to machine mode, \<open>m_view\<close> adds the registers a trap into machine mode
  writes, \<open>s_view\<close> is what supervisor mode owns besides, and \<open>u_view\<close> puts the
  hard wired register \<open>x0\<close> and the privilege level on top.  The rewrite rules
  \<open>frame_simps\<close> say that the operations of the interpreter keep \<open>u_view\<close>.  Loads
  and stores reach the devices behind the memory map; what the processor relies
  on there is the locale \<open>device_bus\<close>: a device callback does not touch the view.
\<close>

section \<open>Views\<close>

definition m_config :: "'d sys \<Rightarrow> _" where
  "m_config s = (mie s AND NOT (mideleg s), mtvec s, mscratch s,
     (mvendorid s, marchid s, mimpid s, mhartid s, misa s),
     (medeleg s, mideleg s, mcounteren s, mcountinhibit s, mhpmevent s),
     (csr_pmpcfg s, csr_pmpaddr s, pmp_n s, pmp_lo s, pmp_hi s, pmpcfg s, physical_addr_len s),
     (dcsr s, dpc s, dscratch s, tselect s, tdata1 s, tdata2 s, stop_the_counter s),
     mem_map s)"

definition m_view :: "'d sys \<Rightarrow> _" where
  "m_view s = (mstatus s AND NOT SSTATUS_MASK, mepc s, mcause s, mtval s, m_config s)"

definition s_view :: "'d sys \<Rightarrow> _" where
  "s_view s = (mstatus s, mie s, stvec s, sscratch s, sepc s, scause s, stval s, satp s, scounteren s)"

definition u_view :: "'d sys \<Rightarrow> _" where
  "u_view s = (reg s 0, priv s, s_view s, m_view s)"

lemmas view_defs = u_view_def s_view_def m_view_def m_config_def

lemma u_viewD:
  assumes "u_view s' = u_view s"
  shows "reg s' 0 = reg s 0" "priv s' = priv s" "s_view s' = s_view s" "m_view s' = m_view s"
    "mstatus s' = mstatus s" "mideleg s' = mideleg s" "stop_the_counter s' = stop_the_counter s"
  using assms by (simp_all add: view_defs)

section \<open>Fields outside the view\<close>

lemma u_view_updates [simp]:
  "u_view (s\<lparr>pc := a\<rparr>) = u_view s" "u_view (s\<lparr>last_pc := a\<rparr>) = u_view s"
  "u_view (s\<lparr>info := i\<rparr>) = u_view s" "u_view (s\<lparr>next_addr := a\<rparr>) = u_view s"
  "u_view (s\<lparr>pending_exception := e\<rparr>) = u_view s" "u_view (s\<lparr>pending_tval := a\<rparr>) = u_view s"
  "u_view (s\<lparr>fflags := f\<rparr>) = u_view s" "u_view (s\<lparr>frm := m\<rparr>) = u_view s" "u_view (s\<lparr>fs := x\<rparr>) = u_view s"
  "u_view (s\<lparr>vs := x\<rparr>) = u_view s" "u_view (s\<lparr>vtype := vt\<rparr>) = u_view s" "u_view (s\<lparr>vl := a\<rparr>) = u_view s"
  "u_view (s\<lparr>vstart := vst\<rparr>) = u_view s" "u_view (s\<lparr>vxsat := x\<rparr>) = u_view s" "u_view (s\<lparr>vxrm := x\<rparr>) = u_view s"
  "u_view (s\<lparr>v_reg := vr\<rparr>) = u_view s" "u_view (s\<lparr>most_recently_written_vregs := mr\<rparr>) = u_view s"
  "u_view (s\<lparr>load_res := a\<rparr>) = u_view s" "u_view (s\<lparr>load_res_memseqno := a\<rparr>) = u_view s"
  "u_view (s\<lparr>memseqno := a\<rparr>) = u_view s" "u_view (s\<lparr>hostmem := hm\<rparr>) = u_view s"
  "u_view (s\<lparr>insn_counter := a\<rparr>) = u_view s" "u_view (s\<lparr>mcycle := a\<rparr>) = u_view s" "u_view (s\<lparr>minstret := a\<rparr>) = u_view s"
  "u_view (s\<lparr>power_down_flag := b\<rparr>) = u_view s" "u_view (s\<lparr>terminate_simulation := b\<rparr>) = u_view s"
  "u_view (s\<lparr>benchmark_exit_code := a\<rparr>) = u_view s" "u_view (s\<lparr>debug_mode := b\<rparr>) = u_view s"
  "u_view (s\<lparr>maxinsns := a\<rparr>) = u_view s" "u_view (s\<lparr>simpoint_roi := b\<rparr>) = u_view s"
  "u_view (s\<lparr>mip := ip\<rparr>) = u_view s" "u_view (s\<lparr>plic_enable_irq := pe\<rparr>) = u_view s" "u_view (s\<lparr>timecmp := a\<rparr>) = u_view s"
  by (simp_all add: view_defs)

lemma u_view_updates_tlb [simp]:
  "u_view (s\<lparr>tlb_read := t\<rparr>) = u_view s" "u_view (s\<lparr>tlb_write := t\<rparr>) = u_view s" "u_view (s\<lparr>tlb_code := t\<rparr>) = u_view s"
  "u_view (s\<lparr>tlb_read_paddr_addend := pa\<rparr>) = u_view s" "u_view (s\<lparr>tlb_write_paddr_addend := pa\<rparr>) = u_view s"
  "u_view (s\<lparr>tlb_code_paddr_addend := pa\<rparr>) = u_view s"
  "u_view (s\<lparr>most_recently_written_reg := e\<rparr>) = u_view s" "u_view (s\<lparr>most_recently_written_fp_reg := e\<rparr>) = u_view s"
  "u_view (s\<lparr>last_data_paddr := a\<rparr>) = u_view s" "u_view (s\<lparr>last_data_vaddr := a\<rparr>) = u_view s"
  "u_view (s\<lparr>last_data_size := a\<rparr>) = u_view s" "u_view (s\<lparr>last_data_type := a\<rparr>) = u_view s"
  "u_view (s\<lparr>fp_reg := fr\<rparr>) = u_view s" "u_view (s\<lparr>reg_prior := fr\<rparr>) = u_view s"
  by (simp_all add: view_defs)

lemma u_view_updates_stf [simp]:
  "u_view (s\<lparr>env := ev\<rparr>) = u_view s"
  "u_view (s\<lparr>stf_read_regs := rl\<rparr>) = u_view s" "u_view (s\<lparr>stf_read_fp_regs := rl\<rparr>) = u_view s"
  "u_view (s\<lparr>stf_write_regs := rl\<rparr>) = u_view s" "u_view (s\<lparr>stf_write_fp_regs := rl\<rparr>) = u_view s"
  "u_view (s\<lparr>stf_mem_reads := ml\<rparr>) = u_view s" "u_view (s\<lparr>stf_mem_writes := ml\<rparr>) = u_view s"
  "u_view (s\<lparr>stf_trace_opened := b\<rparr>) = u_view s" "u_view (s\<lparr>stf_prog_asid := a\<rparr>) = u_view s"
  "u_view (s\<lparr>stf_macro_tracing_active := b\<rparr>) = u_view s" "u_view (s\<lparr>stf_insn_tracing_active := b\<rparr>) = u_view s"
  "u_view (s\<lparr>stf_is_start_opc := b\<rparr>) = u_view s" "u_view (s\<lparr>stf_is_stop_opc := b\<rparr>) = u_view s"
  "u_view (s\<lparr>stf_has_exit_pending := b\<rparr>) = u_view s" "u_view (s\<lparr>stf_num_traced := a\<rparr>) = u_view s"
  by (simp_all add: view_defs)

lemma u_view_reg [simp]: "r \<noteq> 0 \<Longrightarrow> u_view (s\<lparr>reg := (reg s)(r := v)\<rparr>) = u_view s"
  by (simp add: view_defs)

lemma c_reg_nz [simp]: "c_reg n insn \<noteq> 0"
proof -
  have "bit (drop_bit n insn AND 7 OR 8) 3" by (simp add: bit_simps)
  then have "drop_bit n insn AND 7 OR 8 \<noteq> 0" by (metis bit_0_eq bot_apply bot_bool_def)
  then show ?thesis by (simp add: c_reg_def unat_eq_0)
qed

lemmas fp_handler_defs = fp_arith_def fp_sqrt_def fp_sgnj_def fp_minmax_def fp_to_int_def fp_compare_def
  fp_of_int_def fp_cvt_s_d_def fp_cvt_d_s_def fp_mv_x_class_def fp_mv_f_def

section \<open>Operations that keep a view\<close>

text \<open>A view of the state that does not depend on the program counter, the registers
  beyond \<open>x0\<close>, the floating point and vector state, the counters and the bookkeeping
  of the interpreter.  The rules \<open>frame_simps\<close> say that the operations without a
  memory access keep it.\<close>

locale state_view =
  fixes V :: "'d sys \<Rightarrow> 'v"
  assumes V_updates [simp]:
      "V (s\<lparr>pc := a\<rparr>) = V s" "V (s\<lparr>last_pc := a\<rparr>) = V s" "V (s\<lparr>info := i\<rparr>) = V s"
      "V (s\<lparr>next_addr := a\<rparr>) = V s" "V (s\<lparr>pending_exception := e\<rparr>) = V s" "V (s\<lparr>pending_tval := a\<rparr>) = V s"
      "V (s\<lparr>fflags := f\<rparr>) = V s" "V (s\<lparr>frm := m\<rparr>) = V s" "V (s\<lparr>fs := x\<rparr>) = V s"
      "V (s\<lparr>vs := x\<rparr>) = V s" "V (s\<lparr>vtype := vt\<rparr>) = V s" "V (s\<lparr>vl := a\<rparr>) = V s"
      "V (s\<lparr>vstart := vst\<rparr>) = V s" "V (s\<lparr>vxsat := x\<rparr>) = V s" "V (s\<lparr>vxrm := x\<rparr>) = V s"
      "V (s\<lparr>v_reg := vr\<rparr>) = V s" "V (s\<lparr>most_recently_written_vregs := mr\<rparr>) = V s" "V (s\<lparr>load_res := a\<rparr>) = V s"
      "V (s\<lparr>load_res_memseqno := a\<rparr>) = V s" "V (s\<lparr>insn_counter := a\<rparr>) = V s" "V (s\<lparr>mcycle := a\<rparr>) = V s"
      "V (s\<lparr>minstret := a\<rparr>) = V s" "V (s\<lparr>power_down_flag := b\<rparr>) = V s" "V (s\<lparr>terminate_simulation := b\<rparr>) = V s"
      "V (s\<lparr>benchmark_exit_code := a\<rparr>) = V s" "V (s\<lparr>debug_mode := b\<rparr>) = V s" "V (s\<lparr>maxinsns := a\<rparr>) = V s"
      "V (s\<lparr>simpoint_roi := b\<rparr>) = V s" "V (s\<lparr>most_recently_written_reg := e\<rparr>) = V s" "V (s\<lparr>most_recently_written_fp_reg := e\<rparr>) = V s"
      "V (s\<lparr>last_data_paddr := a\<rparr>) = V s" "V (s\<lparr>last_data_vaddr := a\<rparr>) = V s" "V (s\<lparr>last_data_size := a\<rparr>) = V s"
      "V (s\<lparr>last_data_type := a\<rparr>) = V s" "V (s\<lparr>fp_reg := fr\<rparr>) = V s" "V (s\<lparr>reg_prior := fr\<rparr>) = V s"
      "V (s\<lparr>env := ev\<rparr>) = V s" "V (s\<lparr>stf_read_regs := rl\<rparr>) = V s" "V (s\<lparr>stf_read_fp_regs := rl\<rparr>) = V s"
      "V (s\<lparr>stf_write_regs := rl\<rparr>) = V s" "V (s\<lparr>stf_write_fp_regs := rl\<rparr>) = V s" "V (s\<lparr>stf_mem_reads := ml\<rparr>) = V s"
      "V (s\<lparr>stf_mem_writes := ml\<rparr>) = V s" "V (s\<lparr>stf_trace_opened := b\<rparr>) = V s" "V (s\<lparr>stf_prog_asid := a\<rparr>) = V s"
      "V (s\<lparr>stf_macro_tracing_active := b\<rparr>) = V s" "V (s\<lparr>stf_insn_tracing_active := b\<rparr>) = V s" "V (s\<lparr>stf_is_start_opc := b\<rparr>) = V s"
      "V (s\<lparr>stf_is_stop_opc := b\<rparr>) = V s" "V (s\<lparr>stf_has_exit_pending := b\<rparr>) = V s" "V (s\<lparr>stf_num_traced := a\<rparr>) = V s"
    and V_reg [simp]: "rf 0 = reg s 0 \<Longrightarrow> V (s\<lparr>reg := rf\<rparr>) = V s"
begin

lemma write_reg_view [frame_simps]: "x \<noteq> 0 \<Longrightarrow> V (write_reg x v s) = V s"
  by (simp add: write_reg_def Let_def)

lemma write_reg_nz_view [frame_simps]: "V (write_reg_nz x v s) = V s"
  by (simp add: write_reg_nz_def frame_simps)

lemma read_reg_view [frame_simps]: "V (snd (read_reg x s)) = V s"
  by (simp add: read_reg_def)

lemma read_fp_reg_view [frame_simps]: "V (snd (read_fp_reg x s)) = V s"
  by (simp add: read_fp_reg_def)

lemma read_reg2_view [frame_simps]: "V (snd (read_reg2 x y s)) = V s"
  by (simp add: read_reg2_def split_beta frame_simps)

lemma read_fp_reg2_view [frame_simps]: "V (snd (read_fp_reg2 x y s)) = V s"
  by (simp add: read_fp_reg2_def split_beta frame_simps)

lemma write_fp_reg_view [frame_simps]: "V (write_fp_reg x v s) = V s"
  by (simp add: write_fp_reg_def Let_def)

lemma track_write_view [frame_simps]: "V (track_write va pa d n t s) = V s"
  by (simp add: track_write_def Let_def)

lemma track_dread_view [frame_simps]: "V (snd (track_dread va pa d n t s)) = V s"
  by (simp add: track_dread_def Let_def)

lemma set_pending_view [frame_simps]: "V (set_pending c t s) = V s"
  by (simp add: set_pending_def)

lemma check_triggers_view [frame_simps]: "V (snd (check_triggers t a s)) = V s"
  by (simp add: check_triggers_def Let_def riscv_set_debug_mode_def)

lemma stf_put_view [frame_simps]: "V (stf_put E r s) = V s"
  by (simp add: stf_put_def)

lemma stf_puts_view [frame_simps]: "V (stf_puts E rs s) = V s"
  unfolding stf_puts_def by (induction rs arbitrary: s) (simp_all add: frame_simps)

lemma stf_open_view [frame_simps]: "V (stf_trace_open E a s) = V s"
  by (simp add: stf_trace_open_def stf_record_state_def Let_def frame_simps)

lemma stf_close_view [frame_simps]: "V (stf_trace_close E a s) = V s"
  by (simp add: stf_trace_close_def)

lemma stf_trigger_view [frame_simps]: "V (snd (stf_trace_trigger E a insn s)) = V s"
  by (simp add: stf_trace_trigger_def Let_def frame_simps)

text \<open>Address translation.\<close>

lemma riscv_phys_read_view [frame_simps]: "V (snd (riscv_phys_read n a s)) = V s"
  by (simp add: riscv_phys_read_def Let_def split_beta frame_simps split: option.splits)

lemma pt_walk_view [frame_simps]: "V (snd (pt_walk pr acc va j pa s)) = V s"
proof (induction j arbitrary: pa s)
  case 0
  then show ?case by simp
next
  case (Suc j)
  obtain r s1 where r: "riscv_phys_read 8 (pa + push_bit 3 (drop_bit (PG_SHIFT + 9 * j) va AND 0x1ff)) s = (r, s1)"
    by fastforce
  then have "V s1 = V s"
    using riscv_phys_read_view[of 8 "pa + push_bit 3 (drop_bit (PG_SHIFT + 9 * j) va AND 0x1ff)" s] by simp
  with r Suc.IH show ?case by (simp add: Let_def del: PG_SHIFT_def split: option.splits)
qed

lemma get_phys_addr_view [frame_simps]: "V (snd (riscv_cpu_get_phys_addr va acc s)) = V s"
  by (simp add: riscv_cpu_get_phys_addr_def Let_def frame_simps)

text \<open>Compressed and integer instructions.\<close>

lemma jump_insn_view [frame_simps]: "V (snd (jump_insn k s)) = V s"
  by (simp add: jump_insn_def)

lemma raise_pending_view [frame_simps]: "V (snd (raise_pending c s)) = V s"
  by (simp add: raise_pending_def frame_simps)

lemma finish_val_view [frame_simps]: "V (snd (finish_val rd r s)) = V s"
  by (simp add: finish_val_def frame_simps split: option.split)

lemma exec_c1_view [frame_simps]: "V (snd (exec_c1 gpc insn s)) = V s"
  by (simp add: exec_c1_def exec_c1_alu_def Let_def split_beta frame_simps split: option.split)

lemma exec_upper_view [frame_simps]:
  "V (snd (exec_lui insn s)) = V s" "V (snd (exec_auipc gpc insn s)) = V s"
  by (simp_all add: exec_lui_def exec_auipc_def Let_def split_beta frame_simps)

lemma exec_jump_view [frame_simps]:
  "V (snd (exec_jal gpc insn s)) = V s" "V (snd (exec_jalr gpc insn s)) = V s"
  "V (snd (exec_branch gpc insn s)) = V s"
  by (simp_all add: exec_jal_def exec_jalr_def exec_branch_def Let_def split_beta frame_simps split: option.split)

lemma exec_arith_view [frame_simps]:
  "V (snd (exec_op_imm insn s)) = V s" "V (snd (exec_op_imm32 insn s)) = V s"
  "V (snd (exec_op insn s)) = V s" "V (snd (exec_op32 insn s)) = V s"
  by (simp_all add: exec_op_imm_def exec_op_imm32_def exec_op_def exec_op32_def Let_def split_beta frame_simps)

lemma exec_misc_view [frame_simps]:
  "V (snd (exec_custom_2b insn s)) = V s" "V (snd (exec_custom_5b insn s)) = V s"
  "V (snd (exec_misc_mem insn s)) = V s"
  by (simp_all add: exec_custom_2b_def exec_custom_5b_def exec_misc_mem_def Let_def split_beta frame_simps)

text \<open>Vector instructions.\<close>

lemma velem_store_view [frame_simps]: "V (velem_store n off v s) = V s"
  by (induction n arbitrary: off v s) (simp_all add: vbyte_store_def)

lemma v_op_apply_view [frame_simps]: "V (v_op_apply op w vd vs2 v s) = V s"
  by (cases op) (simp_all add: v_op_apply_def Let_def split_beta frame_simps)

lemma varith_elem_view [frame_simps]: "V (varith_elem op w vs2 vd vs1 wc vv vm i j s) = V s"
  by (simp add: varith_elem_def Let_def split_beta frame_simps)

lemma varith_elems_view [frame_simps]: "V (fold (varith_elem op w vs2 vd vs1 wc vv vm i) js s) = V s"
  by (induction js arbitrary: s) (simp_all add: frame_simps)

lemma varith_row_view [frame_simps]: "V (varith_row op w sew vs2 vd vs1 wc vv vm i s) = V s"
  by (simp add: varith_row_def Let_def split_beta frame_simps)

lemma varith_rows_view [frame_simps]: "V (fold (varith_row op w sew vs2 vd vs1 wc vv vm) is s) = V s"
  by (induction "is" arbitrary: s) (simp_all add: frame_simps)

lemma vectorize_arithmetic_view [frame_simps]:
  "V (snd (vectorize_arithmetic vs2 vd vs1 w vv vm op s)) = V s"
  by (simp add: vectorize_arithmetic_def Let_def split_beta frame_simps)

lemma exec_vset_view [frame_simps]: "V (exec_vset insn s) = V s"
  by (simp add: exec_vset_def vset_rest_def Let_def split_beta frame_simps)

lemma varith_insn_view [frame_simps]: "V (snd (varith_insn insn v vv kd s)) = V s"
  by (simp add: varith_insn_def Let_def split_beta frame_simps split: option.split bool.split)

lemma exec_vector_view [frame_simps]: "V (snd (exec_vector insn s)) = V s"
  by (simp add: exec_vector_def Let_def split_beta frame_simps)

text \<open>Floating point instructions.\<close>

lemma fp_result_view [frame_simps]: "V (snd (fp_result rd bx r s)) = V s"
  by (simp add: fp_result_def Let_def split_beta frame_simps split: option.split)

lemma fp_handlers_view [frame_simps]:
  "V (snd (fp_arith ub bx f insn s)) = V s" "V (snd (fp_sqrt ub bx insn s)) = V s"
  "V (snd (fp_sgnj ub bx insn s)) = V s" "V (snd (fp_minmax ub bx insn s)) = V s"
  "V (snd (fp_to_int ub insn s)) = V s" "V (snd (fp_compare ub insn s)) = V s"
  "V (snd (fp_of_int bx insn s)) = V s" "V (snd (fp_cvt_s_d insn s)) = V s"
  "V (snd (fp_cvt_d_s insn s)) = V s" "V (snd (fp_mv_x_class ub bx insn s)) = V s"
  "V (snd (fp_mv_f bx insn s)) = V s"
  by (simp_all add: fp_handler_defs Let_def split_beta frame_simps split: option.split)

lemma exec_fp_view [frame_simps]: "V (snd (exec_fp insn s)) = V s"
  by (simp add: exec_fp_def exec_fp_size_def Let_def split_beta frame_simps)

lemma exec_fma_view [frame_simps]: "V (snd (exec_fma na nc insn s)) = V s"
  by (simp add: exec_fma_def fma_insn_def Let_def split_beta frame_simps split: option.split)
end

section \<open>Operations that access memory\<close>

text \<open>The accesses to memory and to the translation buffers keep the view as long as it
  satisfies \<open>G\<close>.\<close>

locale memory_view = state_view V for V :: "'d sys \<Rightarrow> 'v" +
  fixes G :: "'v \<Rightarrow> bool" and E :: "'d env_ops"
  assumes flush_view: "G (V s) \<Longrightarrow> V (tlb_flush_all s) = V s"
    and target_read_insn_slow_view [frame_simps]: "G (V s) \<Longrightarrow> V (snd (target_read_insn_slow n a s)) = V s"
    and read_memory_view: "G (V s) \<Longrightarrow> V (snd (riscv_cpu_read_memory E a k s)) = V s"
    and target_write_view [frame_simps]: "k \<le> 3 \<Longrightarrow> G (V s) \<Longrightarrow> V (snd (target_write E k a v s)) = V s"
begin

lemma tlb_flush_view [frame_simps]:
  "G (V s) \<Longrightarrow> V (tlb_flush_all s) = V s" "G (V s) \<Longrightarrow> V (tlb_flush_vaddr a s) = V s"
  by (simp_all add: tlb_flush_vaddr_def flush_view)

lemma target_read_insn_u16_view [frame_simps]: "G (V s) \<Longrightarrow> V (snd (target_read_insn_u16 a s)) = V s"
  by (simp add: target_read_insn_u16_def Let_def frame_simps)

lemma interp_fetch_view [frame_simps]: "G (V s) \<Longrightarrow> V (snd (snd (interp_fetch l s))) = V s"
  by (simp add: interp_fetch_def Let_def split_beta frame_simps split: option.split)

lemma target_read_view [frame_simps]: "G (V s) \<Longrightarrow> V (snd (target_read E k a s)) = V s"
  by (simp add: target_read_def Let_def split_beta frame_simps read_memory_view split: option.split)

lemma load_then_view [frame_simps]:
  "G (V s) \<Longrightarrow> (\<And>v s. V (wr v s) = V s) \<Longrightarrow> V (snd (load_then E k a nxt wr s)) = V s"
  by (simp add: load_then_def split_beta frame_simps split: option.split)

lemma store_then_view [frame_simps]: "k \<le> 3 \<Longrightarrow> G (V s) \<Longrightarrow> V (snd (store_then E k a v nxt s)) = V s"
  by (simp add: store_then_def split_beta frame_simps split: bool.split)

end

end
