(* ===== verification/Frame.thy ===== *)
theory Frame
  imports Views
begin

text \<open>
  The instructions that access memory, and the interpreter as a whole: what code
  in user and in supervisor mode cannot change, and the only way up.
\<close>

section \<open>Instructions that access memory\<close>

text \<open>Branches that agree on the view are merged, so that conditions need not be split.\<close>

lemma view_snd_if: "V (snd (if b then p else q)) = (if b then V (snd p) else V (snd q))"
  by simp

context state_view
begin

lemma mark_vregs_view [frame_simps]: "V (mark_vregs rd e nf s) = V s"
  by (simp add: mark_vregs_def)

end

context memory_view
begin

lemma exec_c0_view [frame_simps]: "G (V s) \<Longrightarrow> V (snd (exec_c0 E insn s)) = V s"
  by (simp add: exec_c0_def Let_def split_beta frame_simps)

lemma exec_c2_view [frame_simps]: "G (V s) \<Longrightarrow> V (snd (exec_c2 E gpc insn s)) = V s"
  by (simp add: exec_c2_def exec_c2_jump_mv_add_def Let_def split_beta frame_simps)

lemma exec_load_store_view [frame_simps]:
  "G (V s) \<Longrightarrow> V (snd (exec_load E insn s)) = V s" "G (V s) \<Longrightarrow> V (snd (exec_store E insn s)) = V s"
  by (simp_all add: exec_load_def exec_store_def Let_def split_beta frame_simps word_le_nat_alt split: option.split)

lemma exec_lr_view [frame_simps]: "G (V s) \<Longrightarrow> V (snd (exec_lr E k rd a s)) = V s"
  by (simp add: exec_lr_def frame_simps)

lemma exec_sc_view [frame_simps]: "k \<le> 3 \<Longrightarrow> G (V s) \<Longrightarrow> V (snd (exec_sc E k rd rs2 a s)) = V s"
  by (simp add: exec_sc_def Let_def split_beta frame_simps split: bool.split)

lemma exec_amo_view [frame_simps]: "k \<le> 3 \<Longrightarrow> G (V s) \<Longrightarrow> V (snd (exec_amo E k f rd rs2 a s)) = V s"
  by (simp add: exec_amo_def Let_def split_beta frame_simps split: option.split bool.split)

lemma exec_atomic_view [frame_simps]: "G (V s) \<Longrightarrow> V (snd (exec_atomic E insn s)) = V s"
  by (simp add: exec_atomic_def op_a_def Let_def split_beta frame_simps)

lemma elem_log_le: "elem_log w = Some k \<Longrightarrow> k \<le> 3"
  by (auto simp: elem_log_def split: if_splits)

lemma v_mem_op_view [frame_simps]: "G (V s) \<Longrightarrow> V (snd (v_mem_op E ld w a off s)) = V s"
  by (auto simp: v_mem_op_def Let_def split_beta frame_simps dest: elem_log_le split: option.split)

lemma vmem_segment_view [frame_simps]: "G (V s) \<Longrightarrow> V (snd (snd (vmem_segment E c i j iv ks a s))) = V s"
proof (induction ks arbitrary: a s)
  case Nil
  then show ?case by simp
next
  case (Cons k ks)
  then show ?case by (simp add: Let_def split_beta frame_simps split: option.split bool.split)
qed

lemma vmem_elems_view [frame_simps]: "G (V s) \<Longrightarrow> V (snd (snd (vmem_elems E c i js iv a s))) = V s"
proof (induction js arbitrary: iv a s)
  case Nil
  then show ?case by simp
next
  case (Cons j js)
  then show ?case by (simp add: Let_def split_beta frame_simps split: option.split)
qed

lemma vmem_rows_view [frame_simps]: "G (V s) \<Longrightarrow> V (snd (vmem_rows E c is iv s)) = V s"
proof (induction "is" arbitrary: iv s)
  case Nil
  then show ?case by simp
next
  case (Cons i "is")
  then show ?case by (simp add: Let_def split_beta frame_simps split: option.split)
qed

lemma vmem_probe_view [frame_simps]: "G (V s) \<Longrightarrow> V (snd (vmem_probe E c s)) = V s"
  by (simp add: vmem_probe_def split_beta frame_simps split: option.split)

lemma vmem_run_view [frame_simps]: "G (V s) \<Longrightarrow> V (snd (vmem_run E c vlen em iv s)) = V s"
  by (simp only: vmem_run_def Let_def split_beta frame_simps fst_conv snd_conv simp_thms
      split: if_split option.split)

lemma vmem_op_view [frame_simps]: "G (V s) \<Longrightarrow> V (snd (vmem_op E insn ld s)) = V s"
  by (simp only: vmem_op_def Let_def split_beta frame_simps view_snd_if if_cancel snd_conv simp_thms
      split: option.split)

lemma vmem_finish_view [frame_simps]: "V (snd (vmem_finish r)) = V (snd r)"
  by (cases r) (simp add: vmem_finish_def split: vmem_result.split)

lemma exec_fp_mem_view [frame_simps]:
  "G (V s) \<Longrightarrow> V (snd (exec_fp_load E insn s)) = V s" "G (V s) \<Longrightarrow> V (snd (exec_fp_store E insn s)) = V s"
  by (simp_all add: exec_fp_load_def exec_fp_store_def Let_def split_beta frame_simps)

text \<open>Every instruction except those of the opcode \<open>SYSTEM\<close> keeps the view.\<close>

lemma exec_insn_view:
  "G (V s) \<Longrightarrow> insn AND 0x7f \<noteq> 0x73 \<Longrightarrow> V (snd (exec_insn E gpc icount start insn s)) = V s"
  by (simp only: exec_insn_def Let_def frame_simps view_snd_if if_cancel snd_conv simp_thms if_False)

end

section \<open>Devices\<close>

interpretation u: state_view u_view
  by unfold_locales (simp_all, simp add: view_defs)

lemma tlb_flush_u_view [frame_simps]: "u_view (tlb_flush_all s) = u_view s" "u_view (tlb_flush_vaddr a s) = u_view s"
  by (simp_all add: tlb_flush_vaddr_def tlb_flush_all_def tlb_init_def)

text \<open>The interface between the processor and the devices of the memory map: a
  callback may change memory, interrupt lines and the state of the devices, but
  none of the registers of the view.\<close>

locale device_bus =
  fixes E :: "'d env_ops"
  assumes read_func_view: "u_view (snd (read_func E opq off k s)) = u_view s"
    and write_func_view: "u_view (write_func E opq off v k s) = u_view s"
begin

lemma read_memory_u_view: "u_view (snd (riscv_cpu_read_memory E a k s)) = u_view s"
  by (simp add: riscv_cpu_read_memory_def Let_def split_beta frame_simps
      read_func_view split: option.split xlate.split)

lemma write_memory_u_view: "u_view (snd (riscv_cpu_write_memory E a v k s)) = u_view s"
  by (simp add: riscv_cpu_write_memory_def Let_def split_beta frame_simps
      write_func_view split: option.split xlate.split)

lemma target_write_u_view: "u_view (snd (target_write E k a v s)) = u_view s"
  by (simp add: target_write_def Let_def split_beta frame_simps write_memory_u_view)

end

sublocale device_bus \<subseteq> bus: memory_view u_view "\<lambda>_. True" E
  by unfold_locales (simp_all add: read_memory_u_view target_write_u_view frame_simps target_read_insn_slow_def Let_def
      split_beta split: option.split xlate.split)

section \<open>Control and status registers\<close>

text \<open>The level that the number of a register requires.\<close>

definition csr_level :: "u32 \<Rightarrow> nat" where
  "csr_level csr = unat (drop_bit 8 csr AND 3)"

lemma csr_level_div: "csr_level csr = unat csr div 256 mod 4"
  by (simp add: csr_level_def and_low_mask unat_take_bit unat_drop_bit_div)

lemma csr_read_level: "csr_read csr w s = Some v \<Longrightarrow> csr_level csr \<le> unat (priv s)"
proof -
  assume "csr_read csr w s = Some v"
  then have "uint (drop_bit 8 csr AND 3) \<le> uint (priv s)" by (simp add: csr_read_def split: if_splits)
  then have "nat (uint (drop_bit 8 csr AND 3)) \<le> nat (uint (priv s))" by (rule nat_mono)
  then show ?thesis by (simp add: csr_level_def)
qed

lemma csr_level_numbers:
  "csr_level csr = 0 \<Longrightarrow> csr \<notin> {0x100, 0x104, 0x105, 0x106, 0x140, 0x141, 0x142, 0x143, 0x144, 0x180}"
  "csr_level csr \<le> 1 \<Longrightarrow> csr \<notin> {0x300, 0x301, 0x302, 0x303, 0x304, 0x305, 0x306, 0x320, 0x340, 0x341, 0x342,
     0x343, 0x344, 0x744, 0x7a0, 0x7a1, 0x7a2, 0x7b0, 0x7b1, 0x7b2, 0x3A0, 0x3A2, 0xb00, 0xb02}"
  by (auto simp: csr_level_div)

lemma csr_level_ranges:
  assumes "csr_level csr \<le> 1"
  shows "(0x323 \<le> csr \<and> csr \<le> 0x33f) = False" "(0x3B0 \<le> csr \<and> csr \<le> 0x3BF) = False"
    "(0xb03 \<le> csr \<and> csr \<le> 0xb1f) = False"
proof -
  have no: "\<not> (256 * n \<le> unat csr \<and> unat csr < 256 * n + 256)" if "1 < n mod 4" for n
  proof
    assume "256 * n \<le> unat csr \<and> unat csr < 256 * n + 256"
    then have "unat csr div 256 = n" by (simp add: div_nat_eqI)
    with assms that show False by (simp add: csr_level_div)
  qed
  show "(0x323 \<le> csr \<and> csr \<le> 0x33f) = False" using no[of 3] by (auto simp: word_le_nat_alt)
  show "(0x3B0 \<le> csr \<and> csr \<le> 0x3BF) = False" using no[of 3] by (auto simp: word_le_nat_alt)
  show "(0xb03 \<le> csr \<and> csr \<le> 0xb1f) = False" using no[of 11] by (auto simp: word_le_nat_alt)
qed

lemma simpoint_write_view [frame_simps]: "u_view (simpoint_write v s) = u_view s"
  by (simp add: simpoint_write_def)

lemma csr_write_user_view:
  assumes "csr_level csr = 0"
  shows "u_view (snd (csr_write csr v s)) = u_view s"
  using csr_level_numbers[of csr, unfolded insert_iff empty_iff] assms
  by (simp add: csr_write_def csr_level_ranges set_frm_def Let_def frame_simps del: de_Morgan_conj)

section \<open>Supervisor mode\<close>

definition sup_view :: "'d sys \<Rightarrow> _" where
  "sup_view s = (reg s 0, priv s, m_view s)"

lemma sup_view_of_u_view: "u_view s' = u_view s \<Longrightarrow> sup_view s' = sup_view s"
  by (simp add: u_view_def sup_view_def)

lemma merge_outside:
  fixes x :: "'a::len word"
  shows "(x AND NOT m OR (x AND NOT a OR v AND a) AND m) AND NOT a = x AND NOT a"
    "c AND NOT a = 0 \<Longrightarrow> (x AND NOT c) AND NOT a = x AND NOT a"
    "c AND NOT a = 0 \<Longrightarrow> (x OR c) AND NOT a = x AND NOT a"
    "c AND NOT a = 0 \<Longrightarrow> (x OR y AND c) AND NOT a = x AND NOT a"
  by (auto simp: bit_eq_iff bit_simps)

lemma merge32_outside: "merge32 x (zx32 m) v AND NOT m = x AND NOT m"
  by (intro bit_word_eqI) (auto simp: merge32_def bit_simps)

lemma sup_view_updates [simp]:
  "sup_view (s\<lparr>stvec := a\<rparr>) = sup_view s" "sup_view (s\<lparr>sscratch := a\<rparr>) = sup_view s"
  "sup_view (s\<lparr>sepc := a\<rparr>) = sup_view s" "sup_view (s\<lparr>scause := a\<rparr>) = sup_view s"
  "sup_view (s\<lparr>stval := a\<rparr>) = sup_view s" "sup_view (s\<lparr>satp := a\<rparr>) = sup_view s"
  "sup_view (s\<lparr>scounteren := c\<rparr>) = sup_view s" "sup_view (s\<lparr>mip := c\<rparr>) = sup_view s"
  "sup_view (s\<lparr>mie := merge32 (mie s) (zx32 (mideleg s)) v\<rparr>) = sup_view s"
  "sup_view (tlb_flush_all s) = sup_view s"
  by (simp_all add: sup_view_def m_view_def m_config_def merge32_outside tlb_flush_all_def tlb_init_def)

lemma set_mstatus_sup_view:
  "sup_view (set_mstatus (mstatus s AND NOT SSTATUS_MASK OR v AND SSTATUS_MASK) s) = sup_view s"
proof -
  define m where "m = MSTATUS_MASK AND NOT (MSTATUS_FS OR MSTATUS_VS OR MSTATUS_UXL_MASK OR MSTATUS_SXL_MASK)"
  show ?thesis
    unfolding set_mstatus_def Let_def m_def[symmetric]
    by (simp add: tlb_flush_all_def tlb_init_def sup_view_def m_view_def m_config_def merge_outside(1))
qed

lemma csr_write_sup_view:
  assumes "csr_level csr \<le> 1"
  shows "sup_view (snd (csr_write csr v s)) = sup_view s"
proof (cases "csr_level csr = 0")
  case True
  then show ?thesis by (intro sup_view_of_u_view csr_write_user_view)
next
  case False
  then have "csr \<notin> {0x001, 0x002, 0x003, 0x008, 0x009, 0x00A, 0x00F, 0x8C2}"
    by (auto simp: csr_level_div)
  then show ?thesis
    using csr_level_numbers(2)[of csr, unfolded insert_iff empty_iff] assms
    by (simp add: csr_write_def csr_level_ranges set_mstatus_sup_view satp_write_def Let_def
        del: de_Morgan_conj)
qed

section \<open>Privilege\<close>

definition core_view :: "'a hart \<Rightarrow> u64 \<times> u8" where
  "core_view s = (reg s 0, priv s)"

lemma core_view_updates [simp]:
  "core_view (s\<lparr>fflags := x32\<rparr>) = core_view s" "core_view (s\<lparr>fs := x8\<rparr>) = core_view s" "core_view (s\<lparr>frm := x8\<rparr>) = core_view s"
  "core_view (s\<lparr>vstart := x16\<rparr>) = core_view s" "core_view (s\<lparr>vxsat := x8\<rparr>) = core_view s" "core_view (s\<lparr>vxrm := x8\<rparr>) = core_view s"
  "core_view (s\<lparr>vs := x8\<rparr>) = core_view s" "core_view (s\<lparr>mstatus := x\<rparr>) = core_view s" "core_view (s\<lparr>mie := x32\<rparr>) = core_view s"
  "core_view (s\<lparr>stvec := x\<rparr>) = core_view s" "core_view (s\<lparr>scounteren := x32\<rparr>) = core_view s" "core_view (s\<lparr>sscratch := x\<rparr>) = core_view s"
  "core_view (s\<lparr>sepc := x\<rparr>) = core_view s" "core_view (s\<lparr>scause := x\<rparr>) = core_view s" "core_view (s\<lparr>stval := x\<rparr>) = core_view s"
  "core_view (s\<lparr>mip := x32\<rparr>) = core_view s" "core_view (s\<lparr>satp := x\<rparr>) = core_view s" "core_view (s\<lparr>medeleg := x32\<rparr>) = core_view s"
  "core_view (s\<lparr>mideleg := x32\<rparr>) = core_view s" "core_view (s\<lparr>mtvec := x\<rparr>) = core_view s" "core_view (s\<lparr>mcounteren := x32\<rparr>) = core_view s"
  "core_view (s\<lparr>mcountinhibit := x32\<rparr>) = core_view s" "core_view (s\<lparr>mscratch := x\<rparr>) = core_view s" "core_view (s\<lparr>mepc := x\<rparr>) = core_view s"
  "core_view (s\<lparr>mcause := x\<rparr>) = core_view s" "core_view (s\<lparr>mtval := x\<rparr>) = core_view s" "core_view (s\<lparr>tselect := x32\<rparr>) = core_view s"
  "core_view (s\<lparr>tdata1 := f\<rparr>) = core_view s" "core_view (s\<lparr>tdata2 := f\<rparr>) = core_view s" "core_view (s\<lparr>dcsr := x\<rparr>) = core_view s"
  "core_view (s\<lparr>dpc := x\<rparr>) = core_view s" "core_view (s\<lparr>dscratch := x\<rparr>) = core_view s" "core_view (s\<lparr>stop_the_counter := b\<rparr>) = core_view s"
  "core_view (s\<lparr>mhpmevent := f\<rparr>) = core_view s" "core_view (s\<lparr>csr_pmpcfg := f\<rparr>) = core_view s" "core_view (s\<lparr>csr_pmpaddr := f\<rparr>) = core_view s"
  "core_view (s\<lparr>mcycle := x\<rparr>) = core_view s" "core_view (s\<lparr>minstret := x\<rparr>) = core_view s" "core_view (s\<lparr>pmp_n := n\<rparr>) = core_view s"
  "core_view (tlb_flush_all s) = core_view s"
  by (simp_all add: core_view_def tlb_flush_all_def tlb_init_def)

lemma core_view_of_u_view: "u_view s' = u_view s \<Longrightarrow> core_view s' = core_view s"
  by (simp add: u_view_def core_view_def)

lemma core_view_if: "core_view (if b then s1 else s2) = (if b then core_view s1 else core_view s2)"
  by simp

lemma core_view_snd_if: "core_view (snd (if b then p else q)) = (if b then core_view (snd p) else core_view (snd q))"
  by simp

lemma unpack_core_view [simp]: "core_view (unpack_pmpaddrs s) = core_view s"
proof -
  have "core_view (foldl (\<lambda>s i. unpack_entry i s) t is) = core_view t" for t :: "'a hart" and "is"
  proof (induction "is" arbitrary: t)
    case (Cons i "is")
    have "core_view (unpack_entry i t) = core_view t"
      by (simp add: core_view_def unpack_entry_def split: option.split prod.split)
    with Cons show ?case by simp
  qed simp
  then show ?thesis unfolding unpack_pmpaddrs_def by simp
qed

lemma csr_helpers_core_view:
  "core_view (set_frm v s) = core_view s" "core_view (set_mstatus v s) = core_view s"
  "core_view (satp_write v s) = core_view s" "core_view (tdata1_write v s) = core_view s"
  "core_view (tdata2_write v s) = core_view s" "core_view (dcsr_write v s) = core_view s"
  "core_view (pmpcfg_write c v s) = core_view s" "core_view (pmpaddr_write i v s) = core_view s"
  by (simp_all add: set_frm_def set_mstatus_def satp_write_def tdata1_write_def tdata2_write_def dcsr_write_def
      pmpcfg_write_def pmpaddr_write_def Let_def)

lemma csr_write_core_view: "core_view (snd (csr_write csr v s)) = core_view s"
  by (simp only: csr_write_def Let_def core_view_snd_if core_view_if core_view_updates csr_helpers_core_view
      core_view_of_u_view[OF simpoint_write_view] if_cancel snd_conv)

section \<open>System instructions\<close>

text \<open>A part of the view that writes to the registers up to a level keep: the CSR
  instructions keep it at that level.\<close>

locale csr_frame =
  fixes V :: "'d sys \<Rightarrow> 'v" and lv :: nat
  assumes of_u_view: "u_view s' = u_view s \<Longrightarrow> V s' = V s"
    and csr_write_frame: "csr_level csr \<le> lv \<Longrightarrow> V (snd (csr_write csr v s)) = V s"
begin

lemma account_frame: "account_insns icount start s = Some s' \<Longrightarrow> V s' = V s \<and> priv s' = priv s"
  by (auto simp: account_insns_def Let_def split: if_splits intro!: of_u_view)

lemma csr_finish_frame: "V (snd (csr_finish gpc rd v err s)) = V s"
  by (rule of_u_view) (simp add: csr_finish_def Let_def frame_simps)

lemma csrrw_frame: "unat (priv s) \<le> lv \<Longrightarrow> V (snd (exec_csrrw gpc icount start insn v s)) = V s"
  by (auto simp: exec_csrrw_def Let_def split_beta csr_finish_frame csr_write_frame
      dest!: account_frame csr_read_level split: option.split)

lemma csrrs_frame: "unat (priv s) \<le> lv \<Longrightarrow> V (snd (exec_csrrs gpc icount start f insn v s)) = V s"
  by (auto simp: exec_csrrs_def Let_def split_beta csr_finish_frame csr_write_frame
      dest!: account_frame csr_read_level split: option.split)

end

interpretation u_frame: csr_frame u_view 0
  by unfold_locales (simp_all add: csr_write_user_view)

interpretation sup_frame: csr_frame sup_view 1
  by unfold_locales (erule sup_view_of_u_view, erule csr_write_sup_view)

interpretation core_frame: csr_frame core_view 255
  by unfold_locales (erule core_view_of_u_view, rule csr_write_core_view)

lemma exec_priv_view:
  "drop_bit 20 insn \<notin> {0x102, 0x302, 0x7b2} \<Longrightarrow> u_view (snd (exec_priv gpc insn s)) = u_view s"
  by (auto simp: exec_priv_def exec_ecall_def exec_ebreak_def exec_wfi_def exec_sfence_vma_def Let_def split_beta
      frame_simps)

text \<open>The return instructions are illegal below their level and lead to the level saved
  in \<open>mstatus\<close>.\<close>

lemma set_priv_fields:
  "priv (set_priv p s) = p" "reg (set_priv p s) = reg s" "m_view (set_priv p s) = m_view s" "mstatus (set_priv p s) = mstatus s"
  for s :: "'d sys"
  by (simp_all add: set_priv_def tlb_flush_all_def tlb_init_def m_view_def m_config_def)

lemma unat_field_le: "unat (lo8 (drop_bit n (w AND c))) \<le> unat c div 2 ^ n" for w c :: u64
proof -
  have "unat (w AND c) \<le> unat c" using word_and_le1[of w c] by (simp add: word_le_nat_alt)
  then have "unat (drop_bit n (w AND c)) \<le> unat c div 2 ^ n" by (simp only: unat_drop_bit_div div_le_mono)
  moreover have "unat (lo8 x) \<le> unat x" for x :: u64
    by (simp add: unsigned_ucast_eq)
  ultimately show ?thesis using order_trans by blast
qed

lemma handle_sret_views:
  "reg (handle_sret s) 0 = reg s 0" "m_view (handle_sret s) = m_view s" "unat (priv (handle_sret s)) \<le> 1"
  for s :: "'d sys"
proof -
  show "reg (handle_sret s) 0 = reg s 0" by (simp add: handle_sret_def Let_def set_priv_fields)
  have out: "c AND NOT SSTATUS_MASK = 0" if "c \<in> {MSTATUS_SIE, MSTATUS_SPIE, MSTATUS_SPP}" for c
    using that by (auto simp: SSTATUS_MASK_def)
  show "m_view (handle_sret s) = m_view s"
    by (simp add: handle_sret_def Let_def set_priv_def tlb_flush_all_def tlb_init_def m_view_def m_config_def
        merge_outside(2-4) out del: MSTATUS_SIE_def MSTATUS_SPIE_def MSTATUS_SPP_def)
  have "priv (handle_sret s) = lo8 (drop_bit MSTATUS_SPP_SHIFT ((mstatus s AND NOT MSTATUS_SIE
      OR drop_bit 4 (mstatus s AND NOT MSTATUS_SIE) AND MSTATUS_SIE OR MSTATUS_SPIE) AND MSTATUS_SPP))"
    by (simp add: handle_sret_def Let_def set_priv_fields)
  also have "unat \<dots> \<le> unat MSTATUS_SPP div 2 ^ MSTATUS_SPP_SHIFT" by (rule unat_field_le)
  finally show "unat (priv (handle_sret s)) \<le> 1" by simp
qed

lemma handle_mret_dret_views:
  "reg (handle_mret s) 0 = reg s 0" "unat (priv (handle_mret s)) \<le> 3"
  "reg (handle_dret s) 0 = reg s 0" "unat (priv (handle_dret s)) \<le> 3"
  for s :: "'d sys"
proof -
  show "reg (handle_mret s) 0 = reg s 0" "reg (handle_dret s) 0 = reg s 0"
    by (simp_all add: handle_mret_def handle_dret_def Let_def set_priv_fields)
  have "priv (handle_mret s) = lo8 (drop_bit MSTATUS_MPP_SHIFT ((mstatus s AND NOT MSTATUS_MIE
      OR drop_bit 4 (mstatus s AND NOT MSTATUS_MIE) AND MSTATUS_MIE OR MSTATUS_MPIE) AND MSTATUS_MPP))"
    by (simp add: handle_mret_def Let_def set_priv_fields)
  also have "unat \<dots> \<le> unat MSTATUS_MPP div 2 ^ MSTATUS_MPP_SHIFT" by (rule unat_field_le)
  finally show "unat (priv (handle_mret s)) \<le> 3" by simp
  have "priv (handle_dret s) = lo8 (drop_bit 0 (dcsr s AND 3))"
    by (simp add: handle_dret_def Let_def set_priv_fields)
  also have "unat \<dots> \<le> unat (3 :: u64) div 2 ^ 0" by (rule unat_field_le)
  finally show "unat (priv (handle_dret s)) \<le> 3" by simp
qed

text \<open>The guarantees of one instruction.\<close>

definition insn_guarantee :: "'d sys \<Rightarrow> 'd sys \<Rightarrow> bool" where
  "insn_guarantee s s' \<longleftrightarrow>
     reg s' 0 = reg s 0 \<and> priv s' \<le> priv s \<and>
     (priv s = PRV_U \<longrightarrow> u_view s' = u_view s) \<and> (priv s \<le> PRV_S \<longrightarrow> m_view s' = m_view s)"

lemma insn_guarantee_of_u_view: "u_view s' = u_view s \<Longrightarrow> insn_guarantee s s'"
  using u_viewD[of s' s] by (simp add: insn_guarantee_def)

lemma insn_guarantee_pre: "u_view t = u_view s \<Longrightarrow> insn_guarantee t s' \<Longrightarrow> insn_guarantee s s'"
  using u_viewD[of t s] by (simp add: insn_guarantee_def)

lemma insn_guarantee_of_frames:
  assumes "core_view s' = core_view s" "priv s \<le> PRV_S \<Longrightarrow> sup_view s' = sup_view s"
    "priv s = PRV_U \<Longrightarrow> u_view s' = u_view s"
  shows "insn_guarantee s s'"
  using assms by (simp add: insn_guarantee_def core_view_def sup_view_def)

lemma csr_insn_guarantee:
  "insn_guarantee s (snd (exec_csrrw gpc icount start insn v s))"
  "insn_guarantee s (snd (exec_csrrs gpc icount start f insn v s))"
proof -
  have le: "unat (priv s) \<le> 255" using unsigned_less[of "priv s", where ?'a = nat] by simp
  show "insn_guarantee s (snd (exec_csrrw gpc icount start insn v s))"
    using le by (intro insn_guarantee_of_frames core_frame.csrrw_frame sup_frame.csrrw_frame u_frame.csrrw_frame)
      (simp_all add: word_le_nat_alt)
  show "insn_guarantee s (snd (exec_csrrs gpc icount start f insn v s))"
    using le by (intro insn_guarantee_of_frames core_frame.csrrs_frame sup_frame.csrrs_frame u_frame.csrrs_frame)
      (simp_all add: word_le_nat_alt)
qed

lemma exec_return_guarantee:
  "insn_guarantee s (snd (exec_sret gpc insn s))" "insn_guarantee s (snd (exec_mret gpc insn s))"
  "insn_guarantee s (snd (exec_dret gpc insn s))"
proof -
  have same: "insn_guarantee s s" by (rule insn_guarantee_of_u_view) simp
  have m: "m_view (s\<lparr>pc := gpc\<rparr>) = m_view s" by (simp add: m_view_def m_config_def)
  have "insn_guarantee s (handle_sret (s\<lparr>pc := gpc\<rparr>))" if "\<not> priv s < PRV_S"
    using that handle_sret_views[of "s\<lparr>pc := gpc\<rparr>"] m
    by (auto simp: insn_guarantee_def word_le_nat_alt word_less_nat_alt)
  with same show "insn_guarantee s (snd (exec_sret gpc insn s))" by (simp add: exec_sret_def)
  have "insn_guarantee s (handle_mret (s\<lparr>pc := gpc\<rparr>))" "insn_guarantee s (handle_dret (s\<lparr>pc := gpc\<rparr>))"
    if "\<not> priv s < PRV_M"
    using that handle_mret_dret_views[of "s\<lparr>pc := gpc\<rparr>"]
    by (auto simp: insn_guarantee_def word_le_nat_alt word_less_nat_alt)
  with same show "insn_guarantee s (snd (exec_mret gpc insn s))" "insn_guarantee s (snd (exec_dret gpc insn s))"
    by (simp_all add: exec_mret_def exec_dret_def)
qed

lemma exec_system_guarantee: "insn_guarantee s (snd (exec_system gpc icount start insn s))"
proof -
  have "insn_guarantee t (snd (exec_priv gpc insn t))" for t
  proof (cases "drop_bit 20 insn \<in> {0x102, 0x302, 0x7b2}")
    case True
    then show ?thesis by (auto simp: exec_priv_def Let_def exec_return_guarantee)
  next
    case False
    then show ?thesis by (intro insn_guarantee_of_u_view exec_priv_view)
  qed
  note cases = this csr_insn_guarantee
  have "insn_guarantee s (snd (exec_csrrw gpc icount start insn v (snd (read_reg r s))))"
    "insn_guarantee s (snd (exec_csrrs gpc icount start f insn v (snd (read_reg r s))))"
    "insn_guarantee s (snd (exec_priv gpc insn (snd (read_reg r s))))" for v r f
    by (rule insn_guarantee_pre[OF u.read_reg_view], rule cases)+
  then show ?thesis by (simp add: exec_system_def Let_def split_beta cases)
qed

context device_bus
begin

lemma exec_insn_guarantee: "insn_guarantee s (snd (exec_insn E gpc icount start insn s))"
proof (cases "insn AND 0x7f = 0x73")
  case True
  then show ?thesis by (simp add: exec_insn_def Let_def exec_system_guarantee)
next
  case False
  then show ?thesis by (intro insn_guarantee_of_u_view bus.exec_insn_view) simp_all
qed

end

end
