(* ===== verification/Cutils.thy ===== *)
theory Cutils
  imports Prelude
begin

text \<open>
  The utility functions of \<open>src/include/cutils.h\<close> and \<open>src/src/cutils.cpp\<close>: byte order
  conversions on host memory, \<open>ctz32\<close> in its builtin and its portable version, the
  bounded string copies, \<open>strstart\<close> and the growing buffer \<open>DynBuf\<close>.

  A C string is the list of its bytes without the terminating zero; a character
  array that a function writes is the list of all its bytes.
\<close>

section \<open>Byte order\<close>

definition get_le16 :: "hmem \<Rightarrow> u64 \<Rightarrow> u16" where
  "get_le16 m ptr = ucast (m ptr) OR push_bit 8 (ucast (m (ptr + 1)))"

definition get_le32 :: "hmem \<Rightarrow> u64 \<Rightarrow> u32" where
  "get_le32 m ptr = ucast (m ptr) OR push_bit 8 (ucast (m (ptr + 1))) OR push_bit 16 (ucast (m (ptr + 2)))
     OR push_bit 24 (ucast (m (ptr + 3)))"

definition get_le64 :: "hmem \<Rightarrow> u64 \<Rightarrow> u64" where
  "get_le64 m ptr = zx32 (get_le32 m ptr) OR push_bit 32 (zx32 (get_le32 m (ptr + 4)))"

definition put_le16 :: "hmem \<Rightarrow> u64 \<Rightarrow> u16 \<Rightarrow> hmem" where
  "put_le16 m ptr v = m(ptr := ucast v, ptr + 1 := ucast (drop_bit 8 v))"

definition put_le32 :: "hmem \<Rightarrow> u64 \<Rightarrow> u32 \<Rightarrow> hmem" where
  "put_le32 m ptr v = m(ptr := ucast v, ptr + 1 := ucast (drop_bit 8 v), ptr + 2 := ucast (drop_bit 16 v),
     ptr + 3 := ucast (drop_bit 24 v))"

definition put_le64 :: "hmem \<Rightarrow> u64 \<Rightarrow> u64 \<Rightarrow> hmem" where
  "put_le64 m ptr v = put_le32 (put_le32 m ptr (lo32 v)) (ptr + 4) (lo32 (drop_bit 32 v))"

definition get_be32 :: "hmem \<Rightarrow> u64 \<Rightarrow> u32" where
  "get_be32 m d = push_bit 24 (ucast (m d)) OR push_bit 16 (ucast (m (d + 1))) OR push_bit 8 (ucast (m (d + 2)))
     OR ucast (m (d + 3))"

definition put_be32 :: "hmem \<Rightarrow> u64 \<Rightarrow> u32 \<Rightarrow> hmem" where
  "put_be32 m d v = m(d := ucast (drop_bit 24 v), d + 1 := ucast (drop_bit 16 v), d + 2 := ucast (drop_bit 8 v),
     d + 3 := ucast v)"

definition put_be64 :: "hmem \<Rightarrow> u64 \<Rightarrow> u64 \<Rightarrow> hmem" where
  "put_be64 m d v = put_be32 (put_be32 m d (lo32 (drop_bit 32 v))) (d + 4) (lo32 v)"

definition bswap_32 :: "u32 \<Rightarrow> u32" where
  "bswap_32 v = drop_bit 24 (v AND 0xff000000) OR drop_bit 8 (v AND 0x00ff0000) OR push_bit 8 (v AND 0x0000ff00)
     OR push_bit 24 (v AND 0x000000ff)"

definition cpu_to_be32 :: "u32 \<Rightarrow> u32" where "cpu_to_be32 v = bswap_32 v"

section \<open>Trailing zeros\<close>

text \<open>\<open>__builtin_ctz\<close>, guarded against zero, and the binary search of the portable branch.\<close>

fun ctz_from :: "u32 \<Rightarrow> nat \<Rightarrow> nat \<Rightarrow> nat" where
  "ctz_from v i 0 = i"
| "ctz_from v i (Suc n) = (if bit v i then i else ctz_from v (Suc i) n)"

definition ctz32 :: "u32 \<Rightarrow> nat" where
  "ctz32 val = (if val \<noteq> 0 then ctz_from val 0 32 else 32)"

definition ctz_step :: "u32 \<Rightarrow> nat \<Rightarrow> nat \<times> u32 \<Rightarrow> nat \<times> u32" where
  "ctz_step m k = (\<lambda>(cnt, val). if val AND m = 0 then (cnt + k, drop_bit k val) else (cnt, val))"

definition ctz32_portable :: "u32 \<Rightarrow> nat" where
  "ctz32_portable val =
     (let (cnt, val) = ctz_step 1 1 (ctz_step 3 2 (ctz_step 0xf 4 (ctz_step 0xff 8 (ctz_step 0xffff 16 (0, val)))))
      in if val AND 1 = 0 then cnt + 1 else cnt)"

definition max_int :: "int \<Rightarrow> int \<Rightarrow> int" where "max_int a b = (if a > b then a else b)"
definition min_int :: "int \<Rightarrow> int \<Rightarrow> int" where "min_int a b = (if a < b then a else b)"

section \<open>Strings\<close>

text \<open>The loop of \<open>pstrcpy\<close> at position \<open>q\<close>, which stops at \<open>lim = buf_size - 1\<close>.\<close>

fun pstrcpy_loop :: "u8 list \<Rightarrow> nat \<Rightarrow> nat \<Rightarrow> u8 list \<Rightarrow> u8 list" where
  "pstrcpy_loop buf q lim [] = buf[q := 0]"
| "pstrcpy_loop buf q lim (c # str) =
     (if q \<ge> lim then buf[q := 0] else pstrcpy_loop (buf[q := c]) (Suc q) lim str)"

definition pstrcpy_at :: "u8 list \<Rightarrow> nat \<Rightarrow> nat \<Rightarrow> u8 list \<Rightarrow> u8 list" where
  "pstrcpy_at buf off buf_size str = (if buf_size = 0 then buf else pstrcpy_loop buf off (off + buf_size - 1) str)"

definition pstrcpy :: "u8 list \<Rightarrow> nat \<Rightarrow> u8 list \<Rightarrow> u8 list" where
  "pstrcpy buf buf_size str = pstrcpy_at buf 0 buf_size str"

text \<open>\<open>strlen\<close> of the content of a character array.\<close>

definition c_string :: "u8 list \<Rightarrow> u8 list" where
  "c_string buf = takeWhile (\<lambda>c. c \<noteq> 0) buf"

definition pstrcat :: "u8 list \<Rightarrow> nat \<Rightarrow> u8 list \<Rightarrow> u8 list" where
  "pstrcat buf buf_size s =
     (let len = length (c_string buf) in if len < buf_size then pstrcpy_at buf len (buf_size - len) s else buf)"

text \<open>\<open>Some rest\<close> is the result 1 with \<open>*ptr\<close> set.\<close>

fun strstart :: "u8 list \<Rightarrow> u8 list \<Rightarrow> u8 list option" where
  "strstart p [] = Some p"
| "strstart [] (c # q) = None"
| "strstart (d # p) (c # q) = (if d \<noteq> c then None else strstart p q)"

section \<open>Growing buffers\<close>

text \<open>\<open>dyn_buf\<close> is the allocated block; \<open>max_int\<close> takes its arguments as C \<open>int\<close>.  The
  model covers sizes below \<open>2 ^ 31\<close>, where the conversion changes nothing; new space
  that \<open>realloc\<close> leaves undefined is zero.\<close>

record DynBuf =
  dyn_buf :: "u8 list"
  dyn_size :: nat

definition dbuf_init :: DynBuf where "dbuf_init = \<lparr>dyn_buf = [], dyn_size = 0\<rparr>"

definition dbuf_write :: "nat \<Rightarrow> u8 list \<Rightarrow> DynBuf \<Rightarrow> DynBuf" where
  "dbuf_write offset data s =
     (let fin = offset + length data;
          alloc = length (dyn_buf s);
          new_alloc = (if fin > alloc then nat (max_int (int fin) (int (alloc * 3 div 2))) else alloc);
          b = dyn_buf s @ replicate (new_alloc - alloc) 0;
          b = take offset b @ data @ drop fin b
      in s\<lparr>dyn_buf := b, dyn_size := (if fin > dyn_size s then fin else dyn_size s)\<rparr>)"

definition dbuf_putc :: "u8 \<Rightarrow> DynBuf \<Rightarrow> DynBuf" where
  "dbuf_putc c s = dbuf_write (dyn_size s) [c] s"

definition dbuf_putstr :: "u8 list \<Rightarrow> DynBuf \<Rightarrow> DynBuf" where
  "dbuf_putstr str s = dbuf_write (dyn_size s) str s"

definition dbuf_content :: "DynBuf \<Rightarrow> u8 list" where
  "dbuf_content s = take (dyn_size s) (dyn_buf s)"

section \<open>Codecs\<close>

text \<open>The little endian accessors are host memory accesses; a codec reads back what it
  writes and leaves the bytes outside its block alone.\<close>

lemma byte_casts:
  "lo8 (zx16 v) = ucast v" "lo8 (drop_bit n (zx16 v)) = ucast (drop_bit n v)"
  "lo8 (zx32 w) = ucast w" "lo8 (drop_bit n (zx32 w)) = ucast (drop_bit n w)"
  "ucast (lo32 x) = lo8 x" "n \<le> 24 \<Longrightarrow> ucast (drop_bit n (lo32 x)) = lo8 (drop_bit n x)"
  by (rule bit_word_eqI; auto simp: bit_simps dest: bit_imp_le_length)+

lemma hload_add: "hload (i + j) m a = hload i m a OR push_bit (8 * i) (hload j m (a + of_nat i))"
  by (induction i arbitrary: a) (simp_all add: push_bit_or or.assoc add.assoc)

lemma zx32_lo32_hload: "zx32 (lo32 (hload 4 m a)) = hload 4 m a"
  by (rule bit_word_eqI) (auto simp: bit_simps bit_hload)

lemma get_le_hload:
  "get_le16 m p = lo16 (hload 2 m p)" "get_le32 m p = lo32 (hload 4 m p)" "get_le64 m p = hload 8 m p"
proof -
  show "get_le16 m p = lo16 (hload 2 m p)"
    by (rule bit_word_eqI) (auto simp: get_le16_def hload_numeral bit_simps)
  show *: "get_le32 m p = lo32 (hload 4 m p)" for p
    by (rule bit_word_eqI) (auto simp: get_le32_def hload_numeral bit_simps add.commute)
  show "get_le64 m p = hload 8 m p"
    using hload_add[of 4 4 m p] by (simp add: get_le64_def * zx32_lo32_hload)
qed

lemma put_le_hstore:
  "put_le16 m p v = hstore 2 m p (zx16 v)" "put_le32 m p w = hstore 4 m p (zx32 w)" "put_le64 m p x = hstore 8 m p x"
  by (simp_all add: put_le64_def put_le32_def put_le16_def hload_numeral byte_casts add.commute)

lemma take_bit_cast [simp]:
  "lo16 (take_bit 16 (zx16 v)) = v" "lo32 (take_bit 32 (zx32 w)) = w" "take_bit 64 x = x" for x :: u64
  by (rule bit_word_eqI; auto simp: bit_simps)+

locale byte_codec =
  fixes get :: "hmem \<Rightarrow> u64 \<Rightarrow> 'a::len word" and put :: "hmem \<Rightarrow> u64 \<Rightarrow> 'a word \<Rightarrow> hmem" and width :: nat
  assumes get_put: "get (put m p v) p = v"
    and put_outside: "(\<And>k. k < width \<Longrightarrow> q \<noteq> p + of_nat k) \<Longrightarrow> put m p v q = m q"
begin

lemma put_injective: "put m p v = put m p w \<Longrightarrow> v = w"
  by (metis get_put)

end

interpretation le16: byte_codec get_le16 put_le16 2
  by unfold_locales (simp_all add: get_le_hload put_le_hstore hload_hstore_same hstore_other take_bit_cast)

interpretation le32: byte_codec get_le32 put_le32 4
  by unfold_locales (simp_all add: get_le_hload put_le_hstore hload_hstore_same hstore_other take_bit_cast)

interpretation le64: byte_codec get_le64 put_le64 8
  by unfold_locales (simp_all add: get_le_hload put_le_hstore hload_hstore_same hstore_other take_bit_cast)

lemma bit_bswap_32:
  "bit (bswap_32 v) n \<longleftrightarrow> n < 32 \<and> bit v (if n < 8 then n + 24 else if n < 16 then n + 8 else if n < 24 then n - 8 else n - 24)"
proof -
  have m: "(0xff000000 :: u32) = push_bit 24 (mask 8)" "(0x00ff0000 :: u32) = push_bit 16 (mask 8)"
    "(0x0000ff00 :: u32) = push_bit 8 (mask 8)" "(0x000000ff :: u32) = mask 8"
    by (simp_all add: mask_eq_exp_minus_1)
  show ?thesis
    unfolding bswap_32_def m by (auto simp: bit_simps add.commute)
qed

lemma bit_bytes32:
  fixes a b c d :: u8
  shows "bit (ucast a OR push_bit 8 (ucast b) OR push_bit 16 (ucast c) OR push_bit 24 (ucast d) :: u32) n \<longleftrightarrow>
    n < 32 \<and> (if n < 8 then bit a n else if n < 16 then bit b (n - 8) else if n < 24 then bit c (n - 16) else bit d (n - 24))"
proof -
  have "bit x k \<Longrightarrow> k < 8" for x :: u8 and k using bit_imp_le_length[of x k] by simp
  then have no: "8 \<le> k \<Longrightarrow> \<not> bit x k" for x :: u8 and k by (meson leD)
  consider "n < 8" | "8 \<le> n" "n < 16" | "16 \<le> n" "n < 24" | "24 \<le> n" "n < 32" | "32 \<le> n" by linarith
  then show ?thesis by cases (simp_all add: bit_simps no less_imp_diff_less)
qed

lemma get_be32_get_le32: "get_be32 m p = bswap_32 (get_le32 m p)"
proof (rule bit_word_eqI)
  fix n assume "n < LENGTH(32)"
  moreover have be: "get_be32 m p = ucast (m (p + 3)) OR push_bit 8 (ucast (m (p + 2))) OR push_bit 16 (ucast (m (p + 1)))
      OR push_bit 24 (ucast (m p))"
    by (simp add: get_be32_def or.commute or.left_commute)
  moreover consider "n < 8" | "8 \<le> n" "n < 16" | "16 \<le> n" "n < 24" | "24 \<le> n" by linarith
  ultimately show "bit (get_be32 m p) n = bit (bswap_32 (get_le32 m p)) n"
    unfolding be get_le32_def bit_bswap_32 bit_bytes32 by cases (auto simp: less_diff_conv2)
qed

lemma bswap_32_twice: "bswap_32 (bswap_32 v) = v"
  by (rule bit_word_eqI) (auto simp: bit_bswap_32)

lemma bswap_32_bytes:
  "ucast (bswap_32 v) = (ucast (drop_bit 24 v) :: u8)" "ucast (drop_bit 8 (bswap_32 v)) = (ucast (drop_bit 16 v) :: u8)"
  "ucast (drop_bit 16 (bswap_32 v)) = (ucast (drop_bit 8 v) :: u8)" "ucast (drop_bit 24 (bswap_32 v)) = (ucast v :: u8)"
  by (rule bit_word_eqI; auto simp: bit_bswap_32 bit_simps add.commute)+

lemma put_be32_put_le32: "put_be32 m p v = put_le32 m p (bswap_32 v)"
  by (simp add: put_be32_def put_le32_def bswap_32_bytes)

interpretation be32: byte_codec get_be32 put_be32 4
  by unfold_locales (simp_all add: get_be32_get_le32 put_be32_put_le32 le32.get_put le32.put_outside bswap_32_twice)

section \<open>Counting trailing zeros\<close>

definition first_bit :: "u32 \<Rightarrow> nat \<Rightarrow> bool" where
  "first_bit v n \<longleftrightarrow> bit v n \<and> (\<forall>i<n. \<not> bit v i)"

lemma first_bit_unique: "first_bit v m \<Longrightarrow> first_bit v n \<Longrightarrow> m = n"
  unfolding first_bit_def by (metis linorder_neqE_nat)

lemma ctz_from_first: "bit v j \<Longrightarrow> i \<le> j \<Longrightarrow> j < i + n \<Longrightarrow> \<forall>k<i. \<not> bit v k \<Longrightarrow> first_bit v (ctz_from v i n)"
proof (induction n arbitrary: i)
  case 0
  then show ?case by simp
next
  case (Suc n)
  show ?case
  proof (cases "bit v i")
    case True
    with Suc.prems show ?thesis by (simp add: first_bit_def)
  next
    case False
    with Suc.prems have "i \<noteq> j" by auto
    with Suc.prems False have "first_bit v (ctz_from v (Suc i) n)" by (intro Suc.IH) (auto simp: less_Suc_eq)
    with False show ?thesis by simp
  qed
qed

text \<open>The state of the binary search: \<open>cnt\<close> low bits are zero, and one of the next \<open>k\<close> is not.\<close>

definition ctz_inv :: "u32 \<Rightarrow> nat \<Rightarrow> nat \<times> u32 \<Rightarrow> bool" where
  "ctz_inv v k = (\<lambda>(cnt, val). val = drop_bit cnt v \<and> (\<forall>i<cnt. \<not> bit v i) \<and> (\<exists>i<k. bit val i))"

lemma ctz_step_inv:
  assumes "ctz_inv v (2 * k) st" "m = mask k"
  shows "ctz_inv v k (ctz_step m k st)"
proof -
  obtain cnt val where st: "st = (cnt, val)" by fastforce
  from assms st have val: "val = drop_bit cnt v" and low: "\<forall>i<cnt. \<not> bit v i" and ex: "\<exists>i<2 * k. bit val i"
    by (auto simp: ctz_inv_def)
  have z: "val AND m = 0 \<longleftrightarrow> (\<forall>i<k. \<not> bit val i)"
    using bit_imp_le_length[of val] unfolding assms(2) by (auto simp: bit_eq_iff bit_simps)
  show ?thesis
  proof (cases "val AND m = 0")
    case True
    from ex obtain i where i: "i < 2 * k" "bit val i" by blast
    with True z have "k \<le> i" by (meson not_less)
    then have "i - k < k" "bit (drop_bit k val) (i - k)" using i by (auto simp: bit_simps)
    moreover have "\<not> bit v j" if "j < cnt + k" for j
      using that low True z val by (cases "j < cnt") (auto simp: bit_simps not_less le_iff_add)
    ultimately show ?thesis using True by (auto simp: ctz_inv_def ctz_step_def st val add.commute)
  next
    case False
    with z val low show ?thesis by (auto simp: ctz_inv_def ctz_step_def st)
  qed
qed

text \<open>C17: the portable binary search of \<open>ctz32\<close> computes what the compiler builtin does.\<close>

theorem ctz32_portable_correct: "ctz32_portable v = ctz32 v"
proof (cases "v = 0")
  case True
  then show ?thesis by (simp add: ctz32_portable_def ctz32_def ctz_step_def)
next
  case False
  then obtain j where j: "bit v j" using bit_eq_iff[of v 0] by auto
  then have "j < 32" using bit_imp_le_length[OF j] by simp
  then have c: "first_bit v (ctz32 v)" using False j ctz_from_first[of v j 0 32] by (simp add: ctz32_def)
  note step = ctz_step_inv[where v = v, OF _ refl]
  have "ctz_inv v (2 * 16) (0, v)" using j \<open>j < 32\<close> by (auto simp: ctz_inv_def)
  from step[OF this] have "ctz_inv v (2 * 8) (ctz_step (mask 16) 16 (0, v))" by simp
  from step[OF this] have "ctz_inv v (2 * 4) (ctz_step (mask 8) 8 (ctz_step (mask 16) 16 (0, v)))" by simp
  from step[OF this] have "ctz_inv v (2 * 2) (ctz_step (mask 4) 4 (ctz_step (mask 8) 8 (ctz_step (mask 16) 16 (0, v))))"
    by simp
  from step[OF this] have "ctz_inv v (2 * 1) (ctz_step (mask 2) 2 (ctz_step (mask 4) 4 (ctz_step (mask 8) 8
      (ctz_step (mask 16) 16 (0, v)))))" by simp
  from step[OF this] have "ctz_inv v 1 (ctz_step 1 1 (ctz_step 3 2 (ctz_step 0xf 4 (ctz_step 0xff 8 (ctz_step 0xffff 16 (0, v))))))"
    by (simp add: mask_eq_exp_minus_1)
  moreover have "w AND 1 = 0 \<longleftrightarrow> \<not> bit w 0" for w :: u32 using and_one_bit[of w] by blast
  ultimately have "first_bit v (ctz32_portable v)"
    by (auto simp: ctz_inv_def ctz32_portable_def first_bit_def bit_simps split: prod.splits)
  with c show ?thesis by (rule first_bit_unique[symmetric])
qed

section \<open>Strings and buffers\<close>

lemma pstrcpy_loop_eq:
  "q \<le> lim \<Longrightarrow> lim < length buf \<Longrightarrow>
    pstrcpy_loop buf q lim str = take q buf @ take (lim - q) str @ 0 # drop (q + min (lim - q) (length str) + 1) buf"
proof (induction buf q lim str rule: pstrcpy_loop.induct)
  case (1 buf q lim)
  then show ?case by (simp add: upd_conv_take_nth_drop)
next
  case (2 buf q lim c str)
  show ?case
  proof (cases "q \<ge> lim")
    case True
    with 2 show ?thesis by (simp add: upd_conv_take_nth_drop)
  next
    case False
    then have "take (lim - q) (c # str) = c # take (lim - Suc q) str" by (simp add: Suc_diff_Suc take_Cons')
    moreover have "min (lim - q) (Suc (length str)) = Suc (min (lim - Suc q) (length str))" using False by simp
    ultimately show ?thesis using False 2 by (simp add: take_Suc_conv_app_nth)
  qed
qed

lemma strstart_iff: "strstart p q = Some r \<longleftrightarrow> p = q @ r"
  by (induction p q rule: strstart.induct) auto

lemma dbuf_putstr_content:
  "dyn_size s \<le> length (dyn_buf s) \<Longrightarrow> dbuf_content (dbuf_putstr str s) = dbuf_content s @ str"
  by (auto simp: dbuf_content_def dbuf_putstr_def dbuf_write_def Let_def)

lemma c_string_no_zero: "0 \<notin> set (c_string buf)"
  by (auto simp: c_string_def dest: set_takeWhileD)

lemma c_string_append_zero: "0 \<notin> set xs \<Longrightarrow> c_string (xs @ 0 # ys) = xs"
  unfolding c_string_def by (induction xs) auto

lemma c_string_prefix: "take (length (c_string buf)) buf = c_string buf"
  by (simp add: c_string_def takeWhile_eq_take[symmetric])

text \<open>The copy at an offset behind a prefix without zeros, which both string functions are.\<close>

lemma pstrcpy_at_string:
  assumes "off < lim" "lim \<le> length buf" "0 \<notin> set (take off buf)" "0 \<notin> set str"
  shows "c_string (pstrcpy_at buf off (lim - off) str) = take (lim - 1) (take off buf @ str)"
    and "length (pstrcpy_at buf off (lim - off) str) = length buf"
    and "drop lim (pstrcpy_at buf off (lim - off) str) = drop lim buf"
proof -
  let ?r = "pstrcpy_at buf off (lim - off) str"
  have r: "?r = (take off buf @ take (lim - 1 - off) str) @ 0 # drop (off + min (lim - 1 - off) (length str) + 1) buf"
    using assms(1,2) by (simp add: pstrcpy_at_def pstrcpy_loop_eq)
  have "0 \<notin> set (take (lim - 1 - off) str)" using assms(4) by (auto dest: in_set_takeD)
  with assms show "c_string ?r = take (lim - 1) (take off buf @ str)"
    unfolding r by (subst c_string_append_zero) auto
  show "length ?r = length buf" unfolding r using assms(1,2) by auto
  show "drop lim ?r = drop lim buf" unfolding r using assms(1,2) by (auto simp: min_def drop_Cons')
qed

text \<open>C15: \<open>pstrcpy\<close> and \<open>pstrcat\<close> store the longest prefix that fits with its terminator, and
  never touch a byte beyond the size they are given.\<close>

theorem pstrcpy_pstrcat_bounded:
  assumes "0 < n" "n \<le> length buf" "0 \<notin> set str"
  shows "c_string (pstrcpy buf n str) = take (n - 1) str \<and> drop n (pstrcpy buf n str) = drop n buf \<and>
    length (pstrcpy buf n str) = length buf \<and>
    c_string (pstrcat buf n str) = (if length (c_string buf) < n then take (n - 1) (c_string buf @ str) else c_string buf) \<and>
    drop n (pstrcat buf n str) = drop n buf \<and> length (pstrcat buf n str) = length buf"
proof -
  note at0 = pstrcpy_at_string[of 0 n buf str]
  note at1 = pstrcpy_at_string[of "length (c_string buf)" n buf str, unfolded c_string_prefix]
  show ?thesis
    using assms at0 at1 c_string_no_zero[of buf] by (simp add: pstrcpy_def pstrcat_def Let_def)
qed

theorem pstrcpy_pstrcat_bounded_witness:
  "c_string (pstrcat [65, 66, 0, 7, 8, 9] 5 [67, 68, 69]) = [65, 66, 67, 68] \<and>
   drop 5 (pstrcat [65, 66, 0, 7, 8, 9] 5 [67, 68, 69]) = [9]"
  using pstrcpy_pstrcat_bounded[of 5 "[65, 66, 0, 7, 8, 9]" "[67, 68, 69]"] by (simp add: c_string_def)

text \<open>C16: the byte order codecs read back what they write, the big endian ones being the little
  endian ones with the bytes swapped.\<close>

theorem byte_order_roundtrip:
  "get_le16 (put_le16 m p h) p = h \<and> get_le32 (put_le32 m p w) p = w \<and> get_le64 (put_le64 m p d) p = d \<and>
   get_be32 (put_be32 m p w) p = w \<and> get_be32 (put_le32 m p w) p = cpu_to_be32 w"
  by (simp add: le16.get_put le32.get_put le64.get_put get_be32_get_le32
      put_be32_put_le32 bswap_32_twice cpu_to_be32_def)

end
