(* ===== verification/Devices.thy ===== *)
theory Devices
  imports Frame Cutils
begin

text \<open>
  The devices that every machine has: the interrupt controllers
  (\<open>src/src/interrupts.cpp\<close>), the two kinds of UART (\<open>src/src/uart.cpp\<close>,
  \<open>src/src/dw_apb_uart.cpp\<close>), the console behind them (\<open>src/src/term_io.cpp\<close>) and
  the interrupt lines (\<open>src/src/iomem.cpp\<close>).

  The state \<open>sys\<close> holds the hart that executes.  \<open>machine_env\<close> is everything
  else of a \<open>RISCVMachine\<close>: the other harts, the interrupt controllers, the UARTs
  and the console.  \<open>me_cur\<close> is the number of the executing hart.  Standard input
  is the list of the bytes it still holds.  A failed assertion and the access to
  the state of a hart that does not exist set \<open>me_aborted\<close>; \<open>con_exited\<close> is a call
  of \<open>exit\<close>.  What happens to the state after either is of no account.
\<close>

section \<open>State\<close>

record console =
  con_stdin :: "u8 list"
  con_stdout :: "u8 list"
  console_esc_state :: bool
  con_exited :: bool

record SiFiveUARTState =
  rx_fifo_len :: u32
  uart_ie :: u32
  uart_ip :: u32
  uart_txctrl :: u32
  uart_rxctrl :: u32
  uart_div :: u32

record DW_apb_uart_state =
  dw_irq :: nat
  last_irq_level :: u32
  div_latch :: u16
  dw_rhr :: u8
  dw_ier :: u8
  dw_isr :: u8
  dw_lcr :: u8
  dw_mcr :: u8
  dw_lsr :: u8
  dw_msr :: u8
  dw_spr :: u8

record machine_env =
  me_ncpus :: nat
  me_cur :: nat
  me_harts :: "nat \<Rightarrow> RISCVCPUState"
  plic_pending_irq :: u32
  plic_served_irq :: u32
  plic_priority :: "nat \<Rightarrow> u32"
  me_uart :: SiFiveUARTState
  me_dw :: "nat \<Rightarrow> DW_apb_uart_state"
  me_console :: console
  me_stf_open :: bool
  me_stf_log :: "stf_record list"
  me_aborted :: bool

type_synonym machine = "machine_env sys"

definition map_env :: "(machine_env \<Rightarrow> machine_env) \<Rightarrow> machine \<Rightarrow> machine" where
  "map_env f s = s\<lparr>env := f (env s)\<rparr>"

definition mabort :: "machine \<Rightarrow> machine" where
  "mabort s = map_env (me_aborted_update (\<lambda>_. True)) s"

text \<open>\<open>cpu_state[i]\<close>: reading it, and applying an operation of a hart to it.  The
  operation is given for the executing hart and for one of the others.\<close>

definition cpu_state :: "nat \<Rightarrow> machine \<Rightarrow> RISCVCPUState" where
  "cpu_state i s = (if i = me_cur (env s) then RISCVCPUState.truncate s else me_harts (env s) i)"

definition on_cpu :: "nat \<Rightarrow> (machine \<Rightarrow> machine) \<Rightarrow> (RISCVCPUState \<Rightarrow> RISCVCPUState) \<Rightarrow> machine \<Rightarrow> machine" where
  "on_cpu i f g s =
     (if i = me_cur (env s) then f s
      else map_env (me_harts_update (\<lambda>h. h(i := g (h i)))) s)"

definition cpu_set_mip :: "nat \<Rightarrow> u32 \<Rightarrow> machine \<Rightarrow> machine" where
  "cpu_set_mip i m s =
     on_cpu i (riscv_cpu_set_mip (pending_interrupt s) (cosim s) m)
       (riscv_cpu_set_mip (pending_interrupt s) (cosim s) m) s"

definition cpu_reset_mip :: "nat \<Rightarrow> u32 \<Rightarrow> machine \<Rightarrow> machine" where
  "cpu_reset_mip i m s = on_cpu i (riscv_cpu_reset_mip m) (riscv_cpu_reset_mip m) s"

definition cpu_set_timecmp :: "nat \<Rightarrow> u64 \<Rightarrow> machine \<Rightarrow> machine" where
  "cpu_set_timecmp i v s = on_cpu i (\<lambda>s. s\<lparr>timecmp := v\<rparr>) (\<lambda>s. s\<lparr>timecmp := v\<rparr>) s"

definition cpu_set_mcycle :: "nat \<Rightarrow> u64 \<Rightarrow> machine \<Rightarrow> machine" where
  "cpu_set_mcycle i v s = on_cpu i (\<lambda>s. s\<lparr>mcycle := v\<rparr>) (\<lambda>s. s\<lparr>mcycle := v\<rparr>) s"

definition cpu_set_plic_enable :: "nat \<Rightarrow> nat \<Rightarrow> u32 \<Rightarrow> machine \<Rightarrow> machine" where
  "cpu_set_plic_enable i ctx v s =
     on_cpu i (\<lambda>s. s\<lparr>plic_enable_irq := (plic_enable_irq s)(ctx := v)\<rparr>)
       (\<lambda>s. s\<lparr>plic_enable_irq := (plic_enable_irq s)(ctx := v)\<rparr>) s"

section \<open>Core local interruptor\<close>

definition CPU_FREQUENCY :: u64 where [simp]: "CPU_FREQUENCY = 2000000000"
definition RTC_FREQ :: u64 where [simp]: "RTC_FREQ = 1000000"
definition RTC_FREQ_DIV :: u64 where [simp]: "RTC_FREQ_DIV = 2000"
definition MAX_CPUS :: nat where [simp]: "MAX_CPUS = 8"

definition rtc_get_time :: "machine \<Rightarrow> u64" where
  "rtc_get_time s = mcycle (cpu_state 0 s) div RTC_FREQ_DIV"

text \<open>The adjustment of a value to the access size.\<close>

definition clint_size_mask :: "u32 \<Rightarrow> nat \<Rightarrow> u32" where
  "clint_size_mask val size_log2 =
     (if size_log2 = 1 then val AND 0xffff else if size_log2 = 2 then val AND 0xffffffff else val)"

definition clint_read :: "u32 \<Rightarrow> nat \<Rightarrow> machine \<Rightarrow> u32" where
  "clint_read offset size_log2 s =
     (let val =
        (if offset < 0x4000 then
           (let hartid = unat (drop_bit 2 offset) in
            if me_ncpus (env s) \<le> hartid then 0 else cbool (mip (cpu_state hartid s) AND MIP_MSIP \<noteq> 0))
         else if offset = 0xbff8 then lo32 (rtc_get_time s)
         else if offset = 0xbffc then lo32 (drop_bit 32 (rtc_get_time s))
         else if 0x4000 \<le> offset \<and> offset < 0xbff8 then
           (let hartid = unat (drop_bit 3 (offset - 0x4000)) in
            if me_ncpus (env s) \<le> hartid then 0
            else if drop_bit 2 offset AND 1 \<noteq> 0 then lo32 (drop_bit 32 (timecmp (cpu_state hartid s)))
            else lo32 (timecmp (cpu_state hartid s)))
         else 0)
      in clint_size_mask val size_log2)"

text \<open>The mask \<open>~0xffffffff\<close> of the low half of \<open>mtimecmp\<close> is a 32 bit value.\<close>

definition clint_write :: "u32 \<Rightarrow> u32 \<Rightarrow> nat \<Rightarrow> machine \<Rightarrow> machine" where
  "clint_write offset v size_log2 s =
     (let val = clint_size_mask v size_log2 in
      if offset < 0x4000 then
        (let hartid = unat (drop_bit 2 offset) in
         if me_ncpus (env s) \<le> hartid then s
         else if val AND 1 \<noteq> 0 then cpu_set_mip hartid MIP_MSIP s
         else cpu_reset_mip hartid MIP_MSIP s)
      else if offset = 0xbff8 then
        cpu_set_mcycle 0 (((rtc_get_time s AND 0xFFFFFFFF00000000) + zx32 val) * RTC_FREQ_DIV) s
      else if offset = 0xbffc then
        cpu_set_mcycle 0 (((rtc_get_time s AND 0x00000000FFFFFFFF) + push_bit 32 (zx32 val)) * RTC_FREQ_DIV) s
      else if 0x4000 \<le> offset \<and> offset < 0xbff8 then
        (let hartid = unat (drop_bit 3 (offset - 0x4000)) in
         if me_ncpus (env s) \<le> hartid then s
         else if drop_bit 2 offset AND 1 \<noteq> 0 then
           cpu_reset_mip hartid MIP_MTIP
             (cpu_set_timecmp hartid (timecmp (cpu_state hartid s) AND 0xffffffff OR push_bit 32 (zx32 val)) s)
         else
           cpu_reset_mip hartid MIP_MTIP
             (cpu_set_timecmp hartid (timecmp (cpu_state hartid s) AND zx32 (NOT 0xffffffff) OR zx32 val) s))
      else s)"

section \<open>Platform interrupt controller\<close>

definition PLIC_NUM_SOURCES :: u32 where [simp]: "PLIC_NUM_SOURCES = 127"
definition PLIC_PRIORITY_BASE :: u32 where [simp]: "PLIC_PRIORITY_BASE = 4"
definition PLIC_PENDING_BASE :: u32 where [simp]: "PLIC_PENDING_BASE = 0x1000"
definition PLIC_ENABLE_BASE :: u32 where [simp]: "PLIC_ENABLE_BASE = 0x2000"
definition PLIC_ENABLE_STRIDE :: u32 where [simp]: "PLIC_ENABLE_STRIDE = 0x80"
definition PLIC_CONTEXT_BASE :: u32 where [simp]: "PLIC_CONTEXT_BASE = 0x200000"
definition PLIC_CONTEXT_STRIDE :: u32 where [simp]: "PLIC_CONTEXT_STRIDE = 0x1000"

text \<open>One context of \<open>plic_update_mip\<close>; the first is wired to \<open>SEIP\<close>.\<close>

definition plic_update_ctx :: "u32 \<Rightarrow> nat \<Rightarrow> nat \<Rightarrow> machine \<Rightarrow> machine" where
  "plic_update_ctx m hartid ctx s =
     (let mip_mask = (if ctx = 0 then MIP_SEIP else MIP_MEIP) in
      if m AND plic_enable_irq (cpu_state hartid s) ctx \<noteq> 0 then cpu_set_mip hartid mip_mask s
      else cpu_reset_mip hartid mip_mask s)"

definition plic_update_mip :: "nat \<Rightarrow> machine \<Rightarrow> machine" where
  "plic_update_mip hartid s =
     (let m = plic_pending_irq (env s) AND NOT (plic_served_irq (env s))
      in fold (plic_update_ctx m hartid) [0..<2] s)"

definition plic_set_irq :: "nat \<Rightarrow> bool \<Rightarrow> machine \<Rightarrow> machine" where
  "plic_set_irq irq_num level s =
     (let m = push_bit irq_num 1;
          s = map_env (plic_pending_irq_update (\<lambda>p. if level then p OR m else p AND NOT m)) s
      in fold plic_update_mip [0..<me_ncpus (env s)] s)"

definition plic_claim :: "nat \<Rightarrow> machine \<Rightarrow> u32 \<times> machine" where
  "plic_claim hartid s =
     (let m = plic_pending_irq (env s) AND NOT (plic_served_irq (env s)) in
      if m \<noteq> 0 then
        (let i = ctz32 m;
             s = map_env (\<lambda>e. e\<lparr>plic_served_irq := plic_served_irq e OR push_bit i 1,
                                plic_pending_irq := plic_pending_irq e AND NOT (push_bit i 1)\<rparr>) s
         in if hartid < me_ncpus (env s) then (of_nat i, plic_update_mip hartid s) else (0, mabort s))
      else (0, s))"

definition plic_read :: "u32 \<Rightarrow> nat \<Rightarrow> machine \<Rightarrow> u32 \<times> machine" where
  "plic_read offset size_log2 s =
     (if size_log2 \<noteq> 2 then (0, mabort s)
      else if PLIC_PRIORITY_BASE \<le> offset \<and> offset < PLIC_PRIORITY_BASE + push_bit 2 PLIC_NUM_SOURCES then
        (let irq = drop_bit 2 (offset - PLIC_PRIORITY_BASE) in
         if irq < PLIC_NUM_SOURCES then (plic_priority (env s) (unat irq), s) else (0, mabort s))
      else if PLIC_PENDING_BASE \<le> offset \<and> offset < PLIC_PENDING_BASE + drop_bit 3 PLIC_NUM_SOURCES then
        (if offset = PLIC_PENDING_BASE then plic_pending_irq (env s) else 0, s)
      else if PLIC_ENABLE_BASE \<le> offset \<and> offset < PLIC_ENABLE_BASE + PLIC_ENABLE_STRIDE * of_nat MAX_CPUS then
        (let addrid = unat ((offset - PLIC_ENABLE_BASE) div PLIC_ENABLE_STRIDE); hartid = addrid div 2
         in (if hartid < me_ncpus (env s) then plic_enable_irq (cpu_state hartid s) (addrid mod 2) else 0, s))
      else if PLIC_CONTEXT_BASE \<le> offset \<and> offset < PLIC_CONTEXT_BASE + PLIC_CONTEXT_STRIDE * of_nat MAX_CPUS then
        (let hartid = unat ((offset - PLIC_CONTEXT_BASE) div PLIC_CONTEXT_STRIDE);
             wordid = drop_bit 2 (offset AND (PLIC_CONTEXT_STRIDE - 1))
         in if wordid = 1 then plic_claim hartid s else (0, s))
      else (0, s))"

definition plic_write :: "u32 \<Rightarrow> u32 \<Rightarrow> nat \<Rightarrow> machine \<Rightarrow> machine" where
  "plic_write offset val size_log2 s =
     (if size_log2 \<noteq> 2 then mabort s
      else if PLIC_PRIORITY_BASE \<le> offset \<and> offset < PLIC_PRIORITY_BASE + push_bit 2 PLIC_NUM_SOURCES then
        (let irq = drop_bit 2 (offset - PLIC_PRIORITY_BASE) in
         if irq < PLIC_NUM_SOURCES
         then map_env (plic_priority_update (\<lambda>p. p(unat irq := val AND 7))) s else mabort s)
      else if PLIC_PENDING_BASE \<le> offset \<and> offset < PLIC_PENDING_BASE + drop_bit 3 PLIC_NUM_SOURCES then s
      else if PLIC_ENABLE_BASE \<le> offset \<and> offset < PLIC_ENABLE_BASE + PLIC_ENABLE_STRIDE * of_nat MAX_CPUS then
        (let addrid = unat ((offset - PLIC_ENABLE_BASE) div PLIC_ENABLE_STRIDE); hartid = addrid div 2
         in if hartid < me_ncpus (env s) then cpu_set_plic_enable hartid (addrid mod 2) val s else s)
      else if PLIC_CONTEXT_BASE \<le> offset \<and> offset < PLIC_CONTEXT_BASE + PLIC_CONTEXT_STRIDE * of_nat MAX_CPUS then
        (let wordid = drop_bit 2 (offset AND (PLIC_CONTEXT_STRIDE - 1)) in
         if wordid = 0 then map_env (plic_priority_update (\<lambda>p. p(unat wordid := val))) s
         else if wordid = 1 then
           map_env (plic_served_irq_update (\<lambda>p. p AND NOT (push_bit (unat (val AND 31)) 1))) s
         else s)
      else s)"

section \<open>Console\<close>

definition console_write :: "u8 list \<Rightarrow> console \<Rightarrow> console" where
  "console_write buf c = c\<lparr>con_stdout := con_stdout c @ buf\<rparr>"

text \<open>\<open>console_read\<close> into a buffer of one byte, as the UARTs call it: the number of
  characters delivered and the buffer.  \<open>fread\<close> reads the block or nothing.  The
  buffer is overwritten even when the character is swallowed.\<close>

definition console_read1 :: "u8 \<Rightarrow> console \<Rightarrow> nat \<times> u8 \<times> console" where
  "console_read1 buf c =
     (case con_stdin c of
        [] \<Rightarrow> (0, buf, c)
      | ch # rest \<Rightarrow>
          (let c = c\<lparr>con_stdin := rest\<rparr> in
           if console_esc_state c then
             (let c = c\<lparr>console_esc_state := False\<rparr> in
              if ch = 120 then (0, ch, c\<lparr>con_exited := True\<rparr>)
              else if ch = 1 then (1, ch, c)
              else (0, ch, c))
           else if ch = 2 then (0, ch, c\<lparr>console_esc_state := True\<rparr>)
           else (1, ch, c)))"

definition con_put :: "u8 \<Rightarrow> machine \<Rightarrow> machine" where
  "con_put ch s = map_env (me_console_update (console_write [ch])) s"

definition con_get :: "u8 \<Rightarrow> machine \<Rightarrow> nat \<times> u8 \<times> machine" where
  "con_get buf s = (let (n, ch, c) = console_read1 buf (me_console (env s))
                    in (n, ch, map_env (me_console_update (\<lambda>_. c)) s))"

section \<open>SiFive UART\<close>

definition SIFIVE_UART_TXFIFO :: u32 where [simp]: "SIFIVE_UART_TXFIFO = 0"
definition SIFIVE_UART_RXFIFO :: u32 where [simp]: "SIFIVE_UART_RXFIFO = 4"
definition SIFIVE_UART_TXCTRL :: u32 where [simp]: "SIFIVE_UART_TXCTRL = 8"
definition SIFIVE_UART_RXCTRL :: u32 where [simp]: "SIFIVE_UART_RXCTRL = 12"
definition SIFIVE_UART_IE :: u32 where [simp]: "SIFIVE_UART_IE = 16"
definition SIFIVE_UART_IP :: u32 where [simp]: "SIFIVE_UART_IP = 20"
definition SIFIVE_UART_DIV :: u32 where [simp]: "SIFIVE_UART_DIV = 24"
definition SIFIVE_UART_IP_RXWM :: u32 where [simp]: "SIFIVE_UART_IP_RXWM = 2"

definition uart_read :: "u32 \<Rightarrow> machine \<Rightarrow> u32 \<times> machine" where
  "uart_read offset s =
     (let u = me_uart (env s) in
      if offset = SIFIVE_UART_RXFIFO then
        (let (ret, r, s) = con_get 0 s in (if ret \<noteq> 0 then ucast r else 0x80000000, s))
      else if offset = SIFIVE_UART_TXFIFO then (0, s)
      else if offset = SIFIVE_UART_IE then (uart_ie u, s)
      else if offset = SIFIVE_UART_IP then (if rx_fifo_len u \<noteq> 0 then SIFIVE_UART_IP_RXWM else 0, s)
      else if offset = SIFIVE_UART_TXCTRL then (uart_txctrl u, s)
      else if offset = SIFIVE_UART_RXCTRL then (uart_rxctrl u, s)
      else if offset = SIFIVE_UART_DIV then (uart_div u, s)
      else (0, s))"

text \<open>\<open>uart_update_irq\<close> only prints a message.\<close>

definition uart_write :: "u32 \<Rightarrow> u32 \<Rightarrow> machine \<Rightarrow> machine" where
  "uart_write offset val s =
     (let upd = (\<lambda>f. map_env (me_uart_update f) s) in
      if offset = SIFIVE_UART_TXFIFO then con_put (ucast val) s
      else if offset = SIFIVE_UART_IE then upd (uart_ie_update (\<lambda>_. val))
      else if offset = SIFIVE_UART_TXCTRL then upd (uart_txctrl_update (\<lambda>_. val))
      else if offset = SIFIVE_UART_RXCTRL then upd (uart_rxctrl_update (\<lambda>_. val))
      else if offset = SIFIVE_UART_DIV then upd (uart_div_update (\<lambda>_. val))
      else s)"

section \<open>DesignWare UART\<close>

definition dw_upd :: "nat \<Rightarrow> (DW_apb_uart_state \<Rightarrow> DW_apb_uart_state) \<Rightarrow> machine \<Rightarrow> machine" where
  "dw_upd d f s = map_env (me_dw_update (\<lambda>h. h(d := f (h d)))) s"

definition isr_nibble :: "DW_apb_uart_state \<Rightarrow> u8" where
  "isr_nibble u =
     (if dw_ier u AND 4 \<noteq> 0 \<and> dw_lsr u AND 30 \<noteq> 0 then 6
      else if dw_ier u AND 1 \<noteq> 0 \<and> dw_lsr u AND 1 \<noteq> 0 then 4
      else if dw_ier u AND 2 \<noteq> 0 \<and> dw_lsr u AND 32 \<noteq> 0 then 2
      else if dw_ier u AND 8 \<noteq> 0 \<and> dw_msr u AND 15 \<noteq> 15 then 0
      else 1)"

definition update_isr :: "nat \<Rightarrow> machine \<Rightarrow> machine" where
  "update_isr d s =
     (let s = dw_upd d (\<lambda>u. u\<lparr>dw_isr := (dw_isr u AND 0xF0) + isr_nibble u\<rparr>) s;
          u = me_dw (env s) d;
          irq_level = cbool (dw_isr u AND 1 = 0)
      in if last_irq_level u \<noteq> irq_level
         then plic_set_irq (dw_irq u) (irq_level \<noteq> 0) (dw_upd d (last_irq_level_update (\<lambda>_. irq_level)) s)
         else s)"

definition dw_apb_uart_poll :: "nat \<Rightarrow> machine \<Rightarrow> machine" where
  "dw_apb_uart_poll d s =
     (let u = me_dw (env s) d in
      if dw_lsr u AND 1 = 0 then
        (let (n, ch, s) = con_get (dw_rhr u) s
         in update_isr d (dw_upd d (\<lambda>u. u\<lparr>dw_rhr := ch, dw_lsr := dw_lsr u OR cbool (n \<noteq> 0)\<rparr>) s))
      else s)"

definition read_rhr :: "nat \<Rightarrow> machine \<Rightarrow> u8 \<times> machine" where
  "read_rhr d s =
     (let u = me_dw (env s) d in
      if dw_lcr u AND push_bit 7 1 \<noteq> 0 then (ucast (div_latch u AND 255), s)
      else (dw_rhr u, update_isr d (dw_upd d (dw_lsr_update (\<lambda>l. l AND NOT 1 AND NOT 30)) s)))"

definition write_thr :: "nat \<Rightarrow> u8 \<Rightarrow> machine \<Rightarrow> machine" where
  "write_thr d val s =
     (if dw_lcr (me_dw (env s) d) AND push_bit 7 1 \<noteq> 0
      then dw_upd d (div_latch_update (\<lambda>l. (l AND NOT 255) + ucast val)) s
      else dw_apb_uart_poll d (con_put val s))"

definition read_ier :: "nat \<Rightarrow> machine \<Rightarrow> u8" where
  "read_ier d s =
     (let u = me_dw (env s) d in
      if dw_lcr u AND push_bit 7 1 \<noteq> 0 then ucast (drop_bit 8 (div_latch u)) else dw_ier u)"

definition write_ier :: "nat \<Rightarrow> u8 \<Rightarrow> machine \<Rightarrow> machine" where
  "write_ier d val s =
     (if dw_lcr (me_dw (env s) d) AND push_bit 7 1 \<noteq> 0
      then dw_upd d (div_latch_update (\<lambda>l. (l AND 255) + ucast val * 256)) s
      else update_isr d (dw_upd d (dw_ier_update (\<lambda>_. val AND 0xFF)) s))"

definition read_lsr :: "nat \<Rightarrow> machine \<Rightarrow> u8 \<times> machine" where
  "read_lsr d s =
     (let s = dw_upd d (dw_lsr_update (\<lambda>l. (l OR (push_bit 6 1 OR push_bit 5 1))
                AND NOT (push_bit 1 1 OR push_bit 2 1 OR push_bit 3 1 OR push_bit 4 1 OR push_bit 7 1))) s;
          s = update_isr d (dw_apb_uart_poll d s)
      in (dw_lsr (me_dw (env s) d), s))"

definition read_msr :: "nat \<Rightarrow> machine \<Rightarrow> u8 \<times> machine" where
  "read_msr d s = (dw_msr (me_dw (env s) d), update_isr d (dw_upd d (dw_msr_update (\<lambda>m. m AND NOT 15)) s))"

definition dw_apb_uart_read :: "nat \<Rightarrow> u32 \<Rightarrow> machine \<Rightarrow> u32 \<times> machine" where
  "dw_apb_uart_read d offset s =
     (if offset mod 4 \<noteq> 0 \<or> \<not> offset < 256 then (0, mabort s)
      else
        (let r = offset div 4; u = me_dw (env s) d;
             (res, s) =
               (if r = 0 then read_rhr d s else if r = 1 then (read_ier d s, s)
                else if r = 2 then (dw_isr u, s) else if r = 3 then (dw_lcr u, s)
                else if r = 4 then (dw_mcr u, s) else if r = 5 then read_lsr d s
                else if r = 6 then read_msr d s else if r = 7 then (dw_spr u, s) else (0, s))
         in (ucast res, s)))"

definition dw_apb_uart_write :: "nat \<Rightarrow> u32 \<Rightarrow> u32 \<Rightarrow> machine \<Rightarrow> machine" where
  "dw_apb_uart_write d offset v s =
     (let val = ucast (v AND 255) in
      if offset mod 4 \<noteq> 0 \<or> \<not> offset < 256 then mabort s
      else
        (let r = offset div 4 in
         if r = 0 then write_thr d val s
         else if r = 1 then write_ier d val s
         else if r = 3 then dw_upd d (dw_lcr_update (\<lambda>_. val)) s
         else if r = 4 then dw_upd d (dw_mcr_update (\<lambda>_. val)) s
         else if r = 7 then dw_upd d (dw_spr_update (\<lambda>_. val)) s
         else s))"

section \<open>The callbacks of the memory map\<close>

text \<open>The \<open>opaque\<close> values under which \<open>virt_machine_init\<close> registers the devices.  A machine
  without virtio devices has no others.\<close>

definition DEV_UART0 :: nat where [simp]: "DEV_UART0 = 0"
definition DEV_DW_UART0 :: nat where [simp]: "DEV_DW_UART0 = 1"
definition DEV_DW_UART1 :: nat where [simp]: "DEV_DW_UART1 = 2"
definition DEV_CLINT :: nat where [simp]: "DEV_CLINT = 3"
definition DEV_PLIC :: nat where [simp]: "DEV_PLIC = 4"

definition device_read :: "nat \<Rightarrow> u32 \<Rightarrow> nat \<Rightarrow> machine \<Rightarrow> u32 \<times> machine" where
  "device_read opq offset size_log2 s =
     (if opq = DEV_UART0 then uart_read offset s
      else if opq = DEV_DW_UART0 then dw_apb_uart_read 0 offset s
      else if opq = DEV_DW_UART1 then dw_apb_uart_read 1 offset s
      else if opq = DEV_CLINT then (clint_read offset size_log2 s, s)
      else if opq = DEV_PLIC then plic_read offset size_log2 s
      else (0, s))"

definition device_write :: "nat \<Rightarrow> u32 \<Rightarrow> u32 \<Rightarrow> nat \<Rightarrow> machine \<Rightarrow> machine" where
  "device_write opq offset val size_log2 s =
     (if opq = DEV_UART0 then uart_write offset val s
      else if opq = DEV_DW_UART0 then dw_apb_uart_write 0 offset val s
      else if opq = DEV_DW_UART1 then dw_apb_uart_write 1 offset val s
      else if opq = DEV_CLINT then clint_write offset val size_log2 s
      else if opq = DEV_PLIC then plic_write offset val size_log2 s
      else s)"

text \<open>The trace writer keeps the records it is given.\<close>

definition machine_ops :: "machine_env env_ops" where
  "machine_ops = \<lparr>read_func = device_read, write_func = device_write,
     stf_writer_is_open = me_stf_open,
     stf_writer_open = (\<lambda>zero_sha a e. e\<lparr>me_stf_open := True\<rparr>),
     stf_writer_put = (\<lambda>r e. e\<lparr>me_stf_log := me_stf_log e @ [r]\<rparr>),
     stf_writer_close = me_stf_open_update (\<lambda>_. False)\<rparr>"

section \<open>The devices keep the view\<close>

text \<open>A view that does not depend on what the devices change in the harts: the pending
  interrupts, the timer comparison and the enabled sources.\<close>

locale device_view = state_view V for V :: "machine \<Rightarrow> 'v" +
  assumes V_device_updates [simp]: "V (s\<lparr>mip := ip\<rparr>) = V s" "V (s\<lparr>timecmp := a\<rparr>) = V s"
    "V (s\<lparr>plic_enable_irq := pe\<rparr>) = V s"
begin

lemma map_env_view [frame_simps]: "V (map_env f s) = V s"
  by (simp add: map_env_def)

lemma mabort_view [frame_simps]: "V (mabort s) = V s"
  by (simp add: mabort_def frame_simps)

lemma cpu_ops_view [frame_simps]:
  "V (cpu_set_mip i m s) = V s" "V (cpu_reset_mip i m s) = V s"
  "V (cpu_set_timecmp i v s) = V s" "V (cpu_set_mcycle i v s) = V s"
  "V (cpu_set_plic_enable i c w s) = V s"
  by (simp_all add: cpu_set_mip_def cpu_reset_mip_def cpu_set_timecmp_def cpu_set_mcycle_def cpu_set_plic_enable_def
      on_cpu_def riscv_cpu_set_mip_def riscv_cpu_reset_mip_def Let_def frame_simps)

lemma clint_write_view [frame_simps]: "V (clint_write off v k s) = V s"
  by (simp add: clint_write_def Let_def frame_simps)

lemma plic_update_mip_view [frame_simps]: "V (plic_update_mip i s) = V s"
proof -
  have "V (fold (plic_update_ctx m i) cs s) = V s" for m cs
    by (induction cs arbitrary: s) (simp_all add: plic_update_ctx_def Let_def frame_simps)
  then show ?thesis by (simp only: plic_update_mip_def Let_def)
qed

lemma plic_set_irq_view [frame_simps]: "V (plic_set_irq n lv s) = V s"
proof -
  have "V (fold plic_update_mip hs t) = V t" for hs t
    by (induction hs arbitrary: t) (simp_all add: frame_simps)
  then show ?thesis by (simp only: plic_set_irq_def Let_def frame_simps)
qed

lemma plic_access_view [frame_simps]:
  "V (snd (plic_read off k s)) = V s" "V (plic_write off v k s) = V s"
  by (simp_all add: plic_read_def plic_write_def plic_claim_def Let_def frame_simps)

lemma con_view [frame_simps]: "V (con_put ch s) = V s" "V (snd (snd (con_get b s))) = V s"
  by (simp_all add: con_put_def con_get_def split_beta Let_def frame_simps)

lemma uart_view [frame_simps]: "V (snd (uart_read off s)) = V s" "V (uart_write off v s) = V s"
  by (simp_all add: uart_read_def uart_write_def split_beta Let_def frame_simps)

lemma dw_upd_view [frame_simps]: "V (dw_upd d f s) = V s"
  by (simp add: dw_upd_def frame_simps)

lemma update_isr_view [frame_simps]: "V (update_isr d s) = V s"
  by (simp add: update_isr_def Let_def frame_simps)

lemma dw_poll_view [frame_simps]: "V (dw_apb_uart_poll d s) = V s"
  by (simp add: dw_apb_uart_poll_def split_beta Let_def frame_simps)

lemma dw_view [frame_simps]:
  "V (snd (dw_apb_uart_read d off s)) = V s" "V (dw_apb_uart_write d off v s) = V s"
  by (simp_all add: dw_apb_uart_read_def dw_apb_uart_write_def read_rhr_def write_thr_def write_ier_def read_lsr_def
      read_msr_def split_beta Let_def frame_simps)

lemma device_access_view:
  "V (snd (device_read opq off k s)) = V s" "V (device_write opq off v k s) = V s"
  by (simp_all add: device_read_def device_write_def frame_simps)

end

interpretation u_dev: device_view u_view
  by unfold_locales simp_all

interpretation machine_bus: device_bus machine_ops
  by unfold_locales (simp_all add: machine_ops_def u_dev.device_access_view)

end
