(* ===== verification/Loop.thy ===== *)
theory Loop
  imports Frame
begin

text \<open>
  Invariants of the interpreter: an induction principle over
  \<open>riscv_cpu_interp\<close> as a locale, traps as the only exit towards a higher level, and
  the two instances of the principle that every device bus has: the register
  \<open>x0\<close>, and the machine mode state of a hart that runs below machine mode.
\<close>

section \<open>The interpreter loop\<close>

text \<open>An invariant \<open>I\<close> of the states between two instructions and a relation \<open>R\<close> that
  holds where the interpreter returns: after an instruction, or behind a trap.\<close>

locale interp_invariant = memory_view V G E for V :: "'d sys \<Rightarrow> 'v" and G and E +
  fixes I R :: "'d sys \<Rightarrow> bool"
  assumes I_G: "I s \<Longrightarrow> G (V s)"
    and I_view: "V s' = V s \<Longrightarrow> I s \<Longrightarrow> I s'"
    and I_insn: "I s \<Longrightarrow> I (snd (exec_insn E gpc icount start insn s))"
    and R_view: "V s' = V s \<Longrightarrow> pc s' = pc s \<Longrightarrow> R s \<Longrightarrow> R s'"
    and I_R: "I s \<Longrightarrow> R s"
    and trap_R: "I s \<Longrightarrow> R (raise_exception2 cause tval s)"
begin

lemma the_end_R: "the_end n l s = Some (k, s') \<Longrightarrow> R s \<Longrightarrow> R s'"
  by (auto simp: the_end_def account_insns_def Let_def split: if_splits intro: R_view)

lemma interp_exception_R: "interp_exception n l s = Some (k, s') \<Longrightarrow> I s \<Longrightarrow> R s'"
proof -
  assume r: "interp_exception n l s = Some (k, s')" and "I s"
  then have "I (s\<lparr>pc := get_pc l\<rparr>)" using I_view[of "s\<lparr>pc := get_pc l\<rparr>" s] by simp
  with r show ?thesis
    by (auto simp: interp_exception_def done_interp_def Let_def split: if_splits
        elim!: the_end_R intro: trap_R I_R)
qed

lemma interp_illegal_R: "interp_illegal n l s = Some (k, s') \<Longrightarrow> I s \<Longrightarrow> R s'"
  using I_view[OF set_pending_view] by (auto simp: interp_illegal_def elim!: interp_exception_R)

lemma interp_advance_inv:
  assumes "I s"
  shows "interp_advance E n insn l s = Return (Some (k, s')) \<Longrightarrow> R s'"
    and "interp_advance E n insn l s = Continue l' t \<Longrightarrow> I t"
proof -
  obtain a t0 where t0: "stf_trace_trigger E (get_pc l) insn s = (a, t0)" by fastforce
  then have "V t0 = V s" using stf_trigger_view[of E "get_pc l" insn s] by simp
  then have "I t0" "I (t0\<lparr>pc := get_pc l\<rparr>)" using I_view[of _ s] assms by simp_all
  with t0 assms show "interp_advance E n insn l s = Return (Some (k, s')) \<Longrightarrow> R s'"
    "interp_advance E n insn l s = Continue l' t \<Longrightarrow> I t"
    by (auto simp: interp_advance_def Let_def split: if_splits elim!: the_end_R intro: I_R)
qed

lemma interp_dispatch_inv:
  assumes "I s"
  shows "interp_dispatch E n insn l s = Return (Some (k, s')) \<Longrightarrow> R s'"
    and "interp_dispatch E n insn l s = Continue l' t \<Longrightarrow> I t"
proof -
  obtain c t0 where t0: "exec_insn E (get_pc l) (il_addend l - of_nat n) (il_start l) insn s = (c, t0)" by fastforce
  then have "I t0" using I_insn[OF assms, of "get_pc l" "il_addend l - of_nat n" "il_start l" insn] by simp
  then show "interp_dispatch E n insn l s = Return (Some (k, s')) \<Longrightarrow> R s'"
    "interp_dispatch E n insn l s = Continue l' t \<Longrightarrow> I t"
    using t0 interp_advance_inv[OF \<open>I t0\<close>]
    by (auto simp: interp_dispatch_def done_interp_def split: ctl.splits
        elim: interp_illegal_R interp_exception_R the_end_R intro: I_R)
qed

lemma interrupt_inv:
  assumes "I s" "raise_interrupt s = (taken, s')"
  shows "if taken then R s' else I s'"
  using assms by (auto simp: raise_interrupt_def raise_exception_def Let_def split: if_splits intro: trap_R)

lemma interp_iteration_inv:
  assumes "I s"
  shows "interp_iteration E n l s = Return (Some (k, s')) \<Longrightarrow> R s'"
    and "interp_iteration E n l s = Continue l' t \<Longrightarrow> I t"
proof -
  obtain hit s1 where s1: "check_triggers MCONTROL_EXECUTE (pc s) s = (hit, s1)" by fastforce
  then have I1: "I s1" using I_view[OF check_triggers_view assms, of MCONTROL_EXECUTE "pc s"] by simp
  obtain taken s2 where s2: "(if il_code_ptr l \<ge> il_code_end l \<and> interrupts_open s1 then raise_interrupt s1 else (False, s1)) = (taken, s2)"
    by fastforce
  then have I2: "if taken then R s2 else I s2" using interrupt_inv[OF I1] I1 by (auto split: if_splits)
  define l1 where "l1 = l\<lparr>il_executed := il_executed l + 1\<rparr>"
  obtain insn l3 s3 where s3: "interp_fetch l1 s2 = (insn, l3, s3)" by (metis prod_cases3)
  then have I3: "\<not> taken \<Longrightarrow> I s3" using I_view[OF interp_fetch_view[of s2 l1]] I_G[of s2] I2 by simp
  have it: "interp_iteration E n l s = (if hit then Return (interp_exception n l1 s1)
      else if taken then Return (the_end n l1 s2)
      else (case insn of None \<Rightarrow> Return (interp_exception n l3 s3) | Some i \<Rightarrow> interp_dispatch E n i l3 s3))"
    using s1 s2 s3 unfolding interp_iteration_def Let_def l1_def by (auto split: if_splits option.split)
  show "interp_iteration E n l s = Return (Some (k, s')) \<Longrightarrow> R s'"
    "interp_iteration E n l s = Continue l' t \<Longrightarrow> I t"
    using I1 I2 I3 interp_dispatch_inv[OF I3]
    by (auto simp: it split: if_splits option.splits elim: interp_exception_R the_end_R)
qed

lemma interp_loop_R: "interp_loop E n l s = Some (k, s') \<Longrightarrow> I s \<Longrightarrow> R s'"
proof (induction n arbitrary: l s)
  case 0
  then show ?case by simp
next
  case (Suc n)
  define t where "t = s\<lparr>last_pc := pc s, pc := get_pc l\<rparr>"
  have It: "I t" using I_view[of t s] Suc.prems(2) by (simp add: t_def)
  show ?case
  proof (cases "n = 0")
    case True
    then show ?thesis using Suc.prems(1) It the_end_R[of n l t] I_R by (simp add: Let_def t_def)
  next
    case False
    then have "(case interp_iteration E n l t of Return r \<Rightarrow> r | Continue l s \<Rightarrow> interp_loop E n l s) = Some (k, s')"
      using Suc.prems(1) by (simp add: Let_def t_def)
    then show ?thesis using interp_iteration_inv[OF It] Suc.IH by (auto split: iteration.splits)
  qed
qed

theorem interp_R: "riscv_cpu_interp E n s = Some (k, s') \<Longrightarrow> I s \<Longrightarrow> R s'"
proof -
  assume r: "riscv_cpu_interp E n s = Some (k, s')" and "I s"
  define t where "t = (clear_most_recently_written_vregs s)\<lparr>most_recently_written_reg := -1,
    most_recently_written_fp_reg := -1, info := ctf_nop\<rparr>"
  have It: "I t" using I_view[of t s] \<open>I s\<close> by (simp add: t_def clear_most_recently_written_vregs_def)
  obtain taken u where u: "(if interrupts_open t then raise_interrupt t else (False, t)) = (taken, u)" by fastforce
  then have Iu: "if taken then R u else I u" using interrupt_inv[OF It] It by (auto split: if_splits)
  show ?thesis
  proof (cases "n = 0")
    case True
    then show ?thesis using r It I_R by (simp add: riscv_cpu_interp_def Let_def t_def[symmetric])
  next
    case False
    have "\<exists>l m. (if taken then done_interp m l u
        else interp_loop E m l (u\<lparr>pending_exception := -1, last_data_vaddr := -1\<rparr>)) = Some (k, s')"
      using r u False unfolding riscv_cpu_interp_def Let_def t_def[symmetric]
      by (auto simp del: interp_loop.simps split: if_splits)
    then show ?thesis
      using Iu I_view[of "u\<lparr>pending_exception := -1, last_data_vaddr := -1\<rparr>" u]
      by (auto simp: done_interp_def split: if_splits elim: the_end_R interp_loop_R)
  qed
qed

end

section \<open>Traps\<close>

text \<open>The address a trap vector leads to, and what a trap into machine mode from a lower
  level looks like.\<close>

definition trap_target :: "u64 \<Rightarrow> u64 \<Rightarrow> u64" where
  "trap_target tvec cause =
     (if tvec AND 3 = 1 \<and> cause AND CAUSE_INTERRUPT \<noteq> 0
      then (tvec AND NOT 3) + 4 * (cause AND NOT CAUSE_INTERRUPT) else tvec AND NOT 3)"

definition mstatus_mpp :: "u64 \<Rightarrow> nat" where
  "mstatus_mpp m = unat (drop_bit MSTATUS_MPP_SHIFT (m AND MSTATUS_MPP))"

definition m_entry :: "'d sys \<Rightarrow> 'd sys \<Rightarrow> bool" where
  "m_entry s s' \<longleftrightarrow>
     priv s' = PRV_M \<and> m_config s' = m_config s \<and> pc s' = trap_target (mtvec s) (mcause s') \<and>
     mstatus_mpp (mstatus s') \<le> 1 \<and> mstatus s' AND MSTATUS_MIE = 0"

definition low_state :: "'d sys \<Rightarrow> 'd sys \<Rightarrow> bool" where
  "low_state s0 s \<longleftrightarrow> priv s \<le> PRV_S \<and> m_view s = m_view s0"

lemma raise_exception2_fields:
  "reg (raise_exception2 cause tval s) = reg s"
  "trap_delegated cause s \<Longrightarrow> priv (raise_exception2 cause tval s) = PRV_S"
  "\<not> trap_delegated cause s \<Longrightarrow> priv (raise_exception2 cause tval s) = PRV_M"
  "\<not> trap_delegated cause s \<Longrightarrow> mcause (raise_exception2 cause tval s) = cause"
  by (simp_all add: raise_exception2_def Let_def set_priv_def tlb_flush_all_def tlb_init_def)

lemma trap_pc:
  "pc (raise_exception2 cause tval s) = trap_target (if trap_delegated cause s then stvec s else mtvec s) cause"
  by (simp add: raise_exception2_def Let_def set_priv_def tlb_flush_all_def tlb_init_def trap_target_def)

lemma trap_mstatus:
  "trap_delegated cause s \<Longrightarrow> mstatus (raise_exception2 cause tval s) =
     ((mstatus s AND NOT MSTATUS_SPIE OR push_bit MSTATUS_SPIE_SHIFT (cbool (mstatus s AND MSTATUS_SIE \<noteq> 0)))
        AND NOT MSTATUS_SPP OR push_bit MSTATUS_SPP_SHIFT (zx8 (priv s))) AND NOT MSTATUS_SIE"
  "\<not> trap_delegated cause s \<Longrightarrow> mstatus (raise_exception2 cause tval s) =
     ((mstatus s AND NOT MSTATUS_MPIE OR push_bit MSTATUS_MPIE_SHIFT (cbool (mstatus s AND MSTATUS_MIE \<noteq> 0)))
        AND NOT MSTATUS_MPP OR push_bit MSTATUS_MPP_SHIFT (zx8 (priv s))) AND NOT MSTATUS_MIE"
  by (simp_all add: raise_exception2_def Let_def set_priv_def tlb_flush_all_def tlb_init_def)

lemma low_priv_cases: "p \<le> (PRV_S :: u8) \<Longrightarrow> p = 0 \<or> p = 1"
proof -
  assume "p \<le> (PRV_S :: u8)"
  then have "unat p = 0 \<or> unat p = 1" by (auto simp: word_le_nat_alt)
  then show ?thesis by (metis unat_0 unat_1 word_unat_eq_iff)
qed

lemma trap_low_state:
  assumes "low_state s0 s" "trap_delegated cause s"
  shows "low_state s0 (raise_exception2 cause tval s)"
proof -
  have out: "MSTATUS_SIE AND NOT SSTATUS_MASK = 0" "MSTATUS_SPIE AND NOT SSTATUS_MASK = 0"
    "MSTATUS_SPP AND NOT SSTATUS_MASK = 0" "push_bit 5 (cbool b) AND NOT SSTATUS_MASK = 0"
    "push_bit 8 (zx8 (priv s)) AND NOT SSTATUS_MASK = 0" for b
    using low_priv_cases[of "priv s"] assms(1) by (cases b; auto simp: SSTATUS_MASK_def low_state_def)+
  have "mstatus (raise_exception2 cause tval s) AND NOT SSTATUS_MASK = mstatus s AND NOT SSTATUS_MASK"
    unfolding trap_mstatus(1)[OF assms(2)] MSTATUS_SPIE_SHIFT_def MSTATUS_SPP_SHIFT_def
    by (simp only: merge_outside(2-4) out)
  moreover have "mepc (raise_exception2 cause tval s) = mepc s" "mcause (raise_exception2 cause tval s) = mcause s"
    "mtval (raise_exception2 cause tval s) = mtval s" "m_config (raise_exception2 cause tval s) = m_config s"
    using assms(2) by (simp_all add: raise_exception2_def Let_def set_priv_def tlb_flush_all_def tlb_init_def m_config_def)
  ultimately show ?thesis
    using assms by (simp add: low_state_def m_view_def raise_exception2_fields)
qed

lemma trap_m_entry:
  assumes "low_state s0 s" "\<not> trap_delegated cause s"
  shows "m_entry s0 (raise_exception2 cause tval s)"
proof -
  let ?t = "raise_exception2 cause tval s"
  have cfg: "m_config ?t = m_config s"
    using assms(2) by (simp add: raise_exception2_def Let_def set_priv_def tlb_flush_all_def tlb_init_def m_config_def)
  have "mstatus ?t AND MSTATUS_MPP = push_bit MSTATUS_MPP_SHIFT (zx8 (priv s))"
    using low_priv_cases[of "priv s"] assms(1) unfolding trap_mstatus(2)[OF assms(2)]
    by (auto simp: low_state_def bit.conj_disj_distrib bit.conj_disj_distrib2 and.assoc)
  then have "mstatus_mpp (mstatus ?t) = unat (priv s)"
    using low_priv_cases[of "priv s"] assms(1) by (auto simp: mstatus_mpp_def low_state_def)
  moreover have "mstatus ?t AND MSTATUS_MIE = 0"
    unfolding trap_mstatus(2)[OF assms(2)] by (simp add: and.assoc)
  ultimately show ?thesis
    using assms cfg by (auto simp: m_entry_def low_state_def m_view_def m_config_def raise_exception2_fields trap_pc word_le_nat_alt)
qed

sublocale device_bus \<subseteq> x0: interp_invariant u_view "\<lambda>_. True" E "\<lambda>s. reg s 0 = v" "\<lambda>s. reg s 0 = v" for v
proof unfold_locales
  fix s :: "'d sys" and gpc icount start insn
  assume "reg s 0 = v"
  then show "reg (snd (exec_insn E gpc icount start insn s)) 0 = v"
    using exec_insn_guarantee[of s gpc icount start insn] by (simp add: insn_guarantee_def)
qed (auto dest: u_viewD simp: raise_exception2_fields)

sublocale device_bus \<subseteq> low: interp_invariant u_view "\<lambda>_. True" E "low_state s0" "\<lambda>s. low_state s0 s \<or> m_entry s0 s" for s0
proof unfold_locales
  fix s :: "'d sys" and gpc icount start insn
  assume "low_state s0 s"
  then show "low_state s0 (snd (exec_insn E gpc icount start insn s))"
    using exec_insn_guarantee[of s gpc icount start insn] by (auto simp: insn_guarantee_def low_state_def)
next
  fix s :: "'d sys" and cause tval
  assume "low_state s0 s"
  then show "low_state s0 (raise_exception2 cause tval s) \<or> m_entry s0 (raise_exception2 cause tval s)"
    using trap_low_state trap_m_entry by blast
next
  fix s' s :: "'d sys"
  assume "u_view s' = u_view s" "pc s' = pc s" "low_state s0 s \<or> m_entry s0 s"
  then show "low_state s0 s' \<or> m_entry s0 s'"
    by (auto simp: low_state_def m_entry_def view_defs)
qed (auto simp: low_state_def dest: u_viewD)

end
