(* ===== verification/Machine.thy ===== *)
theory Machine
  imports Devices Loop
begin

text \<open>
  The machine around the harts (\<open>src/src/riscv_machine.cpp\<close>, \<open>src/src/majordomo_main.cpp\<close>,
  \<open>src/src/majordomo.cpp\<close>): its construction with the memory map of the default
  board, the sleep and timer check and \<open>virt_machine_run\<close>.
  The state of the machine is seen from the hart that executes, so choosing a hart
  is \<open>machine_of\<close>.
\<close>

section \<open>The zeroed machine\<close>

text \<open>What \<open>mallocz\<close> and \<open>calloc\<close> return for the devices and the machine.\<close>

definition zero_uart :: SiFiveUARTState where
  "zero_uart = \<lparr>rx_fifo_len = 0, uart_ie = 0, uart_ip = 0, uart_txctrl = 0, uart_rxctrl = 0, uart_div = 0\<rparr>"

definition zero_dw :: "nat \<Rightarrow> DW_apb_uart_state" where
  "zero_dw irq = \<lparr>dw_irq = irq, last_irq_level = 0, div_latch = 0, dw_rhr = 0, dw_ier = 0, dw_isr = 0,
     dw_lcr = 0, dw_mcr = 0, dw_lsr = 0, dw_msr = 0, dw_spr = 0\<rparr>"

definition DW_APB_UART0_IRQ :: nat where [simp]: "DW_APB_UART0_IRQ = 3"
definition DW_APB_UART1_IRQ :: nat where [simp]: "DW_APB_UART1_IRQ = 15"

definition init_env :: "nat \<Rightarrow> (nat \<Rightarrow> RISCVCPUState) \<Rightarrow> u8 list \<Rightarrow> machine_env" where
  "init_env ncpus harts input =
     \<lparr>me_ncpus = ncpus, me_cur = 0, me_harts = harts, plic_pending_irq = 0, plic_served_irq = 0,
      plic_priority = (\<lambda>_. 0), me_uart = zero_uart,
      me_dw = (\<lambda>i. zero_dw (if i = 0 then DW_APB_UART0_IRQ else DW_APB_UART1_IRQ)),
      me_console = \<lparr>con_stdin = input, con_stdout = [], console_esc_state = False, con_exited = False\<rparr>,
      me_stf_open = False, me_stf_log = [], me_aborted = False\<rparr>"

text \<open>A hart in a machine with the fields that \<open>virt_machine_main\<close> leaves at zero.\<close>

definition hart_machine :: "RISCVCPUState \<Rightarrow> 'd \<Rightarrow> 'd sys" where
  "hart_machine h e = RISCVCPUState.extend h
     (sys.fields 0 [] (\<lambda>_. 0) None 0 False (-1) 0 False False 0 False False False False False 3 False False 0
        (-1) False False False False False False False 0 0 e)"

end
