(* ===== verification/Security.thy ===== *)
theory Security
  imports Machine
begin

text \<open>
  Privilege: what an instruction and a run of the interpreter may change, with the
  devices of the board behind the memory map; the legal values of the control
  registers as an invariant of every run; and the number of instructions a run
  reports.
\<close>

section \<open>Legal register values\<close>

text \<open>The values that writes and traps leave in the control registers: a privilege level
  of two bits, the read-only fields of \<open>mstatus\<close>, no delegation of machine level
  traps, an implemented translation mode, and the implemented trigger and PMP
  entries.\<close>

definition mie_mask :: u32 where
  "mie_mask = MIP_MCIP OR MIP_MEIP OR MIP_SEIP OR MIP_MTIP OR MIP_STIP OR MIP_MSIP OR MIP_SSIP"

definition mideleg_mask :: u32 where
  "mideleg_mask = MIP_SSIP OR MIP_STIP OR MIP_SEIP"

definition mstatus_writable :: u64 where
  "mstatus_writable = MSTATUS_MASK AND NOT (MSTATUS_FS OR MSTATUS_VS OR MSTATUS_UXL_MASK OR MSTATUS_SXL_MASK)"

abbreviation mstatus_fixed :: u64 where
  "mstatus_fixed \<equiv> NOT mstatus_writable"

definition hart_wf :: "'d sys \<Rightarrow> bool" where
  "hart_wf s \<longleftrightarrow> priv s \<le> PRV_M \<and> mstatus s AND mstatus_fixed = 0xA00000000 \<and>
     medeleg s AND NOT 0xB109 = 0 \<and> mideleg s AND NOT mideleg_mask = 0 \<and> mie s AND NOT mie_mask = 0 \<and>
     drop_bit 60 (satp s) \<in> {0, 8, 9} \<and> tselect s = 0 \<and> pmp_n s \<le> 16"

lemma hart_wf_view: "u_view s' = u_view s \<Longrightarrow> hart_wf s \<Longrightarrow> hart_wf s'"
  by (simp add: hart_wf_def view_defs)

lemma hart_wf_if: "(b \<Longrightarrow> hart_wf (snd p)) \<Longrightarrow> (\<not> b \<Longrightarrow> hart_wf (snd q)) \<Longrightarrow> hart_wf (snd (if b then p else q))"
  by simp

lemma hart_wf_unchanged:
  "hart_wf (s\<lparr>stvec := x\<rparr>) = hart_wf s" "hart_wf (s\<lparr>scounteren := x32\<rparr>) = hart_wf s"
  "hart_wf (s\<lparr>sscratch := x\<rparr>) = hart_wf s" "hart_wf (s\<lparr>sepc := x\<rparr>) = hart_wf s"
  "hart_wf (s\<lparr>scause := x\<rparr>) = hart_wf s" "hart_wf (s\<lparr>stval := x\<rparr>) = hart_wf s"
  "hart_wf (s\<lparr>mip := x32\<rparr>) = hart_wf s" "hart_wf (s\<lparr>mtvec := x\<rparr>) = hart_wf s"
  "hart_wf (s\<lparr>mcounteren := x32\<rparr>) = hart_wf s" "hart_wf (s\<lparr>mcountinhibit := x32\<rparr>) = hart_wf s"
  "hart_wf (s\<lparr>mscratch := x\<rparr>) = hart_wf s" "hart_wf (s\<lparr>mepc := x\<rparr>) = hart_wf s"
  "hart_wf (s\<lparr>mcause := x\<rparr>) = hart_wf s" "hart_wf (s\<lparr>mtval := x\<rparr>) = hart_wf s"
  "hart_wf (s\<lparr>tdata1 := f\<rparr>) = hart_wf s" "hart_wf (s\<lparr>tdata2 := f\<rparr>) = hart_wf s"
  "hart_wf (s\<lparr>dcsr := x\<rparr>) = hart_wf s" "hart_wf (s\<lparr>dpc := x\<rparr>) = hart_wf s" "hart_wf (s\<lparr>dscratch := x\<rparr>) = hart_wf s"
  "hart_wf (s\<lparr>stop_the_counter := b\<rparr>) = hart_wf s" "hart_wf (s\<lparr>mhpmevent := f\<rparr>) = hart_wf s"
  "hart_wf (s\<lparr>fflags := x32\<rparr>) = hart_wf s" "hart_wf (s\<lparr>fs := x8\<rparr>) = hart_wf s" "hart_wf (s\<lparr>frm := x8\<rparr>) = hart_wf s"
  "hart_wf (s\<lparr>vstart := x16\<rparr>) = hart_wf s" "hart_wf (s\<lparr>vxsat := x8\<rparr>) = hart_wf s" "hart_wf (s\<lparr>vxrm := x8\<rparr>) = hart_wf s"
  "hart_wf (s\<lparr>vs := x8\<rparr>) = hart_wf s" "hart_wf (s\<lparr>mcycle := x\<rparr>) = hart_wf s" "hart_wf (s\<lparr>minstret := x\<rparr>) = hart_wf s"
  "hart_wf (s\<lparr>csr_pmpcfg := f\<rparr>) = hart_wf s" "hart_wf (s\<lparr>csr_pmpaddr := f\<rparr>) = hart_wf s"
  "hart_wf (tlb_flush_all s) = hart_wf s"
  by (simp_all add: hart_wf_def tlb_flush_all_def tlb_init_def)

lemma merge_fixed: "(x AND NOT m OR v AND m) AND NOT m = x AND NOT m" for x :: "'a::len word"
  by (auto simp: bit_eq_iff bit_simps)

lemma set_mstatus_wf: "hart_wf s \<Longrightarrow> hart_wf (set_mstatus v s)"
  unfolding hart_wf_def set_mstatus_def Let_def mstatus_writable_def[symmetric]
  by (simp add: tlb_flush_all_def tlb_init_def merge_fixed)

lemma merge32_masked:
  "x AND NOT m = 0 \<Longrightarrow> merge32 x (zx32 m) v AND NOT m = 0"
  "x AND NOT m = 0 \<Longrightarrow> a AND NOT m = 0 \<Longrightarrow> merge32 x (zx32 a) v AND NOT m = 0"
  by (auto simp: merge32_def bit_eq_iff bit_simps)

lemma masked_trans: "x AND NOT m = 0 \<Longrightarrow> m AND NOT k = 0 \<Longrightarrow> x AND NOT k = 0" for x :: "'a::len word"
  by (auto simp: bit_eq_iff bit_simps)

lemma satp_write_wf: "hart_wf s \<Longrightarrow> hart_wf (satp_write v s)"
proof -
  have "drop_bit 60 (v AND SATP_MASK) = drop_bit 60 v AND 15" by (simp add: bit_eq_iff bit_simps)
  then show "hart_wf s \<Longrightarrow> hart_wf (satp_write v s)"
    by (auto simp: satp_write_def Let_def hart_wf_unchanged) (auto simp: hart_wf_def)
qed

lemma unpack_wf: "hart_wf s \<Longrightarrow> hart_wf (unpack_pmpaddrs s)"
proof -
  assume wf: "hart_wf s"
  have "hart_wf (foldl (\<lambda>s i. unpack_entry i s) t is)" if "hart_wf t" "pmp_n t + length is \<le> 16" for t :: "'d sys" and "is"
    using that
  proof (induction "is" arbitrary: t)
    case (Cons i "is")
    have "hart_wf (unpack_entry i t)" "pmp_n (unpack_entry i t) \<le> Suc (pmp_n t)"
      using Cons.prems by (auto simp: unpack_entry_def hart_wf_def split: option.split)
    then show ?case using Cons.IH[of "unpack_entry i t"] Cons.prems by simp
  qed simp
  from this[of "s\<lparr>pmp_n := 0\<rparr>" "[0..<16]"] wf show ?thesis
    by (simp add: unpack_pmpaddrs_def hart_wf_unchanged del: upt_rec_numeral) (simp add: hart_wf_def)
qed

lemma csr_write_wf: "hart_wf s \<Longrightarrow> hart_wf (snd (csr_write csr v s))"
proof -
  assume wf: "hart_wf s"
  have m: "mideleg s AND NOT mideleg_mask = 0" "mie s AND NOT mie_mask = 0" using wf by (simp_all add: hart_wf_def)
  have sub: "mideleg s AND NOT mie_mask = 0"
    by (rule masked_trans[OF m(1)]) (simp add: mideleg_mask_def mie_mask_def)
  have "hart_wf (s\<lparr>mie := merge32 (mie s) (zx32 (mideleg s)) v\<rparr>)"
    "hart_wf (s\<lparr>mie := merge32 (mie s) (zx32 mie_mask) v\<rparr>)"
    "hart_wf (s\<lparr>mideleg := merge32 (mideleg s) (zx32 mideleg_mask) v\<rparr>)"
    "hart_wf (s\<lparr>medeleg := merge32 (medeleg s) (zx32 0xB109) v\<rparr>)"
    "hart_wf (s\<lparr>tselect := lo32 (v mod of_nat MAX_TRIGGERS)\<rparr>)"
    using wf merge32_masked(2)[OF m(2) sub, of v] merge32_masked(1)[OF m(2), of v] merge32_masked(1)[OF m(1), of v]
      merge32_masked(1)[of "medeleg s" "0xB109" v]
    by (simp_all add: hart_wf_def)
  with wf show ?thesis
    unfolding csr_write_def Let_def mie_mask_def[symmetric] mideleg_mask_def[symmetric]
    by (intro hart_wf_if) (simp_all add: hart_wf_unchanged set_mstatus_wf satp_write_wf unpack_wf set_frm_def
        tdata1_write_def tdata2_write_def dcsr_write_def pmpcfg_write_def pmpaddr_write_def Let_def
        hart_wf_view[OF simpoint_write_view])
qed

lemma mstatus_writable_eval: "mstatus_writable = 0x7e19aa"
  by (simp add: mstatus_writable_def MSTATUS_MASK_def)

lemma priv_cases: "p \<le> (PRV_M :: u8) \<Longrightarrow> p = 0 \<or> p = 1 \<or> p = 2 \<or> p = 3"
proof -
  assume "p \<le> (PRV_M :: u8)"
  then have "unat p = 0 \<or> unat p = 1 \<or> unat p = 2 \<or> unat p = 3" by (auto simp: word_le_nat_alt)
  then show ?thesis by (auto simp: word_unat_eq_iff)
qed

lemma trap_wf: "hart_wf s \<Longrightarrow> hart_wf (raise_exception2 cause tval s)"
proof -
  assume wf: "hart_wf s"
  let ?t = "raise_exception2 cause tval s"
  have out: "MSTATUS_SIE AND NOT mstatus_writable = 0" "MSTATUS_SPIE AND NOT mstatus_writable = 0"
    "MSTATUS_SPP AND NOT mstatus_writable = 0" "push_bit 5 (cbool b) AND NOT mstatus_writable = 0"
    "MSTATUS_MIE AND NOT mstatus_writable = 0" "MSTATUS_MPIE AND NOT mstatus_writable = 0"
    "MSTATUS_MPP AND NOT mstatus_writable = 0" "push_bit 7 (cbool b) AND NOT mstatus_writable = 0"
    "push_bit 11 (zx8 (priv s)) AND NOT mstatus_writable = 0"
    "trap_delegated cause s \<Longrightarrow> push_bit 8 (zx8 (priv s)) AND NOT mstatus_writable = 0" for b
    using priv_cases[of "priv s"] low_priv_cases[of "priv s"] wf
    by (cases b; auto simp: mstatus_writable_eval hart_wf_def trap_delegated_def split: if_splits)+
  have "mstatus ?t AND mstatus_fixed = mstatus s AND mstatus_fixed"
  proof (cases "trap_delegated cause s")
    case True
    show ?thesis unfolding trap_mstatus(1)[OF True] MSTATUS_SPIE_SHIFT_def MSTATUS_SPP_SHIFT_def
      by (simp only: merge_outside(2-4) out out(10)[OF True])
  next
    case False
    show ?thesis unfolding trap_mstatus(2)[OF False] MSTATUS_MPIE_SHIFT_def MSTATUS_MPP_SHIFT_def
      by (simp only: merge_outside(2-4) out)
  qed
  moreover have "priv ?t \<le> PRV_M" using raise_exception2_fields(2,3)[of cause s tval] by (cases "trap_delegated cause s") simp_all
  moreover have "medeleg ?t = medeleg s" "mideleg ?t = mideleg s" "mie ?t = mie s" "satp ?t = satp s"
    "tselect ?t = tselect s" "pmp_n ?t = pmp_n s"
    by (simp_all add: raise_exception2_def Let_def set_priv_def tlb_flush_all_def tlb_init_def)
  ultimately show ?thesis using wf by (simp add: hart_wf_def)
qed

lemma return_wf:
  assumes "hart_wf s"
  shows "hart_wf (handle_sret s)" "hart_wf (handle_mret s)" "hart_wf (handle_dret s)"
proof -
  have out: "c AND NOT mstatus_writable = 0"
    if "c \<in> {MSTATUS_SIE, MSTATUS_SPIE, MSTATUS_SPP, MSTATUS_MIE, MSTATUS_MPIE, MSTATUS_MPP}" for c
    using that by (auto simp: mstatus_writable_eval)
  have p: "unat (priv (handle_sret s)) \<le> 3" "unat (priv (handle_mret s)) \<le> 3" "unat (priv (handle_dret s)) \<le> 3"
    using handle_sret_views(3)[of s] handle_mret_dret_views[of s] by simp_all
  have k: "x AND mstatus_fixed = 0xA00000000 \<Longrightarrow> c \<in> {MSTATUS_SIE, MSTATUS_SPIE, MSTATUS_SPP, MSTATUS_MIE, MSTATUS_MPIE, MSTATUS_MPP}
      \<Longrightarrow> (x AND NOT c) AND mstatus_fixed = 0xA00000000 \<and> (x OR c) AND mstatus_fixed = 0xA00000000 \<and>
        (x OR y AND c) AND mstatus_fixed = 0xA00000000" for x y c
    by (simp only: merge_outside(2-4) out)
  have m: "mstatus s AND mstatus_fixed = 0xA00000000" using assms by (simp add: hart_wf_def)
  show "hart_wf (handle_sret s)" "hart_wf (handle_mret s)" "hart_wf (handle_dret s)"
    using assms p k m
    by (simp_all add: hart_wf_def word_le_nat_alt handle_sret_def handle_mret_def handle_dret_def Let_def set_priv_def
        tlb_flush_all_def tlb_init_def del: MSTATUS_SIE_def MSTATUS_SPIE_def MSTATUS_SPP_def MSTATUS_MIE_def MSTATUS_MPIE_def MSTATUS_MPP_def)
qed

lemma csr_insns_wf:
  assumes "hart_wf s"
  shows "hart_wf (snd (exec_csrrw gpc icount start insn v s))" "hart_wf (snd (exec_csrrs gpc icount start f insn v s))"
proof -
  have a: "hart_wf t" if "account_insns icount start s = Some t" for t
    using that assms hart_wf_view[of t s] by (auto simp: account_insns_def Let_def split: if_splits)
  have f: "hart_wf (snd (csr_finish gpc rd v2 err t))" if "hart_wf t" for rd v2 err and t :: "'a sys"
    by (rule hart_wf_view[OF _ that]) (simp add: csr_finish_def Let_def frame_simps)
  show "hart_wf (snd (exec_csrrw gpc icount start insn v s))" "hart_wf (snd (exec_csrrs gpc icount start f insn v s))"
    using a assms by (auto simp: exec_csrrw_def exec_csrrs_def Let_def split_beta split: option.split
        intro!: f csr_write_wf)
qed

lemma exec_system_wf: "hart_wf s \<Longrightarrow> hart_wf (snd (exec_system gpc icount start insn s))"
proof -
  have priv: "hart_wf (snd (exec_priv gpc insn t))" if "hart_wf t" for t :: "'a sys"
  proof (cases "drop_bit 20 insn \<in> {0x102, 0x302, 0x7b2}")
    case True
    have "hart_wf (t\<lparr>pc := gpc\<rparr>)" using hart_wf_view[of "t\<lparr>pc := gpc\<rparr>" t] that by simp
    with True that show ?thesis
      by (auto simp: exec_priv_def Let_def exec_sret_def exec_mret_def exec_dret_def return_wf)
  next
    case False
    then show ?thesis by (intro hart_wf_view[OF exec_priv_view that])
  qed
  assume "hart_wf s"
  then have "hart_wf (snd (read_reg r s))" for r using hart_wf_view[OF u.read_reg_view] by blast
  with \<open>hart_wf s\<close> show ?thesis by (simp add: exec_system_def Let_def split_beta priv csr_insns_wf)
qed

sublocale device_bus \<subseteq> wf: interp_invariant u_view "\<lambda>_. True" E hart_wf hart_wf
proof unfold_locales
  fix s :: "'d sys" and gpc icount start insn
  assume wf: "hart_wf s"
  show "hart_wf (snd (exec_insn E gpc icount start insn s))"
  proof (cases "insn AND 0x7f = 0x73")
    case True
    then show ?thesis by (simp add: exec_insn_def Let_def exec_system_wf wf)
  next
    case False
    then show ?thesis by (intro hart_wf_view[OF bus.exec_insn_view wf]) simp_all
  qed
qed (simp_all add: hart_wf_view trap_wf)

lemma reset_wf: "hart_wf (hart_machine (riscv_cpu_init reset_vector custom_extension clear_ids hartid) e)"
  by (simp add: hart_wf_def hart_machine_def riscv_cpu_init_def zero_hart_def Let_def RISCVCPUState.extend_def
      sys.fields_def tlb_init_def mstatus_writable_eval)

section \<open>The number of instructions\<close>

lemma the_end_count: "the_end n l s = Some (k, s') \<Longrightarrow> k = il_executed l"
  by (auto simp: the_end_def)

lemma interp_exception_count:
  "interp_exception n l s = Some (k, s') \<Longrightarrow> il_executed l - 1 \<le> k \<and> k \<le> il_executed l"
  by (auto simp: interp_exception_def done_interp_def Let_def split: if_splits dest!: the_end_count)

lemma interp_fetch_locals: "il_executed (fst (snd (interp_fetch l s))) = il_executed l"
  by (simp add: interp_fetch_def Let_def split: prod.split option.split)

lemma interp_advance_count:
  "interp_advance E n insn l s = Return (Some (k, s')) \<Longrightarrow> k = il_executed l"
  "interp_advance E n insn l s = Continue l' s' \<Longrightarrow> il_executed l' = il_executed l"
  by (auto simp: interp_advance_def Let_def split_beta split: if_splits dest!: the_end_count)

lemma interp_dispatch_count:
  "interp_dispatch E n insn l s = Return (Some (k, s')) \<Longrightarrow> il_executed l - 1 \<le> k \<and> k \<le> il_executed l"
  "interp_dispatch E n insn l s = Continue l' s' \<Longrightarrow> il_executed l' = il_executed l"
  by (auto simp: interp_dispatch_def interp_illegal_def done_interp_def split: ctl.splits prod.splits
      dest!: interp_exception_count the_end_count interp_advance_count)

lemma interp_iteration_count:
  "interp_iteration E n l s = Return (Some (k, s')) \<Longrightarrow> il_executed l \<le> k \<and> k \<le> il_executed l + 1"
  "interp_iteration E n l s = Continue l' s' \<Longrightarrow> il_executed l' = il_executed l + 1"
proof -
  define l1 where "l1 = l\<lparr>il_executed := il_executed l + 1\<rparr>"
  have f: "il_executed l2 = il_executed l + 1" if "interp_fetch l1 t = (i, l2, u)" for t u i l2
    using interp_fetch_locals[of l1 t] that by (simp add: l1_def)
  show "interp_iteration E n l s = Return (Some (k, s')) \<Longrightarrow> il_executed l \<le> k \<and> k \<le> il_executed l + 1"
    "interp_iteration E n l s = Continue l' s' \<Longrightarrow> il_executed l' = il_executed l + 1"
    unfolding interp_iteration_def Let_def l1_def[symmetric]
    by (auto split: if_splits prod.splits option.splits dest!: f interp_exception_count the_end_count interp_dispatch_count)
      (simp_all add: l1_def)
qed

lemma interp_loop_count:
  "interp_loop E (Suc n) l s = Some (k, s') \<Longrightarrow> il_executed l \<le> k \<and> k \<le> il_executed l + int n"
proof (induction n arbitrary: l s)
  case 0
  then show ?case by (auto simp: Let_def dest!: the_end_count)
next
  case (Suc n)
  define t where "t = s\<lparr>last_pc := pc s, pc := get_pc l\<rparr>"
  have "(case interp_iteration E (Suc n) l t of Return r \<Rightarrow> r | Continue l s \<Rightarrow> interp_loop E (Suc n) l s) = Some (k, s')"
    using Suc.prems by (simp add: Let_def t_def del: interp_loop.simps(2)) (simp add: Let_def t_def)
  then show ?case
    by (auto simp del: interp_loop.simps split: iteration.splits
        dest!: interp_iteration_count Suc.IH)
qed

section \<open>Properties\<close>

text \<open>The invariants of a run, with the devices of the board.\<close>

context device_bus
begin

lemma run_invariants:
  assumes "riscv_cpu_interp E n s = Some (k, s')"
  shows "hart_wf s \<Longrightarrow> hart_wf s'" "reg s' 0 = reg s 0" "low_state s0 s \<Longrightarrow> low_state s0 s' \<or> m_entry s0 s'"
  using wf.interp_R[OF assms] x0.interp_R[OF assms] low.interp_R[OF assms] by blast+

end

lemmas machine_run_invariants = device_bus.run_invariants[OF machine_bus.device_bus_axioms]

text \<open>A hart out of reset on a machine without memory, in user mode: its first fetch
  faults into machine mode.\<close>

definition user_demo :: machine where
  "user_demo = (hart_machine (riscv_cpu_init 0x10000 False False 0) (init_env 1 (\<lambda>_. zero_hart) []))\<lparr>priv := PRV_U\<rparr>"

lemma user_demo_run: "\<exists>k s. riscv_cpu_interp machine_ops 1 user_demo = Some (k, s) \<and> priv s = PRV_M"
proof -
  have "case riscv_cpu_interp machine_ops 1 user_demo of Some (k, s) \<Rightarrow> priv s = PRV_M | None \<Rightarrow> False"
    by code_simp
  then show ?thesis by (auto split: option.splits)
qed





text \<open>The states that runs of the interpreter lead to.\<close>

inductive hart_runs :: "machine \<Rightarrow> machine \<Rightarrow> bool" for s0 where
  start: "hart_runs s0 s0"
| run: "hart_runs s0 s \<Longrightarrow> riscv_cpu_interp machine_ops n s = Some (k, s') \<Longrightarrow> hart_runs s0 s'"

lemma hart_runs_invariant: "hart_runs s0 s \<Longrightarrow> hart_wf s0 \<Longrightarrow> hart_wf s \<and> reg s 0 = reg s0 0"
  by (induction rule: hart_runs.induct) (auto dest: machine_run_invariants)



text \<open>C13: the number of instructions that a run reports is between zero and the number of
  cycles it was given.\<close>

theorem interp_count_bounds:
  assumes "riscv_cpu_interp E n s = Some (k, s')"
  shows "0 \<le> k \<and> k \<le> int n"
proof -
  define t where "t = (clear_most_recently_written_vregs s)\<lparr>most_recently_written_reg := -1,
    most_recently_written_fp_reg := -1, info := ctf_nop\<rparr>"
  obtain taken u where u: "(if interrupts_open t then raise_interrupt t else (False, t)) = (taken, u)" by fastforce
  show ?thesis
    using assms u unfolding riscv_cpu_interp_def Let_def t_def[symmetric] done_interp_def
    by (auto simp del: interp_loop.simps split: if_splits dest!: the_end_count interp_loop_count)
qed

theorem interp_count_bounds_witness: "\<exists>k s'. riscv_cpu_interp machine_ops 1 user_demo = Some (k, s') \<and> k \<le> 1"
  using user_demo_run interp_count_bounds[of machine_ops 1 user_demo] by force

end
