(* ===== verification/Traps.thy ===== *)
theory Traps
  imports Security
begin

text \<open>
  Properties of traps (\<open>src/src/riscv_cpu.cpp\<close>): a return undoes a trap, and the interrupt
  that is taken is the one the architecture asks for.
\<close>

section \<open>Trap and return\<close>

lemma bit_flag: "bit (push_bit k 1 :: 'a::len word) n \<longleftrightarrow> n = k" if "k < LENGTH('a)"
  using that by (auto simp: bit_simps)

lemma flag_test: "x AND push_bit k 1 \<noteq> 0 \<longleftrightarrow> bit x k" if "k < LENGTH('a)" for x :: "'a::len word"
proof -
  have "bit (x AND push_bit k 1) n \<longleftrightarrow> n = k \<and> bit x k" for n using bit_flag[OF that] by (auto simp: bit_and_iff)
  then show ?thesis by (metis bit_0_eq bit_eqI bot_apply bot_bool_def)
qed

lemma mstatus_flags: "MSTATUS_SIE = push_bit 1 1" "MSTATUS_MIE = push_bit 3 1" "MSTATUS_SPIE = push_bit 5 1"
    "MSTATUS_MPIE = push_bit 7 1" "MSTATUS_SPP = push_bit 8 1" "MSTATUS_MPP = push_bit 11 (mask 2)"
  by (simp_all add: mask_eq_decr_exp)

lemma mstatus_bits:
  "bit MSTATUS_SIE n \<longleftrightarrow> n = 1" "bit MSTATUS_MIE n \<longleftrightarrow> n = 3" "bit MSTATUS_SPIE n \<longleftrightarrow> n = 5"
  "bit MSTATUS_MPIE n \<longleftrightarrow> n = 7" "bit MSTATUS_SPP n \<longleftrightarrow> n = 8" "bit MSTATUS_MPP n \<longleftrightarrow> n = 11 \<or> n = 12"
proof -
  show "bit MSTATUS_SIE n \<longleftrightarrow> n = 1" "bit MSTATUS_MIE n \<longleftrightarrow> n = 3" "bit MSTATUS_SPIE n \<longleftrightarrow> n = 5"
    "bit MSTATUS_MPIE n \<longleftrightarrow> n = 7" "bit MSTATUS_SPP n \<longleftrightarrow> n = 8"
    unfolding mstatus_flags by (rule bit_flag, simp)+
  show "bit MSTATUS_MPP n \<longleftrightarrow> n = 11 \<or> n = 12"
    unfolding mstatus_flags by (simp only: bit_push_bit_iff bit_mask_iff) auto
qed

lemma mstatus_tests: "x AND MSTATUS_SIE \<noteq> 0 \<longleftrightarrow> bit x 1" "x AND MSTATUS_MIE \<noteq> 0 \<longleftrightarrow> bit x 3"
  unfolding mstatus_flags by (rule flag_test, simp)+

lemmas mstatus_defs = MSTATUS_SIE_def MSTATUS_MIE_def MSTATUS_SPIE_def MSTATUS_MPIE_def MSTATUS_SPP_def MSTATUS_MPP_def

lemma priv_bits: "p \<le> (PRV_M :: u8) \<Longrightarrow> bit p n \<Longrightarrow> n < 2" "p \<le> (PRV_S :: u8) \<Longrightarrow> bit p n \<Longrightarrow> n = 0"
proof -
  show "n < 2" if "p \<le> (PRV_M :: u8)" "bit p n"
  proof -
    have "p = take_bit 2 p" using priv_cases[OF that(1)] by auto
    then show ?thesis using that(2) by (metis bit_take_bit_iff)
  qed
  show "n = 0" if "p \<le> (PRV_S :: u8)" "bit p n"
    using low_priv_cases[OF that(1)] that(2) by (auto simp: bit_1_iff)
qed

lemma mret_of_trap:
  assumes "\<not> trap_delegated cause s" "priv s \<le> PRV_M"
  shows "mstatus (handle_mret (raise_exception2 cause tval s)) = mstatus s AND NOT MSTATUS_MPP OR MSTATUS_MPIE"
    and "priv (handle_mret (raise_exception2 cause tval s)) = priv s"
proof -
  let ?m = "mstatus (raise_exception2 cause tval s)"
  note pb = priv_bits(1)[OF assms(2)]
  have b: "bit ?m n \<longleftrightarrow> n < 64 \<and> (if n = 3 then False else if n = 7 then bit (mstatus s) 3
      else if n = 11 \<or> n = 12 then bit (priv s) (n - 11) else bit (mstatus s) n)" for n
    unfolding trap_mstatus(2)[OF assms(1)]
    by (auto simp: bit_simps mstatus_bits mstatus_tests simp del: mstatus_defs dest: pb)
  show "mstatus (handle_mret (raise_exception2 cause tval s)) = mstatus s AND NOT MSTATUS_MPP OR MSTATUS_MPIE"
    by (rule bit_word_eqI)
      (auto simp: handle_mret_def Let_def set_priv_fields set_priv_def tlb_flush_all_def tlb_init_def
        bit_simps mstatus_bits b simp del: mstatus_defs)
  show "priv (handle_mret (raise_exception2 cause tval s)) = priv s"
    by (rule bit_word_eqI)
      (auto simp: handle_mret_def Let_def set_priv_def tlb_flush_all_def tlb_init_def
        bit_simps mstatus_bits b simp del: mstatus_defs dest: pb)
qed

lemma sret_of_trap:
  assumes "trap_delegated cause s"
  shows "mstatus (handle_sret (raise_exception2 cause tval s)) = mstatus s AND NOT MSTATUS_SPP OR MSTATUS_SPIE"
    and "priv (handle_sret (raise_exception2 cause tval s)) = priv s"
proof -
  let ?m = "mstatus (raise_exception2 cause tval s)"
  have "priv s \<le> PRV_S" using assms by (simp add: trap_delegated_def split: if_splits)
  note pb = priv_bits(2)[OF this]
  have b: "bit ?m n \<longleftrightarrow> n < 64 \<and> (if n = 1 then False else if n = 5 then bit (mstatus s) 1
      else if n = 8 then bit (priv s) 0 else bit (mstatus s) n)" for n
    unfolding trap_mstatus(1)[OF assms]
    by (auto simp: bit_simps mstatus_bits mstatus_tests simp del: mstatus_defs dest: pb)
  show "mstatus (handle_sret (raise_exception2 cause tval s)) = mstatus s AND NOT MSTATUS_SPP OR MSTATUS_SPIE"
    by (rule bit_word_eqI)
      (auto simp: handle_sret_def Let_def set_priv_def tlb_flush_all_def tlb_init_def
        bit_simps mstatus_bits b simp del: mstatus_defs)
  show "priv (handle_sret (raise_exception2 cause tval s)) = priv s"
    by (rule bit_word_eqI)
      (auto simp: handle_sret_def Let_def set_priv_def tlb_flush_all_def tlb_init_def
        bit_simps mstatus_bits b simp del: mstatus_defs dest: pb)
qed

lemma trap_epc:
  "\<not> trap_delegated cause s \<Longrightarrow> pc (handle_mret (raise_exception2 cause tval s)) = CANONICAL_S49 (pc s)"
  "trap_delegated cause s \<Longrightarrow> pc (handle_sret (raise_exception2 cause tval s)) = CANONICAL_S49 (pc s)"
  by (simp_all add: raise_exception2_def handle_mret_def handle_sret_def Let_def set_priv_def tlb_flush_all_def tlb_init_def)

text \<open>C6: a trap never lowers the privilege level, and the return instruction of the level
  it leads to undoes it: privilege level, interrupt enable and program counter are as
  before; only the saved interrupt enable is set and the saved level cleared.\<close>

theorem trap_return_roundtrip:
  assumes "priv s \<le> PRV_M"
  shows "let t = raise_exception2 cause tval s; r = (if priv t = PRV_M then handle_mret t else handle_sret t) in
    priv s \<le> priv t \<and> priv r = priv s \<and> pc r = CANONICAL_S49 (pc s) \<and> reg r = reg s \<and>
    mstatus r = (if priv t = PRV_M then mstatus s AND NOT MSTATUS_MPP OR MSTATUS_MPIE
                 else mstatus s AND NOT MSTATUS_SPP OR MSTATUS_SPIE)"
proof -
  have r: "reg (handle_mret t) = reg t" "reg (handle_sret t) = reg t" for t :: "'a hart"
    by (simp_all add: handle_mret_def handle_sret_def Let_def set_priv_def tlb_flush_all_def tlb_init_def)
  show ?thesis
  proof (cases "trap_delegated cause s")
    case True
    moreover have "priv s \<le> PRV_S" using True by (simp add: trap_delegated_def split: if_splits)
    ultimately show ?thesis
      by (simp add: Let_def raise_exception2_fields sret_of_trap trap_epc r del: mstatus_defs)
  next
    case False
    then show ?thesis using assms by (simp add: Let_def raise_exception2_fields mret_of_trap trap_epc r del: mstatus_defs)
  qed
qed

theorem trap_return_roundtrip_witness:
  "priv (handle_mret (raise_exception2 8 0 user_demo)) = PRV_U \<and> pc (handle_mret (raise_exception2 8 0 user_demo)) = 0x10000"
proof -
  have w: "priv user_demo \<le> PRV_M" "priv (raise_exception2 8 0 user_demo) = PRV_M" "priv user_demo = PRV_U"
    "CANONICAL_S49 (pc user_demo) = 0x10000" by code_simp+
  from trap_return_roundtrip[OF w(1), of 8 0] show ?thesis unfolding Let_def w by simp
qed

section \<open>Interrupts\<close>

text \<open>The architecture's conditions for taking interrupt \<open>i\<close>, and the order among the
  implemented ones.\<close>

definition irq_takeable :: "'a hart \<Rightarrow> nat \<Rightarrow> bool" where
  "irq_takeable s i \<longleftrightarrow> bit (mip s AND mie s) i \<and>
     (if bit (mideleg s) i then priv s = PRV_U \<or> priv s = PRV_S \<and> mstatus s AND MSTATUS_SIE \<noteq> 0
      else priv s \<noteq> PRV_M \<or> mstatus s AND MSTATUS_MIE \<noteq> 0)"

definition irq_order :: "nat list" where
  "irq_order = [18, 11, 3, 7, 9, 1, 5]"

lemma pending_mask_bit:
  assumes "priv s \<in> {PRV_U, PRV_S, PRV_M}"
  shows "bit (get_pending_irq_mask s) i \<longleftrightarrow> irq_takeable s i"
proof (cases "mip s AND mie s = 0")
  case True
  then show ?thesis by (simp add: get_pending_irq_mask_def irq_takeable_def)
next
  case False
  have "NOT d OR d = (-1 :: u32)" for d :: u32 by (simp add: bit.disj_cancel_left)
  with False assms show ?thesis
    by (cases "i < 32") (auto simp: get_pending_irq_mask_def irq_takeable_def Let_def bit_and_iff bit_not_iff
        simp del: mstatus_defs dest: bit_imp_le_length)
qed

lemma mie_mask_bits: "bit mie_mask i \<longleftrightarrow> i \<in> {1, 3, 5, 7, 9, 11, 18}"
proof -
  have e: "mie_mask = foldr (\<lambda>k m. push_bit k 1 OR m) [1, 3, 5, 7, 9, 11, 18] 0" by (simp add: mie_mask_def)
  have f: "bit (foldr (\<lambda>k m. push_bit k 1 OR m) ks 0 :: u32) i \<longleftrightarrow> i \<in> set ks" if "\<forall>k\<in>set ks. k < 32" for ks
    using that by (induction ks) (simp_all add: bit_or_iff bit_flag del: push_bit_of_1)
  have "bit mie_mask i \<longleftrightarrow> i \<in> set [1, 3, 5, 7, 9, 11, 18]" unfolding e by (rule f) simp
  then show ?thesis by simp
qed

lemma irq_msb_single: "(\<And>k. bit x k \<longleftrightarrow> k = j) \<Longrightarrow> 0 < j \<Longrightarrow> j \<le> n \<Longrightarrow> irq_msb_from x n = Some j"
  by (induction n) (auto simp: and_one_bit bit_drop_bit_eq le_Suc_eq)

lemma irq_num_find:
  assumes "\<And>i. bit m i \<Longrightarrow> i \<in> {1, 3, 5, 7, 9, 11, 18}"
  shows "get_irq_num m = find (bit m) irq_order"
proof -
  have hi: "m \<ge> push_bit 12 1 \<longleftrightarrow> bit m 18"
  proof -
    have "take_bit 12 m = m \<longleftrightarrow> \<not> bit m 18"
    proof
      assume "take_bit 12 m = m"
      then show "\<not> bit m 18" using bit_take_bit_iff[of 12 m 18] by auto
    next
      assume "\<not> bit m 18"
      then have "bit m i \<Longrightarrow> i < 12" for i using assms[of i] by auto
      then show "take_bit 12 m = m" by (intro bit_word_eqI) (auto simp: bit_take_bit_iff)
    qed
    moreover have "unat m mod 4096 = unat m \<longleftrightarrow> unat m < 4096" by (metis mod_less mod_less_divisor zero_less_numeral)
    then have "take_bit 12 m = m \<longleftrightarrow> unat m < 4096" by (simp add: word_unat_eq_iff unat_take_bit)
    ultimately show ?thesis by (simp add: word_le_nat_alt not_less flip: not_le)
  qed
  have t: "drop_bit k m AND 1 \<noteq> 0 \<longleftrightarrow> bit m k" for k by (simp add: and_one_bit bit_simps)
  show ?thesis
  proof (cases "bit m 18")
    case True
    have "irq_msb_from (m AND push_bit 12 0xFFFFFFFF) 31 = Some 18"
    proof -
      define x where "x = m AND push_bit 12 0xFFFFFFFF"
      have "push_bit 12 0xFFFFFFFF = (push_bit 12 (mask 32) :: u32)" by (simp add: mask_eq_decr_exp)
      then have "bit x k \<longleftrightarrow> bit m k \<and> 12 \<le> k" for k
        unfolding x_def using bit_imp_le_length[of m k]
        by (auto simp only: bit_and_iff bit_push_bit_iff bit_mask_iff possible_bit_word) simp_all
      then have k: "bit x k \<longleftrightarrow> k = 18" for k using True assms[of k] by (cases "k = 18") auto
      show ?thesis unfolding x_def[symmetric]
        by (rule irq_msb_single) (simp_all add: k)
    qed
    then show ?thesis unfolding get_irq_num_def get_irq_platspecific_def hi irq_order_def using True
      by (simp only: find.simps if_True)
  next
    case False
    have "\<not> bit m 10" "\<not> bit m 2" "\<not> bit m 6" "\<not> bit m 8" "\<not> bit m 0" "\<not> bit m 4"
      using assms[of 10] assms[of 2] assms[of 6] assms[of 8] assms[of 0] assms[of 4] by auto
    then show ?thesis unfolding get_irq_num_def hi t irq_priorities_def irq_order_def using False
      by (simp only: find.simps if_False)
  qed
qed

lemma raise_interrupt_find:
  assumes "hart_wf s" "priv s \<noteq> PRV_H"
  shows "raise_interrupt s = (case find (irq_takeable s) irq_order of
      None \<Rightarrow> (False, s) | Some i \<Rightarrow> (True, raise_exception (CAUSE_INTERRUPT OR of_nat i) s))"
proof -
  let ?m = "get_pending_irq_mask s"
  have "priv s \<in> {PRV_U, PRV_S, PRV_M}" using assms priv_cases[of "priv s"] by (auto simp: hart_wf_def)
  then have b: "bit ?m = irq_takeable s" using pending_mask_bit by blast
  have t: "i \<in> {1, 3, 5, 7, 9, 11, 18}" if "irq_takeable s i" for i
  proof -
    have "mie s AND NOT mie_mask = 0" using assms(1) by (simp add: hart_wf_def)
    then have "bit (mie s AND NOT mie_mask) i = bit (0 :: u32) i" by (rule arg_cong)
    then show ?thesis using that mie_mask_bits[of i] by (auto simp: irq_takeable_def bit_simps dest: bit_imp_le_length)
  qed
  have n: "get_irq_num ?m = find (irq_takeable s) irq_order"
    using irq_num_find[of ?m] t unfolding b by blast
  have z: "?m = 0 \<longleftrightarrow> find (irq_takeable s) irq_order = None"
  proof -
    have "?m = 0 \<longleftrightarrow> (\<forall>i. \<not> irq_takeable s i)" unfolding b[symmetric] by (auto intro: bit_word_eqI)
    also have "\<dots> \<longleftrightarrow> (\<forall>i\<in>set irq_order. \<not> irq_takeable s i)" using t unfolding irq_order_def by auto
    finally show ?thesis by (auto simp: find_None_iff)
  qed
  show ?thesis
    unfolding raise_interrupt_def Let_def n z by (auto simp: or.commute split: option.split)
qed



end
