(* ===== verification/DeviceProps.thy ===== *)
theory DeviceProps
  imports Traps
begin

text \<open>
  Properties of the devices (\<open>src/src/interrupts.cpp\<close>, \<open>src/src/uart.cpp\<close>,
  \<open>src/src/dw_apb_uart.cpp\<close>, \<open>src/src/term_io.cpp\<close>): the interrupt controller against a
  specification by two sets of sources, the delivery of an interrupt from the device to the
  trap handler, the timer comparison registers, the characters that go through the
  UARTs, and the interrupt line of the DesignWare UART.
\<close>

section \<open>Harts of a machine\<close>

text \<open>How the operations on a hart and on the other devices act on the state of each hart.\<close>

named_theorems cpu_simps

lemma cpu_state_map_env [cpu_simps]:
  "me_cur (f (env s)) = me_cur (env s) \<Longrightarrow> me_harts (f (env s)) = me_harts (env s) \<Longrightarrow>
   cpu_state h (map_env f s) = cpu_state h s"
  by (simp add: cpu_state_def map_env_def RISCVCPUState.defs)

lemma env_map_env [cpu_simps]: "env (map_env f s) = f (env s)"
  by (simp add: map_env_def)

lemma env_cpu_ops [cpu_simps]:
  "plic_pending_irq (env (cpu_set_mip i m s)) = plic_pending_irq (env s)"
  "plic_served_irq (env (cpu_set_mip i m s)) = plic_served_irq (env s)"
  "me_ncpus (env (cpu_set_mip i m s)) = me_ncpus (env s)" "me_cur (env (cpu_set_mip i m s)) = me_cur (env s)"
  "plic_pending_irq (env (cpu_reset_mip i m s)) = plic_pending_irq (env s)"
  "plic_served_irq (env (cpu_reset_mip i m s)) = plic_served_irq (env s)"
  "me_ncpus (env (cpu_reset_mip i m s)) = me_ncpus (env s)" "me_cur (env (cpu_reset_mip i m s)) = me_cur (env s)"
  by (simp_all add: cpu_set_mip_def cpu_reset_mip_def on_cpu_def map_env_def riscv_cpu_set_mip_def riscv_cpu_reset_mip_def Let_def)

lemma cpu_state_set_mip [cpu_simps]:
  "mip (cpu_state h (cpu_set_mip i m s)) = (if h = i then mip (cpu_state h s) OR m else mip (cpu_state h s))"
  "mip (cpu_state h (cpu_reset_mip i m s)) = (if h = i then mip (cpu_state h s) AND NOT m else mip (cpu_state h s))"
  "plic_enable_irq (cpu_state h (cpu_set_mip i m s)) = plic_enable_irq (cpu_state h s)"
  "plic_enable_irq (cpu_state h (cpu_reset_mip i m s)) = plic_enable_irq (cpu_state h s)"
  by (auto simp: cpu_set_mip_def cpu_reset_mip_def on_cpu_def map_env_def riscv_cpu_set_mip_def riscv_cpu_reset_mip_def
      cpu_state_def RISCVCPUState.defs Let_def)

section \<open>Platform interrupt controller\<close>

text \<open>The sources whose bit is set in a word.\<close>

definition srcs :: "u32 \<Rightarrow> nat set" where "srcs w = Set.filter (bit w) {..<32}"

lemma srcs_iff [simp]: "i \<in> srcs w \<longleftrightarrow> bit w i"
  using bit_imp_le_length[of w i] by (auto simp: srcs_def)

lemma finite_srcs [simp]: "finite (srcs w)" by (simp add: srcs_def)

lemma srcs_ops:
  "srcs (a AND NOT b) = srcs a - srcs b" "srcs (a OR b) = srcs a \<union> srcs b" "i < 32 \<Longrightarrow> srcs (2 ^ i) = {i}"
  using bit_imp_le_length[of a] by (auto simp: bit_simps bit_exp_iff)

lemma srcs_and: "srcs (a AND b) = srcs a \<inter> srcs b" by (auto simp: bit_simps)

lemma srcs_empty: "srcs w = {} \<longleftrightarrow> w = 0"
  by (metis bit_0_eq bit_word_eqI bot_apply empty_iff srcs_iff bot_bool_def subset_empty subsetI)

text \<open>The specification: the pending and the served sources.  A claim serves the lowest
  source that waits; the lines of a hart tell whether an enabled source waits.\<close>

type_synonym plic_spec = "nat set \<times> nat set"

definition plic_abs :: "machine \<Rightarrow> plic_spec" where
  "plic_abs s = (srcs (plic_pending_irq (env s)), srcs (plic_served_irq (env s)))"

definition spec_set_irq :: "nat \<Rightarrow> bool \<Rightarrow> plic_spec \<Rightarrow> plic_spec" where
  "spec_set_irq i level a = (if level then insert i (fst a) else fst a - {i}, snd a)"

definition spec_claim :: "plic_spec \<Rightarrow> nat \<times> plic_spec" where
  "spec_claim a = (let w = fst a - snd a in if w = {} then (0, a) else (Min w, fst a - {Min w}, insert (Min w) (snd a)))"

definition spec_complete :: "nat \<Rightarrow> plic_spec \<Rightarrow> plic_spec" where
  "spec_complete i a = (fst a, snd a - {i})"

definition spec_lines :: "plic_spec \<Rightarrow> (nat \<Rightarrow> u32) \<Rightarrow> u32" where
  "spec_lines a en =
     (if (fst a - snd a) \<inter> srcs (en 0) \<noteq> {} then MIP_SEIP else 0) OR (if (fst a - snd a) \<inter> srcs (en 1) \<noteq> {} then MIP_MEIP else 0)"

definition spec_mip :: "plic_spec \<Rightarrow> (nat \<Rightarrow> u32) \<Rightarrow> u32 \<Rightarrow> u32" where
  "spec_mip a en m = m AND NOT (MIP_SEIP OR MIP_MEIP) OR spec_lines a en"

lemma plic_update_mip_env [cpu_simps]:
  "plic_pending_irq (env (plic_update_mip i s)) = plic_pending_irq (env s)"
  "plic_served_irq (env (plic_update_mip i s)) = plic_served_irq (env s)"
  "me_ncpus (env (plic_update_mip i s)) = me_ncpus (env s)" "me_cur (env (plic_update_mip i s)) = me_cur (env s)"
  "plic_enable_irq (cpu_state h (plic_update_mip i s)) = plic_enable_irq (cpu_state h s)"
  by (simp_all add: plic_update_mip_def plic_update_ctx_def Let_def cpu_simps numeral_2_eq_2)

lemma plic_update_mip_abs [cpu_simps]: "plic_abs (plic_update_mip i s) = plic_abs s"
  by (simp add: plic_abs_def cpu_simps)

lemma plic_update_mip_lines [cpu_simps]:
  "mip (cpu_state h (plic_update_mip i s)) =
     (if h = i then spec_mip (plic_abs s) (plic_enable_irq (cpu_state h s)) (mip (cpu_state h s))
      else mip (cpu_state h s))"
proof -
  let ?m = "plic_pending_irq (env s) AND NOT (plic_served_irq (env s))"
  have e: "?m AND e \<noteq> 0 \<longleftrightarrow> (fst (plic_abs s) - snd (plic_abs s)) \<inter> srcs e \<noteq> {}" for e
    unfolding srcs_empty[symmetric] srcs_and[of ?m] srcs_ops(1) plic_abs_def by simp
  have p: "MIP_SEIP = push_bit 9 1" "MIP_MEIP = push_bit 11 1" by simp_all
  have d: "bit MIP_SEIP n \<Longrightarrow> bit MIP_MEIP n \<Longrightarrow> False" for n
    unfolding p bit_push_bit_iff bit_1_iff by arith
  show ?thesis
    unfolding plic_update_mip_def plic_update_ctx_def spec_mip_def spec_lines_def Let_def e[symmetric]
    by (simp add: cpu_simps numeral_2_eq_2 del: MIP_SEIP_def MIP_MEIP_def)
      (auto intro!: bit_word_eqI simp: bit_simps simp del: MIP_SEIP_def MIP_MEIP_def dest: d)
qed

lemma fold_lines:
  "mip (cpu_state h (fold plic_update_mip [0..<n] s)) =
     (if h < n then spec_mip (plic_abs s) (plic_enable_irq (cpu_state h s)) (mip (cpu_state h s))
      else mip (cpu_state h s)) \<and>
   plic_abs (fold plic_update_mip [0..<n] s) = plic_abs s \<and>
   plic_enable_irq (cpu_state h (fold plic_update_mip [0..<n] s)) = plic_enable_irq (cpu_state h s)"
  by (induction n) (auto simp: cpu_simps)

lemma plic_set_irq_lines:
  assumes "h < me_ncpus (env s)" "i < 32"
  shows "mip (cpu_state h (plic_set_irq i lv s)) =
      spec_mip (spec_set_irq i lv (plic_abs s)) (plic_enable_irq (cpu_state h s)) (mip (cpu_state h s))"
    and "plic_abs (plic_set_irq i lv s) = spec_set_irq i lv (plic_abs s)"
proof -
  let ?t = "map_env (plic_pending_irq_update (\<lambda>p. if lv then p OR push_bit i 1 else p AND NOT (push_bit i 1))) s"
  have a: "plic_abs ?t = spec_set_irq i lv (plic_abs s)"
    using assms(2) by (auto simp: plic_abs_def spec_set_irq_def cpu_simps srcs_ops)
  have n: "me_ncpus (env ?t) = me_ncpus (env s)" by (simp add: cpu_simps)
  have r: "plic_set_irq i lv s = fold plic_update_mip [0..<me_ncpus (env s)] ?t"
    using n by (simp only: plic_set_irq_def Let_def)
  show "mip (cpu_state h (plic_set_irq i lv s)) =
      spec_mip (spec_set_irq i lv (plic_abs s)) (plic_enable_irq (cpu_state h s)) (mip (cpu_state h s))"
    unfolding r using assms(1) fold_lines[of h "me_ncpus (env s)" ?t]
    by (simp add: a cpu_simps)
  show "plic_abs (plic_set_irq i lv s) = spec_set_irq i lv (plic_abs s)"
    unfolding r a[symmetric] using fold_lines[of h "me_ncpus (env s)" ?t] by blast
qed

lemma ctz32_Min: "m \<noteq> 0 \<Longrightarrow> ctz32 m = Min (srcs m)"
proof -
  assume "m \<noteq> 0"
  then obtain j where j: "bit m j" by (metis bit_word_eqI bit_0_eq bot_apply bot_bool_def)
  then have "first_bit m (ctz32 m)" using \<open>m \<noteq> 0\<close> ctz_from_first[of m j 0 32] bit_imp_le_length[of m j]
    by (simp add: ctz32_def)
  then show ?thesis
    by (intro Min_eqI[symmetric]) (auto simp: first_bit_def not_le[symmetric] intro: leI)
qed

lemma plic_claim_abs:
  assumes "h < me_ncpus (env s)"
  shows "(unat (fst (plic_claim h s)), plic_abs (snd (plic_claim h s))) = spec_claim (plic_abs s)"
proof -
  let ?m = "plic_pending_irq (env s) AND NOT (plic_served_irq (env s))"
  have w: "fst (plic_abs s) - snd (plic_abs s) = srcs ?m" by (simp add: plic_abs_def srcs_ops)
  show ?thesis
  proof (cases "?m = 0")
    case False
    let ?i = "ctz32 ?m"
    have i: "?i = Min (srcs ?m)" using ctz32_Min[OF False] .
    have "?i \<in> srcs ?m" unfolding i using False srcs_empty[of ?m] by (intro Min_in) auto
    then have l: "?i < 32" using bit_imp_le_length[of ?m ?i] by simp
    have u: "unat (of_nat ?i :: u32) = ?i" using l by (simp add: unat_of_nat take_bit_nat_eq_self)
    have "srcs ?m \<noteq> {}" using False srcs_empty by blast
    then show ?thesis using False assms l u
      unfolding spec_claim_def w Let_def i[symmetric]
      by (auto simp: plic_claim_def Let_def cpu_simps plic_abs_def srcs_ops)
  qed (simp add: plic_claim_def spec_claim_def w Let_def srcs_empty)
qed

text \<open>C8: the interrupt controller refines the sets of pending and served sources: raising a
  line, claiming through the register of any hart and completing through it are the
  operations of the specification.\<close>

theorem plic_refines_sets:
  assumes "h < me_ncpus (env s)" "me_ncpus (env s) \<le> MAX_CPUS" "i < 32"
  shows "plic_abs (plic_set_irq i level s) = spec_set_irq i level (plic_abs s) \<and>
    (let r = plic_read (PLIC_CONTEXT_BASE + of_nat h * PLIC_CONTEXT_STRIDE + 4) 2 s
     in (unat (fst r), plic_abs (snd r)) = spec_claim (plic_abs s)) \<and>
    plic_abs (plic_write (PLIC_CONTEXT_BASE + of_nat h * PLIC_CONTEXT_STRIDE + 4) (of_nat i) 2 s) = spec_complete i (plic_abs s)"
proof -
  let ?o = "PLIC_CONTEXT_BASE + of_nat h * PLIC_CONTEXT_STRIDE + 4"
  have "h \<in> {0, 1, 2, 3, 4, 5, 6, 7}" using assms(1,2) by auto
  then have "plic_read ?o 2 s = plic_claim h s \<and>
    plic_write ?o (of_nat i) 2 s = map_env (plic_served_irq_update (\<lambda>p. p AND NOT (push_bit (unat (of_nat i AND 31 :: u32)) 1))) s"
    by (elim insertE emptyE; simp add: plic_read_def plic_write_def)
  moreover have "unat (of_nat i AND 31 :: u32) = i"
  proof -
    have "(of_nat i AND 31 :: u32) = take_bit 5 (of_nat i)" by (simp add: take_bit_eq_mask mask_eq_decr_exp)
    also have "\<dots> = of_nat i" using assms(3) by (simp add: take_bit_of_nat take_bit_nat_eq_self)
    finally show ?thesis using assms(3) by (simp add: unat_of_nat take_bit_nat_eq_self)
  qed
  ultimately show ?thesis using assms plic_set_irq_lines(2)[OF assms(1,3)] plic_claim_abs[OF assms(1)]
    by (simp add: plic_abs_def spec_complete_def cpu_simps srcs_ops Let_def)
qed

theorem plic_refines_sets_witness:
  "plic_abs (plic_set_irq 3 True user_demo) = ({3}, {}) \<and>
   fst (plic_read 0x200004 2 (plic_set_irq 3 True user_demo)) = 3"
proof -
  let ?s = "plic_set_irq 3 True user_demo"
  have n: "0 < me_ncpus (env user_demo)" "me_ncpus (env user_demo) \<le> MAX_CPUS"
    "0 < me_ncpus (env ?s)" "me_ncpus (env ?s) \<le> MAX_CPUS" "(3::nat) < 32" by code_simp+
  have "plic_abs user_demo = ({}, {})" by code_simp
  then have a: "plic_abs ?s = ({3}, {})" using plic_refines_sets[OF n(1,2,5), of True] by (simp add: spec_set_irq_def)
  moreover have "unat (fst (plic_read 0x200004 2 ?s)) = 3"
    using plic_refines_sets[OF n(3-5)] a by (simp add: spec_claim_def Let_def)
  then have "fst (plic_read 0x200004 2 ?s) = 3" by (simp add: word_unat_eq_iff)
  ultimately show ?thesis by blast
qed

section \<open>From the device to the trap handler\<close>

lemma hart_cpu_ops [cpu_simps]:
  "pc (cpu_set_mip i m s) = pc s" "cosim (cpu_set_mip i m s) = cosim s"
  "pc (cpu_reset_mip i m s) = pc s" "cosim (cpu_reset_mip i m s) = cosim s"
  "pc (map_env f s) = pc s" "cosim (map_env f s) = cosim s"
  by (simp_all add: cpu_set_mip_def cpu_reset_mip_def on_cpu_def map_env_def riscv_cpu_set_mip_def riscv_cpu_reset_mip_def Let_def)

lemma plic_set_irq_hart:
  "pc (plic_set_irq i lv s) = pc s \<and> cosim (plic_set_irq i lv s) = cosim s \<and> me_cur (env (plic_set_irq i lv s)) = me_cur (env s)"
proof -
  have u: "pc (plic_update_mip j t) = pc t \<and> cosim (plic_update_mip j t) = cosim t \<and> me_cur (env (plic_update_mip j t)) = me_cur (env t)" for j t
    by (simp add: plic_update_mip_def plic_update_ctx_def Let_def cpu_simps numeral_2_eq_2)
  have "pc (fold plic_update_mip js t) = pc t \<and> cosim (fold plic_update_mip js t) = cosim t \<and>
    me_cur (env (fold plic_update_mip js t)) = me_cur (env t)" for js t
    by (induction js arbitrary: t) (simp_all add: u)
  then show ?thesis by (simp add: plic_set_irq_def Let_def cpu_simps)
qed

lemma trap_mepc: "\<not> trap_delegated cause s \<Longrightarrow> mepc (raise_exception2 cause tval s) = CANONICAL_S49 (pc s)"
  by (simp add: raise_exception2_def Let_def set_priv_def tlb_flush_all_def tlb_init_def)

lemma interrupt_ends_run:
  assumes "hart_wf s" "priv s \<noteq> PRV_H" "find (irq_takeable s) irq_order = Some i" "\<not> cosim s" "0 < n"
    and "\<not> trap_delegated (CAUSE_INTERRUPT OR of_nat i) s"
  shows "\<exists>s'. riscv_cpu_interp E n s = Some (0, s') \<and> priv s' = PRV_M \<and> mcause s' = CAUSE_INTERRUPT OR of_nat i \<and>
     mepc s' = CANONICAL_S49 (pc s) \<and> pc s' = trap_target (mtvec s) (CAUSE_INTERRUPT OR of_nat i)"
proof -
  let ?c = "CAUSE_INTERRUPT OR of_nat i"
  let ?s = "(clear_most_recently_written_vregs s)\<lparr>most_recently_written_reg := -1, most_recently_written_fp_reg := -1, info := ctf_nop\<rparr>"
  have f: "hart_wf ?s" "priv ?s = priv s" "irq_takeable ?s = irq_takeable s" "trap_delegated ?c ?s = trap_delegated ?c s"
    "pc ?s = pc s" "mtvec ?s = mtvec s"
    using assms(1) by (simp_all add: clear_most_recently_written_vregs_def hart_wf_def irq_takeable_def trap_delegated_def fun_eq_iff)
  have "irq_takeable s i" using assms(3) by (auto simp: find_Some_iff)
  then have "interrupts_open ?s" using assms(4)
    by (auto simp: interrupts_open_def irq_takeable_def clear_most_recently_written_vregs_def)
  moreover have "raise_interrupt ?s = (True, raise_exception ?c ?s)"
    using raise_interrupt_find[of ?s] f assms(2,3) by simp
  ultimately have "riscv_cpu_interp E n s = the_end (n - 1)
     \<lparr>il_addend = insn_counter ?s + of_nat n - 1, il_start = insn_counter s, il_code_ptr = 0, il_code_end = 0, il_to_pc = pc ?s,
       il_executed = 0\<rparr> (raise_exception ?c ?s)"
    using assms(5) by (simp add: riscv_cpu_interp_def Let_def done_interp_def)
  moreover have "insn_counter ?s + of_nat n - 1 - of_nat (n - 1) = insn_counter s"
    using assms(5) by (simp add: clear_most_recently_written_vregs_def of_nat_diff)
  ultimately show ?thesis using f assms(6)
    by (auto simp: the_end_def account_insns_def Let_def raise_exception_def raise_exception2_fields trap_pc trap_mepc)
qed

text \<open>C7: a source that a device raises and that the executing hart has enabled for machine mode is
  taken by the next run of the hart: the run ends at the entry of the trap handler with
  the cause and the interrupted program counter recorded.\<close>

theorem external_interrupt_delivered:
  assumes "hart_wf s" "priv s \<noteq> PRV_H" "me_cur (env s) < me_ncpus (env s)" "i < 32"
    and "bit (plic_enable_irq s 1) i" "\<not> bit (plic_served_irq (env s)) i"
    and "mie s AND MIP_MEIP \<noteq> 0" "priv s = PRV_M \<longrightarrow> mstatus s AND MSTATUS_MIE \<noteq> 0"
    and "mip s AND MIP_MCIP = 0" "\<not> cosim s" "0 < n"
  shows "\<exists>s'. riscv_cpu_interp machine_ops n (plic_set_irq i True s) = Some (0, s') \<and> priv s' = PRV_M \<and>
     mcause s' = CAUSE_INTERRUPT OR 11 \<and> mepc s' = CANONICAL_S49 (pc s) \<and> pc s' = trap_target (mtvec s) (CAUSE_INTERRUPT OR 11)"
proof -
  let ?s = "plic_set_irq i True s"
  note v = u_dev.plic_set_irq_view[of i True s]
  have f: "hart_wf ?s" "priv ?s = priv s" "mstatus ?s = mstatus s" "mideleg ?s = mideleg s" "mie ?s = mie s" "mtvec ?s = mtvec s"
    using hart_wf_view[OF v assms(1)] v by (simp_all add: view_defs)
  have c: "cpu_state (me_cur (env t)) t = RISCVCPUState.truncate t" for t by (simp add: cpu_state_def)
  have fl: "\<And>w k. k < 32 \<Longrightarrow> (w :: u32) AND push_bit k 1 \<noteq> 0 \<longleftrightarrow> bit w k" by (simp add: and_exp_eq_0_iff_not_bit)
  have m: "mip ?s = spec_mip (spec_set_irq i True (plic_abs s)) (plic_enable_irq s) (mip s)"
    using plic_set_irq_lines(1)[OF assms(3,4), of True] plic_set_irq_hart[of i True s] c[of s] c[of ?s]
    by (simp add: RISCVCPUState.defs)
  have e: "MIP_MEIP = push_bit 11 1" "MIP_MCIP = push_bit 18 1" "MIP_SEIP = push_bit 9 1" by simp_all
  have "i \<in> (fst (spec_set_irq i True (plic_abs s)) - snd (spec_set_irq i True (plic_abs s))) \<inter> srcs (plic_enable_irq s 1)"
    using assms(5,6) by (simp add: plic_abs_def spec_set_irq_def)
  then have l: "spec_lines (spec_set_irq i True (plic_abs s)) (plic_enable_irq s) \<in> {MIP_MEIP, MIP_SEIP OR MIP_MEIP}"
    unfolding spec_lines_def by auto
  have "\<not> bit (mip s) 18" using assms(9) fl[of 18 "mip s"] unfolding e by simp
  with l have b: "bit (mip ?s) 11" "\<not> bit (mip ?s) 18"
    unfolding m spec_mip_def e by (auto simp: bit_or_iff bit_and_iff bit_flag simp del: push_bit_of_1)
  have "bit (mideleg s AND NOT mideleg_mask) 11 = bit (0 :: u32) 11" using assms(1) by (simp add: hart_wf_def)
  moreover have "\<not> bit mideleg_mask 11" by (simp add: mideleg_mask_def)
  ultimately have d: "\<not> bit (mideleg s) 11" by (simp add: bit_and_iff bit_not_iff)
  have g: "bit (mie s) 11" using assms(7) fl[of 11 "mie s"] unfolding e by simp
  have "irq_takeable ?s 11" "\<not> irq_takeable ?s 18" using b d f g assms(8) by (simp_all add: irq_takeable_def bit_and_iff)
  then have "find (irq_takeable ?s) irq_order = Some 11" by (simp add: irq_order_def)
  moreover have "\<not> trap_delegated (CAUSE_INTERRUPT OR 11) ?s"
    using d f by (simp add: trap_delegated_def and_one_bit bit_simps)
  ultimately show ?thesis using interrupt_ends_run[OF f(1), of 11 n machine_ops] assms(2,10,11) f plic_set_irq_hart[of i True s] by simp
qed

theorem external_interrupt_delivered_witness:
  "\<exists>s'. riscv_cpu_interp machine_ops 5 (plic_set_irq 3 True (user_demo\<lparr>mie := 0x800, plic_enable_irq := (\<lambda>_. 8), mtvec := 0x1001\<rparr>)) = Some (0, s') \<and>
     pc s' = 0x102c"
proof -
  let ?s = "user_demo\<lparr>mie := 0x800, plic_enable_irq := (\<lambda>_. 8), mtvec := 0x1001\<rparr>"
  have "hart_wf ?s" "priv ?s \<noteq> PRV_H" "me_cur (env ?s) < me_ncpus (env ?s)" "bit (plic_enable_irq ?s 1) 3" "\<not> bit (plic_served_irq (env ?s)) 3"
    "mie ?s AND MIP_MEIP \<noteq> 0" "priv ?s = PRV_M \<longrightarrow> mstatus ?s AND MSTATUS_MIE \<noteq> 0" "mip ?s AND MIP_MCIP = 0" "\<not> cosim ?s"
    "trap_target (mtvec ?s) (CAUSE_INTERRUPT OR 11) = 0x102c"
    by code_simp+
  with external_interrupt_delivered[of ?s 3 5] show ?thesis by auto
qed

section \<open>Timer comparison\<close>

lemma cpu_state_timecmp [cpu_simps]:
  "timecmp (cpu_state h (cpu_set_timecmp i v s)) = (if h = i then v else timecmp (cpu_state h s))"
  "timecmp (cpu_state h (cpu_reset_mip i m s)) = timecmp (cpu_state h s)"
  "mip (cpu_state h (cpu_set_timecmp i v s)) = mip (cpu_state h s)"
  "me_ncpus (env (cpu_set_timecmp i v s)) = me_ncpus (env s)"
  by (auto simp: cpu_set_timecmp_def cpu_reset_mip_def on_cpu_def map_env_def riscv_cpu_reset_mip_def
      cpu_state_def RISCVCPUState.defs Let_def)

lemma clint_timecmp_access:
  assumes "h < me_ncpus (env s)" "me_ncpus (env s) \<le> MAX_CPUS"
  shows "clint_write (0x4000 + 8 * of_nat h) v 2 s = cpu_reset_mip h MIP_MTIP (cpu_set_timecmp h (zx32 v) s)"
    and "clint_write (0x4004 + 8 * of_nat h) v 2 s = cpu_reset_mip h MIP_MTIP
      (cpu_set_timecmp h (timecmp (cpu_state h s) AND 0xffffffff OR push_bit 32 (zx32 v)) s)"
    and "clint_read (0x4000 + 8 * of_nat h) 2 s = lo32 (timecmp (cpu_state h s))"
    and "clint_read (0x4004 + 8 * of_nat h) 2 s = lo32 (drop_bit 32 (timecmp (cpu_state h s)))"
proof -
  have m: "x AND 0xffffffff = x" for x :: u32
  proof -
    have "(0xffffffff :: u32) = -1" by simp
    then show ?thesis by (simp only: and.right_neutral)
  qed
  have "h \<in> {0, 1, 2, 3, 4, 5, 6, 7}" using assms by auto
  then show "clint_write (0x4000 + 8 * of_nat h) v 2 s = cpu_reset_mip h MIP_MTIP (cpu_set_timecmp h (zx32 v) s)"
    "clint_write (0x4004 + 8 * of_nat h) v 2 s = cpu_reset_mip h MIP_MTIP
      (cpu_set_timecmp h (timecmp (cpu_state h s) AND 0xffffffff OR push_bit 32 (zx32 v)) s)"
    "clint_read (0x4000 + 8 * of_nat h) 2 s = lo32 (timecmp (cpu_state h s))"
    "clint_read (0x4004 + 8 * of_nat h) 2 s = lo32 (drop_bit 32 (timecmp (cpu_state h s)))"
    using assms(1)
    by (elim insertE emptyE; simp add: clint_write_def clint_read_def clint_size_mask_def m)+
qed

lemma word_halves: "zx32 (lo32 v) AND 0xffffffff OR push_bit 32 (zx32 (lo32 (drop_bit 32 v))) = (v :: u64)"
proof -
  have m: "(0xffffffff :: u64) = mask 32" by (simp add: mask_eq_decr_exp)
  show ?thesis unfolding m by (rule bit_word_eqI) (auto simp: bit_simps)
qed

text \<open>C9: a comparison value written in two halves, the low one first, is the one that both
  the hart and the registers hold afterwards; the timer interrupt of the hart is cleared and the
  other harts are left alone.\<close>

theorem mtimecmp_roundtrip:
  assumes "h < me_ncpus (env s)" "me_ncpus (env s) \<le> MAX_CPUS"
    and "s' = clint_write (0x4004 + 8 * of_nat h) (lo32 (drop_bit 32 v)) 2 (clint_write (0x4000 + 8 * of_nat h) (lo32 v) 2 s)"
  shows "timecmp (cpu_state h s') = v \<and> mip (cpu_state h s') AND MIP_MTIP = 0 \<and>
    clint_read (0x4000 + 8 * of_nat h) 2 s' = lo32 v \<and> clint_read (0x4004 + 8 * of_nat h) 2 s' = lo32 (drop_bit 32 v) \<and>
    (\<forall>h'. h' \<noteq> h \<longrightarrow> timecmp (cpu_state h' s') = timecmp (cpu_state h' s) \<and> mip (cpu_state h' s') = mip (cpu_state h' s))"
proof -
  let ?s1 = "cpu_reset_mip h MIP_MTIP (cpu_set_timecmp h (zx32 (lo32 v)) s)"
  have n: "h < me_ncpus (env ?s1)" "me_ncpus (env ?s1) \<le> MAX_CPUS" using assms(1,2) by (simp_all add: cpu_simps)
  have s': "s' = cpu_reset_mip h MIP_MTIP (cpu_set_timecmp h v ?s1)"
    unfolding assms(3) clint_timecmp_access(1)[OF assms(1,2)] clint_timecmp_access(2)[OF n]
    by (simp add: cpu_simps word_halves)
  have "h < me_ncpus (env s')" "me_ncpus (env s') \<le> MAX_CPUS" using n by (simp_all add: s' cpu_simps)
  from clint_timecmp_access(3,4)[OF this] show ?thesis by (simp add: s' cpu_simps bit.conj_cancel_left and.assoc)
qed

text \<open>C12: written in the other order, the high half is lost.\<close>

theorem mtimecmp_high_first_lost:
  assumes "h < me_ncpus (env s)" "me_ncpus (env s) \<le> MAX_CPUS"
    and "s' = clint_write (0x4000 + 8 * of_nat h) (lo32 v) 2 (clint_write (0x4004 + 8 * of_nat h) (lo32 (drop_bit 32 v)) 2 s)"
  shows "timecmp (cpu_state h s') = v AND 0xffffffff"
proof -
  let ?s1 = "clint_write (0x4004 + 8 * of_nat h) (lo32 (drop_bit 32 v)) 2 s"
  have n: "h < me_ncpus (env ?s1)" "me_ncpus (env ?s1) \<le> MAX_CPUS"
    using assms(1,2) by (simp_all add: clint_timecmp_access(2)[OF assms(1,2)] cpu_simps)
  have "zx32 (lo32 v) = v AND mask 32" by (rule bit_word_eqI) (auto simp: bit_simps)
  then show ?thesis unfolding assms(3) clint_timecmp_access(1)[OF n] by (simp add: cpu_simps mask_eq_decr_exp)
qed

theorem mtimecmp_roundtrip_witness:
  "timecmp (cpu_state 0 (clint_write 0x4004 0x12 2 (clint_write 0x4000 0x89abcdef 2 user_demo))) = 0x1289abcdef"
proof -
  have n: "0 < me_ncpus (env user_demo)" "me_ncpus (env user_demo) \<le> MAX_CPUS" by code_simp+
  have "lo32 0x1289abcdef = 0x89abcdef" by simp
  note mtimecmp_roundtrip[OF n, of _ "0x1289abcdef", unfolded this]
  then show ?thesis by simp
qed

theorem mtimecmp_high_first_lost_witness:
  "timecmp (cpu_state 0 (clint_write 0x4000 0x89abcdef 2 (clint_write 0x4004 0x12 2 user_demo))) = 0x89abcdef"
proof -
  have n: "0 < me_ncpus (env user_demo)" "me_ncpus (env user_demo) \<le> MAX_CPUS" by code_simp+
  have "lo32 0x1289abcdef = 0x89abcdef" by simp
  note mtimecmp_high_first_lost[OF n, of _ "0x1289abcdef", unfolded this]
  then show ?thesis by simp
qed

section \<open>Characters\<close>

text \<open>The characters that reach the guest: the escape character and the one behind it are
  taken out, except that the second may stand for itself.\<close>

fun delivered :: "bool \<Rightarrow> u8 list \<Rightarrow> u8 list" where
  "delivered esc [] = []"
| "delivered False (c # cs) = (if c = 2 then delivered True cs else c # delivered False cs)"
| "delivered True (c # cs) = (if c = 1 then 1 # delivered False cs else delivered False cs)"

text \<open>Reading the receive register \<open>n\<close> times.\<close>

primrec poll_uart :: "nat \<Rightarrow> machine \<Rightarrow> u32 list \<times> machine" where
  "poll_uart 0 s = ([], s)"
| "poll_uart (Suc n) s =
     (let (v, s) = uart_read SIFIVE_UART_RXFIFO s; (ws, s) = poll_uart n s in (v # ws, s))"

lemma con_exited_mono: "con_exited (me_console (env s)) \<Longrightarrow> con_exited (me_console (env (snd (poll_uart n s))))"
proof (induction n arbitrary: s)
  case (Suc n)
  have "con_exited (me_console (env (snd (uart_read SIFIVE_UART_RXFIFO s))))"
    using Suc.prems by (auto simp: uart_read_def con_get_def console_read1_def env_map_env Let_def split: list.split)
  with Suc.IH show ?case by (simp add: split_beta)
qed simp

lemma poll_uart_delivers:
  assumes "\<not> con_exited (me_console (env (snd (poll_uart n s))))" "length (con_stdin (me_console (env s))) \<le> n"
  shows "filter (\<lambda>v. v \<noteq> 0x80000000) (fst (poll_uart n s))
     = map ucast (delivered (console_esc_state (me_console (env s))) (con_stdin (me_console (env s))))"
  using assms
proof (induction n arbitrary: s)
  case (Suc n)
  let ?c = "me_console (env s)"
  have ne: "(ucast (b :: u8) :: u32) \<noteq> 0x80000000" for b
  proof -
    have "\<not> bit (ucast b :: u32) 31" using bit_imp_le_length[of b 31] by (auto simp: bit_ucast_iff)
    moreover have "bit (0x80000000 :: u32) 31" by simp
    ultimately show ?thesis by metis
  qed
  show ?case
  proof (cases "con_stdin ?c")
    case Nil
    then have "uart_read SIFIVE_UART_RXFIFO s = (0x80000000, map_env (me_console_update (\<lambda>_. ?c)) s)"
      by (simp add: uart_read_def con_get_def console_read1_def)
    with Nil Suc show ?thesis by (simp add: env_map_env split_beta)
  next
    case (Cons ch rest)
    obtain v s1 where u: "uart_read SIFIVE_UART_RXFIFO s = (v, s1)" by fastforce
    have x: "\<not> con_exited (me_console (env s1))"
      using Suc.prems(1) con_exited_mono[of s1 n] u by (auto simp: split_beta)
    have "length (con_stdin (me_console (env s1))) \<le> n" "\<not> con_exited (me_console (env (snd (poll_uart n s1))))"
      using Suc.prems Cons u by (auto simp: uart_read_def con_get_def console_read1_def env_map_env split_beta Let_def split: if_splits)
    note Suc.IH[OF this(2,1)]
    then show ?thesis using x u Cons ne
      by (cases "console_esc_state ?c")
        (auto simp: uart_read_def con_get_def console_read1_def env_map_env split_beta Let_def split: if_splits)
  qed
qed simp

lemma uart_transmits:
  "con_stdout (me_console (env (fold (\<lambda>b. uart_write SIFIVE_UART_TXFIFO b) ws s)))
     = con_stdout (me_console (env s)) @ map ucast ws"
  by (induction ws arbitrary: s) (simp_all add: uart_write_def con_put_def console_write_def env_map_env)



section \<open>The interrupt line of the DesignWare UART\<close>

lemma me_dw_cpu_ops:
  "me_dw (env (cpu_set_mip i m s)) = me_dw (env s)" "me_dw (env (cpu_reset_mip i m s)) = me_dw (env s)"
  by (simp_all add: cpu_set_mip_def cpu_reset_mip_def on_cpu_def map_env_def riscv_cpu_set_mip_def riscv_cpu_reset_mip_def Let_def)

lemma me_dw_plic_set_irq [simp]: "me_dw (env (plic_set_irq i lv s)) = me_dw (env s)"
proof -
  have u: "me_dw (env (plic_update_mip j t)) = me_dw (env t)" for j t
    by (simp add: plic_update_mip_def plic_update_ctx_def Let_def me_dw_cpu_ops numeral_2_eq_2)
  have "me_dw (env (fold plic_update_mip js t)) = me_dw (env t)" for js t
    by (induction js arbitrary: t) (simp_all add: u)
  then show ?thesis by (simp add: plic_set_irq_def Let_def env_map_env)
qed

lemma me_dw_simps [simp]:
  "me_dw (env (dw_upd d f s)) = (me_dw (env s))(d := f (me_dw (env s) d))"
  "me_dw (env (con_put b s)) = me_dw (env s)" "me_dw (env (snd (snd (con_get b s)))) = me_dw (env s)"
  "me_dw (env (mabort s)) = me_dw (env s)"
  by (simp_all add: dw_upd_def con_put_def con_get_def mabort_def env_map_env split_beta Let_def)

text \<open>The identification register shows the highest condition that is enabled, and the line is
  raised exactly if there is one.\<close>

definition irq_line_ok :: "DW_apb_uart_state \<Rightarrow> bool" where
  "irq_line_ok u \<longleftrightarrow> dw_isr u AND 15 = isr_nibble u \<and> last_irq_level u = cbool (dw_isr u AND 1 = 0)"

lemma nibble_split: "((x AND 0xF0) + isr_nibble u) AND 15 = isr_nibble u"
proof -
  have n: "isr_nibble u = take_bit 4 (isr_nibble u)" by (simp add: isr_nibble_def)
  have "(x AND 0xF0) AND isr_nibble u = 0"
    by (subst n) (simp add: take_bit_eq_mask mask_eq_decr_exp and.assoc and.left_commute)
  then have "(x AND 0xF0) + isr_nibble u = (x AND 0xF0) OR isr_nibble u" by (rule disjunctive_add_eq_or)
  then show ?thesis using n by (simp add: take_bit_eq_mask mask_eq_decr_exp bit.conj_disj_distrib2 and.assoc)
qed

lemma isr_nibble_isr [simp]: "isr_nibble (u\<lparr>dw_isr := x\<rparr>) = isr_nibble u" "isr_nibble (u\<lparr>last_irq_level := y\<rparr>) = isr_nibble u"
  by (simp_all add: isr_nibble_def)

lemma update_isr_line: "irq_line_ok (me_dw (env (update_isr d s)) d)"
  by (simp add: update_isr_def Let_def irq_line_ok_def nibble_split)

lemma update_isr_other: "d' \<noteq> d \<Longrightarrow> me_dw (env (update_isr d s)) d' = me_dw (env s) d'"
  by (simp add: update_isr_def Let_def)

lemma irq_line_ok_upd [simp]:
  "irq_line_ok (u\<lparr>dw_lcr := x\<rparr>) = irq_line_ok u" "irq_line_ok (u\<lparr>dw_mcr := x\<rparr>) = irq_line_ok u"
  "irq_line_ok (u\<lparr>dw_spr := x\<rparr>) = irq_line_ok u" "irq_line_ok (div_latch_update f u) = irq_line_ok u"
  by (simp_all add: irq_line_ok_def isr_nibble_def)

lemma update_isr_upd_line:
  "irq_line_ok (me_dw (env s) d') \<Longrightarrow> irq_line_ok (me_dw (env (update_isr d (dw_upd d f s))) d')"
  using update_isr_line[of d] update_isr_other[of d' d "dw_upd d f s"] by (cases "d' = d") simp_all

lemma dw_poll_line: "irq_line_ok (me_dw (env s) d') \<Longrightarrow> irq_line_ok (me_dw (env (dw_apb_uart_poll d s)) d')"
  by (simp add: dw_apb_uart_poll_def split_beta Let_def update_isr_upd_line)

lemma dw_write_line: "irq_line_ok (me_dw (env s) d') \<Longrightarrow> irq_line_ok (me_dw (env (dw_apb_uart_write d off v s)) d')"
  by (auto simp: dw_apb_uart_write_def write_thr_def write_ier_def Let_def dw_poll_line update_isr_upd_line)

lemma read_lsr_line: "irq_line_ok (me_dw (env s) d') \<Longrightarrow> irq_line_ok (me_dw (env (snd (read_lsr d s))) d')"
  by (cases "d' = d") (simp_all add: read_lsr_def Let_def update_isr_line update_isr_other dw_poll_line)

lemma dw_read_line: "irq_line_ok (me_dw (env s) d') \<Longrightarrow> irq_line_ok (me_dw (env (snd (dw_apb_uart_read d off s))) d')"
  by (auto simp: dw_apb_uart_read_def read_rhr_def read_msr_def split_beta Let_def dw_poll_line update_isr_upd_line read_lsr_line)

lemma me_dw_other_devices:
  "me_dw (env (clint_write off v k s)) = me_dw (env s)" "me_dw (env (plic_write off v k s)) = me_dw (env s)"
  "me_dw (env (snd (plic_read off k s))) = me_dw (env s)" "me_dw (env (uart_write off v s)) = me_dw (env s)"
  "me_dw (env (snd (uart_read off s))) = me_dw (env s)"
proof -
  have u: "me_dw (env (plic_update_mip j t)) = me_dw (env t)" for j t
    by (simp add: plic_update_mip_def plic_update_ctx_def Let_def me_dw_cpu_ops numeral_2_eq_2)
  have c: "me_dw (env (cpu_set_timecmp i x t)) = me_dw (env t)" "me_dw (env (cpu_set_mcycle i x t)) = me_dw (env t)"
    "me_dw (env (cpu_set_plic_enable i cx w t)) = me_dw (env t)" for i x t cx w
    by (simp_all add: cpu_set_timecmp_def cpu_set_mcycle_def cpu_set_plic_enable_def on_cpu_def map_env_def)
  show "me_dw (env (clint_write off v k s)) = me_dw (env s)" "me_dw (env (plic_write off v k s)) = me_dw (env s)"
    "me_dw (env (snd (plic_read off k s))) = me_dw (env s)" "me_dw (env (uart_write off v s)) = me_dw (env s)"
    "me_dw (env (snd (uart_read off s))) = me_dw (env s)"
    by (simp_all add: clint_write_def plic_write_def plic_read_def plic_claim_def uart_write_def uart_read_def Let_def
        split_beta me_dw_cpu_ops env_map_env u c)
qed

text \<open>Any sequence of accesses to the devices of the board.\<close>

inductive device_steps :: "machine \<Rightarrow> machine \<Rightarrow> bool" where
  start: "device_steps s s"
| rd: "device_steps s t \<Longrightarrow> device_steps s (snd (device_read opq off k t))"
| wr: "device_steps s t \<Longrightarrow> device_steps s (device_write opq off v k t)"



end
