(* ===== verification/HostMemory.thy ===== *)
theory HostMemory
  imports Security
begin

text \<open>
  The memory of the emulator: whatever code the guest runs, the only bytes of host
  memory that change are those of the blocks registered as RAM.  The fast paths of
  \<open>src/src/riscv_cpu.cpp\<close> write through pointers kept in the translation buffers; the
  invariant is that every entry of these covers a page of RAM.
\<close>

section \<open>Translation keeps the page offset\<close>

lemma pt_walk_offset: "pt_walk pr access vaddr j pte_addr s = (PAddr paddr, s') \<Longrightarrow> paddr AND PG_MASK = vaddr AND PG_MASK"
proof (induction j arbitrary: pte_addr s)
  case 0
  then show ?case by simp
next
  case (Suc j)
  have e: "push_bit n 1 - 1 = (mask n :: u64)" "(0xfff :: u64) = mask 12" for n by (simp_all add: mask_eq_decr_exp)
  have "(p AND NOT (push_bit (12 + 9 * j) 1 - 1) OR vaddr AND (push_bit (12 + 9 * j) 1 - 1)) AND 0xfff = vaddr AND 0xfff" for p
    unfolding e by (rule bit_word_eqI) (auto simp: bit_simps)
  then show ?case using Suc.prems Suc.IH
    by (auto simp: Let_def simp del: push_bit_of_1 split: option.splits if_splits prod.splits)
qed

lemma get_phys_addr_offset:
  "riscv_cpu_get_phys_addr vaddr access s = (PAddr paddr, s') \<Longrightarrow> paddr AND PG_MASK = vaddr AND PG_MASK"
  by (auto simp: riscv_cpu_get_phys_addr_def Let_def dest: pt_walk_offset simp del: pt_walk.simps split: if_splits)

section \<open>Host memory\<close>

text \<open>A buffer copied to an address.\<close>

fun hput :: "u8 list \<Rightarrow> hmem \<Rightarrow> u64 \<Rightarrow> hmem" where
  "hput [] m a = m"
| "hput (b # bs) m a = hput bs (m(a := b)) (a + 1)"

lemma less_of_nat: "n < 2 ^ 64 \<Longrightarrow> (d :: u64) < of_nat n \<longleftrightarrow> unat d < n"
  by (simp add: word_less_nat_alt unat_of_nat take_bit_nat_eq_self)

lemma hput_outside: "length bs < 2 ^ 64 \<Longrightarrow> \<not> q - a < of_nat (length bs) \<Longrightarrow> hput bs m a q = m q"
proof (induction bs arbitrary: m a)
  case (Cons x bs)
  then have u: "\<not> unat (q - a) < Suc (length bs)" using less_of_nat[of "Suc (length bs)" "q - a"] by simp
  then have "q \<noteq> a" by auto
  then have "unat (q - a - 1) = unat (q - a) - 1" by (simp add: unat_minus_one)
  then have "\<not> q - (a + 1) < of_nat (length bs)" using u Cons.prems(1) by (simp add: less_of_nat diff_diff_add[symmetric])
  with Cons \<open>q \<noteq> a\<close> show ?case by simp
qed simp

lemma hput_append: "hput (xs @ ys) m a = hput ys (hput xs m a) (a + of_nat (length xs))"
  by (induction xs arbitrary: m a) (simp_all add: add.assoc)

text \<open>Ranges as the board registers them: page aligned, not wrapping around, without a
  dirty page bitmap.\<close>

definition ram_wf :: "PhysMemoryRange list \<Rightarrow> bool" where
  "ram_wf rs \<longleftrightarrow> (\<forall>pr\<in>set rs. pr_is_ram pr \<longrightarrow>
     pr_addr pr AND PG_MASK = 0 \<and> pr_size pr AND PG_MASK = 0 \<and> pr_dirty_bits pr = 0)"

definition in_ram :: "PhysMemoryRange list \<Rightarrow> u64 \<Rightarrow> bool" where
  "in_ram rs p \<longleftrightarrow> (\<exists>pr\<in>set rs. pr_is_ram pr \<and> p - pr_phys_mem pr < pr_size pr)"

definition page_ok :: "PhysMemoryRange list \<Rightarrow> TLBEntry \<Rightarrow> bool" where
  "page_ok rs e \<longleftrightarrow> te_vaddr e = -1 \<or> (\<forall>x. x \<le> PG_MASK \<longrightarrow> in_ram rs (te_mem_addend e + te_vaddr e + x))"

definition host_safe :: "'d sys \<Rightarrow> bool" where
  "host_safe s \<longleftrightarrow> ram_wf (mem_map s) \<and> (\<forall>i<TLB_SIZE. page_ok (mem_map s) (tlb_read s i) \<and>
     page_ok (mem_map s) (tlb_write s i) \<and> page_ok (mem_map s) (tlb_code s i))"

lemma range_page:
  assumes "ram_wf rs" "get_phys_mem_range rs paddr = Some pr" "pr_is_ram pr" "x \<le> PG_MASK"
  shows "in_ram rs (pr_phys_mem pr + (paddr - pr_addr pr) - (paddr AND PG_MASK) + x)"
proof -
  have pr: "pr \<in> set rs" "range_has pr paddr" using get_phys_mem_range_has[OF assms(2)] by simp_all
  have al: "unat (pr_addr pr) mod 4096 = 0" "unat (pr_size pr) mod 4096 = 0"
    using assms(1,3) pr(1) unat_take_bit[of 12 "pr_addr pr"] unat_take_bit[of 12 "pr_size pr"]
    by (auto simp: ram_wf_def and_low_mask[symmetric])
  define off where "off = paddr - pr_addr pr"
  have off: "unat off = unat paddr - unat (pr_addr pr)" "unat (pr_addr pr) \<le> unat paddr"
    using pr(2) by (auto simp: off_def range_has_def unat_sub word_le_nat_alt)
  have lt: "unat off < unat (pr_size pr)"
    using pr(2) off unsigned_less[of "pr_size pr", where ?'a = nat]
    by (auto simp: range_has_def word_less_nat_alt word_le_nat_alt unat_plus_if' split: if_splits)
  have low: "unat (paddr AND PG_MASK) = unat off mod 4096"
    using al(1) off unat_take_bit[of 12 paddr] by (simp add: and_low_mask) (metis add_diff_cancel_left' le_Suc_ex mod_add_left_eq add_0)
  have sum: "unat off - unat off mod 4096 + unat x < unat (pr_size pr)"
  proof -
    obtain q where q: "unat (pr_size pr) = 4096 * q" using al(2) by (metis dvd_def mod_0_imp_dvd)
    have "unat off - unat off mod 4096 = 4096 * (unat off div 4096)" by (simp add: minus_mod_eq_mult_div)
    moreover have "unat off div 4096 < q" using lt q by (simp add: div_less_iff_less_mult mult.commute)
    moreover have "unat x \<le> 4095" using assms(4) by (simp add: word_le_nat_alt)
    ultimately show ?thesis using q by linarith
  qed
  have "unat (off - (paddr AND PG_MASK)) = unat off - unat off mod 4096"
    using low by (subst unat_sub) (simp_all add: word_le_nat_alt del: PG_MASK_def)
  then have "unat (off - (paddr AND PG_MASK) + x) = unat off - unat off mod 4096 + unat x"
    using sum unsigned_less[of "pr_size pr", where ?'a = nat] by (subst unat_add_nowrap) simp_all
  then have "off - (paddr AND PG_MASK) + x < pr_size pr" using sum by (simp add: word_less_nat_alt del: PG_MASK_def)
  then have "pr_phys_mem pr + off - (paddr AND PG_MASK) + x - pr_phys_mem pr < pr_size pr"
    by (simp add: algebra_simps del: PG_MASK_def)
  then show ?thesis using pr(1) assms(3) unfolding in_ram_def off_def[symmetric] by blast
qed

lemma split_mask: "(a AND NOT m) + (a AND m) = a" for a m :: "'a::len word"
  by (subst disjunctive_add_eq_or) (auto simp: bit_eq_iff bit_simps)

lemma new_entry_ok:
  assumes "ram_wf rs" "get_phys_mem_range rs paddr = Some pr" "pr_is_ram pr" "paddr AND PG_MASK = addr AND PG_MASK"
  shows "page_ok rs \<lparr>te_vaddr = addr AND NOT PG_MASK,
    te_mem_addend = pr_phys_mem pr + (paddr - pr_addr pr) - addr\<rparr>"
proof -
  have e: "p - addr + (addr AND NOT PG_MASK) + x = p - (paddr AND PG_MASK) + x" for p x
    using split_mask[of addr PG_MASK] assms(4) by (simp add: algebra_simps del: PG_MASK_def)
  show ?thesis unfolding page_ok_def TLBEntry.select_convs e using range_page[OF assms(1-3)] by blast
qed

lemma aligned_offset:
  fixes addr :: u64
  assumes "addr AND (of_nat (2 ^ k) - 1) = 0" "k \<le> 3" "j < 2 ^ k"
  shows "(addr AND PG_MASK) + of_nat j \<le> PG_MASK"
proof -
  have m: "(of_nat (2 ^ k) - 1 :: u64) = mask k" by (simp add: mask_eq_exp_minus_1)
  have "unat addr mod 2 ^ k = 0" using assms(1) unat_take_bit[of k addr] unfolding m by (simp add: take_bit_eq_mask)
  moreover have "unat (addr AND PG_MASK) = unat addr mod 4096" using unat_take_bit[of 12 addr] by (simp add: and_low_mask)
  moreover have "(2 :: nat) ^ k dvd 4096"
    using assms(2) le_imp_power_dvd[of k 12 "2 :: nat"] by simp
  ultimately have d: "unat (addr AND PG_MASK) mod 2 ^ k = 0" by (simp add: mod_mod_cancel)
  have "unat (addr AND PG_MASK) < 4096" using \<open>unat (addr AND PG_MASK) = unat addr mod 4096\<close> by simp
  then have "unat (addr AND PG_MASK) + j \<le> 4095"
  proof -
    obtain q r where q: "unat (addr AND PG_MASK) = 2 ^ k * q" and r: "(4096 :: nat) = 2 ^ k * r"
      using d \<open>2 ^ k dvd 4096\<close> by (metis dvd_def mod_0_imp_dvd)
    with \<open>unat (addr AND PG_MASK) < 4096\<close> have "q < r" by (metis mult_less_cancel1)
    then have "2 ^ k * q + 2 ^ k \<le> 2 ^ k * r" by (metis Suc_leI mult_Suc_right mult_le_mono2 add.commute)
    then show ?thesis using q r assms(3) by linarith
  qed
  moreover have "unat (of_nat j :: u64) = j"
  proof -
    have "j < 2 ^ 64" using assms(3) power_increasing[OF assms(2), of "2 :: nat"] by simp
    then show ?thesis by (simp add: unat_of_nat take_bit_nat_eq_self)
  qed
  ultimately show ?thesis by (simp add: word_le_nat_alt unat_add_nowrap del: PG_MASK_def) (simp add: unat_add_nowrap)
qed

lemma access_in_ram:
  assumes "ram_wf rs" "get_phys_mem_range rs paddr = Some pr" "pr_is_ram pr" "paddr AND PG_MASK = addr AND PG_MASK"
    "addr AND (of_nat (2 ^ k) - 1) = 0" "k \<le> 3" "j < 2 ^ k"
  shows "in_ram rs (pr_phys_mem pr + (paddr - pr_addr pr) + of_nat j)"
  using range_page[OF assms(1-3) aligned_offset[OF assms(5-7)]] assms(4)
  by (simp add: algebra_simps del: PG_MASK_def)

lemma hit_in_ram:
  assumes "page_ok rs e" "te_vaddr e = addr AND NOT (PG_MASK AND NOT (of_nat (2 ^ k) - 1))"
    "addr AND (of_nat (2 ^ k) - 1) = 0" "k \<le> 3" "j < 2 ^ k"
  shows "in_ram rs (te_mem_addend e + addr + of_nat j)"
proof -
  have "addr AND NOT (PG_MASK AND NOT (of_nat (2 ^ k) - 1)) = (addr AND NOT PG_MASK) OR (addr AND (of_nat (2 ^ k) - 1))"
    by (rule bit_word_eqI) (auto simp: bit_simps)
  then have v: "te_vaddr e = addr AND NOT PG_MASK" using assms(2,3) by simp
  have "bit (te_vaddr e) 0 = False" unfolding v by (simp add: bit_and_iff bit_not_iff bit_simps)
  then have "te_vaddr e \<noteq> -1" by auto
  then have "in_ram rs (te_mem_addend e + (addr AND NOT PG_MASK) + ((addr AND PG_MASK) + of_nat j))"
    using assms(1) aligned_offset[OF assms(3-5)] unfolding page_ok_def v by blast
  then show ?thesis using split_mask[of addr PG_MASK] by (metis add.assoc)
qed

section \<open>What accesses keep\<close>

text \<open>The bytes of the emulator outside the RAM of the guest.\<close>

definition host_rest :: "PhysMemoryRange list \<Rightarrow> hmem \<Rightarrow> hmem" where
  "host_rest rs m = (\<lambda>p. if in_ram rs p then 0 else m p)"

definition host_view :: "'d sys \<Rightarrow> bool \<times> PhysMemoryRange list \<times> hmem" where
  "host_view s = (host_safe s, mem_map s, host_rest (mem_map s) (hostmem s))"

lemma hstore_in_ram:
  "(\<And>j. j < n \<Longrightarrow> in_ram rs (a + of_nat j)) \<Longrightarrow> host_rest rs (hstore n m a v) = host_rest rs m"
  unfolding host_rest_def by (rule ext) (auto intro: hstore_other)

interpretation hv: state_view host_view
  by unfold_locales (simp_all add: host_view_def host_safe_def)

lemma flush_host_view: "host_safe s \<Longrightarrow> host_view (tlb_flush_all s) = host_view s"
  by (simp add: host_view_def host_safe_def tlb_flush_all_def tlb_init_def page_ok_def)

lemma host_safeD: "fst (host_view s) = host_safe s" by (simp add: host_view_def)

text \<open>A store into RAM and a new entry of a translation buffer.\<close>

lemma host_view_store:
  assumes "\<And>j. j < n \<Longrightarrow> in_ram (mem_map s) (a + of_nat j)"
  shows "host_view (s\<lparr>hostmem := hstore n (hostmem s) a v\<rparr>) = host_view s"
  using hstore_in_ram[of n "mem_map s" a "hostmem s" v] assms
  by (simp add: host_view_def host_safe_def)

lemma host_view_entry:
  assumes "page_ok (mem_map s) e"
  shows "host_safe s \<Longrightarrow> host_view (s\<lparr>tlb_read := (tlb_read s)(i := e)\<rparr>) = host_view s"
    "host_safe s \<Longrightarrow> host_view (s\<lparr>tlb_write := (tlb_write s)(i := e)\<rparr>) = host_view s"
    "host_safe s \<Longrightarrow> host_view (s\<lparr>tlb_code := (tlb_code s)(i := e)\<rparr>) = host_view s"
  using assms by (simp_all add: host_view_def host_safe_def)

lemma host_view_other [simp]:
  "host_view (s\<lparr>tlb_read_paddr_addend := f\<rparr>) = host_view s" "host_view (s\<lparr>tlb_write_paddr_addend := f\<rparr>) = host_view s"
  "host_view (s\<lparr>tlb_code_paddr_addend := f\<rparr>) = host_view s" "host_view (s\<lparr>memseqno := a\<rparr>) = host_view s"
  by (simp_all add: host_view_def host_safe_def)

lemma pmp_range: "get_phys_mem_range_pmp s paddr n perm = Some r \<Longrightarrow> r = get_phys_mem_range (mem_map s) paddr"
  by (simp add: get_phys_mem_range_pmp_def split: if_splits)

text \<open>After a translation, a range of RAM that holds the address gives a good entry.\<close>

lemma translated:
  assumes "riscv_cpu_get_phys_addr addr acc s = (x, s1)" "host_safe s"
  shows "host_view s1 = host_view s" "host_safe s1" "ram_wf (mem_map s1)"
    and "x = PAddr paddr \<Longrightarrow> get_phys_mem_range_pmp s1 paddr n perm = Some (Some pr) \<Longrightarrow> pr_is_ram pr \<Longrightarrow>
      page_ok (mem_map s1) \<lparr>te_vaddr = addr AND NOT PG_MASK, te_mem_addend = pr_phys_mem pr + (paddr - pr_addr pr) - addr\<rparr>"
proof -
  show h: "host_view s1 = host_view s" using hv.get_phys_addr_view[of addr acc s] assms(1) by simp
  then show "host_safe s1" using assms(2) host_safeD by metis
  then show w: "ram_wf (mem_map s1)" by (simp add: host_safe_def)
  assume x: "x = PAddr paddr" and r: "get_phys_mem_range_pmp s1 paddr n perm = Some (Some pr)" and "pr_is_ram pr"
  then show "page_ok (mem_map s1) \<lparr>te_vaddr = addr AND NOT PG_MASK, te_mem_addend = pr_phys_mem pr + (paddr - pr_addr pr) - addr\<rparr>"
    using new_entry_ok[OF w pmp_range[OF r, symmetric]] get_phys_addr_offset[OF assms(1)[unfolded x]] by blast
qed

text \<open>The interface to the devices: a callback changes no host memory outside RAM and no
  translation buffer.\<close>

locale host_bus =
  fixes E :: "'d env_ops"
  assumes read_func_host: "host_safe s \<Longrightarrow> host_view (snd (read_func E opq off k s)) = host_view s"
    and write_func_host: "host_safe s \<Longrightarrow> host_view (write_func E opq off v k s) = host_view s"
begin

lemma host_safe_device:
  "host_safe s \<Longrightarrow> host_safe (snd (read_func E opq off k s))" "host_safe s \<Longrightarrow> host_safe (write_func E opq off v k s)"
  using read_func_host write_func_host host_safeD by metis+

lemma read_memory_host:
  assumes "host_safe s"
  shows "host_view (snd (riscv_cpu_read_memory E addr k s)) = host_view s"
proof -
  obtain x s1 where x: "riscv_cpu_get_phys_addr addr ACCESS_READ s = (x, s1)" by fastforce
  note t = translated[OF x assms]
  have ram: "host_view (s1\<lparr>tlb_read := (tlb_read s1)(i := \<lparr>te_vaddr = addr AND NOT PG_MASK,
        te_mem_addend = pr_phys_mem pr + (paddr - pr_addr pr) - addr\<rparr>), tlb_read_paddr_addend := f\<rparr>) = host_view s1"
    if "x = PAddr paddr" "get_phys_mem_range_pmp s1 paddr n PMPCFG_R = Some (Some pr)" "pr_is_ram pr" for paddr n pr i f
    using host_view_entry(1)[OF t(4)[OF that] t(2)] by (simp del: PG_MASK_def)
  show ?thesis
    unfolding riscv_cpu_read_memory_def Let_def x prod.case
    using t ram
    by (auto simp: split_beta frame_simps read_func_host host_safe_device simp del: PG_MASK_def split: xlate.split option.split)
qed

lemma write_memory_host:
  assumes "host_safe s" "k \<le> 3"
  shows "host_view (snd (riscv_cpu_write_memory E addr v k s)) = host_view s"
proof -
  obtain x s1 where x: "riscv_cpu_get_phys_addr addr ACCESS_WRITE s = (x, s1)" by fastforce
  note t = translated[OF x assms(1)]
  have ram: "host_view (s1\<lparr>tlb_write := (tlb_write s1)(i := \<lparr>te_vaddr = addr AND NOT PG_MASK,
        te_mem_addend = pr_phys_mem pr + (paddr - pr_addr pr) - addr\<rparr>), tlb_write_paddr_addend := f,
        hostmem := hstore (2 ^ k) (phys_mem_set_dirty_bit pr off (hostmem s1)) (pr_phys_mem pr + (paddr - pr_addr pr)) v,
        memseqno := q, load_res_memseqno := l\<rparr>) = host_view s1"
    if al: "addr AND (of_nat (2 ^ k) - 1) = 0" and xp: "x = PAddr paddr"
      and r: "get_phys_mem_range_pmp s1 paddr n PMPCFG_W = Some (Some pr)" "pr_is_ram pr" for paddr n pr i f off q l
  proof -
    note rg = pmp_range[OF r(1), symmetric]
    have "pr_dirty_bits pr = 0" using t(3) r(2) get_phys_mem_range_has[OF rg] by (simp add: ram_wf_def)
    then have d: "phys_mem_set_dirty_bit pr off (hostmem s1) = hostmem s1" by (simp add: phys_mem_set_dirty_bit_def)
    have "in_ram (mem_map s1) (pr_phys_mem pr + (paddr - pr_addr pr) + of_nat j)" if "j < 2 ^ k" for j
      using access_in_ram[OF t(3) rg r(2) get_phys_addr_offset[OF x[unfolded xp]] al assms(2) that] .
    then have st: "host_view (s1\<lparr>hostmem := hstore (2 ^ k) (hostmem s1) (pr_phys_mem pr + (paddr - pr_addr pr)) v\<rparr>) = host_view s1"
      by (rule host_view_store)
    then have sf: "host_safe (s1\<lparr>hostmem := hstore (2 ^ k) (hostmem s1) (pr_phys_mem pr + (paddr - pr_addr pr)) v\<rparr>)"
      using t(2) host_safeD by metis
    let ?e = "\<lparr>te_vaddr = addr AND NOT PG_MASK, te_mem_addend = pr_phys_mem pr + (paddr - pr_addr pr) - addr\<rparr>"
    let ?h = "hstore (2 ^ k) (hostmem s1) (pr_phys_mem pr + (paddr - pr_addr pr)) v"
    have c: "s1\<lparr>tlb_write := (tlb_write s1)(i := ?e), tlb_write_paddr_addend := f, hostmem := ?h, memseqno := q, load_res_memseqno := l\<rparr>
        = s1\<lparr>hostmem := ?h, tlb_write := (tlb_write s1)(i := ?e), tlb_write_paddr_addend := f, memseqno := q, load_res_memseqno := l\<rparr>"
      by simp
    from host_view_entry(2)[OF _ sf, of ?e i] t(4)[OF xp r] st
    show ?thesis unfolding d c by (simp del: PG_MASK_def)
  qed
  show ?thesis
    unfolding riscv_cpu_write_memory_def Let_def x prod.case
    using t ram
    by (auto simp: split_beta frame_simps write_func_host host_safe_device simp del: PG_MASK_def of_nat_power
        split: xlate.split option.split)
qed

lemma target_write_host:
  assumes "host_safe s" "k \<le> 3"
  shows "host_view (snd (target_write E k addr v s)) = host_view s"
proof -
  obtain hit s1 where c: "check_triggers MCONTROL_STORE addr s = (hit, s1)" by fastforce
  then have h1: "host_view s1 = host_view s" using hv.check_triggers_view[of MCONTROL_STORE addr s] by simp
  then have s1: "host_safe s1" using assms(1) host_safeD by metis
  let ?e = "tlb_write s1 (tlb_index addr)"
  have "tlb_index addr < TLB_SIZE"
    using word_and_le1[of "drop_bit PG_SHIFT addr" "of_nat TLB_SIZE - 1"] by (simp add: word_le_nat_alt)
  then have "page_ok (mem_map s1) ?e" using s1 unfolding host_safe_def by blast
  then have "host_view (s1\<lparr>hostmem := hstore (2 ^ k) (hostmem s1) (te_mem_addend ?e + addr) w\<rparr>) = host_view s1"
    if "te_vaddr ?e = addr AND NOT (PG_MASK AND NOT (of_nat (2 ^ k) - 1))" "addr AND (of_nat (2 ^ k) - 1) = 0" for w
    by (intro host_view_store hit_in_ram[OF _ that assms(2)])
  then have fast: "host_view (s1\<lparr>hostmem := hstore (2 ^ k) (hostmem s1) (te_mem_addend ?e + addr) w,
        memseqno := q, load_res_memseqno := l\<rparr>) = host_view s1"
    if "te_vaddr ?e = addr AND NOT (PG_MASK AND NOT (of_nat (2 ^ k) - 1))" "addr AND (of_nat (2 ^ k) - 1) = 0" for w q l
    using that by (simp del: PG_MASK_def of_nat_power)
  show ?thesis
    unfolding target_write_def Let_def c prod.case
    using h1 fast write_memory_host[OF s1 assms(2)]
    by (auto simp: frame_simps simp del: PG_MASK_def of_nat_power PG_SHIFT_def TLB_SIZE_def)
qed

lemma read_insn_slow_host:
  assumes "host_safe s"
  shows "host_view (snd (target_read_insn_slow n addr s)) = host_view s"
proof -
  obtain x s1 where x: "riscv_cpu_get_phys_addr addr ACCESS_CODE s = (x, s1)" by fastforce
  note t = translated[OF x assms]
  have ram: "host_view (s1\<lparr>tlb_code := (tlb_code s1)(i := \<lparr>te_vaddr = addr AND NOT PG_MASK,
        te_mem_addend = pr_phys_mem pr + (paddr - pr_addr pr) - addr\<rparr>), tlb_code_paddr_addend := f\<rparr>) = host_view s1"
    if "x = PAddr paddr" "get_phys_mem_range_pmp s1 paddr n PMPCFG_X = Some (Some pr)" "pr_is_ram pr" for paddr n pr i f
    using host_view_entry(3)[OF t(4)[OF that] t(2)] by (simp del: PG_MASK_def)
  have cross: "host_view t = host_view u" if "riscv_cpu_get_phys_addr b ACCESS_CODE u = (y, t)" for b y t and u :: "'d sys"
    using hv.get_phys_addr_view[of b ACCESS_CODE u] that by simp
  show ?thesis
    unfolding target_read_insn_slow_def Let_def x prod.case
    using t ram
    by (auto simp: split_beta frame_simps simp del: PG_MASK_def split: xlate.split option.split prod.split dest!: cross)
qed

end

sublocale host_bus \<subseteq> hbus: memory_view host_view fst E
  by unfold_locales (simp_all add: host_safeD flush_host_view read_insn_slow_host read_memory_host target_write_host)

section \<open>The control registers and the traps\<close>

lemma host_view_csr [simp]:
  "host_view (s\<lparr>mstatus := x\<rparr>) = host_view s" "host_view (s\<lparr>mie := x32\<rparr>) = host_view s" "host_view (s\<lparr>mip := x32\<rparr>) = host_view s"
  "host_view (s\<lparr>stvec := x\<rparr>) = host_view s" "host_view (s\<lparr>scounteren := x32\<rparr>) = host_view s" "host_view (s\<lparr>sscratch := x\<rparr>) = host_view s"
  "host_view (s\<lparr>sepc := x\<rparr>) = host_view s" "host_view (s\<lparr>scause := x\<rparr>) = host_view s" "host_view (s\<lparr>stval := x\<rparr>) = host_view s"
  "host_view (s\<lparr>satp := x\<rparr>) = host_view s" "host_view (s\<lparr>medeleg := x32\<rparr>) = host_view s" "host_view (s\<lparr>mideleg := x32\<rparr>) = host_view s"
  "host_view (s\<lparr>mtvec := x\<rparr>) = host_view s" "host_view (s\<lparr>mcounteren := x32\<rparr>) = host_view s" "host_view (s\<lparr>mcountinhibit := x32\<rparr>) = host_view s"
  "host_view (s\<lparr>mscratch := x\<rparr>) = host_view s" "host_view (s\<lparr>mepc := x\<rparr>) = host_view s" "host_view (s\<lparr>mcause := x\<rparr>) = host_view s"
  "host_view (s\<lparr>mtval := x\<rparr>) = host_view s" "host_view (s\<lparr>tselect := x32\<rparr>) = host_view s" "host_view (s\<lparr>dcsr := x\<rparr>) = host_view s"
  "host_view (s\<lparr>tdata1 := f\<rparr>) = host_view s" "host_view (s\<lparr>tdata2 := f\<rparr>) = host_view s" "host_view (s\<lparr>dpc := x\<rparr>) = host_view s"
  "host_view (s\<lparr>dscratch := x\<rparr>) = host_view s" "host_view (s\<lparr>stop_the_counter := b\<rparr>) = host_view s" "host_view (s\<lparr>mhpmevent := f\<rparr>) = host_view s"
  "host_view (s\<lparr>csr_pmpcfg := f\<rparr>) = host_view s" "host_view (s\<lparr>csr_pmpaddr := f\<rparr>) = host_view s" "host_view (s\<lparr>pmp_n := n\<rparr>) = host_view s"
  "host_view (s\<lparr>priv := p\<rparr>) = host_view s" "host_view (s\<lparr>timecmp := x\<rparr>) = host_view s" "host_view (s\<lparr>plic_enable_irq := pe\<rparr>) = host_view s"
  by (simp_all add: host_view_def host_safe_def)

lemma host_safe_csr [simp]:
  "host_safe (s\<lparr>mstatus := x\<rparr>) = host_safe s" "host_safe (s\<lparr>satp := x\<rparr>) = host_safe s" "host_safe (s\<lparr>csr_pmpcfg := f\<rparr>) = host_safe s"
  "host_safe (s\<lparr>csr_pmpaddr := f\<rparr>) = host_safe s" "host_safe (s\<lparr>scause := x\<rparr>) = host_safe s" "host_safe (s\<lparr>sepc := x\<rparr>) = host_safe s"
  "host_safe (s\<lparr>stval := x\<rparr>) = host_safe s" "host_safe (s\<lparr>mcause := x\<rparr>) = host_safe s" "host_safe (s\<lparr>mepc := x\<rparr>) = host_safe s"
  "host_safe (s\<lparr>mtval := x\<rparr>) = host_safe s" "host_safe (s\<lparr>pc := x\<rparr>) = host_safe s" "host_safe (s\<lparr>debug_mode := b\<rparr>) = host_safe s"
  "host_safe (s\<lparr>stop_the_counter := b\<rparr>) = host_safe s"
  by (simp_all add: host_safe_def)

lemma unpack_host_view: "host_safe s \<Longrightarrow> host_view (unpack_pmpaddrs s) = host_view s"
proof -
  have "host_view (foldl (\<lambda>s i. unpack_entry i s) t is) = host_view t" for t :: "'a sys" and "is"
  proof (induction "is" arbitrary: t)
    case (Cons i "is")
    have "host_view (unpack_entry i t) = host_view t"
      by (simp add: host_view_def host_safe_def unpack_entry_def split: option.split prod.split)
    with Cons show ?case by simp
  qed simp
  moreover assume "host_safe s"
  ultimately show ?thesis unfolding unpack_pmpaddrs_def by (simp add: flush_host_view host_safeD[symmetric])
qed

lemma csr_helpers_host:
  assumes "host_safe s"
  shows "host_view (set_mstatus v s) = host_view s"
    "host_view (satp_write v s) = host_view s" "host_view (tdata1_write v s) = host_view s"
    "host_view (tdata2_write v s) = host_view s" "host_view (dcsr_write v s) = host_view s"
    "host_view (pmpcfg_write c v s) = host_view s" "host_view (pmpaddr_write i v s) = host_view s"
    "host_view (set_frm v s) = host_view s" "host_view (simpoint_write v s) = host_view s"
  using assms
  by (simp_all add: set_frm_def set_mstatus_def satp_write_def tdata1_write_def tdata2_write_def dcsr_write_def
      pmpcfg_write_def pmpaddr_write_def simpoint_write_def Let_def flush_host_view unpack_host_view)

lemma host_view_if: "host_view (if b then s1 else s2) = (if b then host_view s1 else host_view s2)"
  by simp

lemma host_view_snd_if: "host_view (snd (if b then p else q)) = (if b then host_view (snd p) else host_view (snd q))"
  by simp

lemma csr_write_host:
  assumes "host_safe s"
  shows "host_view (snd (csr_write csr v s)) = host_view s"
  by (simp only: csr_write_def Let_def host_view_snd_if host_view_if host_view_csr hv.V_updates
      csr_helpers_host[OF assms] if_cancel snd_conv)

lemma set_priv_host: "host_safe s \<Longrightarrow> host_view (set_priv p s) = host_view s"
  by (simp add: set_priv_def flush_host_view)

lemma trap_host: "host_safe s \<Longrightarrow> host_view (raise_exception2 cause tval s) = host_view s"
  by (simp add: raise_exception2_def Let_def split_beta set_priv_host hv.V_updates)

lemma return_host:
  "host_safe s \<Longrightarrow> host_view (handle_sret s) = host_view s" "host_safe s \<Longrightarrow> host_view (handle_mret s) = host_view s"
  "host_safe s \<Longrightarrow> host_view (handle_dret s) = host_view s"
  by (simp_all add: handle_sret_def handle_mret_def handle_dret_def Let_def set_priv_host)

lemma csr_insns_host:
  assumes "host_safe s"
  shows "host_view (snd (exec_csrrw gpc icount start insn v s)) = host_view s"
    "host_view (snd (exec_csrrs gpc icount start f insn v s)) = host_view s"
proof -
  have a: "host_view t = host_view s" if "account_insns icount start s = Some t" for t
    using that by (auto simp: account_insns_def Let_def split: if_splits)
  then have w: "host_view (snd (csr_write csr x t)) = host_view s" if "account_insns icount start s = Some t" for csr x t
    using that csr_write_host[of t] assms host_safeD by metis
  have f: "host_view (snd (csr_finish gpc rd v2 err t)) = host_view t" for rd v2 err and t :: "'a sys"
    by (simp add: csr_finish_def Let_def frame_simps)
  show "host_view (snd (exec_csrrw gpc icount start insn v s)) = host_view s"
    "host_view (snd (exec_csrrs gpc icount start f insn v s)) = host_view s"
    using a w assms by (auto simp: exec_csrrw_def exec_csrrs_def Let_def split_beta f csr_write_host split: option.split)
qed

lemma exec_system_host: "host_safe s \<Longrightarrow> host_view (snd (exec_system gpc icount start insn s)) = host_view s"
proof -
  have priv: "host_view (snd (exec_priv gpc insn t)) = host_view t" if "host_safe t" for t :: "'a sys"
  proof -
    have "host_view (tlb_flush_vaddr a t) = host_view t" "host_view (tlb_flush_all t) = host_view t" for a
      using that by (simp_all add: tlb_flush_vaddr_def flush_host_view)
    then show ?thesis using that return_host[of "t\<lparr>pc := gpc\<rparr>"]
      by (auto simp: exec_priv_def exec_ecall_def exec_ebreak_def exec_wfi_def exec_sfence_vma_def exec_sret_def
          exec_mret_def exec_dret_def Let_def split_beta frame_simps return_host host_safeD[symmetric] flush_host_view tlb_flush_vaddr_def)
  qed
  assume "host_safe s"
  moreover from this have "host_safe (snd (read_reg r s))" for r using hv.read_reg_view host_safeD by metis
  ultimately show ?thesis by (simp add: exec_system_def Let_def split_beta priv csr_insns_host frame_simps)
qed

sublocale host_bus \<subseteq> hsafe: interp_invariant host_view fst E "\<lambda>s. host_view s = W \<and> fst W" "\<lambda>s. host_view s = W" for W
proof unfold_locales
  fix s :: "'d sys" and gpc icount start insn
  assume h: "host_view s = W \<and> fst W"
  then have hs: "host_safe s" using host_safeD by metis
  show "host_view (snd (exec_insn E gpc icount start insn s)) = W \<and> fst W"
  proof (cases "insn AND 0x7f = 0x73")
    case True
    then show ?thesis using exec_system_host[OF hs, of gpc icount start insn] h by (simp add: exec_insn_def Let_def)
  next
    case False
    then show ?thesis using hbus.exec_insn_view[of s insn gpc icount start] h by simp
  qed
qed (use trap_host host_safeD in \<open>metis\<close>)+

context host_bus
begin

lemma run_host: "riscv_cpu_interp E n s = Some (k, s') \<Longrightarrow> host_safe s \<Longrightarrow> host_view s' = host_view s"
  using hsafe.interp_R[of n s k s' "host_view s"] by (simp add: host_safeD)

end

interpretation host_dev: device_view host_view
  by unfold_locales simp_all

interpretation machine_host: host_bus machine_ops
  by unfold_locales (simp_all add: machine_ops_def host_dev.device_access_view)

lemma host_viewD:
  assumes "host_view s' = host_view s"
  shows "host_safe s' = host_safe s" "mem_map s' = mem_map s" "\<not> in_ram (mem_map s) p \<Longrightarrow> hostmem s' p = hostmem s p"
proof -
  show "host_safe s' = host_safe s" "mem_map s' = mem_map s" using assms by (simp_all add: host_view_def)
  with assms have "host_rest (mem_map s) (hostmem s') p = host_rest (mem_map s) (hostmem s) p" by (simp add: host_view_def)
  then show "\<not> in_ram (mem_map s) p \<Longrightarrow> hostmem s' p = hostmem s p" by (simp add: host_rest_def)
qed

lemma flushed_host_safe:
  "ram_wf (mem_map s) \<Longrightarrow> host_safe (tlb_flush_all s)"
  by (simp add: host_safe_def tlb_flush_all_def tlb_init_def page_ok_def)

text \<open>A machine with 64 KiB of RAM and two instructions, \<open>auipc t0, 0\<close> and
  \<open>sw t0, 64(t0)\<close>.\<close>

definition store_demo :: machine where
  "store_demo = tlb_flush_all ((hart_machine (riscv_cpu_init 0x80000000 False False 0) (init_env 1 (\<lambda>_. zero_hart) []))\<lparr>
     physical_addr_len := 56, mem_map := [zero_range\<lparr>pr_is_ram := True, pr_addr := 0x80000000, pr_org_size := 0x10000, pr_size := 0x10000,
       pr_phys_mem := 0x7f0000000000\<rparr>],
     hostmem := hstore 8 (\<lambda>_. 0) 0x7f0000000000 0x0452a02300000297\<rparr>)"

lemma store_demo_safe: "host_safe store_demo" "\<not> in_ram (mem_map store_demo) 0x7f0000010000"
proof -
  show "host_safe store_demo" unfolding store_demo_def by (rule flushed_host_safe) (simp add: ram_wf_def zero_range_def)
  show "\<not> in_ram (mem_map store_demo) 0x7f0000010000" by (simp add: store_demo_def in_ram_def tlb_flush_all_def tlb_init_def)
qed

lemma store_demo_run:
  "\<exists>k s. riscv_cpu_interp machine_ops 2 store_demo = Some (k, s) \<and> hostmem s 0x7f0000000043 = 0x80"
proof -
  have "case riscv_cpu_interp machine_ops 2 store_demo of Some (k, s) \<Rightarrow> hostmem s 0x7f0000000043 = 0x80 | None \<Rightarrow> False"
    by code_simp
  then show ?thesis by (auto split: option.splits)
qed



end
