(* ===== verification/Elf64.thy ===== *)
theory Elf64
  imports Iomem
begin

text \<open>
  ELF images (\<open>src/src/elf64.cpp\<close>) and the functions of \<open>src/src/bin_utils.cpp\<close> that copy
  them into the memory of the machine.  An image is a host address, and its fields
  are loads from the byte store at the offsets of the ELF format; pointer
  comparisons are comparisons of addresses.  \<open>None\<close> is a write through a null
  pointer or a failed assertion.
\<close>

section \<open>Headers\<close>

definition EM_RISCV :: u64 where [simp]: "EM_RISCV = 0xF3"
definition SHT_SYMTAB :: u64 where [simp]: "SHT_SYMTAB = 2"
definition SHT_STRTAB :: u64 where [simp]: "SHT_STRTAB = 3"
definition STB_GLOBAL :: u8 where [simp]: "STB_GLOBAL = 1"
definition PT_LOAD :: u64 where [simp]: "PT_LOAD = 1"

definition elf64_is_riscv64 :: "hmem \<Rightarrow> u64 \<Rightarrow> u64 \<Rightarrow> bool" where
  "elf64_is_riscv64 m img image_size =
     (if image_size < 64 then False
      else if hload 4 m img \<noteq> 0x464c457f then False
      else if m (img + 4) \<noteq> 2 then False
      else if m (img + 5) \<noteq> 1 then False
      else if hload 2 m (img + 18) \<noteq> EM_RISCV then False
      else if hload 2 m (img + 52) \<noteq> 64 then False
      else if hload 2 m (img + 54) \<noteq> 56 then False
      else True)"

definition elf64_get_entrypoint :: "hmem \<Rightarrow> u64 \<Rightarrow> u64" where
  "elf64_get_entrypoint m img = hload 8 m (img + 24)"

section \<open>Symbols\<close>

text \<open>\<open>strcmp(key, p) == 0\<close>.\<close>

fun str_matches :: "hmem \<Rightarrow> u8 list \<Rightarrow> u64 \<Rightarrow> bool" where
  "str_matches m [] p \<longleftrightarrow> m p = 0"
| "str_matches m (c # cs) p \<longleftrightarrow> m p = c \<and> str_matches m cs (p + 1)"

text \<open>One section header: the pointers \<open>strtab\<close> and \<open>symtab\<close>, null at first, and
  \<open>symtab_len\<close>, a C \<open>int\<close>.\<close>

definition elf64_section :: "hmem \<Rightarrow> u64 \<Rightarrow> nat \<Rightarrow> u64 \<times> u64 \<times> u32 \<Rightarrow> u64 \<times> u64 \<times> u32" where
  "elf64_section m img i = (\<lambda>(strtab, symtab, symtab_len).
     let sh = img + hload 8 m (img + 40) + of_nat i * 64;
         strtab = (if hload 4 m (sh + 4) = SHT_STRTAB \<and> of_nat i \<noteq> hload 2 m (img + 62)
                   then img + hload 8 m (sh + 24) else strtab)
     in if hload 4 m (sh + 4) = SHT_SYMTAB
        then (strtab, img + hload 8 m (sh + 24), lo32 (hload 8 m (sh + 32) div 24))
        else (strtab, symtab, symtab_len))"

definition elf64_sections :: "hmem \<Rightarrow> u64 \<Rightarrow> u64 \<times> u64 \<times> u32" where
  "elf64_sections m img = fold (elf64_section m img) [0..<unat (hload 2 m (img + 60))] (0, 0, 0)"

definition sym_matches :: "hmem \<Rightarrow> u64 \<Rightarrow> u8 list \<Rightarrow> u64 \<Rightarrow> bool" where
  "sym_matches m strtab key sy \<longleftrightarrow>
     str_matches m key (strtab + hload 4 m sy) \<and> drop_bit 4 (m (sy + 4)) = STB_GLOBAL"

fun find_symbol :: "hmem \<Rightarrow> u64 \<Rightarrow> u8 list \<Rightarrow> nat \<Rightarrow> u64 \<Rightarrow> u64 option" where
  "find_symbol m strtab key 0 sy = None"
| "find_symbol m strtab key (Suc n) sy =
     (if sym_matches m strtab key sy then Some (hload 8 m (sy + 8))
      else find_symbol m strtab key n (sy + 24))"

definition elf64_find_global :: "hmem \<Rightarrow> u64 \<Rightarrow> u64 \<Rightarrow> u8 list \<Rightarrow> u64 option" where
  "elf64_find_global m img image_size key =
     (let image_end = img + image_size;
          e_shoff = hload 8 m (img + 40);
          shdr = img + e_shoff;
          e_shnum = hload 2 m (img + 60);
          e_shstrndx = hload 2 m (img + 62)
      in if e_shoff + 64 - 1 > image_size then None
         else if shdr + (e_shstrndx + 1) * 64 > image_end then None
         else if shdr + e_shnum * 64 > image_end then None
         else
           (let (strtab, symtab, symtab_len) = elf64_sections m img in
            if symtab \<noteq> 0 \<and> strtab \<noteq> 0 then
              (if symtab + sx32 symtab_len * 24 > image_end then None
               else find_symbol m strtab key (nat (sint symtab_len)) symtab)
            else None))"

end
