(* ===== verification/Fdt.thy ===== *)
theory Fdt
  imports Cutils
begin

text \<open>
  The flattened device tree builder of \<open>src/src/fdt.cpp\<close>.  The table of words is kept as
  the bytes it occupies in memory, and the output as the list of bytes written to
  \<open>dst\<close>; the growth of the allocations is left out.  A device tree is a
  \<open>dtree\<close>; \<open>fdt_parse\<close> reads the structure block back, and the results at the end say
  that every tree the builder emits is read back unchanged.
\<close>

section \<open>Builder\<close>

definition FDT_MAGIC :: u32 where [simp]: "FDT_MAGIC = 0xd00dfeed"
definition FDT_VERSION :: u32 where [simp]: "FDT_VERSION = 17"
definition FDT_BEGIN_NODE :: u32 where [simp]: "FDT_BEGIN_NODE = 1"
definition FDT_END_NODE :: u32 where [simp]: "FDT_END_NODE = 2"
definition FDT_PROP :: u32 where [simp]: "FDT_PROP = 3"
definition FDT_END :: u32 where [simp]: "FDT_END = 9"

record FDTState =
  fdt_tab :: "u8 list"
  open_node_count :: int
  string_table :: "u8 list"

text \<open>The bytes of a word in host memory.\<close>

definition le_bytes32 :: "u32 \<Rightarrow> u8 list" where
  "le_bytes32 w = [ucast w, ucast (drop_bit 8 w), ucast (drop_bit 16 w), ucast (drop_bit 24 w)]"

definition cstr :: "string \<Rightarrow> u8 list" where "cstr = map of_char"

definition fdt_init :: FDTState where
  "fdt_init = \<lparr>fdt_tab = [], open_node_count = 0, string_table = []\<rparr>"

definition fdt_put32 :: "u32 \<Rightarrow> FDTState \<Rightarrow> FDTState" where
  "fdt_put32 v s = s\<lparr>fdt_tab := fdt_tab s @ le_bytes32 (cpu_to_be32 v)\<rparr>"

text \<open>\<open>-len & 3\<close> bytes of padding.\<close>

definition fdt_put_data :: "u8 list \<Rightarrow> FDTState \<Rightarrow> FDTState" where
  "fdt_put_data data s = s\<lparr>fdt_tab := fdt_tab s @ data @ replicate ((4 - length data mod 4) mod 4) 0\<rparr>"

definition fdt_begin_node :: "u8 list \<Rightarrow> FDTState \<Rightarrow> FDTState" where
  "fdt_begin_node name s =
     (let s = fdt_put_data (name @ [0]) (fdt_put32 FDT_BEGIN_NODE s)
      in s\<lparr>open_node_count := open_node_count s + 1\<rparr>)"

text \<open>The conversion \<open>%x\<close>, and \<open>snprintf\<close> with its limit.\<close>

definition hex_digit :: "u64 \<Rightarrow> u8" where
  "hex_digit d = (if d < 10 then 48 + lo8 d else 87 + lo8 d)"

fun hex_digits :: "nat \<Rightarrow> u64 \<Rightarrow> u8 list" where
  "hex_digits 0 n = []"
| "hex_digits (Suc k) n = (if n < 16 then [hex_digit n] else hex_digits k (drop_bit 4 n) @ [hex_digit (n AND 15)])"

definition node_name_num :: "u8 list \<Rightarrow> u64 \<Rightarrow> u8 list" where
  "node_name_num name n = take 255 (name @ cstr ''@'' @ hex_digits 16 n)"

definition fdt_begin_node_num :: "u8 list \<Rightarrow> u64 \<Rightarrow> FDTState \<Rightarrow> FDTState" where
  "fdt_begin_node_num name n s = fdt_begin_node (node_name_num name n) s"

definition fdt_end_node :: "FDTState \<Rightarrow> FDTState" where
  "fdt_end_node s = (fdt_put32 FDT_END_NODE s)\<lparr>open_node_count := open_node_count s - 1\<rparr>"

text \<open>The loop over the string table from \<open>pos\<close> on; the argument is the rest of the table.\<close>

function fdt_find_string :: "u8 list \<Rightarrow> nat \<Rightarrow> u8 list \<Rightarrow> nat option" where
  "fdt_find_string [] pos name = None"
| "fdt_find_string (c # cs) pos name =
     (let str = c_string (c # cs) in
      if str = name then Some pos
      else fdt_find_string (drop (length str + 1) (c # cs)) (pos + length str + 1) name)"
  by pat_completeness auto
termination by (relation "measure (\<lambda>(t, p, n). length t)") auto

definition fdt_get_string_offset :: "u8 list \<Rightarrow> FDTState \<Rightarrow> nat \<times> FDTState" where
  "fdt_get_string_offset name s =
     (case fdt_find_string (string_table s) 0 name of
        Some pos \<Rightarrow> (pos, s)
      | None \<Rightarrow> (length (string_table s), s\<lparr>string_table := string_table s @ name @ [0]\<rparr>))"

definition fdt_prop :: "u8 list \<Rightarrow> u8 list \<Rightarrow> FDTState \<Rightarrow> FDTState" where
  "fdt_prop prop_name data s =
     (let s = fdt_put32 (of_nat (length data)) (fdt_put32 FDT_PROP s);
          (pos, s) = fdt_get_string_offset prop_name s
      in fdt_put_data data (fdt_put32 (of_nat pos) s))"

definition fdt_prop_tab_u32 :: "u8 list \<Rightarrow> u32 list \<Rightarrow> FDTState \<Rightarrow> FDTState" where
  "fdt_prop_tab_u32 prop_name tab s =
     (let s = fdt_put32 (of_nat (length tab * 4)) (fdt_put32 FDT_PROP s);
          (pos, s) = fdt_get_string_offset prop_name s
      in fold fdt_put32 tab (fdt_put32 (of_nat pos) s))"

definition fdt_prop_u32 :: "u8 list \<Rightarrow> u32 \<Rightarrow> FDTState \<Rightarrow> FDTState" where
  "fdt_prop_u32 prop_name val s = fdt_prop_tab_u32 prop_name [val] s"

definition fdt_prop_u64 :: "u8 list \<Rightarrow> u64 \<Rightarrow> FDTState \<Rightarrow> FDTState" where
  "fdt_prop_u64 prop_name val s = fdt_prop_tab_u32 prop_name [lo32 (drop_bit 32 val), lo32 val] s"

definition fdt_prop_tab_u64_2 :: "u8 list \<Rightarrow> u64 \<Rightarrow> u64 \<Rightarrow> FDTState \<Rightarrow> FDTState" where
  "fdt_prop_tab_u64_2 prop_name v0 v1 s =
     fdt_prop_tab_u32 prop_name [lo32 (drop_bit 32 v0), lo32 v0, lo32 (drop_bit 32 v1), lo32 v1] s"

definition fdt_prop_str :: "u8 list \<Rightarrow> u8 list \<Rightarrow> FDTState \<Rightarrow> FDTState" where
  "fdt_prop_str prop_name str s = fdt_prop prop_name (str @ [0]) s"

definition fdt_prop_tab_str :: "u8 list \<Rightarrow> u8 list list \<Rightarrow> FDTState \<Rightarrow> FDTState" where
  "fdt_prop_tab_str prop_name strs s = fdt_prop prop_name (concat (map (\<lambda>str. str @ [0]) strs)) s"

text \<open>Padding to a multiple of 8, and the blob: header, structure, reserve map, strings.
  \<open>None\<close> is the failed assertion.\<close>

definition pad8 :: "nat \<Rightarrow> nat" where "pad8 n = (8 - n mod 8) mod 8"

definition fdt_output :: "FDTState \<Rightarrow> (u8 list) option" where
  "fdt_output s =
     (if open_node_count s \<noteq> 0 then None
      else
        (let s = fdt_put32 FDT_END s;
             dt_struct = fdt_tab s;
             dt_strings = string_table s;
             off_struct = 40;
             p1 = off_struct + length dt_struct;
             off_rsvmap = p1 + pad8 p1;
             off_strings = off_rsvmap + 16;
             p2 = off_strings + length dt_strings;
             total = p2 + pad8 p2;
             header = concat (map (\<lambda>v. le_bytes32 (cpu_to_be32 v))
               [FDT_MAGIC, of_nat total, of_nat off_struct, of_nat off_strings, of_nat off_rsvmap, FDT_VERSION,
                16, 0, of_nat (length dt_strings), of_nat (length dt_struct)])
         in Some (header @ dt_struct @ replicate (pad8 p1) 0 @ replicate 16 0 @ dt_strings @ replicate (pad8 p2) 0)))"

section \<open>Device trees\<close>

datatype dtree = DNode "u8 list" "(u8 list \<times> u8 list) list" "dtree list"

text \<open>Emitting a tree: the properties of a node, then its children.\<close>

fun fdt_emit :: "dtree \<Rightarrow> FDTState \<Rightarrow> FDTState" where
  "fdt_emit (DNode name props children) s =
     fdt_end_node (fold fdt_emit children (fold (\<lambda>(p, d). fdt_prop p d) props (fdt_begin_node name s)))"

text \<open>Reading the structure block: a big endian word, a padded block of bytes, and the
  nodes.  The first argument bounds the depth of the recursion.\<close>

definition fdt_word :: "u8 list \<Rightarrow> u32" where
  "fdt_word bs = push_bit 24 (ucast (bs ! 0)) OR push_bit 16 (ucast (bs ! 1)) OR push_bit 8 (ucast (bs ! 2))
     OR ucast (bs ! 3)"

definition fdt_skip :: "nat \<Rightarrow> u8 list \<Rightarrow> u8 list" where
  "fdt_skip n bs = drop (n + (4 - n mod 4) mod 4) bs"

fun fdt_parse_body ::
    "nat \<Rightarrow> u8 list \<Rightarrow> u8 list \<Rightarrow> ((u8 list \<times> u8 list) list \<times> dtree list \<times> u8 list) option" where
  "fdt_parse_body 0 st bs = None"
| "fdt_parse_body (Suc fuel) st bs =
     (if length bs < 4 then None
      else
        (let tok = fdt_word bs; bs = drop 4 bs in
         if tok = FDT_END_NODE \<or> tok = FDT_END then Some ([], [], bs)
         else if tok = FDT_PROP then
           (if length bs < 8 then None
            else
              (let len = unat (fdt_word bs); off = unat (fdt_word (drop 4 bs)); bs = drop 8 bs in
               case fdt_parse_body fuel st (fdt_skip len bs) of
                 None \<Rightarrow> None
               | Some (ps, cs, rest) \<Rightarrow> Some ((c_string (drop off st), take len bs) # ps, cs, rest)))
         else if tok = FDT_BEGIN_NODE then
           (let name = c_string bs in
            case fdt_parse_body fuel st (fdt_skip (length name + 1) bs) of
              None \<Rightarrow> None
            | Some (ps, cs, rest) \<Rightarrow>
                (case fdt_parse_body fuel st rest of
                   None \<Rightarrow> None
                 | Some (ps', cs', rest') \<Rightarrow> Some (ps', DNode name ps cs # cs', rest')))
         else None))"

definition fdt_parse :: "nat \<Rightarrow> u8 list \<Rightarrow> u8 list \<Rightarrow> dtree option" where
  "fdt_parse fuel st bs = (case fdt_parse_body fuel st bs of Some ([], [t], []) \<Rightarrow> Some t | _ \<Rightarrow> None)"

text \<open>Reading a blob: the header tells where the two blocks are.\<close>

definition fdt_field :: "nat \<Rightarrow> u8 list \<Rightarrow> u32" where
  "fdt_field i blob = fdt_word (drop (4 * i) blob)"

definition fdt_decode :: "nat \<Rightarrow> u8 list \<Rightarrow> dtree option" where
  "fdt_decode fuel blob =
     (let field = (\<lambda>i. fdt_field i blob); block = (\<lambda>off sz. take (unat sz) (drop (unat off) blob)) in
      if field 0 \<noteq> FDT_MAGIC \<or> field 5 \<noteq> FDT_VERSION \<or> unat (field 1) \<noteq> length blob then None
      else fdt_parse fuel (block (field 3) (field 8)) (block (field 2) (field 9)))"

text \<open>Trees that the format can express: names without a zero byte, data of a length
  that fits in a word.\<close>

definition props_wf :: "(u8 list \<times> u8 list) list \<Rightarrow> bool" where
  "props_wf ps \<longleftrightarrow> (\<forall>(p, d)\<in>set ps. 0 \<notin> set p \<and> length d < 2 ^ 32)"

fun dtree_wf :: "dtree \<Rightarrow> bool" where
  "dtree_wf (DNode name ps cs) \<longleftrightarrow> 0 \<notin> set name \<and> props_wf ps \<and> list_all dtree_wf cs"

section \<open>Words and blocks\<close>

lemma le_bytes32_be: "le_bytes32 (cpu_to_be32 v) = [ucast (drop_bit 24 v), ucast (drop_bit 16 v), ucast (drop_bit 8 v), ucast v]"
  by (simp add: le_bytes32_def cpu_to_be32_def bswap_32_bytes)

lemma length_le_bytes32 [simp]: "length (le_bytes32 w) = 4"
  by (simp add: le_bytes32_def)

lemma fdt_word_put: "fdt_word (le_bytes32 (cpu_to_be32 v) @ bs) = v"
proof -
  have "fdt_word (le_bytes32 (cpu_to_be32 v) @ bs) = ucast (ucast v :: u8) OR push_bit 8 (ucast (ucast (drop_bit 8 v) :: u8))
      OR push_bit 16 (ucast (ucast (drop_bit 16 v) :: u8)) OR push_bit 24 (ucast (ucast (drop_bit 24 v) :: u8))"
    by (simp add: fdt_word_def le_bytes32_be or.commute or.left_commute)
  also have "\<dots> = v"
  proof (rule bit_word_eqI)
    fix n assume "n < LENGTH(32)"
    then consider "n < 8" | "8 \<le> n" "n < 16" | "16 \<le> n" "n < 24" | "24 \<le> n" "n < 32" by fastforce
    then show "bit (ucast (ucast v :: u8) OR push_bit 8 (ucast (ucast (drop_bit 8 v) :: u8))
      OR push_bit 16 (ucast (ucast (drop_bit 16 v) :: u8)) OR push_bit 24 (ucast (ucast (drop_bit 24 v) :: u8)) :: u32) n = bit v n"
      unfolding bit_bytes32 by cases (auto simp: bit_simps less_diff_conv2)
  qed
  finally show ?thesis .
qed

lemma drop4_word [simp]: "drop 4 (le_bytes32 w @ bs) = bs" by simp

lemma fdt_skip_padded: "fdt_skip (length d) (d @ replicate ((4 - length d mod 4) mod 4) 0 @ bs) = bs"
  by (simp add: fdt_skip_def)

section \<open>The string table\<close>

definition str_at :: "u8 list \<Rightarrow> nat \<Rightarrow> u8 list \<Rightarrow> bool" where
  "str_at st off name \<longleftrightarrow> off + length name < length st \<and> (\<exists>rest. drop off st = name @ 0 # rest) \<and> 0 \<notin> set name"

definition table_wf :: "u8 list \<Rightarrow> bool" where
  "table_wf st \<longleftrightarrow> st = [] \<or> last st = 0"

lemma str_at_append: "str_at st off name \<Longrightarrow> str_at (st @ ext) off name"
  by (auto simp: str_at_def)

lemma str_at_drop: "str_at (drop k t) j name \<Longrightarrow> str_at t (k + j) name"
  by (auto simp: str_at_def add.commute)

lemma str_at_c_string: "str_at st off name \<Longrightarrow> c_string (drop off st) = name"
  by (auto simp: str_at_def c_string_append_zero)

lemma str_at_new: "0 \<notin> set name \<Longrightarrow> str_at (st @ name @ [0]) (length st) name"
  by (auto simp: str_at_def)

lemma c_string_terminated:
  assumes "xs \<noteq> []" "last xs = 0"
  obtains rest where "xs = c_string xs @ 0 # rest"
proof -
  have "0 \<in> set xs" using assms by (metis last_in_set)
  then have "dropWhile (\<lambda>c. c \<noteq> 0) xs \<noteq> []" by auto
  then obtain y rest where yr: "dropWhile (\<lambda>c. c \<noteq> 0) xs = y # rest" by (meson neq_Nil_conv)
  then have "y = 0" by (metis (full_types) hd_dropWhile list.discI list.sel(1))
  with yr have "xs = c_string xs @ 0 # rest" unfolding c_string_def by (metis takeWhile_dropWhile_id)
  with that show thesis by blast
qed

lemma fdt_find_string_at:
  "fdt_find_string t pos name = Some p \<Longrightarrow> table_wf t \<Longrightarrow> pos \<le> p \<and> str_at t (p - pos) name"
proof (induction t pos name rule: fdt_find_string.induct)
  case (1 pos name)
  then show ?case by simp
next
  case (2 c cs pos name)
  let ?t = "c # cs" and ?s = "c_string (c # cs)"
  obtain rest where rest: "?t = ?s @ 0 # rest" using 2(3) c_string_terminated[of ?t] by (auto simp: table_wf_def)
  show ?case
  proof (cases "?s = name")
    case True
    then have "p = pos" using 2(2) by (simp add: Let_def)
    moreover have "str_at ?t 0 name" using rest True c_string_no_zero[of ?t]
      by (metis (no_types, lifting) str_at_def add_0 add_less_cancel_left drop0 length_append less_add_same_cancel1 list.size(4) zero_less_Suc add_Suc_right)
    ultimately show ?thesis by simp
  next
    case False
    let ?d = "drop (length ?s + 1) ?t"
    have d: "?d = rest" by (subst rest) simp
    have "table_wf ?d" using 2(3) d rest by (metis append_is_Nil_conv last.simps last_appendR list.discI table_wf_def)
    moreover have "fdt_find_string ?d (pos + length ?s + 1) name = Some p" using 2(2) False by (simp add: Let_def)
    ultimately have IH: "pos + length ?s + 1 \<le> p \<and> str_at ?d (p - (pos + length ?s + 1)) name"
      using 2(1)[OF refl] False by blast
    then have "str_at ?t (length ?s + 1 + (p - (pos + length ?s + 1))) name" by (intro str_at_drop) simp
    moreover have "length ?s + 1 + (p - (pos + length ?s + 1)) = p - pos" using IH by linarith
    ultimately show ?thesis using IH by simp
  qed
qed

lemma get_string_offset:
  assumes "fdt_get_string_offset name s = (pos, s')" "table_wf (string_table s)" "0 \<notin> set name"
  shows "\<exists>ext. s' = s\<lparr>string_table := string_table s @ ext\<rparr> \<and> str_at (string_table s') pos name \<and> table_wf (string_table s')"
proof (cases "fdt_find_string (string_table s) 0 name")
  case None
  then show ?thesis
    using assms str_at_new[of name "string_table s"]
    by (auto simp: fdt_get_string_offset_def table_wf_def[of "string_table s @ name @ [0]"])
next
  case (Some p)
  then show ?thesis
    using assms fdt_find_string_at[OF Some assms(2)] by (auto simp: fdt_get_string_offset_def intro!: exI[of _ "[]"])
qed

section \<open>Emitted trees are read back\<close>

text \<open>\<open>emits s s' P\<close>: from \<open>s\<close> to \<open>s'\<close> the builder appended to both tables, kept the string
  table well formed, and what it appended to the structure satisfies \<open>P\<close> for every
  later string table.\<close>

definition emits :: "FDTState \<Rightarrow> FDTState \<Rightarrow> (u8 list \<Rightarrow> u8 list \<Rightarrow> bool) \<Rightarrow> bool" where
  "emits s s' P \<longleftrightarrow> (\<exists>bs ext. fdt_tab s' = fdt_tab s @ bs \<and> string_table s' = string_table s @ ext \<and>
     (\<forall>more. P (string_table s' @ more) bs)) \<and> (table_wf (string_table s) \<longrightarrow> table_wf (string_table s'))"

text \<open>What the reader makes of the bytes of some properties, of a list of children, and of
  the body of a node; \<open>dt_fuel\<close> is the recursion depth it needs.\<close>

fun dt_fuel :: "dtree \<Rightarrow> nat" where
  "dt_fuel (DNode name ps cs) = Suc (sum_list (map (\<lambda>c. Suc (dt_fuel c)) cs) + length ps)"

definition reads_props :: "(u8 list \<times> u8 list) list \<Rightarrow> u8 list \<Rightarrow> u8 list \<Rightarrow> bool" where
  "reads_props ps st bs \<longleftrightarrow> (\<forall>fuel rest qs cs r. fdt_parse_body fuel st rest = Some (qs, cs, r) \<longrightarrow>
     fdt_parse_body (fuel + length ps) st (bs @ rest) = Some (ps @ qs, cs, r))"

definition reads_children :: "dtree list \<Rightarrow> u8 list \<Rightarrow> u8 list \<Rightarrow> bool" where
  "reads_children ts st bs \<longleftrightarrow> (\<forall>fuel rest ps cs r. fdt_parse_body fuel st rest = Some (ps, cs, r) \<longrightarrow>
     fdt_parse_body (fuel + sum_list (map (\<lambda>c. Suc (dt_fuel c)) ts)) st (bs @ rest) = Some (ps, ts @ cs, r))"

definition reads_body :: "(u8 list \<times> u8 list) list \<Rightarrow> dtree list \<Rightarrow> u8 list \<Rightarrow> u8 list \<Rightarrow> bool" where
  "reads_body ps cs st bs \<longleftrightarrow> (\<forall>rest. fdt_parse_body (dt_fuel (DNode [] ps cs)) st (bs @ rest) = Some (ps, cs, rest))"

lemma reads_props_append: "reads_props ps st bs \<Longrightarrow> reads_props qs st cs \<Longrightarrow> reads_props (ps @ qs) st (bs @ cs)"
  unfolding reads_props_def
proof (intro allI impI)
  fix fuel rest xs ds r
  assume a: "\<forall>fuel rest xs cs r. fdt_parse_body fuel st rest = Some (xs, cs, r) \<longrightarrow>
      fdt_parse_body (fuel + length ps) st (bs @ rest) = Some (ps @ xs, cs, r)"
    and b: "\<forall>fuel rest xs ds r. fdt_parse_body fuel st rest = Some (xs, ds, r) \<longrightarrow>
      fdt_parse_body (fuel + length qs) st (cs @ rest) = Some (qs @ xs, ds, r)"
    and "fdt_parse_body fuel st rest = Some (xs, ds, r)"
  then have "fdt_parse_body (fuel + length qs + length ps) st (bs @ cs @ rest) = Some (ps @ qs @ xs, ds, r)" by blast
  then show "fdt_parse_body (fuel + length (ps @ qs)) st ((bs @ cs) @ rest) = Some ((ps @ qs) @ xs, ds, r)"
    by (simp add: algebra_simps del: fdt_parse_body.simps)
qed

lemma reads_children_append:
  "reads_children ts st bs \<Longrightarrow> reads_children us st cs \<Longrightarrow> reads_children (ts @ us) st (bs @ cs)"
  unfolding reads_children_def
proof (intro allI impI)
  let ?f = "\<lambda>ts. sum_list (map (\<lambda>c. Suc (dt_fuel c)) ts)"
  fix fuel rest ps ds r
  assume a: "\<forall>fuel rest ps cs r. fdt_parse_body fuel st rest = Some (ps, cs, r) \<longrightarrow>
      fdt_parse_body (fuel + ?f ts) st (bs @ rest) = Some (ps, ts @ cs, r)"
    and b: "\<forall>fuel rest ps ds r. fdt_parse_body fuel st rest = Some (ps, ds, r) \<longrightarrow>
      fdt_parse_body (fuel + ?f us) st (cs @ rest) = Some (ps, us @ ds, r)"
    and "fdt_parse_body fuel st rest = Some (ps, ds, r)"
  then have "fdt_parse_body (fuel + ?f us + ?f ts) st (bs @ cs @ rest) = Some (ps, ts @ us @ ds, r)" by blast
  then show "fdt_parse_body (fuel + ?f (ts @ us)) st ((bs @ cs) @ rest) = Some (ps, (ts @ us) @ ds, r)"
    by (simp add: algebra_simps del: fdt_parse_body.simps)
qed

lemma fdt_prop_emits:
  assumes "0 \<notin> set p" "length d < 2 ^ 32" "table_wf (string_table s)" "length (string_table (fdt_prop p d s)) < 2 ^ 32"
  shows "emits s (fdt_prop p d s) (reads_props [(p, d)])"
    and "open_node_count (fdt_prop p d s) = open_node_count s"
proof -
  let ?s1 = "fdt_put32 (of_nat (length d)) (fdt_put32 FDT_PROP s)"
  obtain pos s2 where s2: "fdt_get_string_offset p ?s1 = (pos, s2)" by fastforce
  have t1: "string_table ?s1 = string_table s" by (simp add: fdt_put32_def)
  from get_string_offset[OF s2] assms(1,3) t1 obtain ext where
    ext: "s2 = ?s1\<lparr>string_table := string_table s @ ext\<rparr>" "str_at (string_table s2) pos p" "table_wf (string_table s2)"
    by auto
  have fin: "fdt_prop p d s = fdt_put_data d (fdt_put32 (of_nat pos) s2)" using s2 by (simp add: fdt_prop_def Let_def)
  then have st: "string_table (fdt_prop p d s) = string_table s @ ext" using ext(1) by (simp add: fdt_put_data_def fdt_put32_def)
  have pos: "pos < 2 ^ 32" using ext(1,2) st assms(4) by (simp add: str_at_def)
  let ?pad = "replicate ((4 - length d mod 4) mod 4) (0 :: u8)"
  let ?bs = "le_bytes32 (cpu_to_be32 FDT_PROP) @ le_bytes32 (cpu_to_be32 (of_nat (length d))) @ le_bytes32 (cpu_to_be32 (of_nat pos)) @ d @ ?pad"
  have tab: "fdt_tab (fdt_prop p d s) = fdt_tab s @ ?bs"
    unfolding fin using ext(1) by (simp add: fdt_put_data_def fdt_put32_def)
  have at: "str_at (string_table s @ ext @ more) pos p" for more
    using ext(1) str_at_append[OF ext(2), of more] by simp
  have parse: "fdt_parse_body (Suc fuel) st (?bs @ rest) = Some ((p, d) # ps, cs, r)"
    if "fdt_parse_body fuel st rest = Some (ps, cs, r)" "str_at st pos p" for fuel st rest ps cs r
  proof -
    have "unat (of_nat (length d) :: u32) = length d" "unat (of_nat pos :: u32) = pos"
      using assms(2) pos by (simp_all add: unat_of_nat)
    then show ?thesis
      using that(1) str_at_c_string[OF that(2)] by (simp add: Let_def fdt_word_put fdt_skip_padded)
  qed
  show "emits s (fdt_prop p d s) (reads_props [(p, d)])"
    unfolding emits_def reads_props_def using tab st parse at ext by auto
  show "open_node_count (fdt_prop p d s) = open_node_count s"
    unfolding fin using ext(1) by (simp add: fdt_put_data_def fdt_put32_def)
qed

lemma emits_trans:
  assumes "emits s t P" "emits t u Q" "\<And>st bs cs. P st bs \<Longrightarrow> Q st cs \<Longrightarrow> R st (bs @ cs)"
  shows "emits s u R"
proof -
  from assms(1,2) obtain bs ext cs ext' where
    "fdt_tab t = fdt_tab s @ bs" "string_table t = string_table s @ ext" "\<And>more. P (string_table t @ more) bs"
    "fdt_tab u = fdt_tab t @ cs" "string_table u = string_table t @ ext'" "\<And>more. Q (string_table u @ more) cs"
    by (auto simp: emits_def)
  moreover from this have "R (string_table u @ more) (bs @ cs)" for more
    by (intro assms(3)) simp_all
  ultimately show ?thesis using assms(1,2) by (auto simp: emits_def)
qed

text \<open>The string table never shrinks, so a bound on the final one bounds them all.\<close>

definition grows :: "FDTState \<Rightarrow> FDTState \<Rightarrow> bool" where
  "grows s s' \<longleftrightarrow> length (string_table s) \<le> length (string_table s')"

lemma fdt_prop_grows: "grows s (fdt_prop p d s)"
  by (simp add: grows_def fdt_prop_def fdt_get_string_offset_def fdt_put32_def fdt_put_data_def Let_def split: option.splits)

lemma fdt_props_grows: "grows s (fold (\<lambda>(p, d). fdt_prop p d) ps s)"
proof (induction ps arbitrary: s)
  case Nil
  then show ?case by (simp add: grows_def)
next
  case (Cons x ps)
  obtain p d where x: "x = (p, d)" by fastforce
  show ?case
    using Cons.IH[of "fdt_prop p d s"] fdt_prop_grows[of s p d] by (simp add: grows_def x)
qed

lemma fdt_emit_grows: "grows s (fdt_emit t s)"
proof (induction t arbitrary: s)
  case (DNode name ps cs)
  have "grows u (fold fdt_emit xs u)" if "set xs \<subseteq> set cs" for xs u
    using that
  proof (induction xs arbitrary: u)
    case (Cons x xs)
    then have "grows u (fdt_emit x u)" "grows (fdt_emit x u) (fold fdt_emit xs (fdt_emit x u))" using DNode.IH by auto
    then show ?case by (simp add: grows_def)
  qed (simp add: grows_def)
  moreover have "grows s (fdt_begin_node name s)" by (simp add: grows_def fdt_begin_node_def fdt_put32_def fdt_put_data_def Let_def)
  ultimately show ?case
    using fdt_props_grows[of "fdt_begin_node name s" ps]
    by (fastforce simp: grows_def fdt_end_node_def fdt_put32_def intro: order_trans)
qed

lemma fdt_emits_grows: "grows s (fold fdt_emit ts s)"
proof (induction ts arbitrary: s)
  case (Cons t ts)
  then show ?case using fdt_emit_grows[of s t] by (force simp: grows_def intro: order_trans)
qed (simp add: grows_def)

lemma fdt_props_emits:
  assumes "props_wf ps" "table_wf (string_table s)" "length (string_table (fold (\<lambda>(p, d). fdt_prop p d) ps s)) < 2 ^ 32"
  shows "emits s (fold (\<lambda>(p, d). fdt_prop p d) ps s) (reads_props ps)
    \<and> open_node_count (fold (\<lambda>(p, d). fdt_prop p d) ps s) = open_node_count s"
  using assms
proof (induction ps arbitrary: s)
  case Nil
  then show ?case by (auto simp: emits_def reads_props_def)
next
  case (Cons x ps)
  obtain p d where x: "x = (p, d)" by fastforce
  let ?t = "fdt_prop p d s" and ?u = "fold (\<lambda>(p, d). fdt_prop p d) ps (fdt_prop p d s)"
  have "length (string_table ?t) < 2 ^ 32" using fdt_props_grows[of ?t ps] Cons.prems(3) by (simp add: grows_def x)
  then have t: "emits s ?t (reads_props [(p, d)])" and n: "open_node_count ?t = open_node_count s"
    using Cons.prems(1,2) by (intro fdt_prop_emits; simp add: props_wf_def x)+
  then have "table_wf (string_table ?t)" using Cons.prems(2) by (simp add: emits_def)
  then have u: "emits ?t ?u (reads_props ps)" "open_node_count ?u = open_node_count ?t"
    using Cons.IH[of ?t] Cons.prems(1,3) by (simp_all add: props_wf_def x)
  have "emits s ?u (reads_props ([x] @ ps))"
    unfolding x by (rule emits_trans[OF t u(1)]) (rule reads_props_append)
  with n u(2) show ?case by (simp add: x)
qed

lemma fdt_parse_body_mono: "fdt_parse_body fuel st bs = Some x \<Longrightarrow> fdt_parse_body (fuel + k) st bs = Some x"
proof (induction fuel arbitrary: bs x)
  case 0
  then show ?case by simp
next
  case (Suc fuel)
  from Suc.prems show ?case
    by (auto simp: Let_def split: if_splits option.splits prod.splits dest!: Suc.IH)
qed

lemma children_emits:
  assumes "\<And>t s. t \<in> set ts \<Longrightarrow> table_wf (string_table s) \<Longrightarrow> length (string_table (fdt_emit t s)) < 2 ^ 32 \<Longrightarrow>
      emits s (fdt_emit t s) (reads_children [t]) \<and> open_node_count (fdt_emit t s) = open_node_count s"
    and "table_wf (string_table s)" "length (string_table (fold fdt_emit ts s)) < 2 ^ 32"
  shows "emits s (fold fdt_emit ts s) (reads_children ts) \<and> open_node_count (fold fdt_emit ts s) = open_node_count s"
  using assms
proof (induction ts arbitrary: s)
  case Nil
  then show ?case by (auto simp: emits_def reads_children_def)
next
  case (Cons t ts)
  have "length (string_table (fdt_emit t s)) < 2 ^ 32"
    using fdt_emits_grows[of "fdt_emit t s" ts] Cons.prems(3) by (simp add: grows_def)
  then have t: "emits s (fdt_emit t s) (reads_children [t])" and n: "open_node_count (fdt_emit t s) = open_node_count s"
    using Cons.prems(1)[of t s] Cons.prems(2) by simp_all
  then have "table_wf (string_table (fdt_emit t s))" using Cons.prems(2) by (simp add: emits_def)
  then have u: "emits (fdt_emit t s) (fold fdt_emit ts (fdt_emit t s)) (reads_children ts)"
    "open_node_count (fold fdt_emit ts (fdt_emit t s)) = open_node_count (fdt_emit t s)"
    using Cons.IH[of "fdt_emit t s"] Cons.prems(1,3) by simp_all
  have "emits s (fold fdt_emit ts (fdt_emit t s)) (reads_children ([t] @ ts))"
    by (rule emits_trans[OF t u(1)]) (rule reads_children_append)
  with n u(2) show ?case by simp
qed

text \<open>The end of a node closes its body, and its begin makes the body a child.\<close>

lemma reads_children_end:
  assumes "reads_children cs st bs" "es = le_bytes32 (cpu_to_be32 FDT_END_NODE)"
  shows "reads_body [] cs st (bs @ es)"
proof -
  have "fdt_parse_body (Suc 0) st (es @ rest) = Some ([], [], rest)" for rest
    unfolding assms(2) by (simp add: fdt_word_put Let_def)
  then have "fdt_parse_body (Suc 0 + sum_list (map (\<lambda>c. Suc (dt_fuel c)) cs)) st (bs @ es @ rest) = Some ([], cs @ [], rest)" for rest
    using assms(1) unfolding reads_children_def by blast
  then show ?thesis by (simp add: reads_body_def)
qed

lemma reads_props_body:
  assumes "reads_props ps st bs" "reads_body [] cs st es"
  shows "reads_body ps cs st (bs @ es)"
proof -
  have "fdt_parse_body (dt_fuel (DNode [] [] cs) + length ps) st (bs @ es @ rest) = Some (ps @ [], cs, rest)" for rest
    using assms unfolding reads_props_def reads_body_def by blast
  then show ?thesis by (simp add: reads_body_def)
qed

lemma reads_node:
  assumes "0 \<notin> set name" "reads_body ps cs st es"
    "bs = le_bytes32 (cpu_to_be32 FDT_BEGIN_NODE) @ (name @ [0]) @ replicate ((4 - length (name @ [0]) mod 4) mod 4) 0"
  shows "reads_children [DNode name ps cs] st (bs @ es)"
  unfolding reads_children_def
proof (intro allI impI)
  fix fuel rest qs ds r
  assume r: "fdt_parse_body fuel st rest = Some (qs, ds, r)"
  let ?f = "fuel + dt_fuel (DNode name ps cs)" and ?x = "replicate ((4 - length (name @ [0]) mod 4) mod 4) 0 @ es @ rest"
  have nm: "c_string ((name @ [0]) @ ?x) = name" using c_string_append_zero[OF assms(1), of ?x] by simp
  have sk: "fdt_skip (length name + 1) ((name @ [0]) @ ?x) = es @ rest"
    using fdt_skip_padded[of "name @ [0]" "es @ rest"] by simp
  have "fdt_parse_body (dt_fuel (DNode name ps cs)) st (es @ rest) = Some (ps, cs, rest)"
    using assms(2) by (simp add: reads_body_def)
  then have "fdt_parse_body ?f st (es @ rest) = Some (ps, cs, rest)"
    using fdt_parse_body_mono[of "dt_fuel (DNode name ps cs)" st "es @ rest" _ fuel]
    by (simp add: add.commute del: dt_fuel.simps fdt_parse_body.simps)
  moreover have "fdt_parse_body ?f st rest = Some (qs, ds, r)" by (rule fdt_parse_body_mono[OF r])
  ultimately have "fdt_parse_body (Suc ?f) st ((bs @ es) @ rest) = Some (qs, DNode name ps cs # ds, r)"
    using nm sk unfolding assms(3) by (simp add: Let_def fdt_word_put del: dt_fuel.simps)
  then show "fdt_parse_body (fuel + sum_list (map (\<lambda>c. Suc (dt_fuel c)) [DNode name ps cs])) st ((bs @ es) @ rest)
      = Some (qs, [DNode name ps cs] @ ds, r)"
    by (simp del: dt_fuel.simps fdt_parse_body.simps)
qed

lemma fdt_emit_emits:
  "dtree_wf t \<Longrightarrow> table_wf (string_table s) \<Longrightarrow> length (string_table (fdt_emit t s)) < 2 ^ 32 \<Longrightarrow>
    emits s (fdt_emit t s) (reads_children [t]) \<and> open_node_count (fdt_emit t s) = open_node_count s"
proof (induction t arbitrary: s)
  case (DNode name ps cs)
  let ?b = "fdt_begin_node name s"
  let ?p = "fold (\<lambda>(p, d). fdt_prop p d) ps ?b"
  let ?c = "fold fdt_emit cs ?p"
  let ?e = "fdt_end_node ?c"
  have wf: "0 \<notin> set name" "props_wf ps" "list_all dtree_wf cs" using DNode.prems(1) by simp_all
  have tb: "string_table ?b = string_table s" by (simp add: fdt_begin_node_def fdt_put_data_def fdt_put32_def Let_def)
  have te: "string_table ?e = string_table ?c" by (simp add: fdt_end_node_def fdt_put32_def)
  have len: "length (string_table ?c) < 2 ^ 32" "length (string_table ?p) < 2 ^ 32"
    using DNode.prems(3) te fdt_emits_grows[of ?p cs] by (simp_all add: grows_def)
  from fdt_props_emits[OF wf(2), of ?b] tb DNode.prems(2) len(2)
  have P: "emits ?b ?p (reads_props ps)" and np: "open_node_count ?p = open_node_count ?b" by simp_all
  then have "table_wf (string_table ?p)" using tb DNode.prems(2) by (simp add: emits_def)
  then have C: "emits ?p ?c (reads_children cs)" and nc: "open_node_count ?c = open_node_count ?p"
    using children_emits[of cs ?p] DNode.IH wf(3) len(1) by (auto simp: list_all_iff)
  have B: "emits s ?b (\<lambda>st bs. bs = le_bytes32 (cpu_to_be32 FDT_BEGIN_NODE) @ (name @ [0]) @ replicate ((4 - length (name @ [0]) mod 4) mod 4) 0)"
    by (auto simp: emits_def fdt_begin_node_def fdt_put_data_def fdt_put32_def Let_def)
  have E: "emits ?c ?e (\<lambda>st bs. bs = le_bytes32 (cpu_to_be32 FDT_END_NODE))"
    by (auto simp: emits_def fdt_end_node_def fdt_put32_def)
  have "emits ?p ?e (reads_body [] cs)" by (rule emits_trans[OF C E]) (rule reads_children_end)
  with P have "emits ?b ?e (reads_body ps cs)" by (rule emits_trans) (rule reads_props_body)
  then have "emits s ?e (reads_children [DNode name ps cs])"
    by (rule emits_trans[OF B]) (rule reads_node[OF wf(1)])
  moreover have "open_node_count ?e = open_node_count s"
    using np nc by (simp add: fdt_end_node_def fdt_begin_node_def fdt_put_data_def fdt_put32_def Let_def)
  ultimately show ?case by simp
qed

lemma fdt_field_word:
  "fdt_field 0 (le_bytes32 (cpu_to_be32 v) @ bs) = v"
  "fdt_field (numeral n) (le_bytes32 w @ bs) = fdt_field (pred_numeral n) bs"
  "fdt_field (Suc i) (le_bytes32 w @ bs) = fdt_field i bs"
proof -
  show suc: "fdt_field (Suc i) (le_bytes32 w @ bs) = fdt_field i bs" for i by (simp add: fdt_field_def)
  show "fdt_field (numeral n) (le_bytes32 w @ bs) = fdt_field (pred_numeral n) bs" by (simp add: numeral_eq_Suc suc)
qed (simp add: fdt_field_def fdt_word_put)

text \<open>A whole tree, emitted into an empty builder.\<close>

lemma fdt_emit_parse:
  assumes "dtree_wf t" "length (string_table (fdt_emit t fdt_init)) < 2 ^ 32"
  shows "open_node_count (fdt_emit t fdt_init) = 0"
    and "fdt_parse (dt_fuel t + 2) (string_table (fdt_emit t fdt_init)) (fdt_tab (fdt_put32 FDT_END (fdt_emit t fdt_init))) = Some t"
proof -
  let ?s = "fdt_emit t fdt_init"
  have e: "emits fdt_init ?s (reads_children [t])" "open_node_count ?s = 0"
    using fdt_emit_emits[OF assms(1), of fdt_init] assms(2) by (simp_all add: fdt_init_def table_wf_def)
  then show "open_node_count ?s = 0" by simp
  from e(1) have "\<forall>more. reads_children [t] (string_table ?s @ more) (fdt_tab ?s)"
    by (auto simp: emits_def fdt_init_def)
  from spec[OF this, of "[]"] have r: "reads_children [t] (string_table ?s) (fdt_tab ?s)" by simp
  have "fdt_parse_body (Suc 0) (string_table ?s) (le_bytes32 (cpu_to_be32 FDT_END)) = Some ([], [], [])"
    using fdt_word_put[of FDT_END "[]"] by (simp add: Let_def)
  with r have "fdt_parse_body (Suc 0 + sum_list (map (\<lambda>c. Suc (dt_fuel c)) [t])) (string_table ?s)
      (fdt_tab ?s @ le_bytes32 (cpu_to_be32 FDT_END)) = Some ([], [t] @ [], [])"
    unfolding reads_children_def by blast
  then show "fdt_parse (dt_fuel t + 2) (string_table ?s) (fdt_tab (fdt_put32 FDT_END ?s)) = Some t"
    by (simp add: fdt_parse_def fdt_put32_def del: fdt_parse_body.simps)
qed

lemma concat_map_words: "concat (map f (x # xs)) = f x @ concat (map f xs)"
  by simp

lemma fdt_output_decode:
  assumes "open_node_count s = 0" "length (fdt_tab s) + length (string_table s) + 100 < 2 ^ 32"
  shows "\<exists>blob. fdt_output s = Some blob \<and>
    fdt_decode fuel blob = fdt_parse fuel (string_table s) (fdt_tab (fdt_put32 FDT_END s))"
proof -
  have pad: "pad8 n < 8" for n by (simp add: pad8_def)
  let ?e = "fdt_put32 FDT_END s"
  have len: "length (fdt_tab ?e) = length (fdt_tab s) + 4" "string_table ?e = string_table s"
    by (simp_all add: fdt_put32_def)
  define n where "n = length (fdt_tab ?e)"
  define q where "q = pad8 (40 + n)"
  define k where "k = length (string_table s)"
  define r where "r = pad8 (40 + n + q + 16 + k)"
  have b: "q < 8" "r < 8" "n + k + 96 < 2 ^ 32"
    using pad assms(2) len by (simp_all add: q_def r_def n_def k_def)
  have u: "unat (of_nat m :: u32) = m" if "m \<le> n + k + q + r + 56" for m
    using that b by (simp add: unat_of_nat take_bit_nat_eq_self)
  define h where "h = concat (map (\<lambda>v. le_bytes32 (cpu_to_be32 v))
    [FDT_MAGIC, of_nat (40 + n + q + 16 + k + r), of_nat 40, of_nat (40 + n + q + 16), of_nat (40 + n + q), FDT_VERSION,
     16, 0, of_nat k, of_nat n])"
  define blob where "blob = h @ fdt_tab ?e @ replicate q 0 @ replicate 16 0 @ string_table s @ replicate r 0"
  have out: "fdt_output s = Some blob"
    unfolding fdt_output_def Let_def blob_def h_def q_def r_def n_def k_def len(2) using assms(1) by (simp only: if_False not_False_eq_True simp_thms)
  have hl: "length h = 40" by (simp add: h_def)
  then have bl: "length blob = 40 + n + q + 16 + k + r" by (simp add: blob_def n_def k_def)
  have f: "fdt_field 0 blob = FDT_MAGIC" "fdt_field 1 blob = of_nat (40 + n + q + 16 + k + r)" "fdt_field 2 blob = of_nat 40"
    "fdt_field 3 blob = of_nat (40 + n + q + 16)" "fdt_field 5 blob = FDT_VERSION"
    "fdt_field 8 blob = of_nat k" "fdt_field 9 blob = of_nat n"
    unfolding blob_def h_def concat_map_words append_assoc One_nat_def by (simp_all only: fdt_field_word pred_numeral_simps BitM.simps arith_simps numeral_One One_nat_def)
  have t1: "take n (drop 40 blob) = fdt_tab ?e" by (simp add: blob_def hl n_def)
  have t2: "take k (drop (40 + n + q + 16) blob) = string_table s" by (simp add: blob_def hl n_def k_def)
  have "fdt_decode fuel blob = fdt_parse fuel (string_table s) (fdt_tab ?e)"
    unfolding fdt_decode_def Let_def f using u[of 40] u[of n] u[of k] u[of "40 + n + q + 16"] u[of "40 + n + q + 16 + k + r"] t1 t2 bl
    by (simp only: refl) simp
  with out show ?thesis by blast
qed

text \<open>C14: every device tree that the builder emits can be read back from the blob that
  \<open>fdt_output\<close> writes: no assertion fails, the header describes the two blocks, and
  the structure with its interned property names decodes to the tree.\<close>

theorem fdt_roundtrip:
  assumes "dtree_wf t"
    "length (fdt_tab (fdt_emit t fdt_init)) + length (string_table (fdt_emit t fdt_init)) + 100 < 2 ^ 32"
  shows "\<exists>blob. fdt_output (fdt_emit t fdt_init) = Some blob \<and> fdt_decode (dt_fuel t + 2) blob = Some t"
proof -
  have "length (string_table (fdt_emit t fdt_init)) < 2 ^ 32" using assms(2) by simp
  from fdt_emit_parse[OF assms(1) this] fdt_output_decode[OF _ assms(2)] show ?thesis by metis
qed

theorem fdt_roundtrip_witness:
  "\<exists>blob. fdt_output (fdt_emit (DNode [] [([114, 101, 103], [0, 1]), ([120], [])] [DNode [99] [([114, 101, 103], [7])] []]) fdt_init) = Some blob
    \<and> fdt_decode 8 blob = Some (DNode [] [([114, 101, 103], [0, 1]), ([120], [])] [DNode [99] [([114, 101, 103], [7])] []])"
proof -
  let ?t = "DNode [] [([114, 101, 103], [0, 1]), ([120], [])] [DNode [99] [([114, 101, 103], [7])] []]"
  have w: "dtree_wf ?t" by (simp add: props_wf_def)
  have l: "length (fdt_tab (fdt_emit ?t fdt_init)) + length (string_table (fdt_emit ?t fdt_init)) + 100 < 2 ^ 32"
    by (simp add: fdt_init_def fdt_begin_node_def fdt_end_node_def fdt_prop_def fdt_put32_def fdt_put_data_def
        fdt_get_string_offset_def c_string_def Let_def)
  have f: "dt_fuel ?t + 2 = 8" by simp
  show ?thesis using fdt_roundtrip[OF w l] unfolding f .
qed

end
