(* ===== verification/BoardFdt.thy ===== *)
theory BoardFdt
  imports Machine Fdt
begin

text \<open>
  The device tree of the machine, \<open>riscv_build_fdt\<close> of \<open>src/src/fdt.cpp\<close>.  The builder calls are
  those of the source, in their order; \<open>board_tree\<close> is the tree a reader of the boot
  ROM should find, and the results say that the calls emit exactly this tree.  The
  fields of the machine that the function reads are collected in \<open>fdt_board\<close>.
\<close>

section \<open>The builder calls\<close>

record FBDevice =
  fb_width :: u32
  fb_height :: u32
  fb_stride :: u32
  fb_size :: u32

record fdt_board =
  fb_ncpus :: nat
  fb_misa :: "nat \<Rightarrow> u32"
  fb_ram_base_addr :: u64
  fb_ram_size :: u64
  fb_clint_base_addr :: u64
  fb_clint_size :: u64
  fb_plic_base_addr :: u64
  fb_plic_size :: u64
  fb_virtio_count :: nat
  fb_fb_dev :: "FBDevice option"

definition VIRTIO_BASE_ADDR :: u64 where [simp]: "VIRTIO_BASE_ADDR = 0x40010000"
definition VIRTIO_SIZE :: u64 where [simp]: "VIRTIO_SIZE = 0x1000"
definition VIRTIO_IRQ :: nat where [simp]: "VIRTIO_IRQ = 4"
definition DW_APB_UART0_BASE_ADDR :: u64 where [simp]: "DW_APB_UART0_BASE_ADDR = 0x12002000"
definition DW_APB_UART1_BASE_ADDR :: u64 where [simp]: "DW_APB_UART1_BASE_ADDR = 0x12007000"
definition DW_APB_UART0_SIZE :: u64 where [simp]: "DW_APB_UART0_SIZE = 0x1000"
definition DW_APB_UART1_SIZE :: u64 where [simp]: "DW_APB_UART1_SIZE = 0x1000"
definition FRAMEBUFFER_BASE_ADDR :: u64 where [simp]: "FRAMEBUFFER_BASE_ADDR = 0x41000000"

text \<open>\<open>isa_string\<close>: \<open>rv64\<close> and a letter for every extension.\<close>

definition isa_string :: "u32 \<Rightarrow> u8 list" where
  "isa_string isa = cstr ''rv64'' @ map (\<lambda>i. 97 + of_nat i) (filter (\<lambda>i. isa AND push_bit i 1 \<noteq> 0) [0..<26])"

text \<open>One round of the loop over the harts; the state is the builder, \<open>cur_phandle\<close> and
  \<open>hartid2handle\<close>.\<close>

definition fdt_cpu :: "fdt_board \<Rightarrow> nat \<Rightarrow> FDTState \<times> nat \<times> u32 list \<Rightarrow> FDTState \<times> nat \<times> u32 list" where
  "fdt_cpu m hartid = (\<lambda>(s, cur_phandle, hartid2handle).
     let s = fdt_begin_node_num (cstr ''cpu'') (of_nat hartid) s;
         s = fdt_prop_str (cstr ''device_type'') (cstr ''cpu'') s;
         s = fdt_prop_u32 (cstr ''reg'') (of_nat hartid) s;
         s = fdt_prop_str (cstr ''status'') (cstr ''okay'') s;
         s = fdt_prop_str (cstr ''compatible'') (cstr ''riscv'') s;
         s = fdt_prop_str (cstr ''riscv,isa'') (isa_string (fb_misa m hartid)) s;
         s = fdt_prop_str (cstr ''mmu-type'') (cstr ''riscv,sv48'') s;
         s = fdt_prop_u32 (cstr ''clock-frequency'') (lo32 CPU_FREQUENCY) s;
         s = fdt_begin_node (cstr ''interrupt-controller'') s;
         s = fdt_prop_u32 (cstr ''#interrupt-cells'') 1 s;
         s = fdt_prop (cstr ''interrupt-controller'') [] s;
         s = fdt_prop_str (cstr ''compatible'') (cstr ''riscv,cpu-intc'') s;
         intc_phandle = cur_phandle;
         s = fdt_prop_u32 (cstr ''phandle'') (of_nat intc_phandle) s;
         s = fdt_prop_u32 (cstr ''linux,phandle'') (of_nat intc_phandle) s;
         s = fdt_end_node s;
         s = fdt_end_node s
     in (s, cur_phandle + 1, hartid2handle @ [of_nat intc_phandle]))"

text \<open>The table of interrupts: two lines for every hart.\<close>

definition irq_table :: "u32 list \<Rightarrow> u32 \<Rightarrow> u32 \<Rightarrow> u32 list" where
  "irq_table hartid2handle irq1 irq2 = concat (map (\<lambda>h. [h, irq1, h, irq2]) hartid2handle)"

definition fdt_virtio :: "nat \<Rightarrow> nat \<Rightarrow> FDTState \<Rightarrow> FDTState" where
  "fdt_virtio plic_phandle i s =
     (let addr = VIRTIO_BASE_ADDR + of_nat i * VIRTIO_SIZE;
          s = fdt_begin_node_num (cstr ''virtio'') addr s;
          s = fdt_prop_str (cstr ''compatible'') (cstr ''virtio,mmio'') s;
          s = fdt_prop_tab_u64_2 (cstr ''reg'') addr VIRTIO_SIZE s;
          s = fdt_prop_tab_u32 (cstr ''interrupts-extended'') [of_nat plic_phandle, of_nat (VIRTIO_IRQ + i)] s
      in fdt_end_node s)"

definition fdt_uart :: "nat \<Rightarrow> nat \<Rightarrow> FDTState \<Rightarrow> FDTState" where
  "fdt_uart plic_phandle uart_no s =
     (let base_addr = (if uart_no = 0 then DW_APB_UART0_BASE_ADDR else DW_APB_UART1_BASE_ADDR);
          s = fdt_begin_node_num (cstr ''uart'') base_addr s;
          s = fdt_prop_tab_u64_2 (cstr ''reg'') base_addr DW_APB_UART0_SIZE s;
          s = fdt_prop_u32 (cstr ''current-speed'') 115200 s;
          s = fdt_prop_u32 (cstr ''clock-frequency'') 25000000 s;
          s = fdt_prop_u32 (cstr ''reg-shift'') 2 s;
          s = fdt_prop_u32 (cstr ''reg-io-width'') 4 s;
          s = fdt_prop_str (cstr ''compatible'') (cstr ''ns16550a'') s;
          s = fdt_prop_u32 (cstr ''interrupt-parent'') (of_nat plic_phandle) s;
          s = fdt_prop_u32 (cstr ''interrupts'') (of_nat (if uart_no = 0 then DW_APB_UART0_IRQ else DW_APB_UART1_IRQ)) s
      in fdt_end_node s)"

definition fdt_framebuffer :: "FBDevice \<Rightarrow> FDTState \<Rightarrow> FDTState" where
  "fdt_framebuffer fb s =
     (let s = fdt_begin_node_num (cstr ''framebuffer'') FRAMEBUFFER_BASE_ADDR s;
          s = fdt_prop_str (cstr ''compatible'') (cstr ''simple-framebuffer'') s;
          s = fdt_prop_tab_u64_2 (cstr ''reg'') FRAMEBUFFER_BASE_ADDR (sx32 (fb_size fb)) s;
          s = fdt_prop_u32 (cstr ''width'') (fb_width fb) s;
          s = fdt_prop_u32 (cstr ''height'') (fb_height fb) s;
          s = fdt_prop_u32 (cstr ''stride'') (fb_stride fb) s;
          s = fdt_prop_str (cstr ''format'') (cstr ''a8r8g8b8'') s
      in fdt_end_node s)"

definition build_fdt :: "fdt_board \<Rightarrow> u8 list option \<Rightarrow> u64 \<Rightarrow> u64 \<Rightarrow> FDTState" where
  "build_fdt m cmd_line initrd_start initrd_end =
     (let s = fdt_begin_node (cstr '''') fdt_init;
          s = fdt_prop_u32 (cstr ''#address-cells'') 2 s;
          s = fdt_prop_u32 (cstr ''#size-cells'') 2 s;
          s = fdt_prop_str (cstr ''compatible'') (cstr ''ucbbar,majordomo-bar_dev'') s;
          s = fdt_prop_str (cstr ''model'') (cstr ''ucbbar,majordomo-bare'') s;
          s = fdt_begin_node (cstr ''cpus'') s;
          s = fdt_prop_u32 (cstr ''#address-cells'') 1 s;
          s = fdt_prop_u32 (cstr ''#size-cells'') 0 s;
          s = fdt_prop_u32 (cstr ''timebase-frequency'') (lo32 RTC_FREQ) s;
          (s, cur_phandle, hartid2handle) = fold (fdt_cpu m) [0..<fb_ncpus m] (s, 1, []);
          s = fdt_end_node s;
          s = fdt_begin_node_num (cstr ''memory'') (fb_ram_base_addr m) s;
          s = fdt_prop_str (cstr ''device_type'') (cstr ''memory'') s;
          s = fdt_prop_tab_u32 (cstr ''reg'')
                [lo32 (drop_bit 32 (fb_ram_base_addr m)), lo32 (fb_ram_base_addr m),
                 lo32 (drop_bit 32 (fb_ram_size m)), lo32 (fb_ram_size m)] s;
          s = fdt_end_node s;
          s = fdt_begin_node (cstr ''soc'') s;
          s = fdt_prop_u32 (cstr ''#address-cells'') 2 s;
          s = fdt_prop_u32 (cstr ''#size-cells'') 2 s;
          s = fdt_prop_tab_str (cstr ''compatible'') [cstr ''ucbbar,majordomo-bar-soc'', cstr ''simple-bus''] s;
          s = fdt_prop (cstr ''ranges'') [] s;
          s = fdt_begin_node_num (cstr ''clint'') (fb_clint_base_addr m) s;
          s = fdt_prop_str (cstr ''compatible'') (cstr ''riscv,clint0'') s;
          s = fdt_prop_tab_u32 (cstr ''interrupts-extended'') (irq_table hartid2handle 3 7) s;
          s = fdt_prop_tab_u64_2 (cstr ''reg'') (fb_clint_base_addr m) (fb_clint_size m) s;
          s = fdt_end_node s;
          s = fdt_begin_node_num (cstr ''plic'') (fb_plic_base_addr m) s;
          s = fdt_prop_u32 (cstr ''#interrupt-cells'') 1 s;
          s = fdt_prop (cstr ''interrupt-controller'') [] s;
          s = fdt_prop_str (cstr ''compatible'') (cstr ''riscv,plic0'') s;
          s = fdt_prop_u32 (cstr ''riscv,ndev'') 31 s;
          s = fdt_prop_tab_u64_2 (cstr ''reg'') (fb_plic_base_addr m) (fb_plic_size m) s;
          s = fdt_prop_tab_u32 (cstr ''interrupts-extended'') (irq_table hartid2handle 9 11) s;
          plic_phandle = cur_phandle;
          s = fdt_prop_u32 (cstr ''phandle'') (of_nat plic_phandle) s;
          s = fdt_end_node s;
          s = fold (fdt_virtio plic_phandle) [0..<fb_virtio_count m] s;
          s = fold (fdt_uart plic_phandle) [0, 1] s;
          s = (case fb_fb_dev m of None \<Rightarrow> s | Some fb \<Rightarrow> fdt_framebuffer fb s);
          s = fdt_end_node s;
          s = fdt_begin_node (cstr ''chosen'') s;
          s = fdt_prop_str (cstr ''bootargs'') (case cmd_line of None \<Rightarrow> cstr '''' | Some c \<Rightarrow> c) s;
          s = (if initrd_start \<noteq> 0 \<and> initrd_start < initrd_end
               then fdt_prop_u64 (cstr ''linux,initrd-end'') initrd_end
                      (fdt_prop_u64 (cstr ''linux,initrd-start'') initrd_start s)
               else s);
          s = fdt_end_node s
      in fdt_end_node s)"

text \<open>With \<open>dtb_name\<close>, \<open>dtb\<close> is the content of that file.  The result is the blob written to
  \<open>dst\<close>, its length the value returned; \<open>None\<close> is the failed assertion of
  \<open>fdt_output\<close>.\<close>

definition riscv_build_fdt :: "fdt_board \<Rightarrow> (u8 list) option \<Rightarrow> u8 list option \<Rightarrow> u64 \<Rightarrow> u64 \<Rightarrow> (u8 list) option" where
  "riscv_build_fdt m dtb cmd_line initrd_start initrd_end =
     (case dtb of
        None \<Rightarrow> fdt_output (build_fdt m cmd_line initrd_start initrd_end)
      | Some file \<Rightarrow> Some file)"

section \<open>The tree\<close>

definition be32s :: "u32 list \<Rightarrow> u8 list" where
  "be32s ws = concat (map (\<lambda>w. le_bytes32 (cpu_to_be32 w)) ws)"

definition be64s :: "u64 list \<Rightarrow> u8 list" where
  "be64s ws = be32s (concat (map (\<lambda>v. [lo32 (drop_bit 32 v), lo32 v]) ws))"

definition str0 :: "string \<Rightarrow> u8 list" where "str0 x = cstr x @ [0]"

definition cpu_tree :: "fdt_board \<Rightarrow> nat \<Rightarrow> dtree" where
  "cpu_tree m hartid =
     DNode (node_name_num (cstr ''cpu'') (of_nat hartid))
       [(cstr ''device_type'', str0 ''cpu''), (cstr ''reg'', be32s [of_nat hartid]), (cstr ''status'', str0 ''okay''),
        (cstr ''compatible'', str0 ''riscv''), (cstr ''riscv,isa'', isa_string (fb_misa m hartid) @ [0]),
        (cstr ''mmu-type'', str0 ''riscv,sv48''), (cstr ''clock-frequency'', be32s [lo32 CPU_FREQUENCY])]
       [DNode (cstr ''interrupt-controller'')
          [(cstr ''#interrupt-cells'', be32s [1]), (cstr ''interrupt-controller'', []),
           (cstr ''compatible'', str0 ''riscv,cpu-intc''), (cstr ''phandle'', be32s [of_nat (hartid + 1)]),
           (cstr ''linux,phandle'', be32s [of_nat (hartid + 1)])] []]"

definition hart_irqs :: "nat \<Rightarrow> u32 \<Rightarrow> u32 \<Rightarrow> u8 list" where
  "hart_irqs n irq1 irq2 = be32s (concat (map (\<lambda>i. [of_nat (i + 1), irq1, of_nat (i + 1), irq2]) [0..<n]))"

definition virtio_tree :: "nat \<Rightarrow> nat \<Rightarrow> dtree" where
  "virtio_tree plic_phandle i =
     (let addr = VIRTIO_BASE_ADDR + of_nat i * VIRTIO_SIZE in
      DNode (node_name_num (cstr ''virtio'') addr)
        [(cstr ''compatible'', str0 ''virtio,mmio''), (cstr ''reg'', be64s [addr, VIRTIO_SIZE]),
         (cstr ''interrupts-extended'', be32s [of_nat plic_phandle, of_nat (VIRTIO_IRQ + i)])] [])"

definition uart_tree :: "nat \<Rightarrow> u64 \<Rightarrow> nat \<Rightarrow> dtree" where
  "uart_tree plic_phandle addr irq =
     DNode (node_name_num (cstr ''uart'') addr)
       [(cstr ''reg'', be64s [addr, DW_APB_UART0_SIZE]), (cstr ''current-speed'', be32s [115200]),
        (cstr ''clock-frequency'', be32s [25000000]), (cstr ''reg-shift'', be32s [2]), (cstr ''reg-io-width'', be32s [4]),
        (cstr ''compatible'', str0 ''ns16550a''), (cstr ''interrupt-parent'', be32s [of_nat plic_phandle]),
        (cstr ''interrupts'', be32s [of_nat irq])] []"

definition framebuffer_tree :: "FBDevice \<Rightarrow> dtree" where
  "framebuffer_tree fb =
     DNode (node_name_num (cstr ''framebuffer'') FRAMEBUFFER_BASE_ADDR)
       [(cstr ''compatible'', str0 ''simple-framebuffer''), (cstr ''reg'', be64s [FRAMEBUFFER_BASE_ADDR, sx32 (fb_size fb)]),
        (cstr ''width'', be32s [fb_width fb]), (cstr ''height'', be32s [fb_height fb]), (cstr ''stride'', be32s [fb_stride fb]),
        (cstr ''format'', str0 ''a8r8g8b8'')] []"

definition soc_tree :: "fdt_board \<Rightarrow> dtree" where
  "soc_tree m =
     DNode (cstr ''soc'')
       [(cstr ''#address-cells'', be32s [2]), (cstr ''#size-cells'', be32s [2]),
        (cstr ''compatible'', str0 ''ucbbar,majordomo-bar-soc'' @ str0 ''simple-bus''), (cstr ''ranges'', [])]
       ([DNode (node_name_num (cstr ''clint'') (fb_clint_base_addr m))
           [(cstr ''compatible'', str0 ''riscv,clint0''), (cstr ''interrupts-extended'', hart_irqs (fb_ncpus m) 3 7),
            (cstr ''reg'', be64s [fb_clint_base_addr m, fb_clint_size m])] [],
         DNode (node_name_num (cstr ''plic'') (fb_plic_base_addr m))
           [(cstr ''#interrupt-cells'', be32s [1]), (cstr ''interrupt-controller'', []),
            (cstr ''compatible'', str0 ''riscv,plic0''), (cstr ''riscv,ndev'', be32s [31]),
            (cstr ''reg'', be64s [fb_plic_base_addr m, fb_plic_size m]),
            (cstr ''interrupts-extended'', hart_irqs (fb_ncpus m) 9 11),
            (cstr ''phandle'', be32s [of_nat (fb_ncpus m + 1)])] []]
        @ map (virtio_tree (fb_ncpus m + 1)) [0..<fb_virtio_count m]
        @ [uart_tree (fb_ncpus m + 1) DW_APB_UART0_BASE_ADDR DW_APB_UART0_IRQ,
           uart_tree (fb_ncpus m + 1) DW_APB_UART1_BASE_ADDR DW_APB_UART1_IRQ]
        @ (case fb_fb_dev m of None \<Rightarrow> [] | Some fb \<Rightarrow> [framebuffer_tree fb]))"

definition board_tree :: "fdt_board \<Rightarrow> u8 list option \<Rightarrow> u64 \<Rightarrow> u64 \<Rightarrow> dtree" where
  "board_tree m cmd_line initrd_start initrd_end =
     DNode []
       [(cstr ''#address-cells'', be32s [2]), (cstr ''#size-cells'', be32s [2]),
        (cstr ''compatible'', str0 ''ucbbar,majordomo-bar_dev''), (cstr ''model'', str0 ''ucbbar,majordomo-bare'')]
       [DNode (cstr ''cpus'')
          [(cstr ''#address-cells'', be32s [1]), (cstr ''#size-cells'', be32s [0]),
           (cstr ''timebase-frequency'', be32s [lo32 RTC_FREQ])]
          (map (cpu_tree m) [0..<fb_ncpus m]),
        DNode (node_name_num (cstr ''memory'') (fb_ram_base_addr m))
          [(cstr ''device_type'', str0 ''memory''), (cstr ''reg'', be64s [fb_ram_base_addr m, fb_ram_size m])] [],
        soc_tree m,
        DNode (cstr ''chosen'')
          ((cstr ''bootargs'', (case cmd_line of None \<Rightarrow> [] | Some c \<Rightarrow> c) @ [0])
           # (if initrd_start \<noteq> 0 \<and> initrd_start < initrd_end
              then [(cstr ''linux,initrd-start'', be64s [initrd_start]), (cstr ''linux,initrd-end'', be64s [initrd_end])]
              else [])) []]"

section \<open>The calls emit the tree\<close>

lemma length_be32s [simp]: "length (be32s ws) = 4 * length ws"
  by (induction ws) (simp_all add: be32s_def)

lemma fold_put32: "fold fdt_put32 ws s = fdt_put_data (be32s ws) s"
proof -
  have "fold fdt_put32 ws s = s\<lparr>fdt_tab := fdt_tab s @ be32s ws\<rparr>"
    by (induction ws arbitrary: s) (simp_all add: fdt_put32_def be32s_def)
  then show ?thesis by (simp add: fdt_put_data_def)
qed

lemma fdt_prop_tab_u32_eq: "fdt_prop_tab_u32 name ws s = fdt_prop name (be32s ws) s"
  by (simp add: fdt_prop_tab_u32_def fdt_prop_def fold_put32 mult.commute)

lemmas prop_calls = fdt_prop_tab_u32_eq fdt_prop_u32_def fdt_prop_u64_def fdt_prop_tab_u64_2_def fdt_prop_str_def
  fdt_prop_tab_str_def fdt_begin_node_num_def be64s_def str0_def

lemma fdt_device_emits:
  "fdt_virtio ph i s = fdt_emit (virtio_tree ph i) s"
  "fdt_uart ph n s = fdt_emit (if n = 0 then uart_tree ph DW_APB_UART0_BASE_ADDR DW_APB_UART0_IRQ
     else uart_tree ph DW_APB_UART1_BASE_ADDR DW_APB_UART1_IRQ) s"
  "fdt_framebuffer fb s = fdt_emit (framebuffer_tree fb) s"
  by (simp_all add: fdt_virtio_def fdt_uart_def fdt_framebuffer_def virtio_tree_def uart_tree_def framebuffer_tree_def
      Let_def prop_calls)

lemma fdt_virtios_emit: "fold (fdt_virtio ph) is s = fold fdt_emit (map (virtio_tree ph) is) s"
  by (induction "is" arbitrary: s) (simp_all add: fdt_device_emits)

lemma cstr_Nil [simp]: "cstr [] = []" by (simp add: cstr_def)

lemma fdt_cpus_emits:
  "fold (fdt_cpu m) [0..<n] (s, 1, []) = (fold fdt_emit (map (cpu_tree m) [0..<n]) s, n + 1, map (\<lambda>i. of_nat (i + 1)) [0..<n])"
  by (induction n) (simp_all add: fdt_cpu_def cpu_tree_def Let_def prop_calls)

lemma build_fdt_emits:
  "build_fdt m cmd i0 i1 = fdt_emit (board_tree m cmd i0 i1) fdt_init"
  unfolding build_fdt_def Let_def fdt_cpus_emits prod.case board_tree_def soc_tree_def
  by (simp add: prop_calls irq_table_def hart_irqs_def fdt_virtios_emit fdt_device_emits(2,3) comp_def
      split: option.split)

section \<open>The tree fits\<close>

text \<open>A bound on the bytes a tree adds to the two blocks.\<close>

fun dt_size :: "dtree \<Rightarrow> nat" where
  "dt_size (DNode name ps cs) =
     16 + length name + sum_list (map (\<lambda>(p, d). 16 + length p + length d) ps) + sum_list (map dt_size cs)"

definition fdt_len :: "FDTState \<Rightarrow> nat" where "fdt_len s = length (fdt_tab s) + length (string_table s)"

lemma fdt_len_prop: "fdt_len (fdt_prop p d s) \<le> fdt_len s + (16 + length p + length d)"
proof -
  have "(4 - length d mod 4) mod 4 \<le> 3" using mod_less_divisor[of 4 "4 - length d mod 4"] by simp
  then show ?thesis
    by (simp add: fdt_len_def fdt_prop_def Let_def fdt_put32_def fdt_put_data_def fdt_get_string_offset_def split: option.split)
qed

lemma fdt_len_props: "fdt_len (fold (\<lambda>(p, d). fdt_prop p d) ps s) \<le> fdt_len s + sum_list (map (\<lambda>(p, d). 16 + length p + length d) ps)"
proof (induction ps arbitrary: s)
  case (Cons pd ps)
  obtain p d where "pd = (p, d)" by fastforce
  then show ?case using fdt_len_prop[of p d s] Cons.IH[of "fdt_prop p d s"] by simp
qed simp

lemma fdt_len_node:
  "fdt_len (fdt_begin_node name s) \<le> fdt_len s + (8 + length name)" "fdt_len (fdt_end_node s) = fdt_len s + 4"
proof -
  have "(4 - Suc (length name) mod 4) mod 4 \<le> 3" using mod_less_divisor[of 4 "4 - Suc (length name) mod 4"] by simp
  then show "fdt_len (fdt_begin_node name s) \<le> fdt_len s + (8 + length name)"
    by (simp add: fdt_len_def fdt_begin_node_def Let_def fdt_put32_def fdt_put_data_def)
  show "fdt_len (fdt_end_node s) = fdt_len s + 4" by (simp add: fdt_len_def fdt_end_node_def fdt_put32_def)
qed

lemma fdt_emit_len: "fdt_len (fdt_emit t s) \<le> fdt_len s + dt_size t"
proof (induction t arbitrary: s rule: dtree.induct)
  case (DNode name ps cs)
  have "fdt_len (fold fdt_emit ts u) \<le> fdt_len u + sum_list (map dt_size ts)" if "set ts \<subseteq> set cs" for ts u
    using that
  proof (induction ts arbitrary: u)
    case (Cons t ts)
    then have "fdt_len (fdt_emit t u) \<le> fdt_len u + dt_size t" using DNode.IH by simp
    moreover have "fdt_len (fold fdt_emit ts (fdt_emit t u)) \<le> fdt_len (fdt_emit t u) + sum_list (map dt_size ts)"
      using Cons by simp
    ultimately show ?case by simp
  qed simp
  from this[of cs "fold (\<lambda>(p, d). fdt_prop p d) ps (fdt_begin_node name s)"] show ?case
    using fdt_len_props[of ps "fdt_begin_node name s"] fdt_len_node(1)[of name s] fdt_len_node(2) by simp
qed

lemma length_cstr [simp]: "length (cstr x) = length x" by (simp add: cstr_def)

lemma length_str0 [simp]: "length (str0 x) = length x + 1" by (simp add: str0_def)

lemma length_be64s [simp]: "length (be64s ws) = 8 * length ws"
  by (induction ws) (simp_all add: be64s_def be32s_def)

lemma length_node_name: "length (node_name_num name n) \<le> 255" by (simp add: node_name_num_def)

lemma length_isa: "length (isa_string isa) \<le> 30"
  using length_filter_le[of "\<lambda>i. isa AND push_bit i 1 \<noteq> 0" "[0..<26]"] by (simp add: isa_string_def del: upt_rec_numeral)

lemma length_hart_irqs: "length (hart_irqs n a b) = 16 * n"
  by (induction n) (simp_all add: hart_irqs_def be32s_def)

lemma subtree_sizes:
  "dt_size (cpu_tree m i) \<le> 1000" "dt_size (virtio_tree ph i) \<le> 1000" "dt_size (uart_tree ph a irq) \<le> 1000"
  "dt_size (framebuffer_tree fb) \<le> 1000"
  using length_node_name[of "cstr ''cpu''" "of_nat i"] length_isa[of "fb_misa m i"]
    length_node_name[of "cstr ''virtio''" "VIRTIO_BASE_ADDR + of_nat i * VIRTIO_SIZE"] length_node_name[of "cstr ''uart''" a]
    length_node_name[of "cstr ''framebuffer''" FRAMEBUFFER_BASE_ADDR]
  by (simp_all add: cpu_tree_def virtio_tree_def uart_tree_def framebuffer_tree_def Let_def)

lemma sum_sizes: "(\<And>i. dt_size (f i) \<le> c) \<Longrightarrow> sum_list (map (dt_size \<circ> f) [0..<n]) \<le> n * c"
  by (induction n) (simp_all add: add.commute add_mono)

lemma board_tree_size:
  assumes "fb_ncpus m \<le> MAX_CPUS" "fb_virtio_count m \<le> 28"
  shows "dt_size (board_tree m cmd i0 i1) \<le> 60000 + (case cmd of None \<Rightarrow> 0 | Some c \<Rightarrow> length c)"
proof -
  have "sum_list (map (dt_size \<circ> cpu_tree m) [0..<fb_ncpus m]) \<le> 8 * 1000"
    using sum_sizes[of "cpu_tree m" 1000 "fb_ncpus m"] subtree_sizes assms(1) by simp
  moreover have "sum_list (map (dt_size \<circ> virtio_tree (fb_ncpus m + 1)) [0..<fb_virtio_count m]) \<le> 28 * 1000"
    using sum_sizes[of "virtio_tree (fb_ncpus m + 1)" 1000 "fb_virtio_count m"] subtree_sizes assms(2) by simp
  moreover have "16 * fb_ncpus m \<le> 128" using assms(1) by simp
  moreover have "sum_list (map dt_size (case fb_fb_dev m of None \<Rightarrow> [] | Some fb \<Rightarrow> [framebuffer_tree fb])) \<le> 1000"
    using subtree_sizes(4) by (simp split: option.split)
  ultimately show ?thesis
    using length_node_name[of "cstr ''memory''" "fb_ram_base_addr m"] length_node_name[of "cstr ''clint''" "fb_clint_base_addr m"]
      length_node_name[of "cstr ''plic''" "fb_plic_base_addr m"] subtree_sizes(3)[of "fb_ncpus m + 1" DW_APB_UART0_BASE_ADDR DW_APB_UART0_IRQ]
      subtree_sizes(3)[of "fb_ncpus m + 1" DW_APB_UART1_BASE_ADDR DW_APB_UART1_IRQ]
    by (auto simp: board_tree_def soc_tree_def length_hart_irqs split: option.split)
qed

section \<open>The tree is well formed\<close>

lemma cstr_no_zero [simp]: "0 \<in> set (cstr x) \<longleftrightarrow> CHR 0x00 \<in> set x"
proof -
  have "of_char c = (0 :: u8) \<longleftrightarrow> c = CHR 0x00" for c
  proof -
    have d: "256 dvd k \<longleftrightarrow> k = 0" if "k < 256" for k :: nat using that by (auto dest: dvd_imp_le)
    have "(of_char c :: u8) = of_nat (of_char c)" by (simp add: of_nat_of_char)
    also have "\<dots> = 0 \<longleftrightarrow> of_char c = (0 :: nat)"
      by (simp add: word_of_nat_eq_0_iff d)
    also have "\<dots> \<longleftrightarrow> c = CHR 0x00" using of_char_eq_iff[of c "CHR 0x00", where ?'a = nat] by simp
    finally show ?thesis .
  qed
  then show ?thesis unfolding cstr_def set_map image_iff by metis
qed

lemma hex_digit_nz: "d < 16 \<Longrightarrow> hex_digit d \<noteq> 0"
proof -
  assume "d < 16"
  then have n: "unat d < 16" by (simp add: word_less_nat_alt)
  have "48 + lo8 d \<noteq> 0" "87 + lo8 d \<noteq> 0" if "unat d < 16"
  proof -
    have "unat (lo8 d) = unat d" using that by (simp add: unsigned_ucast_eq take_bit_nat_eq_self)
    then show "48 + lo8 d \<noteq> 0" "87 + lo8 d \<noteq> 0" using that by (auto simp: word_unat_eq_iff unat_word_ariths)
  qed
  with n show ?thesis by (simp add: hex_digit_def)
qed

lemma hex_digits_nz: "0 \<notin> set (hex_digits k n)"
proof (induction k arbitrary: n)
  case (Suc k)
  have "n AND 15 < 16" by (rule le_less_trans[OF word_and_le1]) simp
  with Suc show ?case by (auto dest: sym[of 0] simp: hex_digit_nz)
qed simp

lemma node_name_nz: "0 \<notin> set name \<Longrightarrow> 0 \<notin> set (node_name_num name n)"
  using hex_digits_nz[of 16 n] by (auto simp: node_name_num_def dest!: in_set_takeD)

lemma board_tree_wf:
  assumes "fb_ncpus m \<le> MAX_CPUS" "case cmd of None \<Rightarrow> True | Some c \<Rightarrow> 0 \<notin> set c \<and> length c < 2 ^ 31"
  shows "dtree_wf (board_tree m cmd i0 i1)"
  using assms le_less_trans[OF length_isa, of 4294967295]
  by (auto simp: board_tree_def soc_tree_def cpu_tree_def virtio_tree_def uart_tree_def framebuffer_tree_def props_wf_def
      node_name_nz list_all_iff length_hart_irqs Let_def split: option.split)

text \<open>C18: the blob that \<open>riscv_build_fdt\<close> writes into the boot ROM is a flattened device tree that
  reads back as the tree describing the board, for every number of harts and devices
  the machine supports and every command line.\<close>

theorem riscv_build_fdt_describes_board:
  assumes "fb_ncpus m \<le> MAX_CPUS" "fb_virtio_count m \<le> 28"
    and "case cmd of None \<Rightarrow> True | Some c \<Rightarrow> 0 \<notin> set c \<and> length c < 2 ^ 31"
  shows "\<exists>blob. riscv_build_fdt m None cmd initrd_start initrd_end = Some blob \<and>
    fdt_decode (dt_fuel (board_tree m cmd initrd_start initrd_end) + 2) blob = Some (board_tree m cmd initrd_start initrd_end)"
proof -
  let ?t = "board_tree m cmd initrd_start initrd_end"
  have "fdt_len (fdt_emit ?t fdt_init) \<le> 60000 + (case cmd of None \<Rightarrow> 0 | Some c \<Rightarrow> length c)"
    using fdt_emit_len[of ?t fdt_init] board_tree_size[OF assms(1,2)] by (simp add: fdt_len_def fdt_init_def) (meson order_trans)
  then have l: "length (fdt_tab (fdt_emit ?t fdt_init)) + length (string_table (fdt_emit ?t fdt_init)) + 100 < 2 ^ 32"
    using assms(3) by (simp add: fdt_len_def split: option.splits)
  then have "length (string_table (fdt_emit ?t fdt_init)) < 2 ^ 32" by simp
  from fdt_emit_parse[OF board_tree_wf[OF assms(1,3)] this] fdt_output_decode[OF _ l]
  show ?thesis by (metis build_fdt_emits riscv_build_fdt_def option.simps(4))
qed

definition demo_board :: fdt_board where
  "demo_board = \<lparr>fb_ncpus = 1, fb_misa = (\<lambda>_. 0x14112d), fb_ram_base_addr = 0x80000000, fb_ram_size = 0x10000000,
     fb_clint_base_addr = 0x2000000, fb_clint_size = 0xc0000, fb_plic_base_addr = 0x10000000, fb_plic_size = 0x2000000,
     fb_virtio_count = 1, fb_fb_dev = None\<rparr>"

theorem riscv_build_fdt_describes_board_witness:
  "\<exists>blob. riscv_build_fdt demo_board None (Some (cstr ''quiet'')) 0 0 = Some blob \<and>
    fdt_decode (dt_fuel (board_tree demo_board (Some (cstr ''quiet'')) 0 0) + 2) blob
      = Some (board_tree demo_board (Some (cstr ''quiet'')) 0 0)"
  by (rule riscv_build_fdt_describes_board) (simp_all add: demo_board_def)

end
