(* ===== verification/Board.thy ===== *)
theory Board
  imports HostMemory Elf64 BoardFdt
begin

text \<open>
  Building a machine: \<open>virt_machine_set_defaults\<close>, \<open>virt_machine_init\<close> and \<open>virt_machine_load\<close> of
  \<open>src/src/riscv_machine.cpp\<close> and the loaders of \<open>src/src/bin_utils.cpp\<close>.  The machine under
  construction is a \<open>board\<close>.  Host memory is the byte store of the prelude; \<open>alloc k\<close> is the address
  of the \<open>k\<close>-th block that is allocated for RAM.  The images handed over in
  \<open>VirtMachineParams\<close> are host addresses with a length, and the files for \<open>--bootrom\<close> and \<open>--dtb\<close> are
  their contents (\<open>Some None\<close> when the file cannot be opened).  The machine has no
  network, block, file system and input device.
\<close>

section \<open>Copying\<close>

text \<open>\<open>memcpy\<close> between guest images and RAM.\<close>

definition hcopy :: "u64 \<Rightarrow> hmem \<Rightarrow> u64 \<Rightarrow> u64 \<Rightarrow> hmem" where
  "hcopy n m dst src = (\<lambda>p. if p - dst < n then m (src + (p - dst)) else m p)"

definition hfill :: "u64 \<Rightarrow> hmem \<Rightarrow> u64 \<Rightarrow> hmem" where
  "hfill n m a = (\<lambda>p. if p - a < n then 0 else m p)"

section \<open>Machines under construction\<close>

definition ROM_SIZE :: u64 where [simp]: "ROM_SIZE = 0x2000"
definition ROM_BASE_ADDR :: u64 where [simp]: "ROM_BASE_ADDR = 0x10000"
definition BOOT_BASE_ADDR :: u64 where [simp]: "BOOT_BASE_ADDR = 0x10000"
definition RAM_BASE_ADDR :: u64 where [simp]: "RAM_BASE_ADDR = 0x80000000"
definition KERNEL_OFFSET :: u64 where [simp]: "KERNEL_OFFSET = 0x200000"
definition PHYSICAL_ADDR_LEN_DEFAULT :: nat where [simp]: "PHYSICAL_ADDR_LEN_DEFAULT = 40"
definition PLIC_BASE_ADDR :: u64 where [simp]: "PLIC_BASE_ADDR = 0x10000000"
definition PLIC_SIZE :: u64 where [simp]: "PLIC_SIZE = 0x2000000"
definition CLINT_BASE_ADDR :: u64 where [simp]: "CLINT_BASE_ADDR = 0x02000000"
definition CLINT_SIZE :: u64 where [simp]: "CLINT_SIZE = 0xc0000"
definition UART0_BASE_ADDR :: u64 where [simp]: "UART0_BASE_ADDR = 0x54000000"
definition UART0_SIZE :: u64 where [simp]: "UART0_SIZE = 32"

record VirtMachineParams =
  vp_physical_addr_len :: nat
  vp_ram_base_addr :: u64
  vp_ram_size :: u64
  vp_reset_vector :: u64
  vp_plic_base_addr :: u64
  vp_plic_size :: u64
  vp_clint_base_addr :: u64
  vp_clint_size :: u64
  vp_htif_base_addr :: u64
  vp_ncpus :: nat
  vp_maxinsns :: u64
  vp_custom_extension :: bool
  vp_clear_ids :: bool
  vp_compact_bootrom :: bool
  vp_bios :: "(u64 \<times> u64) option"
  vp_kernel :: "(u64 \<times> u64) option"
  vp_initrd :: "(u64 \<times> u64) option"
  vp_bootrom :: "u8 list option option"
  vp_dtb :: "u8 list option option"
  vp_cmdline :: "u8 list option"

definition virt_machine_set_defaults :: VirtMachineParams where
  "virt_machine_set_defaults =
     \<lparr>vp_physical_addr_len = PHYSICAL_ADDR_LEN_DEFAULT, vp_ram_base_addr = RAM_BASE_ADDR, vp_ram_size = 0,
      vp_reset_vector = BOOT_BASE_ADDR, vp_plic_base_addr = PLIC_BASE_ADDR, vp_plic_size = PLIC_SIZE,
      vp_clint_base_addr = CLINT_BASE_ADDR, vp_clint_size = CLINT_SIZE, vp_htif_base_addr = 0, vp_ncpus = 0,
      vp_maxinsns = 0, vp_custom_extension = False, vp_clear_ids = False, vp_compact_bootrom = False,
      vp_bios = None, vp_kernel = None, vp_initrd = None, vp_bootrom = None, vp_dtb = None, vp_cmdline = None\<rparr>"

record board =
  bd_mem_map :: "PhysMemoryRange list"
  bd_hostmem :: hmem
  bd_blocks :: nat
  bd_harts :: "RISCVCPUState list"
  bd_ram_size :: u64
  bd_ram_base_addr :: u64
  bd_maxinsns :: u64
  bd_reset_vector :: u64
  bd_compact_bootrom :: bool
  bd_bootrom_loaded :: bool
  bd_custom_extension :: bool
  bd_clear_ids :: bool
  bd_plic_base_addr :: u64
  bd_plic_size :: u64
  bd_clint_base_addr :: u64
  bd_clint_size :: u64
  bd_htif_tohost_addr :: u64
  bd_virtio_count :: nat
  bd_initrd_start :: u64

definition bd_ncpus :: "board \<Rightarrow> nat" where "bd_ncpus b = length (bd_harts b)"

definition cpu_register_ram :: "(nat \<Rightarrow> u64) \<Rightarrow> u64 \<Rightarrow> u64 \<Rightarrow> board \<Rightarrow> board option" where
  "cpu_register_ram alloc addr sz b =
     (case default_register_ram (alloc (bd_blocks b)) (\<lambda>_. 0) (bd_mem_map b) (bd_hostmem b) addr sz 0 of
        None \<Rightarrow> None
      | Some (rs, m) \<Rightarrow> Some (b\<lparr>bd_mem_map := rs, bd_hostmem := m, bd_blocks := bd_blocks b + 1\<rparr>))"

definition register_device :: "u64 \<Rightarrow> u64 \<Rightarrow> nat \<Rightarrow> u32 \<Rightarrow> board \<Rightarrow> board option" where
  "register_device addr sz opaque devio_flags b =
     (case cpu_register_device (bd_mem_map b) addr sz opaque devio_flags of
        None \<Rightarrow> None
      | Some rs \<Rightarrow> Some (b\<lparr>bd_mem_map := rs\<rparr>))"

section \<open>Loaders\<close>

definition get_ram_ptr :: "board \<Rightarrow> u64 \<Rightarrow> u64 option" where
  "get_ram_ptr b paddr =
     (case get_phys_mem_range (bd_mem_map b) paddr of
        Some pr \<Rightarrow> if pr_is_ram pr then Some (pr_phys_mem pr + (paddr - pr_addr pr)) else None
      | None \<Rightarrow> None)"

text \<open>A copy to guest memory; \<open>None\<close> is the write through a null pointer.\<close>

definition memcpy_to_guest :: "u64 \<Rightarrow> u64 \<Rightarrow> u64 \<Rightarrow> board \<Rightarrow> board option" where
  "memcpy_to_guest paddr src n b =
     (case get_ram_ptr b paddr of
        None \<Rightarrow> None
      | Some dst \<Rightarrow> Some (b\<lparr>bd_hostmem := hcopy n (bd_hostmem b) dst src\<rparr>))"

text \<open>One program header, then all of them.\<close>

definition load_elf_segment :: "(nat \<Rightarrow> u64) \<Rightarrow> u64 \<Rightarrow> nat \<Rightarrow> board \<Rightarrow> board option" where
  "load_elf_segment alloc img i b =
     (let m = bd_hostmem b;
          ph = img + hload 8 m (img + 32) + of_nat i * 56;
          p_offset = hload 8 m (ph + 8);
          p_vaddr = hload 8 m (ph + 16);
          p_filesz = hload 8 m (ph + 32);
          p_memsz = hload 8 m (ph + 40);
          rounded_size = (p_memsz + DEVRAM_PAGE_SIZE - 1) AND NOT (DEVRAM_PAGE_SIZE - 1)
      in if hload 4 m ph \<noteq> PT_LOAD then Some b
         else
           (case (if p_vaddr = BOOT_BASE_ADDR then Some (b\<lparr>bd_bootrom_loaded := True\<rparr>)
                  else if p_vaddr \<noteq> bd_ram_base_addr b then cpu_register_ram alloc p_vaddr rounded_size b
                  else Some b) of
              None \<Rightarrow> None
            | Some b \<Rightarrow> memcpy_to_guest p_vaddr (img + p_offset) p_filesz b))"

fun load_elf_segments :: "(nat \<Rightarrow> u64) \<Rightarrow> u64 \<Rightarrow> nat list \<Rightarrow> board \<Rightarrow> board option" where
  "load_elf_segments alloc img [] b = Some b"
| "load_elf_segments alloc img (i # is) b =
     (case load_elf_segment alloc img i b of None \<Rightarrow> None | Some b \<Rightarrow> load_elf_segments alloc img is b)"

definition load_elf_image :: "(nat \<Rightarrow> u64) \<Rightarrow> u64 \<Rightarrow> board \<Rightarrow> board option" where
  "load_elf_image alloc img b = load_elf_segments alloc img [0..<unat (hload 2 (bd_hostmem b) (img + 56))] b"

text \<open>The conversion of \<open>%lx\<close> in \<open>sscanf\<close>: white space, a sign, \<open>0x\<close>, hexadecimal digits.  The
  result is the value of \<open>strtoul\<close> and the rest of the line.\<close>

definition isspace :: "u8 \<Rightarrow> bool" where "isspace c \<longleftrightarrow> 9 \<le> c \<and> c \<le> 13 \<or> c = 32"

definition hex_value :: "u8 \<Rightarrow> nat option" where
  "hex_value c =
     (if 48 \<le> c \<and> c \<le> 57 then Some (unat c - 48)
      else if 97 \<le> c \<and> c \<le> 102 then Some (unat c - 87)
      else if 65 \<le> c \<and> c \<le> 70 then Some (unat c - 55)
      else None)"

fun hex_number :: "nat \<Rightarrow> u8 list \<Rightarrow> nat \<times> u8 list" where
  "hex_number acc [] = (acc, [])"
| "hex_number acc (c # cs) = (case hex_value c of None \<Rightarrow> (acc, c # cs) | Some d \<Rightarrow> hex_number (acc * 16 + d) cs)"

definition scan_hex :: "u8 list \<Rightarrow> (u64 \<times> u8 list) option" where
  "scan_hex line =
     (let cs = dropWhile isspace line;
          neg = (cs \<noteq> [] \<and> hd cs = 45);
          cs = (if cs \<noteq> [] \<and> (hd cs = 45 \<or> hd cs = 43) then tl cs else cs);
          cs = (if length cs \<ge> 3 \<and> cs ! 0 = 48 \<and> (cs ! 1 = 120 \<or> cs ! 1 = 88) \<and> hex_value (cs ! 2) \<noteq> None
                then drop 2 cs else cs)
      in if cs = [] \<or> hex_value (hd cs) = None then None
         else (let (n, rest) = hex_number 0 cs;
                   v = (if n < 2 ^ 64 then of_nat n else - 1 :: u64)
               in Some (if neg \<and> n < 2 ^ 64 then - v else v, rest)))"

lemma rest_shorter: "c \<in> set q \<Longrightarrow> length q \<le> length r \<Longrightarrow> length (dropWhile f q) - Suc 0 < length r"
  using length_dropWhile_le[of f q] length_pos_if_in_set[of c q] by linarith

text \<open>The text of a hex image, up to its terminator.  \<open>None\<close> is the exit for an address
  without memory.\<close>

function load_hex_lines :: "u8 list \<Rightarrow> board \<Rightarrow> board option" where
  "load_hex_lines p b =
     (let p = (if length p \<ge> 2 \<and> p ! 0 = 48 \<and> p ! 1 = 120 then drop 2 p else p);
          line = takeWhile (\<lambda>c. c \<noteq> 10) p;
          rest = dropWhile (\<lambda>c. c \<noteq> 10) p
      in case scan_hex line of
           None \<Rightarrow> Some b
         | Some (off, line) \<Rightarrow>
             (case scan_hex line of
                None \<Rightarrow> Some b
              | Some (data, line) \<Rightarrow>
                  (case get_ram_ptr b off of
                     None \<Rightarrow> None
                   | Some mem \<Rightarrow>
                       (let b = b\<lparr>bd_hostmem := hstore 4 (bd_hostmem b) mem data\<rparr>
                        in if rest = [] then Some b else load_hex_lines (tl rest) b))))"
  by pat_completeness auto

termination
  by (relation "measure (\<lambda>(p, b). length p)") (auto simp: Let_def intro!: rest_shorter[of 10])

declare load_hex_lines.simps [simp del]

text \<open>The boot ROM.\<close>

fun put_words :: "u32 list \<Rightarrow> hmem \<Rightarrow> u64 \<Rightarrow> hmem" where
  "put_words [] m q = m"
| "put_words (w # ws) m q = put_words ws (hstore 4 m q (zx32 w)) (q + 4)"

definition bootrom_words :: "nat \<Rightarrow> u64 \<Rightarrow> u32 list" where
  "bootrom_words ncpus ram_base =
     [0xf1402573]
     @ (if ncpus = 1 then [0x00050663, 0x10500073, 0xffdff06f] else [0x00000013, 0x00000013, 0x00000013])
     @ [0x00000597, 0x0f058593, 0x60300413, 0x7b041073]
     @ (if ram_base = 0xC000000000 then [0x0030041b, 0x02641413]
        else [0x0010041b, if ram_base = 0x80000000 then 0x01f41413 else 0x02741413])
     @ [0x7b141073, 0x7b200073]"

text \<open>The result is \<open>bootromSzBytes\<close>, or \<open>-1\<close>; \<open>None\<close> is the write through a null pointer.\<close>

definition generate_bootrom :: "board \<Rightarrow> (int \<times> board) option" where
  "generate_bootrom b =
     (if bd_ram_base_addr b \<noteq> 0x80000000 \<and> bd_ram_base_addr b \<noteq> 0x8000000000 \<and> bd_ram_base_addr b \<noteq> 0xC000000000
      then Some (-1, b)
      else
        (case get_ram_ptr b ROM_BASE_ADDR of
           None \<Rightarrow> None
         | Some ram_ptr \<Rightarrow>
             Some (13 * 4, b\<lparr>bd_hostmem := put_words (bootrom_words (bd_ncpus b) (bd_ram_base_addr b)) (bd_hostmem b)
                              (ram_ptr + (BOOT_BASE_ADDR - ROM_BASE_ADDR))\<rparr>)))"

text \<open>At most \<open>~0U\<close> bytes are read.\<close>

definition fread_limit :: "u8 list \<Rightarrow> u8 list" where
  "fread_limit file = (if int (length file) \<le> 0xffffffff then file else take 0xffffffff file)"

definition load_bootrom :: "u8 list option \<Rightarrow> board \<Rightarrow> (int \<times> board) option" where
  "load_bootrom bootrom b =
     (case bootrom of
        None \<Rightarrow> Some (-1, b)
      | Some file \<Rightarrow>
          (case get_ram_ptr b ROM_BASE_ADDR of
             None \<Rightarrow> None
           | Some ram_ptr \<Rightarrow>
               Some (int (length (fread_limit file)), b\<lparr>bd_hostmem := hput (fread_limit file) (bd_hostmem b)
                       (ram_ptr + (BOOT_BASE_ADDR - ROM_BASE_ADDR))\<rparr>)))"

text \<open>The fields of the machine that the device tree shows.\<close>

definition board_fdt :: "board \<Rightarrow> fdt_board" where
  "board_fdt b = \<lparr>fb_ncpus = bd_ncpus b, fb_misa = (\<lambda>i. misa (bd_harts b ! i)), fb_ram_base_addr = bd_ram_base_addr b,
     fb_ram_size = bd_ram_size b, fb_clint_base_addr = bd_clint_base_addr b, fb_clint_size = bd_clint_size b,
     fb_plic_base_addr = bd_plic_base_addr b, fb_plic_size = bd_plic_size b, fb_virtio_count = bd_virtio_count b,
     fb_fb_dev = None\<rparr>"

text \<open>The boot ROM part of \<open>copy_kernel\<close>.  A file name for the device tree that cannot be
  opened ends in a call of \<open>fseek\<close> on a null pointer.\<close>

definition setup_bootrom :: "u8 list option option \<Rightarrow> u8 list option option \<Rightarrow> u8 list option \<Rightarrow> u64 \<Rightarrow> board \<Rightarrow> (int \<times> board) option" where
  "setup_bootrom bootrom dtb cmd_line initrd_end b =
     (case bootrom of
        Some file \<Rightarrow>
          (case load_bootrom file b of
             None \<Rightarrow> None
           | Some (len, b) \<Rightarrow> Some (if len < 0 then -1 else 0, b))
      | None \<Rightarrow>
          (case generate_bootrom b of
             None \<Rightarrow> None
           | Some (bootromSzBytes, b) \<Rightarrow>
               if bootromSzBytes < 0 then Some (-1, b)
               else
                 (let fdt_off = (BOOT_BASE_ADDR - ROM_BASE_ADDR)
                        + (if bd_compact_bootrom b then word_of_int bootromSzBytes else 256)
                  in case get_ram_ptr b ROM_BASE_ADDR of
                       None \<Rightarrow> None
                     | Some ram_ptr \<Rightarrow>
                         (if dtb = Some None then None
                          else
                            (case riscv_build_fdt (board_fdt b) (case dtb of Some f \<Rightarrow> f | None \<Rightarrow> None) cmd_line
                                    (bd_initrd_start b) initrd_end of
                               None \<Rightarrow> None
                             | Some blob \<Rightarrow> Some (0, b\<lparr>bd_hostmem := hput blob (bd_hostmem b) (ram_ptr + fdt_off)\<rparr>))))))"

text \<open>The three images.  Firmware: an ELF image is loaded twice; the test for a hex image
  compares the first character with two different values.\<close>

definition load_firmware :: "(nat \<Rightarrow> u64) \<Rightarrow> u64 \<Rightarrow> u64 \<Rightarrow> board \<Rightarrow> (int \<times> board) option" where
  "load_firmware alloc fw_buf fw_buf_len b =
     (if elf64_is_riscv64 (bd_hostmem b) fw_buf fw_buf_len then
        (case load_elf_image alloc fw_buf b of
           None \<Rightarrow> None
         | Some b \<Rightarrow>
             if \<not> bd_bootrom_loaded b \<and> elf64_get_entrypoint (bd_hostmem b) fw_buf \<noteq> bd_ram_base_addr b then Some (1, b)
             else (case load_elf_image alloc fw_buf b of None \<Rightarrow> None | Some b \<Rightarrow> Some (0, b)))
      else if fw_buf_len > 2 \<and> bd_hostmem b fw_buf = 48 \<and> bd_hostmem b fw_buf = 120 then
        (case load_hex_lines (c_string (map (\<lambda>i. bd_hostmem b (fw_buf + of_nat i)) [0..<unat fw_buf_len])) b of
           None \<Rightarrow> None | Some b \<Rightarrow> Some (0, b))
      else (case memcpy_to_guest (bd_ram_base_addr b) fw_buf fw_buf_len b of None \<Rightarrow> None | Some b \<Rightarrow> Some (0, b)))"

definition load_kernel :: "(u64 \<times> u64) option \<Rightarrow> board \<Rightarrow> (int \<times> board) option" where
  "load_kernel kern b =
     (case kern of
        None \<Rightarrow> Some (0, b)
      | Some (kernel_buf, kernel_buf_len) \<Rightarrow>
          if kernel_buf_len = 0 then Some (0, b)
          else if bd_ram_size b \<le> KERNEL_OFFSET then Some (1, b)
          else if kernel_buf_len > bd_ram_size b - KERNEL_OFFSET then Some (1, b)
          else (case memcpy_to_guest (bd_ram_base_addr b + KERNEL_OFFSET) kernel_buf kernel_buf_len b of
                  None \<Rightarrow> None | Some b \<Rightarrow> Some (0, b)))"

text \<open>The second component is \<open>initrd_end\<close>.\<close>

definition load_initrd :: "(u64 \<times> u64) option \<Rightarrow> board \<Rightarrow> (int \<times> u64 \<times> board) option" where
  "load_initrd initrd b =
     (case initrd of
        None \<Rightarrow> Some (0, 0, b)
      | Some (initrd_buf, initrd_buf_len) \<Rightarrow>
          if initrd_buf_len = 0 then Some (0, 0, b)
          else if initrd_buf_len > bd_ram_size b then Some (1, 0, b)
          else
            (let initrd_end = bd_ram_base_addr b + bd_ram_size b;
                 b = b\<lparr>bd_initrd_start := push_bit 12 (drop_bit 12 (initrd_end - initrd_buf_len))\<rparr>
             in case memcpy_to_guest (bd_initrd_start b) initrd_buf initrd_buf_len b of
                  None \<Rightarrow> None | Some b \<Rightarrow> Some (0, initrd_end, b)))"

text \<open>\<open>copy_kernel\<close> returns a non-zero value on failure; \<open>None\<close> is a crash.\<close>

definition copy_kernel :: "(nat \<Rightarrow> u64) \<Rightarrow> VirtMachineParams \<Rightarrow> u64 \<times> u64 \<Rightarrow> board \<Rightarrow> (int \<times> board) option" where
  "copy_kernel alloc p fw b =
     (let (fw_buf, fw_buf_len) = fw; b = b\<lparr>bd_initrd_start := 0\<rparr> in
      if fw_buf_len > bd_ram_size b then Some (1, b)
      else
        (case load_firmware alloc fw_buf fw_buf_len b of
           None \<Rightarrow> None
         | Some (r, b) \<Rightarrow>
        if r \<noteq> 0 then Some (r, b) else
        (case load_kernel (vp_kernel p) b of
           None \<Rightarrow> None
         | Some (r, b) \<Rightarrow>
        if r \<noteq> 0 then Some (r, b) else
        (case load_initrd (vp_initrd p) b of
           None \<Rightarrow> None
         | Some (r, initrd_end, b) \<Rightarrow>
        if r \<noteq> 0 then Some (r, b) else
        (case (if bd_bootrom_loaded b then Some (0, b)
               else setup_bootrom (vp_bootrom p) (vp_dtb p) (vp_cmdline p) initrd_end b) of
           None \<Rightarrow> None
         | Some (r, b) \<Rightarrow>
        if r \<noteq> 0 then Some (r, b)
        else Some (0, b\<lparr>bd_harts := map (riscv_set_debug_mode True) (bd_harts b)\<rparr>))))))"

section \<open>Initialization\<close>

text \<open>The machine as \<open>mallocz\<close> and the first assignments leave it.\<close>

definition new_board :: "VirtMachineParams \<Rightarrow> hmem \<Rightarrow> board" where
  "new_board p m =
     \<lparr>bd_mem_map = phys_mem_map_init, bd_hostmem = m, bd_blocks = 0,
      bd_harts = map (\<lambda>i. riscv_cpu_init (vp_reset_vector p) (vp_custom_extension p) (vp_clear_ids p) (of_nat i)) [0..<vp_ncpus p],
      bd_ram_size = vp_ram_size p, bd_ram_base_addr = vp_ram_base_addr p, bd_maxinsns = vp_maxinsns p,
      bd_reset_vector = vp_reset_vector p, bd_compact_bootrom = vp_compact_bootrom p, bd_bootrom_loaded = False,
      bd_custom_extension = vp_custom_extension p, bd_clear_ids = vp_clear_ids p,
      bd_plic_base_addr = vp_plic_base_addr p, bd_plic_size = vp_plic_size p,
      bd_clint_base_addr = vp_clint_base_addr p, bd_clint_size = vp_clint_size p,
      bd_htif_tohost_addr = vp_htif_base_addr p, bd_virtio_count = 0, bd_initrd_start = 0\<rparr>"

text \<open>The memory map of the board; \<open>None\<close> is a failed assertion of \<open>iomem.cpp\<close>.\<close>

definition register_all :: "(nat \<Rightarrow> u64) \<Rightarrow> VirtMachineParams \<Rightarrow> board \<Rightarrow> board option" where
  "register_all alloc p b =
     Option.bind (cpu_register_ram alloc (bd_ram_base_addr b) (bd_ram_size b) b) (\<lambda>b.
     Option.bind (cpu_register_ram alloc ROM_BASE_ADDR ROM_SIZE b) (\<lambda>b.
     let b = b\<lparr>bd_harts := map (\<lambda>h. h\<lparr>physical_addr_len := vp_physical_addr_len p\<rparr>) (bd_harts b)\<rparr>;
         sizes = DEVIO_SIZE32 OR DEVIO_SIZE16 OR DEVIO_SIZE8
     in
     Option.bind (register_device UART0_BASE_ADDR UART0_SIZE DEV_UART0 DEVIO_SIZE32 b) (\<lambda>b.
     Option.bind (register_device DW_APB_UART0_BASE_ADDR DW_APB_UART0_SIZE DEV_DW_UART0 sizes b) (\<lambda>b.
     Option.bind (register_device DW_APB_UART1_BASE_ADDR DW_APB_UART1_SIZE DEV_DW_UART1 sizes b) (\<lambda>b.
     Option.bind (register_device (vp_clint_base_addr p) (vp_clint_size p) DEV_CLINT sizes b) (\<lambda>b.
     register_device (vp_plic_base_addr p) (vp_plic_size p) DEV_PLIC DEVIO_SIZE32 b))))))"

text \<open>The outer \<open>None\<close> is a crash, the inner one the null pointer returned after an error
  message.\<close>

definition virt_machine_init :: "(nat \<Rightarrow> u64) \<Rightarrow> VirtMachineParams \<Rightarrow> hmem \<Rightarrow> board option option" where
  "virt_machine_init alloc p m =
     (if MAX_CPUS < vp_ncpus p then Some None
      else
        (case register_all alloc p (new_board p m) of
           None \<Rightarrow> None
         | Some b \<Rightarrow>
             (case vp_bios p of
                None \<Rightarrow> Some None
              | Some fw \<Rightarrow>
                  (case copy_kernel alloc p fw b of
                     None \<Rightarrow> None
                   | Some (r, b) \<Rightarrow> Some (if r \<noteq> 0 then None else Some b)))))"

text \<open>\<open>virt_machine_load\<close> copies the images once more.\<close>

definition virt_machine_load :: "(nat \<Rightarrow> u64) \<Rightarrow> VirtMachineParams \<Rightarrow> board \<Rightarrow> board option option" where
  "virt_machine_load alloc p b =
     (case vp_bios p of
        None \<Rightarrow> Some None
      | Some fw \<Rightarrow>
          (case copy_kernel alloc p fw b of
             None \<Rightarrow> None
           | Some (r, b) \<Rightarrow> Some (if r \<noteq> 0 then None else Some b)))"

definition majordomo_get_byte_direct :: "board \<Rightarrow> u64 \<Rightarrow> u8" where
  "majordomo_get_byte_direct b paddr = (case get_ram_ptr b paddr of None \<Rightarrow> 0 | Some ptr \<Rightarrow> bd_hostmem b ptr)"

text \<open>The finished machine, seen from hart 0.\<close>

definition board_machine :: "u8 list \<Rightarrow> board \<Rightarrow> machine" where
  "board_machine input b =
     (hart_machine (bd_harts b ! 0)
        (init_env (bd_ncpus b) (\<lambda>i. if i < bd_ncpus b then bd_harts b ! i else zero_hart) input))\<lparr>
        mem_map := bd_mem_map b, hostmem := bd_hostmem b, htif_tohost_addr := bd_htif_tohost_addr b,
        maxinsns := bd_maxinsns b\<rparr>"

section \<open>The machine is built safely\<close>

lemma hzero_hfill [code_unfold]: "hzero (unat sz) m a = hfill sz m a"
proof -
  have "hzero n m a p = (if p - a < of_nat n then 0 else m p)" if "n < 2 ^ 64" for n m p a
    using that
  proof (induction n arbitrary: m a)
    case (Suc n)
    have "unat (p - a - 1) = unat (p - a) - 1" "unat (p - a) \<noteq> 0" if "p \<noteq> a"
      using that by (simp_all add: unat_minus_one unat_eq_0)
    then have "p - (a + 1) < of_nat n \<or> p = a \<longleftrightarrow> p - a < of_nat (Suc n)"
      using Suc.prems by (cases "p = a") (auto simp: less_of_nat diff_diff_add[symmetric] simp del: of_nat_Suc)
    then show ?case using Suc by auto
  qed simp
  from this[of "unat sz"] unsigned_less[of sz, where ?'a = nat] show ?thesis by (intro ext) (simp add: hfill_def)
qed

text \<open>The memory map in closed form.\<close>

definition ram_range :: "u64 \<Rightarrow> u64 \<Rightarrow> u64 \<Rightarrow> PhysMemoryRange" where
  "ram_range addr sz ptr = zero_range\<lparr>pr_is_ram := True, pr_addr := addr, pr_org_size := sz, pr_size := sz, pr_phys_mem := ptr\<rparr>"

definition dev_range :: "u64 \<Rightarrow> u64 \<Rightarrow> nat \<Rightarrow> u32 \<Rightarrow> PhysMemoryRange" where
  "dev_range addr sz opq flags = zero_range\<lparr>pr_addr := addr, pr_org_size := sz, pr_size := sz, pr_opaque := opq, pr_devio_flags := flags\<rparr>"

definition board_map :: "(nat \<Rightarrow> u64) \<Rightarrow> VirtMachineParams \<Rightarrow> PhysMemoryRange list" where
  "board_map alloc p =
     [ram_range (vp_ram_base_addr p) (vp_ram_size p) (alloc 0), ram_range ROM_BASE_ADDR ROM_SIZE (alloc 1),
      dev_range UART0_BASE_ADDR UART0_SIZE DEV_UART0 DEVIO_SIZE32,
      dev_range DW_APB_UART0_BASE_ADDR DW_APB_UART0_SIZE DEV_DW_UART0 7,
      dev_range DW_APB_UART1_BASE_ADDR DW_APB_UART1_SIZE DEV_DW_UART1 7,
      dev_range (vp_clint_base_addr p) (vp_clint_size p) DEV_CLINT 7,
      dev_range (vp_plic_base_addr p) (vp_plic_size p) DEV_PLIC DEVIO_SIZE32]"

definition board_ok :: "(nat \<Rightarrow> u64) \<Rightarrow> VirtMachineParams \<Rightarrow> bool" where
  "board_ok alloc p \<longleftrightarrow> vp_ram_size p AND PG_MASK = 0 \<and> vp_ram_size p \<noteq> 0 \<and> alloc 0 \<noteq> 0 \<and> alloc 1 \<noteq> 0 \<and>
     vp_clint_size p \<le> 0xffffffff \<and> vp_plic_size p \<le> 0xffffffff"

definition blank_board :: "(nat \<Rightarrow> u64) \<Rightarrow> VirtMachineParams \<Rightarrow> hmem \<Rightarrow> board" where
  "blank_board alloc p m = (new_board p m)\<lparr>bd_mem_map := board_map alloc p, bd_blocks := 2,
     bd_hostmem := hfill ROM_SIZE (hfill (vp_ram_size p) m (alloc 0)) (alloc 1),
     bd_harts := map (\<lambda>h. h\<lparr>physical_addr_len := vp_physical_addr_len p\<rparr>) (bd_harts (new_board p m))\<rparr>"

lemma register_all_eq:
  "register_all alloc p (new_board p m) = (if board_ok alloc p then Some (blank_board alloc p m) else None)"
proof -
  have r: "hzero (unat ROM_SIZE) h a = hfill ROM_SIZE h a" for h a by (rule hzero_hfill)
  show ?thesis
    unfolding register_all_def cpu_register_ram_def register_device_def default_register_ram_def register_ram_entry_def
      cpu_register_device_def Let_def r hzero_hfill
    by (simp add: board_ok_def blank_board_def new_board_def phys_mem_map_init_def board_map_def ram_range_def dev_range_def
        zero_range_def)
qed

lemma board_map_in_ram: "in_ram (board_map alloc p) q \<longleftrightarrow> q - alloc 0 < vp_ram_size p \<or> q - alloc 1 < ROM_SIZE"
  by (auto simp: in_ram_def board_map_def ram_range_def dev_range_def zero_range_def)

lemma board_map_wf: "vp_ram_base_addr p AND PG_MASK = 0 \<Longrightarrow> board_ok alloc p \<Longrightarrow> ram_wf (board_map alloc p)"
  by (auto simp: ram_wf_def board_map_def ram_range_def dev_range_def zero_range_def board_ok_def)

text \<open>What the loaders keep when no ELF image is involved.\<close>

definition same_board :: "board \<Rightarrow> board \<Rightarrow> bool" where
  "same_board b b' \<longleftrightarrow> bd_mem_map b' = bd_mem_map b \<and> bd_blocks b' = bd_blocks b \<and>
     map (riscv_set_debug_mode True) (bd_harts b') = map (riscv_set_debug_mode True) (bd_harts b) \<and>
     bd_ram_size b' = bd_ram_size b \<and> bd_ram_base_addr b' = bd_ram_base_addr b \<and>
     bd_htif_tohost_addr b' = bd_htif_tohost_addr b"

lemma same_board_refl [simp]: "same_board b b" by (simp add: same_board_def)

lemma same_board_trans: "same_board a b \<Longrightarrow> same_board b c \<Longrightarrow> same_board a c" by (simp add: same_board_def)

lemma same_board_update [simp]:
  "same_board a (b\<lparr>bd_hostmem := m\<rparr>) = same_board a b" "same_board a (b\<lparr>bd_initrd_start := x\<rparr>) = same_board a b"
  "same_board (a\<lparr>bd_initrd_start := x\<rparr>) b = same_board a b"
  "same_board a (b\<lparr>bd_harts := map (riscv_set_debug_mode True) (bd_harts b)\<rparr>) = same_board a b"
proof -
  have "riscv_set_debug_mode True \<circ> riscv_set_debug_mode True = (riscv_set_debug_mode True :: RISCVCPUState \<Rightarrow> _)"
    by (simp add: riscv_set_debug_mode_def fun_eq_iff)
  then show "same_board a (b\<lparr>bd_harts := map (riscv_set_debug_mode True) (bd_harts b)\<rparr>) = same_board a b"
    by (simp add: same_board_def)
qed (simp_all add: same_board_def)

lemma memcpy_same: "memcpy_to_guest a src n b = Some b' \<Longrightarrow> same_board b b'"
  by (auto simp: memcpy_to_guest_def split: option.splits)

lemma setup_bootrom_initrd: "setup_bootrom br dtb cmd e b = Some (r, b') \<Longrightarrow> bd_initrd_start b' = bd_initrd_start b"
  by (auto simp: setup_bootrom_def load_bootrom_def generate_bootrom_def Let_def split: option.splits if_splits)

lemma setup_bootrom_same: "setup_bootrom br dtb cmd e b = Some (r, b') \<Longrightarrow> same_board b b'"
  by (auto simp: setup_bootrom_def load_bootrom_def generate_bootrom_def Let_def split: option.splits if_splits)

lemma copy_kernel_same:
  assumes "copy_kernel alloc p (buf, len) b = Some (r, b')" "\<not> elf64_is_riscv64 (bd_hostmem b) buf len"
  shows "same_board b b'"
proof -
  have fw: "same_board c c'" if "load_firmware alloc buf len c = Some (k, c')" "bd_hostmem c = bd_hostmem b" for c c' k
    using that assms(2) memcpy_same by (auto simp: load_firmware_def split: option.splits if_splits)
  have k: "same_board c c'" if "load_kernel kern c = Some (k, c')" for kern c c' k
    using that memcpy_same by (auto simp: load_kernel_def split: option.splits if_splits)
  have i: "same_board c c'" if "load_initrd img c = Some (k, e, c')" for img c c' k e
    using that
    by (auto simp: load_initrd_def Let_def split: option.splits if_splits dest!: memcpy_same) 
  show ?thesis
    using assms(1) unfolding copy_kernel_def Let_def
    by (auto split: option.splits if_splits dest!: fw k i setup_bootrom_same) (metis same_board_trans)+
qed

lemma init_same:
  assumes "virt_machine_init alloc p m = Some (Some b)" "vp_bios p = Some (buf, len)"
    and "\<not> elf64_is_riscv64 (bd_hostmem (blank_board alloc p m)) buf len"
  shows "board_ok alloc p" "same_board (blank_board alloc p m) b" "vp_ncpus p \<le> MAX_CPUS"
  using assms copy_kernel_same[OF _ assms(3)]
  by (auto simp: virt_machine_init_def register_all_eq split: option.splits if_splits)

definition tlb_empty :: "'a hart \<Rightarrow> bool" where
  "tlb_empty h \<longleftrightarrow> (\<forall>i<TLB_SIZE. te_vaddr (tlb_read h i) = -1 \<and> te_vaddr (tlb_write h i) = -1 \<and> te_vaddr (tlb_code h i) = -1)"

lemma tlb_empty_debug [simp]: "tlb_empty (riscv_set_debug_mode d h) = tlb_empty h"
  by (simp add: tlb_empty_def riscv_set_debug_mode_def)

lemma tlb_empty_init: "tlb_empty (riscv_cpu_init rv ce ci i)" "tlb_empty h \<Longrightarrow> tlb_empty (h\<lparr>physical_addr_len := l\<rparr>)"
  by (simp_all add: tlb_empty_def riscv_cpu_init_def Let_def tlb_init_def)

lemma init_harts:
  assumes "same_board (blank_board alloc p m) b"
  shows "list_all tlb_empty (bd_harts b)" "length (bd_harts b) = vp_ncpus p"
proof -
  have "list_all tlb_empty (map (riscv_set_debug_mode True) (bd_harts (blank_board alloc p m)))"
    by (simp add: blank_board_def new_board_def list_all_iff tlb_empty_init)
  then have "list_all tlb_empty (map (riscv_set_debug_mode True) (bd_harts b))" using assms by (simp only: same_board_def)
  then show "list_all tlb_empty (bd_harts b)" by (simp add: list_all_iff)
  have "length (map (riscv_set_debug_mode True) (bd_harts b)) = vp_ncpus p"
    using assms by (simp add: same_board_def blank_board_def new_board_def)
  then show "length (bd_harts b) = vp_ncpus p" by simp
qed

lemma hart_runs_host: "hart_runs s0 s \<Longrightarrow> host_safe s0 \<Longrightarrow> host_view s = host_view s0"
proof (induction rule: hart_runs.induct)
  case (run s n k s')
  then have "host_safe s" using host_safeD by metis
  with run show ?case using machine_host.run_host by metis
qed simp


section \<open>The images are in memory\<close>

text \<open>The addresses of the default board: the devices are below RAM and apart from the boot
  ROM.\<close>

definition default_layout :: "VirtMachineParams \<Rightarrow> bool" where
  "default_layout p \<longleftrightarrow> vp_clint_base_addr p = CLINT_BASE_ADDR \<and> vp_clint_size p = CLINT_SIZE \<and>
     vp_plic_base_addr p = PLIC_BASE_ADDR \<and> vp_plic_size p = PLIC_SIZE \<and>
     vp_ram_base_addr p \<in> {0x80000000, 0x8000000000, 0xC000000000} \<and> vp_ram_size p \<le> 0x8000000000"

lemma range_hit:
  "range_has (ram_range addr sz ptr) a \<longleftrightarrow> addr \<le> a \<and> a < addr + sz" "range_has (dev_range addr sz q f) a \<longleftrightarrow> addr \<le> a \<and> a < addr + sz"
  by (simp_all add: range_has_def ram_range_def dev_range_def zero_range_def)

lemma map_lookup:
  "get_phys_mem_range (rs @ [pr]) a = (if range_has pr a then Some pr else get_phys_mem_range rs a)"
  "get_phys_mem_range [] a = None"
proof -
  have "get_phys_mem_range_from (rs @ [pr]) a n = get_phys_mem_range_from rs a n" if "n \<le> length rs" for n
    using that by (induction n) (simp_all add: nth_append)
  then show "get_phys_mem_range (rs @ [pr]) a = (if range_has pr a then Some pr else get_phys_mem_range rs a)"
    by (simp add: get_phys_mem_range_def)
qed (simp add: get_phys_mem_range_def)

lemma ram_address:
  assumes "base \<in> {0x80000000, 0x8000000000, 0xC000000000}" "sz \<le> 0x8000000000" "i < sz"
  shows "base \<le> base + i" "base + i < base + (sz :: u64)" "0x80000000 \<le> base + i"
proof -
  have "unat sz \<le> 0x8000000000" "unat i < unat sz" using assms(2,3) by (simp_all add: word_le_nat_alt word_less_nat_alt)
  moreover have b: "0x80000000 \<le> unat base" "unat base \<le> 0xC000000000" using assms(1) by auto
  ultimately have "unat (base + i) = unat base + unat i" "unat (base + sz) = unat base + unat sz"
    by (simp_all add: unat_word_ariths)
  then show "base \<le> base + i" "base + i < base + sz" "0x80000000 \<le> base + i"
    using b assms(3) by (simp_all add: word_le_nat_alt word_less_nat_alt)
qed

lemma board_map_snoc:
  "board_map alloc p = ((((((([] @ [ram_range (vp_ram_base_addr p) (vp_ram_size p) (alloc 0)]) @ [ram_range ROM_BASE_ADDR ROM_SIZE (alloc 1)])
      @ [dev_range UART0_BASE_ADDR UART0_SIZE DEV_UART0 DEVIO_SIZE32])
      @ [dev_range DW_APB_UART0_BASE_ADDR DW_APB_UART0_SIZE DEV_DW_UART0 7])
      @ [dev_range DW_APB_UART1_BASE_ADDR DW_APB_UART1_SIZE DEV_DW_UART1 7])
      @ [dev_range (vp_clint_base_addr p) (vp_clint_size p) DEV_CLINT 7])
      @ [dev_range (vp_plic_base_addr p) (vp_plic_size p) DEV_PLIC DEVIO_SIZE32])"
  by (simp add: board_map_def)

lemma board_lookup:
  assumes "default_layout p"
  shows "i < vp_ram_size p \<Longrightarrow>
      get_phys_mem_range (board_map alloc p) (vp_ram_base_addr p + i) = Some (ram_range (vp_ram_base_addr p) (vp_ram_size p) (alloc 0))"
    "i < ROM_SIZE \<Longrightarrow> get_phys_mem_range (board_map alloc p) (ROM_BASE_ADDR + i) = Some (ram_range ROM_BASE_ADDR ROM_SIZE (alloc 1))"
proof -
  assume i: "i < vp_ram_size p"
  note a = ram_address[OF _ _ i, of "vp_ram_base_addr p"]
  have n: "\<not> a < c" if "0x80000000 \<le> a" "c \<le> 0x80000000" for a c :: u64 using that by simp
  show "get_phys_mem_range (board_map alloc p) (vp_ram_base_addr p + i) = Some (ram_range (vp_ram_base_addr p) (vp_ram_size p) (alloc 0))"
    using assms a n[OF a(3)] unfolding board_map_snoc map_lookup range_hit default_layout_def by simp
next
  assume "i < ROM_SIZE"
  then have "unat i < 0x2000" by (simp add: word_less_nat_alt)
  then have "unat (ROM_BASE_ADDR + i) < 0x12000" "0x10000 \<le> unat (ROM_BASE_ADDR + i)" by (simp_all add: unat_word_ariths)
  then have "ROM_BASE_ADDR + i < 0x12000" "0x10000 \<le> ROM_BASE_ADDR + i" by (simp_all only: word_less_nat_alt word_le_nat_alt) simp_all
  moreover have "\<not> c \<le> a" if "a < 0x12000" "0x12000 \<le> c" for a c :: u64 using that by simp
  ultimately show "get_phys_mem_range (board_map alloc p) (ROM_BASE_ADDR + i) = Some (ram_range ROM_BASE_ADDR ROM_SIZE (alloc 1))"
    using assms unfolding board_map_snoc map_lookup range_hit default_layout_def by simp
qed

lemma board_ptr:
  assumes "bd_mem_map b = board_map alloc p" "default_layout p"
  shows "i < vp_ram_size p \<Longrightarrow> get_ram_ptr b (vp_ram_base_addr p + i) = Some (alloc 0 + i)"
    "i < ROM_SIZE \<Longrightarrow> get_ram_ptr b (ROM_BASE_ADDR + i) = Some (alloc 1 + i)"
  using board_lookup[OF assms(2), of _ alloc] by (simp_all add: get_ram_ptr_def assms(1) ram_range_def)

text \<open>A copy inside a block of memory, in offsets of the block.\<close>

lemma hcopy_block:
  assumes "unat off + unat n \<le> unat sz" "i < sz"
  shows "hcopy n m (a + off) src (a + i) = (if off \<le> i \<and> unat i < unat off + unat n then m (src + (i - off)) else m (a + i))"
proof -
  have d: "a + i - (a + off) = i - off" by simp
  have "i - off < n \<longleftrightarrow> off \<le> i \<and> unat i < unat off + unat n"
  proof (cases "off \<le> i")
    case True
    then show ?thesis by (auto simp: word_less_nat_alt unat_sub word_le_nat_alt)
  next
    case False
    then have "unat i < unat off" by (simp add: word_le_nat_alt)
    moreover have "unat off < 2 ^ 64" "unat sz < 2 ^ 64" using unsigned_less[of off, where ?'a = nat] unsigned_less[of sz, where ?'a = nat] by simp_all
    ultimately have "unat (i - off) = 2 ^ 64 + unat i - unat off" by (simp add: unat_sub_if')
    then show ?thesis using False assms(1) \<open>unat off < 2 ^ 64\<close> \<open>unat sz < 2 ^ 64\<close> by (simp add: word_less_nat_alt)
  qed
  then show ?thesis unfolding hcopy_def d by simp
qed

lemma hcopy_outside:
  assumes "\<not> q - a < sz" "unat off + unat n \<le> unat sz"
  shows "hcopy n m (a + off) src q = m q"
proof -
  have "unat sz \<le> unat (q - a)" using assms(1) by (simp add: word_less_nat_alt)
  moreover from this have "unat (q - a - off) = unat (q - a) - unat off" using assms(2) by (simp add: unat_sub word_le_nat_alt)
  ultimately have "\<not> q - (a + off) < n" using assms(2) by (simp add: word_less_nat_alt diff_diff_add)
  then show ?thesis by (simp add: hcopy_def)
qed

lemma put_words_hput: "put_words ws m a = hput (concat (map le_bytes32 ws)) m a"
proof (induction ws arbitrary: m a)
  case (Cons w ws)
  have b: "lo8 (drop_bit k (zx32 w)) = ucast (drop_bit k w)" for k
    by (rule bit_word_eqI) (auto simp: bit_simps dest: bit_imp_le_length)
  have "hstore 4 m a (zx32 w) = hput (le_bytes32 w) m a"
    using b[of 0] by (simp add: le_bytes32_def b add.assoc hload_numeral)
  with Cons show ?case by (simp add: hput_append)
qed simp

text \<open>The boot ROM part stays within the ROM when the file or the device tree fits.\<close>

definition rom_fits :: "VirtMachineParams \<Rightarrow> board \<Rightarrow> bool" where
  "rom_fits p b \<longleftrightarrow>
     (case vp_bootrom p of
        Some None \<Rightarrow> True
      | Some (Some file) \<Rightarrow> length file \<le> 0x2000
      | None \<Rightarrow> (\<forall>i0 i1 blob. riscv_build_fdt (board_fdt b) (case vp_dtb p of Some f \<Rightarrow> f | None \<Rightarrow> None) (vp_cmdline p) i0 i1 = Some blob
                   \<longrightarrow> length blob \<le> 0x1f00))"

lemma hput_in_rom:
  assumes "length bs + k \<le> 0x2000" "\<not> q - a < ROM_SIZE"
  shows "hput bs m (a + of_nat k) q = m q"
proof (rule hput_outside)
  have "0x2000 \<le> unat (q - a)" using assms(2) by (simp add: word_less_nat_alt)
  moreover from this have "unat (q - a - of_nat k) = unat (q - a) - k"
    using assms(1) by (simp add: unat_sub word_le_nat_alt unat_of_nat take_bit_nat_eq_self)
  ultimately show "\<not> q - (a + of_nat k) < of_nat (length bs)" using assms(1) by (simp add: less_of_nat diff_diff_add)
qed (use assms in simp)

lemma length_bootrom_words: "length (concat (map le_bytes32 (bootrom_words n base))) = 48"
  by (simp add: bootrom_words_def)

lemma setup_bootrom_frame:
  assumes "setup_bootrom (vp_bootrom p) (vp_dtb p) (vp_cmdline p) e b = Some (r, b')" "get_ram_ptr b ROM_BASE_ADDR = Some a"
    and "rom_fits p b" "\<not> q - a < ROM_SIZE"
  shows "bd_hostmem b' q = bd_hostmem b q"
proof (cases "vp_bootrom p")
  case (Some f)
  then show ?thesis using assms hput_in_rom[of _ 0 q a]
    by (auto simp: setup_bootrom_def load_bootrom_def rom_fits_def fread_limit_def split: option.splits)
next
  case None
  have w: "hput (concat (map le_bytes32 (bootrom_words n base))) m a q = m q" for n base m
    using hput_in_rom[of "concat (map le_bytes32 (bootrom_words n base))" 0 q a m] assms(4) length_bootrom_words[of n base] by simp
  have t: "hput bs m (a + 256) q = m q" "hput bs m (a + 52) q = m q" if "length bs \<le> 0x1f00" for bs m
    using that hput_in_rom[of bs 256 q a] hput_in_rom[of bs 52 q a] assms(4) by simp_all
  have "get_ram_ptr (b\<lparr>bd_hostmem := m\<rparr>) ROM_BASE_ADDR = Some a" "board_fdt (b\<lparr>bd_hostmem := m\<rparr>) = board_fdt b" for m
    using assms(2) by (simp_all add: get_ram_ptr_def board_fdt_def bd_ncpus_def)
  then show ?thesis
    using assms None w t
    by (auto simp: setup_bootrom_def generate_bootrom_def rom_fits_def put_words_hput Let_def split: option.splits if_splits)
qed

lemma copy_kernel_steps:
  assumes "copy_kernel alloc p (buf, len) b = Some (0, b')"
  obtains b1 b2 e b3 b4 where "len \<le> bd_ram_size b" "load_firmware alloc buf len (b\<lparr>bd_initrd_start := 0\<rparr>) = Some (0, b1)"
    "load_kernel (vp_kernel p) b1 = Some (0, b2)" "load_initrd (vp_initrd p) b2 = Some (0, e, b3)"
    "(if bd_bootrom_loaded b3 then Some (0, b3) else setup_bootrom (vp_bootrom p) (vp_dtb p) (vp_cmdline p) e b3) = Some (0, b4)"
    "bd_hostmem b' = bd_hostmem b4" "bd_initrd_start b' = bd_initrd_start b4" "bd_mem_map b' = bd_mem_map b4"
  using assms unfolding copy_kernel_def Let_def
  by (auto simp: not_less split: option.splits if_splits)

lemma initrd_offset:
  assumes "base \<in> {0x80000000, 0x8000000000, 0xC000000000}" "sz \<le> 0x8000000000" "n \<le> sz" "sz AND PG_MASK = 0"
  shows "unat (push_bit 12 (drop_bit 12 (base + sz - n)) - base) + unat n \<le> unat (sz :: u64)"
proof -
  have u: "unat sz \<le> 0x8000000000" "unat n \<le> unat sz" using assms(2,3) by (simp_all add: word_le_nat_alt)
  have b: "0x80000000 \<le> unat base" "unat base \<le> 0xC000000000" "unat base mod 4096 = 0" using assms(1) by auto
  have y: "unat (base + sz - n) = unat base + unat sz - unat n"
    using u b by (simp add: unat_sub_if' unat_word_ariths)
  have x: "unat (push_bit 12 (drop_bit 12 (base + sz - n))) = (unat base + unat sz - unat n) div 4096 * 4096"
    using u b y by (simp add: push_bit_eq_mult unat_word_ariths unat_drop_bit_div)
  have "unat base div 4096 \<le> (unat base + unat sz - unat n) div 4096" using u by (intro div_le_mono) simp
  then have "unat base \<le> unat (push_bit 12 (drop_bit 12 (base + sz - n)))" using b x by auto
  moreover have "unat (push_bit 12 (drop_bit 12 (base + sz - n))) \<le> unat base + unat sz - unat n" unfolding x by simp
  ultimately show ?thesis using u by (simp add: unat_sub word_le_nat_alt)
qed

text \<open>The allocated blocks are apart from each other and from the images.\<close>

definition outside :: "(nat \<Rightarrow> u64) \<Rightarrow> VirtMachineParams \<Rightarrow> u64 \<Rightarrow> u64 \<Rightarrow> bool" where
  "outside alloc p buf len \<longleftrightarrow> (\<forall>i<len. \<not> buf + i - alloc 0 < vp_ram_size p \<and> \<not> buf + i - alloc 1 < ROM_SIZE)"

definition blocks_apart :: "(nat \<Rightarrow> u64) \<Rightarrow> VirtMachineParams \<Rightarrow> bool" where
  "blocks_apart alloc p \<longleftrightarrow> (\<forall>i<vp_ram_size p. \<not> alloc 0 + i - alloc 1 < ROM_SIZE)"

lemma three_copies:
  fixes A :: u64 and m :: hmem
  assumes "unat fl \<le> unat ko" "unat ko + unat kl \<le> unat off" "unat off + unat rl \<le> unat sz"
    and "\<forall>i<fl. \<not> fw + i - A < sz" "\<forall>i<kl. \<not> k + i - A < sz" "\<forall>i<rl. \<not> r + i - A < sz"
  defines "M \<equiv> hcopy rl (hcopy kl (hcopy fl m A fw) (A + ko) k) (A + off) r"
  shows "i < fl \<Longrightarrow> M (A + i) = m (fw + i)" "i < kl \<Longrightarrow> M (A + ko + i) = m (k + i)" "i < rl \<Longrightarrow> M (A + off + i) = m (r + i)"
proof -
  have o: "hcopy fl m A fw q = m q" "hcopy kl (hcopy fl m A fw) (A + ko) k q = m q" if "\<not> q - A < sz" for q
  proof -
    show 1: "hcopy fl m A fw q = m q" using hcopy_outside[OF that, of 0 fl m fw] assms(1-3) by simp
    show "hcopy kl (hcopy fl m A fw) (A + ko) k q = m q" using hcopy_outside[OF that, of ko kl _ k] assms(1-3) 1 by simp
  qed
  have u: "unat (x + i) = unat x + unat i" "x + i < sz" if "unat x + unat i < unat sz" for x i
  proof -
    show e: "unat (x + i) = unat x + unat i"
      using that unsigned_less[of sz, where ?'a = nat] by (simp add: unat_word_ariths)
    show "x + i < sz" using that by (simp add: word_less_nat_alt e)
  qed
  show "i < fl \<Longrightarrow> M (A + i) = m (fw + i)"
  proof -
    assume i: "i < fl"
    then have "unat i < unat fl" "i < sz" using assms(1-3) by (simp_all add: word_less_nat_alt)
    moreover have "hcopy fl m A fw (A + i) = m (fw + i)" using i by (simp add: hcopy_def)
    ultimately show ?thesis unfolding M_def using assms(1-3) by (simp add: hcopy_block[of _ _ sz] word_le_nat_alt)
  qed
  show "i < kl \<Longrightarrow> M (A + ko + i) = m (k + i)"
  proof -
    assume i: "i < kl"
    then have l: "unat i < unat kl" by (simp add: word_less_nat_alt)
    then have s: "unat (ko + i) = unat ko + unat i" "ko + i < sz" using u[of ko i] assms(2,3) by simp_all
    have "M (A + (ko + i)) = hcopy fl m A fw (k + i)" unfolding M_def
      using s l assms(2,3) by (simp add: hcopy_block[of _ _ sz] word_le_nat_alt)
    then show ?thesis using o(1)[OF assms(5)[rule_format, OF i]] by (simp add: add.assoc)
  qed
  show "i < rl \<Longrightarrow> M (A + off + i) = m (r + i)"
  proof -
    assume i: "i < rl"
    then have l: "unat i < unat rl" by (simp add: word_less_nat_alt)
    then have s: "unat (off + i) = unat off + unat i" "off + i < sz" using u[of off i] assms(3) by simp_all
    have "M (A + (off + i)) = hcopy kl (hcopy fl m A fw) (A + ko) k (r + i)" unfolding M_def
      using s l assms(3) by (simp add: hcopy_block[of _ _ sz] word_le_nat_alt)
    then show ?thesis using o(2)[OF assms(6)[rule_format, OF i]] by (simp add: add.assoc)
  qed
qed

lemma blank_board_fields [simp]:
  "bd_mem_map (blank_board alloc p m) = board_map alloc p" "bd_ram_size (blank_board alloc p m) = vp_ram_size p"
  "bd_ram_base_addr (blank_board alloc p m) = vp_ram_base_addr p" "\<not> bd_bootrom_loaded (blank_board alloc p m)"
  "bd_hostmem (blank_board alloc p m) = hfill ROM_SIZE (hfill (vp_ram_size p) m (alloc 0)) (alloc 1)"
  by (simp_all add: blank_board_def new_board_def)

lemma raw_loads:
  assumes "bd_mem_map b = board_map alloc p" "bd_ram_size b = vp_ram_size p" "bd_ram_base_addr b = vp_ram_base_addr p"
    and "default_layout p" "board_ok alloc p" "\<not> elf64_is_riscv64 (bd_hostmem b) fw fl"
    and "load_firmware alloc fw fl b = Some (0, b1)" "load_kernel (Some (k, kl)) b1 = Some (0, b2)" "kl \<noteq> 0"
    and "load_initrd (Some (r, rl)) b2 = Some (0, e, b3)" "rl \<noteq> 0"
  obtains off where "unat off + unat rl \<le> unat (vp_ram_size p)"
    "b3 = b\<lparr>bd_hostmem := hcopy rl (hcopy kl (hcopy fl (bd_hostmem b) (alloc 0) fw) (alloc 0 + KERNEL_OFFSET) k) (alloc 0 + off) r,
       bd_initrd_start := vp_ram_base_addr p + off\<rparr>"
proof -
  let ?S = "vp_ram_size p" and ?base = "vp_ram_base_addr p"
  define off where "off = push_bit 12 (drop_bit 12 (?base + ?S - rl)) - ?base"
  have sz: "0 < ?S" using assms(5) by (simp add: board_ok_def word_gt_0)
  have cp: "memcpy_to_guest (?base + i) src n c = Some (c\<lparr>bd_hostmem := hcopy n (bd_hostmem c) (alloc 0 + i) src\<rparr>)"
    if "bd_mem_map c = board_map alloc p" "i < ?S" for i src n c
    using board_ptr(1)[OF that(1) assms(4) that(2)] by (simp add: memcpy_to_guest_def)
  have b1: "b1 = b\<lparr>bd_hostmem := hcopy fl (bd_hostmem b) (alloc 0) fw\<rparr>"
    using assms(3,6,7) cp[of b 0 fw fl] sz assms(1) by (auto simp: load_firmware_def split: if_splits)
  have b2: "b2 = b1\<lparr>bd_hostmem := hcopy kl (bd_hostmem b1) (alloc 0 + KERNEL_OFFSET) k\<rparr>"
    using assms(1-3,8,9) cp[of b1 KERNEL_OFFSET k kl] by (auto simp: load_kernel_def b1 split: if_splits)
  have le: "rl \<le> ?S" using assms(1-3,10,11) by (auto simp: load_initrd_def b1 b2 split: if_splits)
  then have off: "unat off + unat rl \<le> unat ?S"
    using initrd_offset[of ?base ?S rl] assms(4,5) by (simp add: off_def default_layout_def board_ok_def)
  have "0 < unat rl" using assms(11) by (simp add: unat_gt_0)
  with off have o: "off < ?S" by (simp add: word_less_nat_alt)
  have "b3 = b2\<lparr>bd_initrd_start := ?base + off, bd_hostmem := hcopy rl (bd_hostmem b2) (alloc 0 + off) r\<rparr>"
    using assms(1-3,10,11) le cp[OF _ o, of "b2\<lparr>bd_initrd_start := ?base + off\<rparr>" r rl]
    by (auto simp: load_initrd_def b1 b2 off_def Let_def split: if_splits)
  then show ?thesis by (intro that[OF off]) (simp add: b1 b2)
qed


text \<open>A machine with 4 MiB of RAM, three small images and a boot ROM file that holds one jump
  to itself.\<close>

definition demo_params :: VirtMachineParams where
  "demo_params = virt_machine_set_defaults\<lparr>vp_ncpus := 1, vp_ram_size := 0x400000, vp_bios := Some (0x1000, 4),
     vp_kernel := Some (0x2000, 8), vp_initrd := Some (0x3000, 16), vp_bootrom := Some (Some [0x6f, 0, 0, 0])\<rparr>"

definition demo_alloc :: "nat \<Rightarrow> u64" where
  "demo_alloc k = (if k = 0 then 0x7f0000000000 else 0x7e0000000000)"

definition demo_mem :: hmem where "demo_mem = (\<lambda>a. ucast a)"

lemma demo_not_elf: "\<not> elf64_is_riscv64 m 0x1000 4"
  by (simp add: elf64_is_riscv64_def)

definition demo_built :: "hmem \<Rightarrow> board" where
  "demo_built m = (blank_board demo_alloc demo_params demo_mem)\<lparr>bd_initrd_start := 0x803ff000,
     bd_hostmem := hput [0x6f, 0, 0, 0] m 0x7e0000000000, bd_harts := map (riscv_set_debug_mode True) (bd_harts (blank_board demo_alloc demo_params demo_mem))\<rparr>"

lemma get_ram_ptr_update [simp]:
  "get_ram_ptr (b\<lparr>bd_hostmem := m\<rparr>) a = get_ram_ptr b a" "get_ram_ptr (b\<lparr>bd_initrd_start := x\<rparr>) a = get_ram_ptr b a"
  by (simp_all add: get_ram_ptr_def)

lemma demo_init: "\<exists>m. virt_machine_init demo_alloc demo_params demo_mem = Some (Some (demo_built m))"
proof -
  let ?b = "blank_board demo_alloc demo_params demo_mem"
  have p: "vp_ram_size demo_params = 0x400000" "vp_ram_base_addr demo_params = 0x80000000" "vp_bios demo_params = Some (0x1000, 4)"
    "vp_kernel demo_params = Some (0x2000, 8)" "vp_initrd demo_params = Some (0x3000, 16)"
    "vp_bootrom demo_params = Some (Some [0x6f, 0, 0, 0])" "vp_ncpus demo_params = 1"
    by (simp_all add: demo_params_def virt_machine_set_defaults_def)
  have l: "default_layout demo_params" "board_ok demo_alloc demo_params"
    by (simp_all add: demo_params_def virt_machine_set_defaults_def default_layout_def board_ok_def demo_alloc_def)
  have n: "\<not> (x = 48 \<and> x = 120)" for x :: u8 by auto
  note ptr = board_ptr[OF _ l(1), of ?b demo_alloc]
  have g: "get_ram_ptr ?b 0x80000000 = Some 0x7f0000000000" "get_ram_ptr ?b 0x80200000 = Some 0x7f0000200000"
    "get_ram_ptr ?b 0x803ff000 = Some 0x7f00003ff000" "get_ram_ptr ?b 0x10000 = Some 0x7e0000000000"
    using ptr(1)[of 0] ptr(1)[of "0x200000"] ptr(1)[of "0x3ff000"] ptr(2)[of 0] by (simp_all add: p demo_alloc_def)
  show ?thesis
    unfolding virt_machine_init_def register_all_eq copy_kernel_def load_firmware_def load_kernel_def load_initrd_def
      setup_bootrom_def load_bootrom_def memcpy_to_guest_def Let_def
    by (simp add: p l g demo_not_elf fread_limit_def n demo_built_def) (rule exI, rule refl)
qed

lemma demo_run: "\<exists>k s. riscv_cpu_interp machine_ops 1 (board_machine [] (demo_built m)) = Some (k, s) \<and> pc s = 0x10000"
proof -
  have "case riscv_cpu_interp machine_ops 1 (board_machine [] (demo_built m)) of Some (k, s) \<Rightarrow> pc s = 0x10000 | None \<Rightarrow> False"
    by code_simp
  then show ?thesis by (auto split: option.splits)
qed



text \<open>C23: initialization fails cleanly, with a null machine, for too many harts, without a
  firmware image and for a firmware that is larger than RAM; a RAM size that is zero
  or not a multiple of the page size fails the assertion of the memory map.\<close>

theorem init_errors:
  "(MAX_CPUS < vp_ncpus p \<longrightarrow> virt_machine_init alloc p m = Some None) \<and>
   (vp_ncpus p \<le> MAX_CPUS \<and> (vp_ram_size p = 0 \<or> vp_ram_size p AND PG_MASK \<noteq> 0) \<longrightarrow> virt_machine_init alloc p m = None) \<and>
   (vp_ncpus p \<le> MAX_CPUS \<and> board_ok alloc p \<and> vp_bios p = None \<longrightarrow> virt_machine_init alloc p m = Some None) \<and>
   (vp_ncpus p \<le> MAX_CPUS \<and> board_ok alloc p \<and> vp_bios p = Some (fw, fl) \<and> vp_ram_size p < fl
      \<longrightarrow> virt_machine_init alloc p m = Some None)"
  by (auto simp: virt_machine_init_def register_all_eq copy_kernel_def board_ok_def)

theorem init_errors_witness:
  "virt_machine_init demo_alloc (demo_params\<lparr>vp_ncpus := 9\<rparr>) demo_mem = Some None \<and>
   virt_machine_init demo_alloc (demo_params\<lparr>vp_ram_size := 1000\<rparr>) demo_mem = None \<and>
   virt_machine_init demo_alloc (demo_params\<lparr>vp_bios := Some (0x1000, 0x400001)\<rparr>) demo_mem = Some None"
  using init_errors[of "demo_params\<lparr>vp_ncpus := 9\<rparr>" demo_alloc demo_mem] init_errors[of "demo_params\<lparr>vp_ram_size := 1000\<rparr>" demo_alloc demo_mem]
    init_errors[of "demo_params\<lparr>vp_bios := Some (0x1000, 0x400001)\<rparr>" demo_alloc demo_mem "0x1000" "0x400001"]
  by (simp add: demo_params_def virt_machine_set_defaults_def board_ok_def demo_alloc_def)

end
