(* ===== verification/Emulator.thy ===== *)
theory Emulator
  imports HostMemory
begin

text \<open>
  The emulator around the interpreter: \<open>virt_machine_get_sleep_duration\<close>
  (\<open>src/src/riscv_machine.cpp\<close>), \<open>virt_machine_run\<close> (\<open>src/src/majordomo_main.cpp\<close>), and \<open>iterate_core\<close>,
  \<open>simpoint_step\<close> and the loop of \<open>main\<close> (\<open>src/src/majordomo.cpp\<close>).  The harts take turns: the
  machine is seen from the executing hart, and \<open>switch_hart\<close> changes the point of view.
  Progress messages and the printed execution trace are left out.  \<open>None\<close> is a crash or a
  failed assertion.
\<close>

section \<open>One run of a hart\<close>

definition switch_hart :: "nat \<Rightarrow> machine \<Rightarrow> machine" where
  "switch_hart i s =
     (if i = me_cur (env s) then s
      else
        (let e = env s;
             harts = (me_harts e)(me_cur e := RISCVCPUState.truncate s)
         in (RISCVCPUState.extend (harts i) (RISCVCPUState.more s))\<lparr>
              cpu0_priv := (if i = 0 then None else Some (priv (harts 0))),
              env := e\<lparr>me_harts := harts, me_cur := i\<rparr>\<rparr>))"

definition virt_machine_get_sleep_duration :: "nat \<Rightarrow> int \<Rightarrow> machine \<Rightarrow> int \<times> machine" where
  "virt_machine_get_sleep_duration hartid ms_delay s =
     (let (ms_delay, s) =
        (if mip (cpu_state hartid s) AND MIP_MTIP = 0 \<and> rtc_get_time s > 0 then
           (let ms_delay1 = sint (timecmp (cpu_state hartid s) - rtc_get_time s) in
            if ms_delay1 \<le> 0 then (0, cpu_set_mip hartid MIP_MTIP s)
            else (min ms_delay (ms_delay1 div 1000), s))
         else (ms_delay, s))
      in (if power_down_flag (cpu_state hartid s) then ms_delay else 0, s))"

definition MAX_SLEEP_TIME :: int where [simp]: "MAX_SLEEP_TIME = 10"

text \<open>The program reports its result through the word at \<open>tohost\<close>.\<close>

definition check_tohost :: "machine \<Rightarrow> bool \<times> machine" where
  "check_tohost s =
     (if htif_tohost_addr s = 0 then (False, s)
      else
        (case riscv_phys_read 4 (htif_tohost_addr s) s of
           (None, s) \<Rightarrow> (False, s)
         | (Some tohost, s) \<Rightarrow>
             if tohost AND 1 \<noteq> 0 then (True, if tohost \<noteq> 1 then s\<lparr>benchmark_exit_code := tohost\<rparr> else s)
             else (False, s)))"

definition virt_machine_run :: "nat \<Rightarrow> nat \<Rightarrow> machine \<Rightarrow> (bool \<times> machine) option" where
  "virt_machine_run hartid n_cycles s =
     (let (_, s) = virt_machine_get_sleep_duration hartid MAX_SLEEP_TIME (switch_hart hartid s) in
      case riscv_cpu_interp machine_ops n_cycles s of
        None \<Rightarrow> None
      | Some (_, s) \<Rightarrow>
          (let (stop, s) = check_tohost s
           in Some (\<not> stop \<and> \<not> terminate_simulation s \<and> maxinsns s > 0, s)))"

section \<open>Simulation points\<close>

text \<open>The static variables of \<open>simpoint_step\<close> and the simulation points of the machine.
  \<open>sp_bbv\<close> is an \<open>unordered_map\<close>, kept as an association list; \<open>sp_out\<close> are the lines written to
  the basic block file and \<open>sp_saved\<close> the snapshots.\<close>

record simpoint_state =
  sp_bb_file :: bool
  sp_points :: "(u64 \<times> nat) list"
  sp_next :: nat
  sp_size :: u64
  sp_ninst :: u64
  sp_next_bbv_dump :: u64
  sp_bbv :: "(u64 \<times> u32) list"
  sp_pc2id :: "u64 \<Rightarrow> nat option"
  sp_next_id :: nat
  sp_last_pc :: u64
  sp_out :: "(nat \<times> u32) list list"
  sp_saved :: "nat list"

fun bbv_add :: "u64 \<Rightarrow> u32 \<Rightarrow> (u64 \<times> u32) list \<Rightarrow> (u64 \<times> u32) list" where
  "bbv_add a n [] = [(a, n)]"
| "bbv_add a n ((b, k) # rest) = (if a = b then (b, k + n) # rest else (b, k) # bbv_add a n rest)"

text \<open>Writing out a line.  The number that a new address is recorded under is the one after
  the number that is written.\<close>

fun bbv_line :: "(u64 \<times> u32) list \<Rightarrow> (u64 \<Rightarrow> nat option) \<Rightarrow> nat \<Rightarrow> (nat \<times> u32) list \<times> (u64 \<Rightarrow> nat option) \<times> nat" where
  "bbv_line [] pc2id next_id = ([], pc2id, next_id)"
| "bbv_line ((a, n) # rest) pc2id next_id =
     (case pc2id a of
        None \<Rightarrow> (let (l, ids, k) = bbv_line rest (pc2id(a \<mapsto> next_id + 1)) (next_id + 1) in ((next_id, n) # l, ids, k))
      | Some i \<Rightarrow> (let (l, ids, k) = bbv_line rest pc2id next_id in ((i, n) # l, ids, k)))"

text \<open>\<open>order\<close> is the order in which the map is traversed.\<close>

definition bbv_dump :: "((u64 \<times> u32) list \<Rightarrow> (u64 \<times> u32) list) \<Rightarrow> u64 \<Rightarrow> simpoint_state \<Rightarrow> simpoint_state" where
  "bbv_dump order limit sp =
     (if limit \<le> sp_next_bbv_dump sp then
        (let sp = sp\<lparr>sp_next_bbv_dump := (if limit > sp_size sp then limit - sp_size sp else 0)\<rparr> in
         if sp_bbv sp \<noteq> [] then
           (let (line, ids, k) = bbv_line (order (sp_bbv sp)) (sp_pc2id sp) (sp_next_id sp)
            in sp\<lparr>sp_out := sp_out sp @ [line], sp_pc2id := ids, sp_next_id := k, sp_bbv := []\<rparr>)
         else sp)
      else sp)"

text \<open>The result says whether to go on.  Saving a snapshot asserts that there is one hart.\<close>

definition simpoint_step ::
    "((u64 \<times> u32) list \<Rightarrow> (u64 \<times> u32) list) \<Rightarrow> nat \<Rightarrow> machine \<Rightarrow> simpoint_state \<Rightarrow> (bool \<times> simpoint_state) option" where
  "simpoint_step order hartid s sp =
     (if hartid \<noteq> 0 then None
      else
        (let sp = sp\<lparr>sp_ninst := sp_ninst sp + 1\<rparr> in
         if \<not> sp_bb_file sp then
           (if \<not> sp_next sp < length (sp_points sp) then None
            else
              (let (start, ident) = sp_points sp ! sp_next sp in
               if sp_ninst sp > start then
                 (if me_ncpus (env s) \<noteq> 1 then None
                  else
                    (let sp = sp\<lparr>sp_saved := sp_saved sp @ [ident], sp_next := sp_next sp + 1\<rparr>
                     in Some (sp_next sp \<noteq> length (sp_points sp), sp)))
               else Some (True, sp)))
         else if sp_points sp \<noteq> [] then None
         else
           (let pc0 = pc (cpu_state hartid s);
                sp = bbv_dump order (maxinsns s) sp;
                sp = (if sp_last_pc sp + 2 \<noteq> pc0 \<and> sp_last_pc sp + 4 \<noteq> pc0
                      then sp\<lparr>sp_bbv := bbv_add (sp_last_pc sp) (lo32 (sp_ninst sp)) (sp_bbv sp), sp_ninst := 0\<rparr>
                      else sp)
            in Some (True, sp\<lparr>sp_last_pc := pc0\<rparr>))))"

section \<open>The loop\<close>

record emulator =
  em_machine :: machine
  em_exe_trace :: u64
  em_interactive :: bool
  em_simpoint :: simpoint_state
  em_total :: u64

definition throttle :: "nat \<Rightarrow> emulator \<Rightarrow> nat \<times> emulator" where
  "throttle n_cycles e =
     (let s = em_machine e;
          n_cycles = (if stf_macro_tracing_active s \<or> stf_insn_tracing_active s then 1 else n_cycles)
      in if em_exe_trace e < of_nat n_cycles then (1, e)
         else if em_interactive e then (1, e)
         else (n_cycles, e\<lparr>em_exe_trace := em_exe_trace e - of_nat n_cycles\<rparr>))"

text \<open>Up to the call of \<open>virt_machine_run\<close>: the program counter, the privilege level and the
  instruction word for the trace, and the cycles.\<close>

definition core_prepare :: "nat \<Rightarrow> nat \<Rightarrow> emulator \<Rightarrow> u64 \<times> u8 \<times> u32 \<times> nat \<times> emulator" where
  "core_prepare hartid n_cycles e =
     (let s = switch_hart hartid (em_machine e);
          lpc = pc s;
          pr = priv s;
          (insn, s) = riscv_read_insn lpc s;
          insn_raw = (case insn of None \<Rightarrow> -1 | Some i \<Rightarrow> i);
          (_, s) = stf_trace_trigger_insn machine_ops lpc s;
          (n_cycles, e) = throttle n_cycles (e\<lparr>em_machine := s\<rparr>);
          s = s\<lparr>num_executed := num_executed s + of_nat n_cycles,
                maxinsns := (if maxinsns s < of_nat n_cycles then 0 else maxinsns s - of_nat n_cycles)\<rparr>
      in (lpc, pr, insn_raw, n_cycles, e\<lparr>em_machine := s\<rparr>))"

definition iterate_core :: "nat \<Rightarrow> nat \<Rightarrow> emulator \<Rightarrow> (bool \<times> nat \<times> emulator) option" where
  "iterate_core hartid n_cycles e =
     (let (lpc, pr, insn_raw, n_cycles, e) = core_prepare hartid n_cycles e in
      if maxinsns (em_machine e) = 0 then Some (False, 0, e)
      else
        (case virt_machine_run hartid n_cycles (em_machine e) of
           None \<Rightarrow> None
         | Some (keep_going, s) \<Rightarrow>
             (let s = (if stf_macro_tracing_active s \<and> \<not> stf_is_start_opc s \<and> \<not> stf_is_stop_opc s
                          \<or> stf_insn_tracing_active s
                       then stf_trace_element machine_ops (pc (cpu_state 0 s)) pr lpc insn_raw s else s)
              in Some (keep_going, n_cycles, e\<lparr>em_machine := s\<rparr>))))"

text \<open>One pass over the harts: whether any of them keeps going, and the cycles.\<close>

fun iterate_cores :: "nat list \<Rightarrow> nat \<Rightarrow> emulator \<Rightarrow> (bool \<times> nat \<times> emulator) option" where
  "iterate_cores [] n_cycles e = Some (False, 0, e)"
| "iterate_cores (i # is) n_cycles e =
     (case iterate_core i n_cycles e of
        None \<Rightarrow> None
      | Some (k1, n1, e) \<Rightarrow>
          (case iterate_cores is n_cycles e of
             None \<Rightarrow> None
           | Some (k2, n2, e) \<Rightarrow> Some (k1 \<or> k2, n1 + n2, e)))"

text \<open>One round of the loop of \<open>main\<close>; the result says whether the loop goes on.\<close>

definition main_round :: "((u64 \<times> u32) list \<Rightarrow> (u64 \<times> u32) list) \<Rightarrow> emulator \<Rightarrow> (bool \<times> emulator) option" where
  "main_round order e =
     (case iterate_cores [0..<me_ncpus (env (em_machine e))] 10000 e of
        None \<Rightarrow> None
      | Some (keep_going, n, e) \<Rightarrow>
          (let e = e\<lparr>em_total := em_total e + of_nat n\<rparr>; s = em_machine e in
           if simpoint_roi s \<and> simpoint_en_bbv s then
             (case simpoint_step order 0 s (em_simpoint e) of
                None \<Rightarrow> None
              | Some (go, sp) \<Rightarrow>
                  Some (go \<and> keep_going \<and> \<not> stf_has_exit_pending s, e\<lparr>em_simpoint := sp\<rparr>))
           else Some (keep_going \<and> \<not> stf_has_exit_pending s, e)))"

text \<open>The loop with a bound on its rounds; the flag says that it has ended.\<close>

fun main_loop :: "((u64 \<times> u32) list \<Rightarrow> (u64 \<times> u32) list) \<Rightarrow> nat \<Rightarrow> emulator \<Rightarrow> (bool \<times> emulator) option" where
  "main_loop order 0 e = Some (False, e)"
| "main_loop order (Suc k) e =
     (case main_round order e of
        None \<Rightarrow> None
      | Some (go, e) \<Rightarrow> if go then main_loop order k e else Some (True, e))"

text \<open>The value that \<open>main\<close> returns: the exit codes of the harts are looked at as \<open>int\<close>.\<close>

definition main_exit :: "machine \<Rightarrow> nat" where
  "main_exit s = (if \<exists>i\<in>set [0..<me_ncpus (env s)]. lo32 (benchmark_exit_code (cpu_state i s)) \<noteq> 0 then 1 else 0)"

section \<open>The instruction limit\<close>

named_theorems limit_simps

lemma limit_track [limit_simps]: "maxinsns (snd (track_dread va pa d n t s)) = maxinsns s"
  by (simp add: track_dread_def Let_def)

lemma limit_phys_read [limit_simps]: "maxinsns (snd (riscv_phys_read n a s)) = maxinsns s"
  by (simp add: riscv_phys_read_def Let_def split_beta limit_simps split: option.split)

lemma limit_pt_walk [limit_simps]: "maxinsns (snd (pt_walk pr acc va j pa s)) = maxinsns s"
proof (induction j arbitrary: pa s)
  case (Suc j)
  obtain r s1 where r: "riscv_phys_read 8 (pa + push_bit 3 (drop_bit (PG_SHIFT + 9 * j) va AND 0x1ff)) s = (r, s1)"
    by fastforce
  then have "maxinsns s1 = maxinsns s"
    using limit_phys_read[of 8 "pa + push_bit 3 (drop_bit (PG_SHIFT + 9 * j) va AND 0x1ff)" s] by simp
  with r Suc.IH show ?case by (simp add: Let_def split: option.split)
qed simp

lemma limit_get_phys_addr [limit_simps]: "maxinsns (snd (riscv_cpu_get_phys_addr va acc s)) = maxinsns s"
  by (simp add: riscv_cpu_get_phys_addr_def Let_def limit_simps)

lemma limit_read_insn [limit_simps]: "maxinsns (snd (riscv_read_insn a s)) = maxinsns s"
proof -
  have x: "maxinsns t = maxinsns u" if "riscv_cpu_get_phys_addr b ACCESS_CODE u = (y, t)" for b y t and u :: "'a sys"
    using limit_get_phys_addr[of b ACCESS_CODE u] that by simp
  have "maxinsns (snd (target_read_insn_slow n b s)) = maxinsns s" for n b
    by (auto simp: target_read_insn_slow_def Let_def set_pending_def split: prod.split xlate.split option.split dest!: x)
  then show ?thesis by (simp add: riscv_read_insn_def Let_def split_beta)
qed

lemma limit_stf_puts [limit_simps]: "maxinsns (stf_puts E rs s) = maxinsns s"
  by (induction rs arbitrary: s) (simp_all add: stf_puts_def stf_put_def)

lemma limit_stf_trigger [limit_simps]: "maxinsns (snd (stf_trace_trigger_insn E a s)) = maxinsns s"
  by (simp add: stf_trace_trigger_insn_def stf_trace_open_def stf_trace_close_def stf_record_state_def stf_put_def
      Let_def limit_simps)

lemma limit_stf_element [limit_simps]: "maxinsns (stf_trace_element E pc0 pr lpc insn s) = maxinsns s"
proof -
  have "maxinsns (stf_emit_memory_records E t) = maxinsns t" "maxinsns (stf_emit_register_records E t) = maxinsns t" for t :: "'a sys"
    by (simp_all add: stf_emit_memory_records_def stf_emit_register_records_def stf_put_def Let_def limit_simps)
  then show ?thesis by (simp add: stf_trace_element_def stf_put_def Let_def)
qed

lemma limit_switch [limit_simps]: "maxinsns (switch_hart i s) = maxinsns s"
  by (cases s) (simp add: switch_hart_def Let_def RISCVCPUState.defs)

definition limit :: "emulator \<Rightarrow> nat" where "limit e = unat (maxinsns (em_machine e))"

text \<open>The guest can set the limit through the register \<open>0x8c2\<close>.  \<open>run_keeps\<close> says that a run does
  not raise it; the predicates below say so for all runs of the loop.\<close>

definition run_keeps :: "nat \<Rightarrow> nat \<Rightarrow> emulator \<Rightarrow> bool" where
  "run_keeps hartid n_cycles e =
     (let (_, _, _, n_cycles, e) = core_prepare hartid n_cycles e in
      maxinsns (em_machine e) = 0 \<or>
      (case virt_machine_run hartid n_cycles (em_machine e) of
         None \<Rightarrow> True | Some (_, s) \<Rightarrow> maxinsns s \<le> maxinsns (em_machine e)))"

fun cores_keep :: "nat list \<Rightarrow> nat \<Rightarrow> emulator \<Rightarrow> bool" where
  "cores_keep [] n_cycles e = True"
| "cores_keep (i # is) n_cycles e =
     (run_keeps i n_cycles e \<and>
      (case iterate_core i n_cycles e of None \<Rightarrow> True | Some (_, _, e) \<Rightarrow> cores_keep is n_cycles e))"

fun rounds_keep :: "((u64 \<times> u32) list \<Rightarrow> (u64 \<times> u32) list) \<Rightarrow> nat \<Rightarrow> emulator \<Rightarrow> bool" where
  "rounds_keep order 0 e = True"
| "rounds_keep order (Suc k) e =
     (cores_keep [0..<me_ncpus (env (em_machine e))] 10000 e \<and>
      (case main_round order e of Some (True, e) \<Rightarrow> rounds_keep order k e | _ \<Rightarrow> True))"

lemma throttle_bounds:
  assumes "throttle n e = (m, e')" "0 < n"
  shows "0 < m" "m \<le> n" "em_machine e' = em_machine e"
  using assms by (auto simp: throttle_def Let_def split: if_splits)

lemma core_prepare_limit:
  assumes "core_prepare i n e = (lpc, pr, insn, m, e')" "0 < n" "n < 2 ^ 64"
  shows "0 < m" "limit e' = limit e - m"
proof -
  let ?s = "snd (stf_trace_trigger_insn machine_ops (pc (switch_hart i (em_machine e)))
     (snd (riscv_read_insn (pc (switch_hart i (em_machine e))) (switch_hart i (em_machine e)))))"
  obtain m' e1 where t: "throttle n (e\<lparr>em_machine := ?s\<rparr>) = (m', e1)" by fastforce
  have e': "m = m'" "e' = e1\<lparr>em_machine := ?s\<lparr>num_executed := num_executed ?s + of_nat m,
      maxinsns := (if maxinsns ?s < of_nat m then 0 else maxinsns ?s - of_nat m)\<rparr>\<rparr>"
    using assms(1) t by (auto simp: core_prepare_def Let_def split_beta)
  note b = throttle_bounds[OF t assms(2)]
  show "0 < m" using b e' by simp
  have "unat (of_nat m :: u64) = m" using b(2) e'(1) assms(3) by (simp add: unat_of_nat take_bit_nat_eq_self)
  moreover have "maxinsns ?s = maxinsns (em_machine e)" by (simp only: limit_simps)
  ultimately show "limit e' = limit e - m"
    by (simp add: limit_def e' word_less_nat_alt unat_sub word_le_nat_alt)
qed

lemma iterate_core_limit:
  assumes "iterate_core i n e = Some (k, m, e')" "run_keeps i n e" "0 < n" "n < 2 ^ 64"
  shows "limit e' + m \<le> limit e" "k \<Longrightarrow> 0 < m"
proof -
  obtain lpc pr insn c e1 where p: "core_prepare i n e = (lpc, pr, insn, c, e1)" by (metis surj_pair)
  note l = core_prepare_limit[OF p assms(3,4)]
  have "limit e' + m \<le> limit e \<and> (k \<longrightarrow> 0 < m)"
  proof (cases "maxinsns (em_machine e1) = 0")
    case True
    then have "e' = e1" "m = 0" "\<not> k" using assms(1) p by (auto simp: iterate_core_def)
    with l show ?thesis by simp
  next
    case False
    then have "0 < limit e1" by (simp add: limit_def unat_gt_0)
    obtain g s where r: "virt_machine_run i c (em_machine e1) = Some (g, s)"
      using assms(1) p False by (auto simp: iterate_core_def split: option.splits)
    then have "maxinsns s \<le> maxinsns (em_machine e1)" using assms(2) p False by (simp add: run_keeps_def)
    moreover have "maxinsns (em_machine e') = maxinsns s" "m = c"
      using assms(1) p r False by (auto simp: iterate_core_def Let_def limit_simps)
    ultimately show ?thesis using l \<open>0 < limit e1\<close> by (simp add: limit_def word_le_nat_alt)
  qed
  then show "limit e' + m \<le> limit e" "k \<Longrightarrow> 0 < m" by simp_all
qed

lemma iterate_cores_limit:
  "iterate_cores is n e = Some (k, m, e') \<Longrightarrow> cores_keep is n e \<Longrightarrow> 0 < n \<Longrightarrow> n < 2 ^ 64 \<Longrightarrow>
    limit e' + m \<le> limit e \<and> (k \<longrightarrow> 0 < m)"
proof (induction "is" arbitrary: e k m)
  case (Cons i "is")
  obtain k1 n1 e1 where s1: "iterate_core i n e = Some (k1, n1, e1)" using Cons.prems(1) by (auto split: option.splits)
  obtain k2 n2 e2 where s2: "iterate_cores is n e1 = Some (k2, n2, e2)" using Cons.prems(1) s1 by (auto split: option.splits)
  have s: "iterate_core i n e = Some (k1, n1, e1)" "iterate_cores is n e1 = Some (k2, n2, e')" "k = (k1 \<or> k2)" "m = n1 + n2"
    using Cons.prems(1) s1 s2 by auto
  have "run_keeps i n e" "cores_keep is n e1" using Cons.prems(2) s(1) by auto
  then show ?case
    using iterate_core_limit[OF s(1)] Cons.IH[OF s(2)] Cons.prems(3,4) s(3,4) by fastforce
qed simp

lemma main_round_limit:
  assumes "main_round order e = Some (True, e')" "cores_keep [0..<me_ncpus (env (em_machine e))] 10000 e"
  shows "limit e' < limit e"
proof -
  obtain k m e1 where c: "iterate_cores [0..<me_ncpus (env (em_machine e))] 10000 e = Some (k, m, e1)"
    "k" "em_machine e' = em_machine e1"
    using assms(1) by (auto simp: main_round_def Let_def split: option.splits if_splits)
  then show ?thesis using iterate_cores_limit[OF c(1) assms(2)] by (simp add: limit_def)
qed




text \<open>A machine without memory that is stepped one instruction at a time with a limit of two.\<close>

definition emu_demo :: emulator where
  "emu_demo = \<lparr>em_machine = user_demo\<lparr>maxinsns := 2\<rparr>, em_exe_trace = 0, em_interactive = False,
     em_simpoint = \<lparr>sp_bb_file = False, sp_points = [], sp_next = 0, sp_size = 0, sp_ninst = 0, sp_next_bbv_dump = 0,
       sp_bbv = [], sp_pc2id = (\<lambda>_. None), sp_next_id = 1, sp_last_pc = 0, sp_out = [], sp_saved = []\<rparr>, em_total = 0\<rparr>"

lemma emu_demo_keeps: "rounds_keep id 3 emu_demo" by code_simp


end
