(* ===== verification/Spec2Isabelle.thy ===== *)
theory Spec2Isabelle
  imports DeviceProps Board Emulator
begin

text \<open>
  A verification development of the majordomo RISC-V emulator.

  \<^bold>\<open>The program.\<close>  A machine (\<open>src/src/riscv_machine.cpp\<close>) owns a table of physical address ranges
  (\<open>iomem.cpp\<close>), up to eight harts (\<open>riscv_cpu.cpp\<close>) and the devices behind the table.  The loop
  of \<open>main\<close> (\<open>majordomo_main.cpp\<close>, \<open>majordomo.cpp\<close>) lets the harts run in turn.  A run
  (\<open>riscv_cpu_interp\<close>, generated from \<open>majordomo_template.h\<close>) fetches, decodes and executes
  instructions; loads and stores go through translation buffers straight into host
  memory, or through the page walk and the range table to RAM or a device.  Devices
  raise interrupt bits of the harts; the run looks at them between instructions.

  \<^bold>\<open>Conventions.\<close>  C integers are words of their width, host memory is a function from 64 bit
  addresses to bytes (\<open>hload\<close>, \<open>hstore\<close> of \<open>Prelude\<close>), a pointer is an address.  A hart is the
  record \<open>RISCVCPUState\<close>; \<open>sys\<close> extends it by what the executing hart shares with the rest of
  the machine, with the devices as a type parameter and their operations as the argument \<open>E\<close>.
  \<open>machine\<close> is the instance with the devices of the board, \<open>machine_ops\<close>.  A failed assertion, a
  call of \<open>exit\<close> or a dereferenced null pointer is \<open>None\<close>, the outcome \<open>Aborted\<close> or, in a device, the
  flag \<open>me_aborted\<close>.  What lies outside the repository (the trace writer, the allocator, host
  files and the terminal) is an argument or part of the state.

  \<^bold>\<open>The theories\<close> and the code they model:
  \<^item> \<open>Prelude\<close>, \<open>WordArith\<close>: shared types, collections and arithmetic;
  \<^item> \<open>Iomem\<close>: \<open>iomem.cpp\<close>, the range table, the newest matching range wins, dirty pages are handed over;
  \<^item> \<open>Riscv\<close>, \<open>Cpu\<close>: \<open>riscv.h\<close>, the hart and its reset;
  \<^item> \<open>Alu\<close>: the arithmetic helpers of \<open>majordomo_template.h\<close>, against their mathematical meaning;
  \<^item> \<open>Pmp\<close>: physical memory protection, against the rule of the architecture, and locking;
  \<^item> \<open>Mmu\<close>: translation, translation buffers, memory access;
  \<^item> \<open>Csr\<close>, \<open>Trap\<close>: control registers, traps, interrupt selection, returns;
  \<^item> \<open>Stf\<close>: \<open>majordomo_stf.cpp\<close>, when traces start and stop and what is recorded;
  \<^item> \<open>InterpBase\<close>, \<open>InterpC\<close>, \<open>InterpI\<close>, \<open>InterpSys\<close>, \<open>InterpF\<close>, \<open>Vector\<close>, \<open>Interp\<close>: the interpreter, handler by
    handler, and its loop;
  \<^item> \<open>Softfp\<close>: \<open>softfp_template.h\<close> at 32 and 64 bits;
  \<^item> \<open>Views\<close>, \<open>Frame\<close>, \<open>Loop\<close>: what each handler leaves alone, as locales over a view of the state, and
    an induction principle for invariants of the interpreter;
  \<^item> \<open>Devices\<close>: \<open>interrupts.cpp\<close>, \<open>uart.cpp\<close>, \<open>dw_apb_uart.cpp\<close>, \<open>term_io.cpp\<close>;
  \<^item> \<open>Machine\<close>, \<open>Board\<close>, \<open>BoardFdt\<close>: \<open>riscv_machine.cpp\<close>, \<open>bin_utils.cpp\<close>, the device tree of the board;
  \<^item> \<open>Fdt\<close>, \<open>Elf64\<close>, \<open>Cutils\<close>: \<open>fdt.cpp\<close>, \<open>elf64.cpp\<close>, \<open>cutils.cpp\<close>;
  \<^item> \<open>Emulator\<close>: \<open>majordomo_main.cpp\<close>, \<open>majordomo.cpp\<close>, the loop over the harts;
  \<^item> \<open>Security\<close>, \<open>Traps\<close>, \<open>HostMemory\<close>, \<open>DeviceProps\<close>: the results on privilege, traps, host memory and devices.
\<close>

end
